(* ===== verification/Prelude.thy ===== *)
theory Prelude
  imports Complex_Main "HOL-Library.Word" "HOL-Library.Multiset"
begin

text \<open>
  What every other theory of the development shares: the collections of simplification
  rules and the list lemmas that no single component owns.

  \<^item> \<open>jeval\<close> collects the equations with which the simplifier runs a modelled function on a
    closed argument (definitions, floors of numerals, the stepwise binary logarithm);
  \<^item> \<open>jnum\<close> collects the facts on JavaScript numbers that component proofs rewrite with.
\<close>

named_theorems jeval \<open>equations that run the model on closed terms\<close>
named_theorems jnum \<open>order and arithmetic facts on JavaScript numbers\<close>

subsection \<open>Lists\<close>

lemma takeWhile_stop: "\<forall>x \<in> set xs. P x \<Longrightarrow> ys = [] \<or> \<not> P (hd ys) \<Longrightarrow> takeWhile P (xs @ ys) = xs"
  by (cases ys) auto

lemma dropWhile_stop: "\<forall>x \<in> set xs. P x \<Longrightarrow> ys = [] \<or> \<not> P (hd ys) \<Longrightarrow> dropWhile P (xs @ ys) = ys"
  by (cases ys) auto

lemma split_at_first:
  assumes "x \<notin> set xs" "x \<notin> set ys"
  shows "xs @ x # us = ys @ x # vs \<longleftrightarrow> xs = ys \<and> us = vs"
  using assms
proof (induction xs arbitrary: ys)
  case Nil
  then show ?case by (cases ys) auto
next
  case (Cons y xs)
  then show ?case by (cases ys) auto
qed

lemma mset_filter_split: "mset (filter P xs) + mset (filter (\<lambda>x. \<not> P x) xs) = mset xs"
  by (induction xs) auto

end
