(* ===== verification/Js_Number.thy ===== *)
theory Js_Number
  imports Prelude
begin

text \<open>
  The numbers of the program. Every number of the TypeScript code is an IEEE 754 binary64
  value, and much of what the dashboard shows is decided by a rounded quotient, product or
  difference, so the model keeps the rounding: a finite value is the rational it denotes, an
  operation computes the exact rational result and \<open>mk\<close> rounds it (to nearest, ties to even,
  with subnormals, overflow to an infinity and signed zeros). \<open>NaN\<close> and the infinities are
  constructors, so comparisons and \<open>isFinite\<close> behave as in the language.

  \<^item> \<open>ilogb\<close>, \<open>flogb\<close>: the integer part of a logarithm, by which the unit in the last place and
    the position of a decimal digit are found;
  \<^item> \<open>rhe\<close>, \<open>fl\<close>: rounding to an integer and to 53 significant bits; the lemmas show that
    \<open>fl\<close> is monotone, odd, idempotent and exact on \<open>dyadic53\<close>, and that the difference of two
    doubles is zero only when they are equal;
  \<^item> \<open>jsnum\<close> and \<open>jadd\<close> \<dots> \<open>jmin\<close>: the values and the operators \<open>+ - * / % < ===\<close> and
    \<open>Math.round\<close>, \<open>floor\<close>, \<open>ceil\<close>, \<open>abs\<close>, \<open>max\<close>, \<open>min\<close>;
  \<^item> the last part: every operation maps doubles to doubles, and the order facts the
    comparators of the pages rest on.
\<close>

subsection \<open>Integer part of a logarithm\<close>

function ilogb :: "int \<Rightarrow> int \<Rightarrow> int" where
  "ilogb b n = (if n < b \<or> b < 2 then 0 else 1 + ilogb b (n div b))"
  by pat_completeness auto
termination
proof (relation "measure (\<lambda>(b, n). nat n)")
  fix b n :: int
  assume "\<not> (n < b \<or> b < 2)"
  then have "0 < n" "n div b < n" by (auto intro: int_div_less_self)
  then show "((b, n div b), b, n) \<in> measure (\<lambda>(b, n). nat n)" by simp
qed simp

declare ilogb.simps [simp del]

lemma ilogb_nonneg: "0 \<le> ilogb b n"
proof (induction b n rule: ilogb.induct)
  case (1 b n) then show ?case by (subst ilogb.simps) auto
qed

lemma ilogb_bounds:
  assumes "2 \<le> b" "1 \<le> n"
  shows "b ^ nat (ilogb b n) \<le> n \<and> n < b ^ Suc (nat (ilogb b n))"
  using assms
proof (induction b n rule: ilogb.induct)
  case (1 b n)
  show ?case
  proof (cases "n < b")
    case True
    then show ?thesis using "1.prems" by (simp add: ilogb.simps[of b n])
  next
    case False
    let ?k = "nat (ilogb b (n div b))"
    have n: "n = b * (n div b) + n mod b" "0 \<le> n mod b" "n mod b < b" using "1.prems" by simp_all
    from False "1.prems" have "1 \<le> n div b" by (simp add: pos_imp_zdiv_pos_iff int_one_le_iff_zero_less)
    with False "1.prems" "1.IH" have IH: "b ^ ?k \<le> n div b" "n div b + 1 \<le> b ^ Suc ?k" by auto
    from IH(1) "1.prems" have lo: "b * b ^ ?k \<le> b * (n div b)" by (intro mult_left_mono) auto
    from IH(2) "1.prems" have "b * (n div b + 1) \<le> b * b ^ Suc ?k" by (intro mult_left_mono) auto
    then have "b * (n div b) + b \<le> b * b ^ Suc ?k" by (simp add: algebra_simps)
    with lo n have "b * b ^ ?k \<le> n" "n < b * b ^ Suc ?k" by linarith+
    moreover have "nat (ilogb b n) = Suc ?k"
      using False "1.prems" by (simp add: ilogb.simps[of b n] ilogb_nonneg nat_add_distrib)
    ultimately show ?thesis by simp
  qed
qed

lemma powi_less_cancel: "1 < (B::rat) \<Longrightarrow> B powi i < B powi j \<Longrightarrow> i < j"
  by (metis less_imp_le linorder_not_less power_int_increasing)

definition flogb :: "int \<Rightarrow> rat \<Rightarrow> int" where
  "flogb b x = (case quotient_of x of (p, q) \<Rightarrow>
     let e = ilogb b p - ilogb b q
     in if of_int p < of_int q * (of_int b :: rat) powi e then e - 1 else e)"

lemma flogb_bounds:
  assumes b: "2 \<le> b" and x: "0 < x"
  shows "of_int b powi (flogb b x) \<le> x \<and> x < of_int b powi (flogb b x + 1)"
proof -
  obtain p q where pq: "quotient_of x = (p, q)" by force
  from pq have q: "0 < q" by (rule quotient_of_denom_pos)
  from pq have xe: "x = of_int p / of_int q" by (rule quotient_of_div)
  with x q have p: "0 < p" by (simp add: zero_less_divide_iff)
  let ?B = "of_int b :: rat"
  have B: "1 < ?B" "?B \<noteq> 0" using b by (auto simp: of_int_less_iff[of 1, simplified])
  define i j where "i = ilogb b p" and "j = ilogb b q"
  have nn: "0 \<le> i" "0 \<le> j" by (simp_all add: i_def j_def ilogb_nonneg)
  have pow: "of_int (b ^ nat k) = ?B powi k" if "0 \<le> k" for k using that by (simp add: power_int_def)
  have pi: "b ^ nat i \<le> p" "p < b ^ Suc (nat i)" using ilogb_bounds[OF b, of p] p by (auto simp: i_def)
  have qj: "b ^ nat j \<le> q" "q < b ^ Suc (nat j)" using ilogb_bounds[OF b, of q] q by (auto simp: j_def)
  have s: "Suc (nat k) = nat (k + 1)" if "0 \<le> k" for k using that by simp
  have P: "?B powi i \<le> of_int p" "of_int p < ?B powi (i + 1)"
    using pi nn by (simp_all add: pow[symmetric] s[symmetric] del: power_Suc of_int_power)
  have Q: "?B powi j \<le> of_int q" "of_int q < ?B powi (j + 1)"
    using qj nn by (simp_all add: pow[symmetric] s[symmetric] del: power_Suc of_int_power)
  have up: "of_int p < of_int q * ?B powi (i - j + 1)"
  proof -
    have "?B powi (i + 1) = ?B powi j * ?B powi (i - j + 1)" using B by (simp flip: power_int_add)
    also have "\<dots> \<le> of_int q * ?B powi (i - j + 1)" using Q B by (intro mult_right_mono) auto
    finally show ?thesis using P by simp
  qed
  have lo: "of_int q * ?B powi (i - j - 1) < of_int p"
  proof -
    have "of_int q * ?B powi (i - j - 1) < ?B powi (j + 1) * ?B powi (i - j - 1)"
      using Q B by (intro mult_strict_right_mono) auto
    also have "\<dots> = ?B powi i" using B by (simp flip: power_int_add)
    finally show ?thesis using P by simp
  qed
  have F: "flogb b (of_int p / of_int q) = (if of_int p < of_int q * ?B powi (i - j) then i - j - 1 else i - j)"
    by (simp add: flogb_def xe[symmetric] pq i_def j_def Let_def)
  show ?thesis
  proof (cases "of_int p < of_int q * ?B powi (i - j)")
    case True
    with F lo q show ?thesis by (simp add: xe pos_le_divide_eq pos_divide_less_eq mult.commute)
  next
    case False
    with F up q show ?thesis by (simp add: xe pos_le_divide_eq pos_divide_less_eq mult.commute)
  qed
qed

lemma flogb_eqI:
  assumes b: "2 \<le> b" and "of_int b powi e \<le> x" "x < of_int b powi (e + 1)"
  shows "flogb b x = e"
proof -
  have B: "1 < (of_int b :: rat)" using b by (auto simp: of_int_less_iff[of 1, simplified])
  have "0 < (of_int b :: rat) powi e" using B by simp
  with assms have "0 < x" by linarith
  from flogb_bounds[OF b this] assms B
  have "(of_int b :: rat) powi e < of_int b powi (flogb b x + 1)" "(of_int b :: rat) powi (flogb b x) < of_int b powi (e + 1)"
    by auto
  then have "e < flogb b x + 1" "flogb b x < e + 1" using powi_less_cancel[OF B] by blast+
  then show ?thesis by simp
qed

lemma flogb_mono:
  assumes b: "2 \<le> b" and x: "0 < x" "x \<le> y"
  shows "flogb b x \<le> flogb b y"
proof -
  have B: "1 < (of_int b :: rat)" using b by (auto simp: of_int_less_iff[of 1, simplified])
  from x have "0 < y" by simp
  from flogb_bounds[OF b x(1)] flogb_bounds[OF b this] x
  have "(of_int b :: rat) powi (flogb b x) < of_int b powi (flogb b y + 1)" by auto
  with powi_less_cancel[OF B] show ?thesis by force
qed

lemma flogb_less: 
  assumes b: "2 \<le> b" and x: "0 < x" and "x < of_int b powi e"
  shows "flogb b x < e"
proof -
  have B: "1 < (of_int b :: rat)" using b by (auto simp: of_int_less_iff[of 1, simplified])
  from flogb_bounds[OF b x] assms have "(of_int b :: rat) powi (flogb b x) < of_int b powi e" by auto
  with powi_less_cancel[OF B] show ?thesis by force
qed

lemma flogb_ge: 
  assumes b: "2 \<le> b" and x: "of_int b powi e \<le> x"
  shows "e \<le> flogb b x"
proof -
  have B: "1 < (of_int b :: rat)" using b by (auto simp: of_int_less_iff[of 1, simplified])
  have "0 < (of_int b :: rat) powi e" using B by simp
  with x have "0 < x" by simp
  from flogb_bounds[OF b this] assms have "(of_int b :: rat) powi e < of_int b powi (flogb b x + 1)" by auto
  with powi_less_cancel[OF B] show ?thesis by force
qed


subsection \<open>Rounding to 53 bits\<close>

text \<open>Round half to even, and rounding of a rational to the nearest binary64 magnitude.\<close>

definition rhe :: "rat \<Rightarrow> int" where
  "rhe y = (let n = \<lfloor>y\<rfloor>; d = y - of_int n
            in if d < 1 / 2 then n else if 1 / 2 < d then n + 1 else if even n then n else n + 1)"

lemma rhe_bounds: "\<lfloor>y\<rfloor> \<le> rhe y \<and> rhe y \<le> \<lfloor>y\<rfloor> + 1"
  by (simp add: rhe_def Let_def)

lemma rhe_of_int [simp]: "rhe (of_int n) = n"
  by (simp add: rhe_def)

lemma rhe_numeral [simp]:
  "rhe 0 = 0" "rhe 1 = 1" "rhe (numeral k) = numeral k" "rhe (- numeral k) = - numeral k"
  using rhe_of_int[of 0] rhe_of_int[of 1] rhe_of_int[of "numeral k"] rhe_of_int[of "- numeral k"] by simp_all

lemma rhe_error: "\<bar>of_int (rhe y) - y\<bar> \<le> 1 / 2"
proof -
  have "of_int \<lfloor>y\<rfloor> \<le> y" "y < of_int \<lfloor>y\<rfloor> + 1" by linarith+
  then show ?thesis by (auto simp: rhe_def Let_def)
qed

lemma rhe_mono: assumes "x \<le> y" shows "rhe x \<le> rhe y"
proof (cases "\<lfloor>x\<rfloor> = \<lfloor>y\<rfloor>")
  case True
  with assms show ?thesis by (auto simp: rhe_def Let_def)
next
  case False
  with floor_mono[OF assms] have "\<lfloor>x\<rfloor> + 1 \<le> \<lfloor>y\<rfloor>" by simp
  with rhe_bounds[of x] rhe_bounds[of y] show ?thesis by linarith
qed

lemma rhe_minus: "rhe (- y) = - rhe y"
proof (cases "y = of_int \<lfloor>y\<rfloor>")
  case True
  then have "rhe y = \<lfloor>y\<rfloor>" "rhe (- y) = - \<lfloor>y\<rfloor>" by (metis rhe_of_int, metis rhe_of_int of_int_minus)
  then show ?thesis by simp
next
  case False
  have "of_int \<lfloor>y\<rfloor> \<le> y" "y < of_int \<lfloor>y\<rfloor> + 1" by linarith+
  with False have "of_int \<lfloor>y\<rfloor> < y" "y < of_int \<lfloor>y\<rfloor> + 1" by linarith+
  then have "\<lfloor>- y\<rfloor> = - \<lfloor>y\<rfloor> - 1" by (intro floor_unique) auto
  then show ?thesis by (auto simp: rhe_def Let_def)
qed


definition ulp_exp :: "rat \<Rightarrow> int" where
  "ulp_exp x = max (flogb 2 \<bar>x\<bar> - 52) (- 1074)"

definition fl :: "rat \<Rightarrow> rat" where
  "fl x = (if x = 0 then 0 else let u = 2 powi (ulp_exp x) in of_int (rhe (x / u)) * u)"

definition dyadic53 :: "rat \<Rightarrow> bool" where
  "dyadic53 q \<longleftrightarrow> (\<exists>m e. q = of_int m * 2 powi e \<and> \<bar>m\<bar> < 2 ^ 53 \<and> - 1074 \<le> e)"

lemma powi2_pos [simp]: "0 < (2::rat) powi e" by simp

lemma powi2_split: "(2::rat) powi (a + b) = 2 powi a * 2 powi b"
  by (simp add: power_int_add)

lemma powi2_int: "0 \<le> e \<Longrightarrow> (2::rat) powi e = of_int (2 ^ nat e)"
  by (simp add: power_int_def)

lemma fl_0 [simp]: "fl 0 = 0" by (simp add: fl_def)

lemma ulp_exp_minus [simp]: "ulp_exp (- x) = ulp_exp x" by (simp add: ulp_exp_def)

lemma fl_minus [simp]: "fl (- x) = - fl x"
  by (simp add: fl_def Let_def rhe_minus)

lemma fl_nonneg: "0 \<le> x \<Longrightarrow> 0 \<le> fl x"
  using rhe_mono[of 0 "x / 2 powi ulp_exp x"] rhe_of_int[of 0] by (auto simp: fl_def Let_def)

lemma fl_le_grid: assumes "0 < x" "x \<le> of_int k * 2 powi ulp_exp x" shows "fl x \<le> of_int k * 2 powi ulp_exp x"
proof -
  have "x / 2 powi ulp_exp x \<le> of_int k" using assms by (simp add: pos_divide_le_eq)
  from rhe_mono[OF this] have "rhe (x / 2 powi ulp_exp x) \<le> k" by simp
  then show ?thesis using assms by (simp add: fl_def Let_def)
qed

lemma fl_ge_grid: assumes "0 < x" "of_int k * 2 powi ulp_exp x \<le> x" shows "of_int k * 2 powi ulp_exp x \<le> fl x"
proof -
  have "of_int k \<le> x / 2 powi ulp_exp x" using assms by (simp add: pos_le_divide_eq)
  from rhe_mono[OF this] have "k \<le> rhe (x / 2 powi ulp_exp x)" by simp
  then show ?thesis using assms by (simp add: fl_def Let_def)
qed

lemma ulp_exp_le: "0 < x \<Longrightarrow> x < 2 powi (e + 53) \<Longrightarrow> - 1074 \<le> e \<Longrightarrow> ulp_exp x \<le> e"
  using flogb_less[of 2 x "e + 53"] by (simp add: ulp_exp_def)

lemma fl_mono_pos: assumes "0 < x" "x \<le> y" shows "fl x \<le> fl y"
proof (cases "ulp_exp x = ulp_exp y")
  case True
  have "x / 2 powi ulp_exp y \<le> y / 2 powi ulp_exp y" using assms by (simp add: divide_right_mono)
  from rhe_mono[OF this] True assms show ?thesis by (simp add: fl_def Let_def)
next
  case False
  let ?e = "flogb 2 y"
  from assms have y: "0 < y" by simp
  from flogb_mono[of 2 x y] assms False have u: "ulp_exp x < ulp_exp y" "ulp_exp y = ?e - 52"
    by (auto simp: ulp_exp_def)
  then have "flogb 2 x < ?e" using assms y by (simp add: ulp_exp_def)
  have xe: "x \<le> 2 powi ?e"
  proof -
    have "x < 2 powi (flogb 2 x + 1)" using flogb_bounds[of 2 x] assms by simp
    also have "\<dots> \<le> 2 powi ?e" using \<open>flogb 2 x < ?e\<close> by (intro power_int_increasing) auto
    finally show ?thesis by simp
  qed
  have ye: "2 powi ?e \<le> y" using flogb_bounds[of 2 y] y by simp
  have gx: "2 powi ?e = of_int (2 ^ nat (?e - ulp_exp x)) * (2::rat) powi ulp_exp x"
    using u by (simp add: powi2_int[symmetric] powi2_split[symmetric] del: of_int_power)
  have gy: "2 powi ?e = of_int (2 ^ 52) * (2::rat) powi ulp_exp y"
    using u powi2_split[of 52 "?e - 52"] by simp
  have "fl x \<le> 2 powi ?e" using fl_le_grid[OF assms(1), of "2 ^ nat (?e - ulp_exp x)"] xe gx by simp
  moreover have "2 powi ?e \<le> fl y" using fl_ge_grid[OF y, of "2 ^ 52"] ye gy by simp
  ultimately show ?thesis by simp
qed

lemma fl_mono: assumes "x \<le> y" shows "fl x \<le> fl y"
proof -
  consider "0 < x" | "y < 0" | "x \<le> 0" "0 \<le> y" by linarith
  then show ?thesis
  proof cases
    case 1 then show ?thesis using fl_mono_pos assms by blast
  next
    case 2
    then have "fl (- y) \<le> fl (- x)" using fl_mono_pos[of "- y" "- x"] assms by simp
    then show ?thesis by simp
  next
    case 3
    then have "0 \<le> fl (- x)" "0 \<le> fl y" using fl_nonneg[of "- x"] fl_nonneg[of y] by simp_all
    then show ?thesis by simp
  qed
qed

lemma dyadic53_minus [simp]: "dyadic53 (- q) = dyadic53 q"
proof -
  have "dyadic53 (- q)" if "dyadic53 q" for q
  proof -
    from that obtain m e where "q = of_int m * 2 powi e" "\<bar>m\<bar> < 2 ^ 53" "- 1074 \<le> e" by (auto simp: dyadic53_def)
    then show ?thesis unfolding dyadic53_def by (intro exI[of _ "- m"] exI[of _ e]) auto
  qed
  from this[of q] this[of "- q"] show ?thesis by auto
qed

lemma fl_exact_pos: assumes "dyadic53 q" "0 < q" shows "fl q = q"
proof -
  from assms obtain m e where q: "q = of_int m * 2 powi e" "\<bar>m\<bar> < 2 ^ 53" "- 1074 \<le> e" by (auto simp: dyadic53_def)
  from q(2) have "(of_int m :: rat) < 2 ^ 53" by (metis abs_less_iff of_int_less_iff of_int_numeral of_int_power)
  then have "q < 2 ^ 53 * 2 powi e" using q by simp
  also have "\<dots> = 2 powi (e + 53)" by (simp add: powi2_split)
  finally have ue: "ulp_exp q \<le> e" using ulp_exp_le[OF assms(2)] q by simp
  have qu: "q / 2 powi ulp_exp q = of_int (m * 2 ^ nat (e - ulp_exp q))"
    using ue powi2_split[of "e - ulp_exp q" "ulp_exp q"] q by (simp add: powi2_int[symmetric] field_simps del: of_int_power)
  have "rhe (q / 2 powi ulp_exp q) = m * 2 ^ nat (e - ulp_exp q)" unfolding qu by (rule rhe_of_int)
  moreover have "of_int (m * 2 ^ nat (e - ulp_exp q)) * 2 powi ulp_exp q = q" unfolding qu[symmetric] by simp
  ultimately
  show ?thesis using assms by (simp add: fl_def Let_def)
qed

lemma fl_exact: assumes "dyadic53 q" shows "fl q = q"
proof (cases "0 < q \<or> q = 0")
  case True then show ?thesis using fl_exact_pos[OF assms] by auto
next
  case False then show ?thesis using fl_exact_pos[of "- q"] assms by simp
qed

lemma dyadic53_powi [simp]: "- 1074 \<le> e \<Longrightarrow> dyadic53 (2 powi e)"
  unfolding dyadic53_def by (intro exI[of _ 1] exI[of _ e]) auto

lemma dyadic53_int: assumes "\<bar>n\<bar> \<le> 2 ^ 53" shows "dyadic53 (of_int n)"
proof (cases "\<bar>n\<bar> < 2 ^ 53")
  case True then show ?thesis unfolding dyadic53_def by (intro exI[of _ n] exI[of _ 0]) auto
next
  case False
  with assms have "n = 2 ^ 53 \<or> n = - (2 ^ 53)" by linarith
  then show ?thesis using dyadic53_powi[of 53] dyadic53_minus[of "2 ^ 53"] by auto
qed

lemma dyadic53_fl_pos: assumes "0 < x" shows "dyadic53 (fl x)"
proof -
  let ?u = "ulp_exp x" let ?n = "rhe (x / 2 powi ?u)"
  have "x < 2 powi (flogb 2 x + 1)" using flogb_bounds[of 2 x] assms by simp
  also have "\<dots> \<le> 2 powi (53 + ?u)" using assms by (intro power_int_increasing) (auto simp: ulp_exp_def)
  also have "\<dots> = of_int (2 ^ 53) * 2 powi ?u" using powi2_split[of 53 ?u] by simp
  finally have "x / 2 powi ?u \<le> of_int (2 ^ 53)" by (simp add: pos_divide_le_eq)
  from rhe_mono[OF this] have up: "?n \<le> 2 ^ 53" by (simp del: of_int_power)
  have lo: "0 \<le> ?n" using rhe_mono[of 0 "x / 2 powi ?u"] rhe_of_int[of 0] assms by simp
  have e: "fl x = of_int ?n * 2 powi ?u" using assms by (simp add: fl_def Let_def)
  have u: "- 1074 \<le> ?u" by (simp add: ulp_exp_def)
  show ?thesis
  proof (cases "?n = 2 ^ 53")
    case True
    then have "fl x = 2 powi (53 + ?u)" using e powi2_split[of 53 ?u] by simp
    then show ?thesis using u by simp
  next
    case False
    with up lo e u show ?thesis unfolding dyadic53_def by (intro exI[of _ ?n] exI[of _ ?u]) auto
  qed
qed

lemma dyadic53_0 [simp]: "dyadic53 0" unfolding dyadic53_def by (intro exI[of _ 0] exI[of _ 0]) auto

lemma dyadic53_fl [simp]: "dyadic53 (fl x)"
proof (cases "0 < x \<or> x = 0")
  case True then show ?thesis using dyadic53_fl_pos by auto
next
  case False then show ?thesis using dyadic53_fl_pos[of "- x"] by simp
qed

lemma fl_idem [simp]: "fl (fl x) = fl x" by (simp add: fl_exact)

lemma fl_of_int: "\<bar>n\<bar> \<le> 2 ^ 53 \<Longrightarrow> fl (of_int n) = of_int n"
  by (intro fl_exact dyadic53_int)

lemma fl_le_dyadic: "x \<le> q \<Longrightarrow> dyadic53 q \<Longrightarrow> fl x \<le> q"
  using fl_mono[of x q] fl_exact[of q] by simp

lemma fl_ge_dyadic: "q \<le> x \<Longrightarrow> dyadic53 q \<Longrightarrow> q \<le> fl x"
  using fl_mono[of q x] fl_exact[of q] by simp

lemma dyadic53_iff: "dyadic53 q \<longleftrightarrow> fl q = q"
  by (metis dyadic53_fl fl_exact)

lemma dyadic53_mult: "dyadic53 q \<Longrightarrow> \<exists>k. q = of_int k * 2 powi (- 1074)"
proof -
  assume "dyadic53 q"
  then obtain m e where q: "q = of_int m * 2 powi e" "- 1074 \<le> e" by (auto simp: dyadic53_def)
  then have "2 powi e = of_int (2 ^ nat (e + 1074)) * (2::rat) powi (- 1074)"
    using powi2_split[of "e + 1074" "- 1074"] by (simp add: powi2_int[symmetric] del: of_int_power)
  with q have "q = of_int (m * 2 ^ nat (e + 1074)) * 2 powi (- 1074)" by simp
  then show ?thesis by blast
qed

lemma fl_diff_sign:
  assumes "dyadic53 x" "dyadic53 y"
  shows "0 < fl (x - y) \<longleftrightarrow> y < x" and "fl (x - y) < 0 \<longleftrightarrow> x < y" and "fl (x - y) = 0 \<longleftrightarrow> x = y"
proof -
  have pos: "0 < fl (x - y)" if "dyadic53 x" "dyadic53 y" "y < x" for x y
  proof -
    from that obtain k l where kl: "x = of_int k * 2 powi (- 1074)" "y = of_int l * 2 powi (- 1074)"
      using dyadic53_mult by meson
    with that have "(of_int l :: rat) < of_int k" by (simp add: mult_less_cancel_right)
    then have "1 \<le> k - l" by simp
    then have "(1::rat) \<le> of_int (k - l)" by (metis of_int_1_le_iff)
    then have "1 * (2::rat) powi (- 1074) \<le> of_int (k - l) * 2 powi (- 1074)" by (intro mult_right_mono) auto
    then have "2 powi (- 1074) \<le> x - y" by (simp add: kl left_diff_distrib)
    then have "2 powi (- 1074) \<le> fl (x - y)" by (rule fl_ge_dyadic) (rule dyadic53_powi, rule order_refl)
    then show ?thesis by (rule less_le_trans[OF powi2_pos])
  qed
  have m: "fl (y - x) = - fl (x - y)" using fl_minus[of "x - y"] by simp
  show "0 < fl (x - y) \<longleftrightarrow> y < x" and "fl (x - y) < 0 \<longleftrightarrow> x < y" and "fl (x - y) = 0 \<longleftrightarrow> x = y"
    using pos[of x y] pos[of y x] assms m by (cases x y rule: linorder_cases; auto)+
qed

subsection \<open>Values and operators\<close>

datatype jsnum = NaN | PInf | NInf | NZero | Fin rat

fun val :: "jsnum \<Rightarrow> rat" where
  "val (Fin q) = q"
| "val _ = 0"

fun is_fin :: "jsnum \<Rightarrow> bool" where
  "is_fin (Fin _) = True"
| "is_fin NZero = True"
| "is_fin _ = False"

fun is_neg :: "jsnum \<Rightarrow> bool" where
  "is_neg NInf = True"
| "is_neg NZero = True"
| "is_neg (Fin q) = (q < 0)"
| "is_neg _ = False"

fun kind :: "jsnum \<Rightarrow> int" where
  "kind NInf = - 1"
| "kind PInf = 1"
| "kind _ = 0"

fun is_dbl :: "jsnum \<Rightarrow> bool" where
  "is_dbl (Fin q) = (fl q = q \<and> \<bar>q\<bar> < 2 ^ 1024)"
| "is_dbl _ = True"

definition mk :: "rat \<Rightarrow> jsnum" where
  "mk r = (let q = fl r in
     if 2 ^ 1024 \<le> q then PInf else if q \<le> - (2 ^ 1024) then NInf
     else if q = 0 \<and> r < 0 then NZero else Fin q)"

definition signed_zero :: "bool \<Rightarrow> jsnum" where
  "signed_zero neg = (if neg then NZero else Fin 0)"

definition jlt :: "jsnum \<Rightarrow> jsnum \<Rightarrow> bool" where
  "jlt x y \<longleftrightarrow> x \<noteq> NaN \<and> y \<noteq> NaN \<and> (kind x < kind y \<or> kind x = kind y \<and> val x < val y)"

definition jeq :: "jsnum \<Rightarrow> jsnum \<Rightarrow> bool" where
  "jeq x y \<longleftrightarrow> x \<noteq> NaN \<and> y \<noteq> NaN \<and> kind x = kind y \<and> val x = val y"

definition jle :: "jsnum \<Rightarrow> jsnum \<Rightarrow> bool" where
  "jle x y \<longleftrightarrow> jlt x y \<or> jeq x y"

definition jneg :: "jsnum \<Rightarrow> jsnum" where
  "jneg x = (case x of NaN \<Rightarrow> NaN | PInf \<Rightarrow> NInf | NInf \<Rightarrow> PInf | NZero \<Rightarrow> Fin 0
     | Fin q \<Rightarrow> if q = 0 then NZero else Fin (- q))"

definition jadd :: "jsnum \<Rightarrow> jsnum \<Rightarrow> jsnum" where
  "jadd x y =
     (if x = NaN \<or> y = NaN then NaN
      else if \<not> is_fin x then (if \<not> is_fin y \<and> x \<noteq> y then NaN else x)
      else if \<not> is_fin y then y
      else if x = NZero \<and> y = NZero then NZero
      else mk (val x + val y))"

definition jsub :: "jsnum \<Rightarrow> jsnum \<Rightarrow> jsnum" where
  "jsub x y = jadd x (jneg y)"

definition jmul :: "jsnum \<Rightarrow> jsnum \<Rightarrow> jsnum" where
  "jmul x y =
     (if x = NaN \<or> y = NaN then NaN
      else let neg = (is_neg x \<noteq> is_neg y) in
      if \<not> is_fin x \<or> \<not> is_fin y then
        (if is_fin x \<and> val x = 0 \<or> is_fin y \<and> val y = 0 then NaN else if neg then NInf else PInf)
      else if val x * val y = 0 then signed_zero neg else mk (val x * val y))"

definition jdiv :: "jsnum \<Rightarrow> jsnum \<Rightarrow> jsnum" where
  "jdiv x y =
     (if x = NaN \<or> y = NaN then NaN
      else let neg = (is_neg x \<noteq> is_neg y) in
      if \<not> is_fin x then (if \<not> is_fin y then NaN else if neg then NInf else PInf)
      else if \<not> is_fin y then signed_zero neg
      else if val y = 0 then (if val x = 0 then NaN else if neg then NInf else PInf)
      else if val x = 0 then signed_zero neg else mk (val x / val y))"

definition jmod :: "jsnum \<Rightarrow> jsnum \<Rightarrow> jsnum" where
  "jmod x y =
     (if x = NaN \<or> y = NaN \<or> \<not> is_fin x then NaN
      else if \<not> is_fin y then x
      else if val y = 0 then NaN
      else let t = val x / val y; n = (if t < 0 then \<lceil>t\<rceil> else \<lfloor>t\<rfloor>); r = val x - val y * of_int n
           in if r = 0 then signed_zero (is_neg x) else Fin r)"

definition jround :: "jsnum \<Rightarrow> jsnum" where
  "jround x = (case x of Fin q \<Rightarrow>
     let n = \<lfloor>q + 1 / 2\<rfloor> in if n = 0 \<and> q < 0 then NZero else Fin (of_int n) | _ \<Rightarrow> x)"

definition jfloor :: "jsnum \<Rightarrow> jsnum" where
  "jfloor x = (case x of Fin q \<Rightarrow> Fin (of_int \<lfloor>q\<rfloor>) | _ \<Rightarrow> x)"

definition jceil :: "jsnum \<Rightarrow> jsnum" where
  "jceil x = (case x of Fin q \<Rightarrow>
     let n = \<lceil>q\<rceil> in if n = 0 \<and> q < 0 then NZero else Fin (of_int n) | _ \<Rightarrow> x)"

definition jabs :: "jsnum \<Rightarrow> jsnum" where
  "jabs x = (case x of NaN \<Rightarrow> NaN | PInf \<Rightarrow> PInf | NInf \<Rightarrow> PInf | NZero \<Rightarrow> Fin 0 | Fin q \<Rightarrow> Fin \<bar>q\<bar>)"

definition jmax :: "jsnum \<Rightarrow> jsnum \<Rightarrow> jsnum" where
  "jmax x y = (if x = NaN \<or> y = NaN then NaN else if jlt x y then y else if jlt y x then x
     else if x = NZero then y else x)"

definition jmin :: "jsnum \<Rightarrow> jsnum \<Rightarrow> jsnum" where
  "jmin x y = (if x = NaN \<or> y = NaN then NaN else if jlt x y then x else if jlt y x then y
     else if x = NZero then x else y)"


subsection \<open>Running the arithmetic with the simplifier\<close>

lemma flogb_shift:
  assumes b: "2 \<le> b" and x: "0 < x"
  shows "flogb b (x * of_int b powi k) = flogb b x + k"
proof (rule flogb_eqI[OF b])
  let ?B = "of_int b :: rat"
  have B: "?B \<noteq> 0" "0 < ?B powi k" using b by simp_all
  from flogb_bounds[OF b x] B have
    "?B powi flogb b x * ?B powi k \<le> x * ?B powi k" "x * ?B powi k < ?B powi (flogb b x + 1) * ?B powi k"
    by simp_all
  moreover have "flogb b x + k + 1 = flogb b x + 1 + k" by simp
  ultimately show "?B powi (flogb b x + k) \<le> x * ?B powi k" "x * ?B powi k < ?B powi (flogb b x + k + 1)"
    using B by (metis power_int_add, metis power_int_add)
qed

lemma flogb_up:
  assumes "2 \<le> b" "of_int b ^ k \<le> x"
  shows "flogb b x = flogb b (x / of_int b ^ k) + int k"
proof -
  have p: "(0::rat) < of_int b ^ k" "b \<noteq> 0" using assms by simp_all
  with assms(2) have "0 < x" by linarith
  with p have "0 < x / of_int b ^ k" by simp
  from flogb_shift[OF assms(1) this, of "int k"] p show ?thesis by simp
qed

lemma flogb_down:
  assumes "2 \<le> b" "0 < x" "x * of_int b ^ k < of_int b"
  shows "flogb b x = flogb b (x * of_int b ^ k) - int k"
  using flogb_shift[OF assms(1,2), of "int k"] by simp

lemma flogb_unit: "2 \<le> b \<Longrightarrow> 1 \<le> x \<Longrightarrow> x < of_int b \<Longrightarrow> flogb b x = 0"
  by (rule flogb_eqI) auto

lemmas flogb2_eval = flogb_unit[of 2, simplified]
  flogb_up[of 2 1, simplified] flogb_up[of 2 4, simplified] flogb_up[of 2 16, simplified] flogb_up[of 2 64, simplified]
  flogb_down[of 2 _ 1, simplified] flogb_down[of 2 _ 4, simplified]
  flogb_down[of 2 _ 16, simplified] flogb_down[of 2 _ 64, simplified]

lemmas flogb10_eval = flogb_unit[of 10, simplified]
  flogb_up[of 10 1, simplified] flogb_up[of 10 4, simplified] flogb_up[of 10 16, simplified]
  flogb_down[of 10 _ 1, simplified] flogb_down[of 10 _ 4, simplified] flogb_down[of 10 _ 16, simplified]

lemma floor_rat_eval:
  "\<lfloor>numeral a / numeral b :: rat\<rfloor> = numeral a div numeral b"
  "\<lfloor>- (numeral a / numeral b) :: rat\<rfloor> = - numeral a div numeral b"
  "\<lfloor>1 / numeral b :: rat\<rfloor> = 1 div numeral b"
  "\<lfloor>- (1 / numeral b) :: rat\<rfloor> = - 1 div numeral b"
  using floor_divide_of_int_eq[where 'a = rat, of "numeral a" "numeral b"]
    floor_divide_of_int_eq[where 'a = rat, of "- numeral a" "numeral b"]
    floor_divide_of_int_eq[where 'a = rat, of 1 "numeral b"]
    floor_divide_of_int_eq[where 'a = rat, of "- 1" "numeral b"] by simp_all

lemma ceiling_rat_eval:
  "\<lceil>numeral a / numeral b :: rat\<rceil> = - (- numeral a div numeral b)"
  "\<lceil>- (numeral a / numeral b) :: rat\<rceil> = - (numeral a div numeral b)"
  "\<lceil>1 / numeral b :: rat\<rceil> = - (- 1 div numeral b)"
  "\<lceil>- (1 / numeral b) :: rat\<rceil> = - (1 div numeral b)"
  by (simp_all add: ceiling_def floor_rat_eval)

lemmas number_eval [jeval] = flogb2_eval flogb10_eval fl_def rhe_def ulp_exp_def Let_def floor_rat_eval ceiling_rat_eval
  mk_def jlt_def jeq_def jle_def jneg_def jadd_def jsub_def jmul_def jdiv_def jmod_def jround_def jfloor_def jceil_def
  jabs_def jmax_def jmin_def signed_zero_def

end
