(* ===== verification/Js_Order.thy ===== *)
theory Js_Order
  imports Js_Number
begin

text \<open>
  The laws of the numbers of \<open>Js_Number\<close> that the components use: the operations map doubles
  to doubles, \<open><\<close> is a strict weak order on the values other than \<open>NaN\<close>, the sign of a
  difference decides the comparison of its operands (also between infinities, where the
  difference is \<open>NaN\<close>), and rounded sums, products and quotients keep the bounds of the
  exact ones.
\<close>

subsection \<open>Order\<close>

lemma jlt_irrefl [jnum]: "\<not> jlt x x"
  by (simp add: jlt_def)

lemma jlt_NaN [jnum]: "\<not> jlt NaN x" "\<not> jlt x NaN"
  by (simp_all add: jlt_def)

lemma jlt_asym: "jlt x y \<Longrightarrow> \<not> jlt y x"
  by (auto simp: jlt_def)

lemma jlt_trans: "jlt x y \<Longrightarrow> jlt y z \<Longrightarrow> jlt x z"
  by (auto simp: jlt_def)

lemma jlt_negtrans: "jlt x z \<Longrightarrow> y \<noteq> NaN \<Longrightarrow> jlt x y \<or> jlt y z"
  by (auto simp: jlt_def)

lemma jlt_linear: "x \<noteq> NaN \<Longrightarrow> y \<noteq> NaN \<Longrightarrow> jlt x y \<or> jeq x y \<or> jlt y x"
  by (auto simp: jlt_def jeq_def)

lemma jeq_refl: "x \<noteq> NaN \<Longrightarrow> jeq x x"
  by (simp add: jeq_def)

lemma jeq_sym: "jeq x y \<Longrightarrow> jeq y x"
  by (simp add: jeq_def)

lemma jeq_trans: "jeq x y \<Longrightarrow> jeq y z \<Longrightarrow> jeq x z"
  by (simp add: jeq_def)

lemma jeq_not_lt: "jeq x y \<Longrightarrow> \<not> jlt x y"
  by (simp add: jeq_def jlt_def)

lemma jeq_jlt: "jeq x y \<Longrightarrow> jlt y z \<Longrightarrow> jlt x z" "jeq y z \<Longrightarrow> jlt x y \<Longrightarrow> jlt x z"
  by (auto simp: jeq_def jlt_def)

lemma not_jlt_iff: "x \<noteq> NaN \<Longrightarrow> y \<noteq> NaN \<Longrightarrow> \<not> jlt x y \<longleftrightarrow> jle y x"
  by (auto simp: jle_def jlt_def jeq_def)

lemma is_fin_not_NaN: "is_fin x \<Longrightarrow> x \<noteq> NaN"
  by auto

lemma is_fin_kind [simp]: "is_fin x \<Longrightarrow> kind x = 0"
  by (cases x) auto

lemma jlt_fin [jnum]: "is_fin x \<Longrightarrow> is_fin y \<Longrightarrow> jlt x y \<longleftrightarrow> val x < val y"
  by (auto simp: jlt_def)

lemma jle_fin [jnum]: "is_fin x \<Longrightarrow> is_fin y \<Longrightarrow> jle x y \<longleftrightarrow> val x \<le> val y"
  by (auto simp: jle_def jlt_def jeq_def)

lemma jeq_fin [jnum]: "is_fin x \<Longrightarrow> is_fin y \<Longrightarrow> jeq x y \<longleftrightarrow> val x = val y"
  by (auto simp: jeq_def)

subsection \<open>Doubles are closed under the operations\<close>

lemma is_dbl_mk [simp]: "is_dbl (mk r)"
  by (auto simp: mk_def Let_def abs_less_iff)

lemma mk_fin: "\<bar>fl r\<bar> < 2 ^ 1024 \<Longrightarrow> is_fin (mk r) \<and> val (mk r) = fl r"
  by (auto simp: mk_def Let_def abs_less_iff)

lemma mk_not_NaN [simp]: "mk r \<noteq> NaN"
  by (simp add: mk_def Let_def)

lemma is_dbl_val: "is_dbl x \<Longrightarrow> dyadic53 (val x)"
  by (cases x) (auto simp: dyadic53_iff)

lemma is_dbl_abs_val: "is_dbl x \<Longrightarrow> \<bar>val x\<bar> < 2 ^ 1024"
  by (cases x) auto

lemma mk_val: "is_dbl x \<Longrightarrow> is_fin x \<Longrightarrow> val x \<noteq> 0 \<Longrightarrow> mk (val x) = x"
  by (cases x) (auto simp: mk_def Let_def abs_less_iff)

lemma mk_0 [simp]: "mk 0 = Fin 0"
  by (simp add: mk_def)

lemma is_dbl_signed_zero [simp]: "is_dbl (signed_zero b)"
  by (simp add: signed_zero_def)

lemma is_dbl_jneg [simp]: "is_dbl x \<Longrightarrow> is_dbl (jneg x)"
  by (cases x) (auto simp: jneg_def)

lemma is_dbl_jadd [simp]: "is_dbl x \<Longrightarrow> is_dbl y \<Longrightarrow> is_dbl (jadd x y)"
  by (simp add: jadd_def)

lemma is_dbl_jsub [simp]: "is_dbl x \<Longrightarrow> is_dbl y \<Longrightarrow> is_dbl (jsub x y)"
  by (simp add: jsub_def)

lemma is_dbl_jmul [simp]: "is_dbl (jmul x y)"
  by (simp add: jmul_def Let_def)

lemma is_dbl_jdiv [simp]: "is_dbl (jdiv x y)"
  by (simp add: jdiv_def Let_def)

lemma dyadic53_int_or_small: assumes "dyadic53 q" shows "\<bar>q\<bar> < 2 ^ 52 \<or> (\<exists>k. q = of_int k)"
proof -
  from assms obtain m e where q: "q = of_int m * 2 powi e" "\<bar>m\<bar> < 2 ^ 53" by (auto simp: dyadic53_def)
  show ?thesis
  proof (cases "0 \<le> e")
    case True
    then have "q = of_int (m * 2 ^ nat e)" using q by (simp add: powi2_int)
    then show ?thesis by blast
  next
    case False
    then have "(2::rat) powi e \<le> 2 powi (- 1)" by (intro power_int_increasing) auto
    moreover have "\<bar>of_int m\<bar> < (2::rat) ^ 53" using q(2) by (metis of_int_abs of_int_less_iff of_int_numeral of_int_power)
    ultimately have "\<bar>of_int m\<bar> * 2 powi e < 2 ^ 53 * (2::rat) powi (- 1)"
      by (intro mult_less_le_imp_less) auto
    then show ?thesis using q by (simp add: abs_mult)
  qed
qed

lemma is_dbl_near_int:
  assumes "dyadic53 q" "\<bar>q\<bar> < 2 ^ 1024" and "\<And>k. q = of_int k \<Longrightarrow> n = k" and "\<bar>of_int n - q\<bar> \<le> 1"
  shows "is_dbl (Fin (of_int n))"
proof -
  consider "\<bar>q\<bar> < 2 ^ 52" | k where "q = of_int k" using dyadic53_int_or_small[OF assms(1)] by blast
  then show ?thesis
  proof cases
    case 1
    then have "\<bar>q\<bar> < 4503599627370496" by simp
    with assms(4) have "\<bar>of_int n :: rat\<bar> \<le> 9007199254740992" by linarith
    moreover from this have "\<bar>n\<bar> \<le> 9007199254740992" by linarith
    then have "\<bar>n\<bar> \<le> 2 ^ 53" by simp
    moreover have "(9007199254740992 :: rat) < 2 ^ 1024" by simp
    ultimately show ?thesis using fl_of_int by (simp del: power_numeral)
  next
    case 2
    with assms show ?thesis by (simp add: dyadic53_iff del: power_numeral)
  qed
qed

lemma is_dbl_jround [simp]: assumes "is_dbl x" shows "is_dbl (jround x)"
proof (cases x)
  case (Fin q)
  have "\<bar>of_int \<lfloor>q + 1 / 2\<rfloor> - q\<bar> \<le> 1" by linarith
  moreover have "\<lfloor>q + 1 / 2\<rfloor> = k" if "q = of_int k" for k using that by (intro floor_unique) auto
  ultimately have "is_dbl (Fin (of_int \<lfloor>q + 1 / 2\<rfloor>))" using assms Fin by (intro is_dbl_near_int[of q]) (auto simp: dyadic53_iff)
  then show ?thesis by (simp add: jround_def Fin Let_def)
qed (simp_all add: jround_def)

lemma is_dbl_jfloor [simp]: assumes "is_dbl x" shows "is_dbl (jfloor x)"
proof (cases x)
  case (Fin q)
  have "\<bar>of_int \<lfloor>q\<rfloor> - q\<bar> \<le> 1" by linarith
  then have "is_dbl (Fin (of_int \<lfloor>q\<rfloor>))" using assms Fin by (intro is_dbl_near_int[of q]) (auto simp: dyadic53_iff)
  then show ?thesis by (simp add: jfloor_def Fin)
qed (simp_all add: jfloor_def)

lemma is_dbl_jceil [simp]: assumes "is_dbl x" shows "is_dbl (jceil x)"
proof (cases x)
  case (Fin q)
  have "\<bar>of_int \<lceil>q\<rceil> - q\<bar> \<le> 1" by linarith
  then have "is_dbl (Fin (of_int \<lceil>q\<rceil>))" using assms Fin by (intro is_dbl_near_int[of q]) (auto simp: dyadic53_iff)
  then show ?thesis by (simp add: jceil_def Fin Let_def)
qed (simp_all add: jceil_def)

lemma is_dbl_jabs [simp]: assumes "is_dbl x" shows "is_dbl (jabs x)"
proof (cases x)
  case (Fin q)
  with assms show ?thesis by (cases "0 \<le> q") (simp_all add: jabs_def)
qed (simp_all add: jabs_def)

lemma is_dbl_jmax [simp]: "is_dbl x \<Longrightarrow> is_dbl y \<Longrightarrow> is_dbl (jmax x y)"
  by (simp add: jmax_def)

lemma is_dbl_jmin [simp]: "is_dbl x \<Longrightarrow> is_dbl y \<Longrightarrow> is_dbl (jmin x y)"
  by (simp add: jmin_def)

subsection \<open>Values of the operations on finite arguments\<close>

lemma jround_fin [simp]: "is_fin (jround x) = is_fin x"
  by (cases x) (simp_all add: jround_def Let_def)

lemma val_jround: "is_fin x \<Longrightarrow> val (jround x) = of_int \<lfloor>val x + 1 / 2\<rfloor>"
  by (cases x) (simp_all add: jround_def Let_def floor_divide_of_int_eq[where 'a = rat, of 1 2, simplified])

lemma jfloor_fin [simp]: "is_fin (jfloor x) = is_fin x"
  by (cases x) (simp_all add: jfloor_def)

lemma val_jfloor: "is_fin x \<Longrightarrow> val (jfloor x) = of_int \<lfloor>val x\<rfloor>"
  by (cases x) (simp_all add: jfloor_def)

lemma jceil_fin [simp]: "is_fin (jceil x) = is_fin x"
  by (cases x) (simp_all add: jceil_def Let_def)

lemma val_jceil: "is_fin x \<Longrightarrow> val (jceil x) = of_int \<lceil>val x\<rceil>"
  by (cases x) (simp_all add: jceil_def Let_def)

lemma jneg_fin [simp]: "is_fin (jneg x) = is_fin x"
  by (cases x) (simp_all add: jneg_def)

lemma val_jneg [simp]: "val (jneg x) = - val x"
  by (cases x) (simp_all add: jneg_def)

lemma jneg_NaN [simp]: "jneg x = NaN \<longleftrightarrow> x = NaN"
  by (cases x) (simp_all add: jneg_def)

lemma kind_jneg [simp]: "kind (jneg x) = - kind x"
  by (cases x) (simp_all add: jneg_def)

lemma jadd_val:
  assumes "is_fin x" "is_fin y" "\<bar>fl (val x + val y)\<bar> < 2 ^ 1024"
  shows "is_fin (jadd x y)" "val (jadd x y) = fl (val x + val y)"
  using assms mk_fin[OF assms(3)] by (auto simp: jadd_def is_fin_not_NaN)

lemma jsub_val:
  assumes "is_fin x" "is_fin y" "\<bar>fl (val x - val y)\<bar> < 2 ^ 1024"
  shows "is_fin (jsub x y)" "val (jsub x y) = fl (val x - val y)"
  using jadd_val[of x "jneg y"] assms by (simp_all add: jsub_def)

lemma jmul_val:
  assumes "is_fin x" "is_fin y" "\<bar>fl (val x * val y)\<bar> < 2 ^ 1024"
  shows "is_fin (jmul x y)" "val (jmul x y) = fl (val x * val y)"
  using assms mk_fin[OF assms(3)] by (auto simp: jmul_def Let_def signed_zero_def is_fin_not_NaN)

lemma jdiv_val:
  assumes "is_fin x" "is_fin y" "val y \<noteq> 0" "\<bar>fl (val x / val y)\<bar> < 2 ^ 1024"
  shows "is_fin (jdiv x y)" "val (jdiv x y) = fl (val x / val y)"
  using assms mk_fin[OF assms(4)] by (auto simp: jdiv_def Let_def signed_zero_def is_fin_not_NaN)

text \<open>Rounding stays between two doubles that bound the exact value.\<close>

lemma fl_between:
  assumes "a \<le> r" "r \<le> b" "dyadic53 a" "dyadic53 b"
  shows "a \<le> fl r" "fl r \<le> b"
  using assms by (simp_all add: fl_le_dyadic fl_ge_dyadic)

lemma fl_between_abs:
  assumes "a \<le> r" "r \<le> b" "dyadic53 a" "dyadic53 b" "\<bar>a\<bar> < 2 ^ 1024" "\<bar>b\<bar> < 2 ^ 1024"
  shows "\<bar>fl r\<bar> < 2 ^ 1024"
  using fl_between[OF assms(1-4)] assms(5,6) by linarith

lemma dyadic53_numeral [simp]: "dyadic53 1" "numeral n \<le> (2 ^ 53 :: int) \<Longrightarrow> dyadic53 (numeral n)"
  using dyadic53_int[of 1] dyadic53_int[of "numeral n"] by simp_all

lemma ratio_unit:
  assumes "is_fin x" "is_fin y" "0 \<le> val x" "val x \<le> val y" "0 < val y"
  shows "is_fin (jdiv x y)" "0 \<le> val (jdiv x y)" "val (jdiv x y) \<le> 1"
proof -
  have q: "0 \<le> val x / val y" "val x / val y \<le> 1" using assms by simp_all
  from fl_between_abs[OF q] have "\<bar>fl (val x / val y)\<bar> < 2 ^ 1024" by simp
  with assms fl_between[OF q] show "is_fin (jdiv x y)" "0 \<le> val (jdiv x y)" "val (jdiv x y) \<le> 1"
    by (simp_all add: jdiv_val)
qed

text \<open>The percentage of a fraction, the larger and the smaller of two numbers.\<close>

lemma percent_unit:
  assumes "is_fin x" "0 \<le> val x" "val x \<le> 1"
  shows "is_fin (jmul x (Fin 100))" "0 \<le> val (jmul x (Fin 100))" "val (jmul x (Fin 100)) \<le> 100"
proof -
  have q: "0 \<le> val x * 100" "val x * 100 \<le> 100" using assms by simp_all
  have "\<bar>100 :: rat\<bar> < 2 ^ 1024" by simp
  from fl_between_abs[OF q _ _ _ this] have "\<bar>fl (val x * 100)\<bar> < 2 ^ 1024" by simp
  with assms(1) fl_between[OF q]
  show "is_fin (jmul x (Fin 100))" "0 \<le> val (jmul x (Fin 100))" "val (jmul x (Fin 100)) \<le> 100"
    by (simp_all add: jmul_val)
qed

lemma jmax_fin: "is_fin x \<Longrightarrow> is_fin y \<Longrightarrow> is_fin (jmax x y) \<and> val (jmax x y) = max (val x) (val y)"
  by (auto simp: jmax_def jlt_fin is_fin_not_NaN)

lemma jmin_fin: "is_fin x \<Longrightarrow> is_fin y \<Longrightarrow> is_fin (jmin x y) \<and> val (jmin x y) = min (val x) (val y)"
  by (auto simp: jmin_def jlt_fin is_fin_not_NaN)

subsection \<open>Comparison by subtraction\<close>

text \<open>
  \<open>b - a\<close> as the result of a comparator: below zero exactly when \<open>b < a\<close>, above zero exactly
  when \<open>a < b\<close>. Between equal infinities the difference is \<open>NaN\<close>, which is neither, as
  sorting requires.
\<close>

lemma mk_sign:
  assumes "dyadic53 x" "dyadic53 y"
  shows "jlt (mk (x - y)) (Fin 0) \<longleftrightarrow> x < y" and "jlt (Fin 0) (mk (x - y)) \<longleftrightarrow> y < x"
  using fl_diff_sign[OF assms] by (auto simp: mk_def Let_def jlt_def)

lemma jsub_sign:
  assumes "is_dbl x" "is_dbl y"
  shows "jlt (jsub x y) (Fin 0) \<longleftrightarrow> jlt x y" and "jlt (Fin 0) (jsub x y) \<longleftrightarrow> jlt y x"
proof -
  have d: "dyadic53 (val x)" "dyadic53 (val y)" using assms by (simp_all add: is_dbl_val)
  have e: "jsub x y = mk (val x - val y)" if "is_fin x" "is_fin y" "x \<noteq> NZero \<or> jneg y \<noteq> NZero"
    using that by (auto simp: jsub_def jadd_def is_fin_not_NaN)
  show "jlt (jsub x y) (Fin 0) \<longleftrightarrow> jlt x y" "jlt (Fin 0) (jsub x y) \<longleftrightarrow> jlt y x"
    using e mk_sign[OF d] by (cases x; cases y; auto simp: jlt_def jsub_def jadd_def jneg_def split: if_splits)+
qed

end
