(* ===== verification/Js_String.thy ===== *)
theory Js_String
  imports Js_Order
begin

text \<open>
  The strings of the program and the conversions between strings and numbers that the code
  uses. A string is its list of UTF-16 code units, as \<open>length\<close>, \<open>slice\<close> and the regular
  expressions of the code count them. \<open>lit\<close> turns an ASCII literal into code units.

  \<^item> \<open>trim\<close>, \<open>toUpperCase\<close>, \<open>toLowerCase\<close>, \<open>includes\<close>, \<open>ends_with\<close>, \<open>join\<close>: the string methods.
    Case conversion is the ASCII one; other code units are kept;
  \<^item> \<open>dec\<close>, \<open>to_fixed\<close>, \<open>num_to_string\<close>, \<open>to_locale\<close>: \<open>Number\<close> to string as \<open>toFixed\<close>, \<open>String(n)\<close>
    (also in template literals) and \<open>toLocaleString()\<close> in the locale en-US print it;
  \<^item> \<open>parse_float\<close>, \<open>to_number\<close>: \<open>parseFloat(s)\<close> and \<open>Number(s)\<close>.
\<close>

type_synonym unit16 = "16 word"
type_synonym jsstr = "16 word list"

subsection \<open>Literals and string methods\<close>

definition lit :: "string \<Rightarrow> jsstr" where
  "lit s = map of_char s"

lemma lit_simps [simp]: "lit [] = []" "lit (c # s) = of_char c # lit s"
  by (simp_all add: lit_def)

lemma lit_append: "lit (s @ t) = lit s @ lit t"
  by (simp add: lit_def)

definition is_space :: "unit16 \<Rightarrow> bool" where
  "is_space c \<longleftrightarrow> 9 \<le> c \<and> c \<le> 13 \<or> c = 32 \<or> c = 0xA0 \<or> c = 0x1680 \<or> 0x2000 \<le> c \<and> c \<le> 0x200A
     \<or> c = 0x2028 \<or> c = 0x2029 \<or> c = 0x202F \<or> c = 0x205F \<or> c = 0x3000 \<or> c = 0xFEFF"

definition is_digit :: "unit16 \<Rightarrow> bool" where
  "is_digit c \<longleftrightarrow> 48 \<le> c \<and> c \<le> 57"

definition is_letter :: "unit16 \<Rightarrow> bool" where
  "is_letter c \<longleftrightarrow> 65 \<le> c \<and> c \<le> 90 \<or> 97 \<le> c \<and> c \<le> 122"

definition trim_start :: "jsstr \<Rightarrow> jsstr" where
  "trim_start s = dropWhile is_space s"

definition trim :: "jsstr \<Rightarrow> jsstr" where
  "trim s = rev (dropWhile is_space (rev (trim_start s)))"

definition toUpperCase :: "jsstr \<Rightarrow> jsstr" where
  "toUpperCase s = map (\<lambda>c. if 97 \<le> c \<and> c \<le> 122 then c - 32 else c) s"

definition toLowerCase :: "jsstr \<Rightarrow> jsstr" where
  "toLowerCase s = map (\<lambda>c. if 65 \<le> c \<and> c \<le> 90 then c + 32 else c) s"

fun has_prefix :: "jsstr \<Rightarrow> jsstr \<Rightarrow> bool" where
  "has_prefix [] s = True"
| "has_prefix (p # ps) [] = False"
| "has_prefix (p # ps) (c # s) = (p = c \<and> has_prefix ps s)"

fun str_includes :: "jsstr \<Rightarrow> jsstr \<Rightarrow> bool" where
  "str_includes p [] = (p = [])"
| "str_includes p (c # s) = (has_prefix p (c # s) \<or> str_includes p s)"

definition ends_with :: "jsstr \<Rightarrow> jsstr \<Rightarrow> bool" where
  "ends_with s p = has_prefix (rev p) (rev s)"

fun join :: "jsstr \<Rightarrow> jsstr list \<Rightarrow> jsstr" where
  "join sep [] = []"
| "join sep [x] = x"
| "join sep (x # y # ys) = x @ sep @ join sep (y # ys)"

subsection \<open>Decimal digits\<close>

definition digit :: "int \<Rightarrow> unit16" where
  "digit d = of_int (48 + d)"

function dec :: "int \<Rightarrow> jsstr" where
  "dec n = (if n < 10 then [digit n] else dec (n div 10) @ [digit (n mod 10)])"
  by pat_completeness auto
termination
  by (relation "measure nat") auto

declare dec.simps [simp del]

definition digit_val :: "unit16 \<Rightarrow> int" where
  "digit_val c = uint c - 48"

definition digits_val :: "jsstr \<Rightarrow> int" where
  "digits_val s = foldl (\<lambda>a c. 10 * a + digit_val c) 0 s"

lemma digits_val_simps [simp]: "digits_val [] = 0" "digits_val (s @ [c]) = 10 * digits_val s + digit_val c"
  by (simp_all add: digits_val_def)

lemma digit_bounds: assumes "0 \<le> d" "d \<le> 9" shows "is_digit (digit d)" "digit_val (digit d) = d"
proof -
  have "uint (digit d) = 48 + d" using assms by (simp add: digit_def uint_word_of_int del: of_int_add)
  then show "is_digit (digit d)" "digit_val (digit d) = d"
    using assms by (simp_all add: is_digit_def digit_val_def word_le_def)
qed

lemma dec_digits: "0 \<le> n \<Longrightarrow> \<forall>c \<in> set (dec n). is_digit c"
proof (induction n rule: dec.induct)
  case (1 n)
  then show ?case by (subst dec.simps) (auto simp: digit_bounds)
qed

lemma digits_val_dec: "0 \<le> n \<Longrightarrow> digits_val (dec n) = n"
proof (induction n rule: dec.induct)
  case (1 n)
  then show ?case by (subst dec.simps) (use digits_val_simps(2)[of "[]"] in \<open>auto simp: digit_bounds\<close>)
qed

lemma dec_nonempty [simp]: "dec n \<noteq> []"
  by (subst dec.simps) simp

lemma dec_inject: "0 \<le> m \<Longrightarrow> 0 \<le> n \<Longrightarrow> dec m = dec n \<longleftrightarrow> m = n"
  by (metis digits_val_dec)

lemma dec_no_leading_zero: "0 < n \<Longrightarrow> hd (dec n) \<noteq> 48"
proof (induction n rule: dec.induct)
  case (1 n)
  show ?case
  proof (cases "n < 10")
    case True
    with "1.prems" have "digit_val (digit n) = n" by (simp add: digit_bounds)
    with "1.prems" have "digit n \<noteq> 48" by (auto simp: digit_val_def)
    with True show ?thesis by (simp add: dec.simps[of n])
  next
    case False
    with 1 show ?thesis by (simp add: dec.simps[of n] pos_imp_zdiv_pos_iff)
  qed
qed

subsection \<open>Numbers to strings\<close>

text \<open>\<open>x.toFixed(f)\<close>: the integer nearest to \<open>x * 10 ^ f\<close> (the larger of two), then the point.\<close>

definition zeros :: "int \<Rightarrow> jsstr" where
  "zeros n = replicate (nat n) 48"

definition fixed_digits :: "rat \<Rightarrow> nat \<Rightarrow> jsstr" where
  "fixed_digits q f =
     (let ds = dec \<lfloor>q * 10 ^ f + 1 / 2\<rfloor>
      in if f = 0 then ds
         else let p = replicate (f + 1 - length ds) 48 @ ds; i = length p - f
              in take i p @ lit ''.'' @ drop i p)"

text \<open>
  \<open>String(n)\<close>: the shortest digits \<open>s * 10 ^ (n - k)\<close>, with \<open>k\<close> digits in \<open>s\<close>, that round back to
  the number, the closer one of two.
\<close>

definition digits_try :: "rat \<Rightarrow> int \<Rightarrow> int \<Rightarrow> int option" where
  "digits_try q n k =
     (let w = 10 powi (n - k); t = q / w; lo = \<lfloor>t\<rfloor>; hi = lo + 1;
          ok = (\<lambda>s. mk (of_int s * w) = Fin q)
      in if ok lo \<and> (t - of_int lo \<le> 1 / 2 \<or> \<not> ok hi) then Some lo
         else if ok hi then Some hi else None)"

fun shortest :: "rat \<Rightarrow> int \<Rightarrow> int list \<Rightarrow> int \<times> int" where
  "shortest q n [] = (rhe (q / 10 powi (n - 17)), n)"
| "shortest q n (k # ks) =
     (case digits_try q n k of Some s \<Rightarrow> if s = 10 ^ nat k then (1, n + 1) else (s, n)
      | None \<Rightarrow> shortest q n ks)"

definition layout :: "jsstr \<Rightarrow> int \<Rightarrow> jsstr" where
  "layout ds n =
     (let k = int (length ds); e = n - 1;
          ex = (if e < 0 then lit ''e-'' else lit ''e+'') @ dec \<bar>e\<bar>
      in if k \<le> n \<and> n \<le> 21 then ds @ zeros (n - k)
         else if 0 < n \<and> n \<le> 21 then take (nat n) ds @ lit ''.'' @ drop (nat n) ds
         else if - 6 < n \<and> n \<le> 0 then lit ''0.'' @ zeros (- n) @ ds
         else if k = 1 then ds @ ex
         else take 1 ds @ lit ''.'' @ drop 1 ds @ ex)"

definition digit_counts :: "int list" where
  "digit_counts = [1, 2, 3, 4, 5, 6, 7, 8, 9, 10, 11, 12, 13, 14, 15, 16, 17]"

definition pos_to_string :: "rat \<Rightarrow> jsstr" where
  "pos_to_string q = (case shortest q (flogb 10 q + 1) digit_counts of (s, n) \<Rightarrow> layout (dec s) n)"

definition num_to_string :: "jsnum \<Rightarrow> jsstr" where
  "num_to_string x =
     (case x of NaN \<Rightarrow> lit ''NaN'' | PInf \<Rightarrow> lit ''Infinity'' | NInf \<Rightarrow> lit ''-Infinity'' | NZero \<Rightarrow> lit ''0''
      | Fin q \<Rightarrow> if q = 0 then lit ''0'' else if q < 0 then lit ''-'' @ pos_to_string (- q) else pos_to_string q)"

definition to_fixed :: "jsnum \<Rightarrow> nat \<Rightarrow> jsstr" where
  "to_fixed x f =
     (if is_fin x \<and> \<bar>val x\<bar> < 10 ^ 21
      then (if val x < 0 then lit ''-'' else []) @ fixed_digits \<bar>val x\<bar> f
      else num_to_string x)"

text \<open>\<open>x.toLocaleString()\<close> in en-US: thousands separated, at most three decimals.\<close>

fun group_rev :: "jsstr \<Rightarrow> jsstr" where
  "group_rev (a # b # c # d # r) = a # b # c # 44 # group_rev (d # r)"
| "group_rev s = s"

definition group3 :: "jsstr \<Rightarrow> jsstr" where
  "group3 s = rev (group_rev (rev s))"

definition strip_zeros :: "jsstr \<Rightarrow> jsstr" where
  "strip_zeros s = rev (dropWhile (\<lambda>c. c = 48) (rev s))"

definition to_locale :: "jsnum \<Rightarrow> jsstr" where
  "to_locale x =
     (case x of NaN \<Rightarrow> lit ''NaN'' | PInf \<Rightarrow> [0x221E] | NInf \<Rightarrow> lit ''-'' @ [0x221E] | NZero \<Rightarrow> lit ''-0''
      | Fin q \<Rightarrow>
        let n = \<lfloor>\<bar>q\<bar> * 1000 + 1 / 2\<rfloor>; ds = dec (n mod 1000);
            fr = strip_zeros (replicate (3 - length ds) 48 @ ds)
        in (if q < 0 then lit ''-'' else []) @ group3 (dec (n div 1000)) @ (if fr = [] then [] else lit ''.'' @ fr))"

subsection \<open>Strings to numbers\<close>

definition parse_exponent :: "jsstr \<Rightarrow> int \<times> jsstr" where
  "parse_exponent s =
     (case s of [] \<Rightarrow> (0, s)
      | e # r \<Rightarrow>
        if e = 101 \<or> e = 69 then
          let (neg, r') = (case r of [] \<Rightarrow> (False, r) | c # t \<Rightarrow> if c = 45 then (True, t) else if c = 43 then (False, t) else (False, r));
              ds = takeWhile is_digit r'
          in if ds = [] then (0, s) else (if neg then - digits_val ds else digits_val ds, dropWhile is_digit r')
        else (0, s))"

text \<open>An unsigned decimal literal at the start of a string: its value and the rest of the string.\<close>

definition parse_unsigned :: "jsstr \<Rightarrow> (jsnum \<times> jsstr) option" where
  "parse_unsigned s =
     (if has_prefix (lit ''Infinity'') s then Some (PInf, drop 8 s)
      else let ip = takeWhile is_digit s; r1 = dropWhile is_digit s;
               (fp, r2) = (case r1 of [] \<Rightarrow> ([], r1)
                 | c # t \<Rightarrow> if c = 46 \<and> (ip \<noteq> [] \<or> takeWhile is_digit t \<noteq> []) then (takeWhile is_digit t, dropWhile is_digit t) else ([], r1));
               (ex, r3) = parse_exponent r2
           in if ip = [] \<and> fp = [] then None
              else Some (mk (of_int (digits_val (ip @ fp)) * 10 powi (ex - int (length fp))), r3))"

definition parse_signed :: "jsstr \<Rightarrow> (jsnum \<times> jsstr) option" where
  "parse_signed s =
     (case s of [] \<Rightarrow> None
      | c # t \<Rightarrow> if c = 45 then map_option (\<lambda>(v, r). (jneg v, r)) (parse_unsigned t)
                 else if c = 43 then parse_unsigned t else parse_unsigned s)"

definition parse_float :: "jsstr \<Rightarrow> jsnum" where
  "parse_float s = (case parse_signed (trim_start s) of None \<Rightarrow> NaN | Some (v, _) \<Rightarrow> v)"

definition radix_digit :: "unit16 \<Rightarrow> int" where
  "radix_digit c = (if is_digit c then digit_val c else if 97 \<le> c \<and> c \<le> 122 then uint c - 87
     else if 65 \<le> c \<and> c \<le> 90 then uint c - 55 else 36)"

definition parse_radix :: "int \<Rightarrow> jsstr \<Rightarrow> jsnum" where
  "parse_radix b s = (if s = [] \<or> (\<exists>c \<in> set s. b \<le> radix_digit c) then NaN
     else mk (of_int (foldl (\<lambda>a c. b * a + radix_digit c) 0 s)))"

definition to_number :: "jsstr \<Rightarrow> jsnum" where
  "to_number s =
     (let t = trim s; p = toLowerCase (take 2 t)
      in if t = [] then Fin 0
         else if p = lit ''0x'' then parse_radix 16 (drop 2 t)
         else if p = lit ''0o'' then parse_radix 8 (drop 2 t)
         else if p = lit ''0b'' then parse_radix 2 (drop 2 t)
         else case parse_signed t of Some (v, []) \<Rightarrow> v | _ \<Rightarrow> NaN)"

lemma replicate_eval: "replicate (numeral k) x = x # replicate (pred_numeral k) x"
  by (simp add: numeral_eq_Suc)

lemmas string_eval [jeval] = replicate_eval is_space_def is_digit_def trim_start_def trim_def toUpperCase_def toLowerCase_def
  ends_with_def digit_def dec.simps digits_val_def digit_val_def zeros_def fixed_digits_def to_fixed_def
  group3_def strip_zeros_def to_locale_def parse_exponent_def parse_unsigned_def parse_signed_def parse_float_def
  to_number_def parse_radix_def radix_digit_def digits_try_def digit_counts_def layout_def pos_to_string_def num_to_string_def

subsection \<open>What the printed digits denote\<close>

text \<open>The exact value of a string of digits with at most one point.\<close>

definition decimal_val :: "jsstr \<Rightarrow> rat" where
  "decimal_val s =
     (let ip = takeWhile (\<lambda>c. c \<noteq> 46) s; fp = drop 1 (dropWhile (\<lambda>c. c \<noteq> 46) s)
      in of_int (digits_val (ip @ fp)) / 10 ^ length fp)"

lemma is_digit_neq: "is_digit c \<Longrightarrow> c \<noteq> 46" "is_digit c \<Longrightarrow> c \<noteq> 44" "is_digit c \<Longrightarrow> c \<noteq> 45"
  by (auto simp: is_digit_def)

lemma is_digit_48 [simp]: "is_digit 48"
  by (simp add: is_digit_def)

lemma digits_val_append: "digits_val (s @ t) = digits_val s * 10 ^ length t + digits_val t"
proof (induction t rule: rev_induct)
  case (snoc c t)
  then show ?case using digits_val_simps(2)[of "s @ t" c] by (simp add: algebra_simps)
qed simp

lemma digits_val_zeros [simp]: "digits_val (replicate n 48) = 0"
proof (induction n)
  case (Suc n)
  then show ?case using digits_val_append[of "[48]" "replicate n 48"] digits_val_simps(2)[of "[]" 48]
    by (simp add: digit_val_def)
qed simp

lemma decimal_val_point:
  assumes "\<forall>c \<in> set ip. is_digit c"
  shows "decimal_val (ip @ 46 # fp) = of_int (digits_val (ip @ fp)) / 10 ^ length fp"
proof -
  have ip: "\<forall>c \<in> set ip. c \<noteq> 46" using assms is_digit_neq by blast
  show ?thesis
    using takeWhile_stop[OF ip, of "46 # fp"] dropWhile_stop[OF ip, of "46 # fp"]
    by (simp add: decimal_val_def)
qed

lemma decimal_val_int:
  assumes "\<forall>c \<in> set ip. is_digit c"
  shows "decimal_val ip = of_int (digits_val ip)"
proof -
  have ip: "\<forall>c \<in> set ip. c \<noteq> 46" using assms is_digit_neq by blast
  then have e: "takeWhile (\<lambda>c. c \<noteq> 46) ip = ip" "dropWhile (\<lambda>c. c \<noteq> 46) ip = []" by auto
  show ?thesis unfolding decimal_val_def Let_def by (simp only: e) simp
qed

lemma fixed_digits_shape:
  assumes "0 \<le> q" "0 < f"
  obtains ip fp where "fixed_digits q f = ip @ 46 # fp" "ip \<noteq> []" "length fp = f"
    "\<forall>c \<in> set (ip @ fp). is_digit c" "digits_val (ip @ fp) = \<lfloor>q * 10 ^ f + 1 / 2\<rfloor>"
proof -
  let ?n = "\<lfloor>q * 10 ^ f + 1 / 2\<rfloor>"
  define p where "p = replicate (f + 1 - length (dec ?n)) 48 @ dec ?n"
  have n: "0 \<le> ?n" using assms by simp
  have len: "f < length p" by (simp add: p_def)
  have "fixed_digits q f = take (length p - f) p @ 46 # drop (length p - f) p"
    using assms by (simp add: fixed_digits_def Let_def p_def)
  moreover have "take (length p - f) p \<noteq> []" "length (drop (length p - f) p) = f" using len by auto
  moreover have "\<forall>c \<in> set p. is_digit c" "digits_val p = ?n"
    using dec_digits[OF n] digits_val_dec[OF n] by (auto simp: p_def digits_val_append)
  ultimately show ?thesis using that[of "take (length p - f) p" "drop (length p - f) p"] by simp
qed

lemma fixed_digits_0: "fixed_digits q 0 = dec \<lfloor>q + 1 / 2\<rfloor>"
  by (simp add: fixed_digits_def Let_def)

lemma decimal_val_fixed:
  assumes "0 \<le> q"
  shows "decimal_val (fixed_digits q f) = of_int \<lfloor>q * 10 ^ f + 1 / 2\<rfloor> / 10 ^ f"
proof (cases "f = 0")
  case True
  have "0 \<le> \<lfloor>q + 1 / 2\<rfloor>" using assms by simp
  then have "decimal_val (dec \<lfloor>q + 1 / 2\<rfloor>) = of_int \<lfloor>q + 1 / 2\<rfloor>"
    by (simp only: decimal_val_int[OF dec_digits] digits_val_dec)
  with True show ?thesis by (simp add: fixed_digits_0)
next
  case False
  with fixed_digits_shape[OF assms, of f] show ?thesis
    by (metis (no_types, lifting) Un_iff decimal_val_point gr0I set_append)
qed

lemma decimal_val_fixed_error:
  assumes "0 \<le> q"
  shows "\<bar>decimal_val (fixed_digits q f) - q\<bar> \<le> 1 / (2 * 10 ^ f)"
proof -
  let ?n = "of_int \<lfloor>q * 10 ^ f + 1 / 2\<rfloor> :: rat"
  have p: "(0::rat) < 10 ^ f" by simp
  have "\<bar>?n - q * 10 ^ f\<bar> \<le> 1 / 2" by linarith
  then have "\<bar>?n - q * 10 ^ f\<bar> / 10 ^ f \<le> 1 / 2 / 10 ^ f" using p by (intro divide_right_mono) auto
  moreover have "?n / 10 ^ f - q = (?n - q * 10 ^ f) / 10 ^ f" using p by (simp add: field_simps)
  then have "\<bar>?n / 10 ^ f - q\<bar> = \<bar>?n - q * 10 ^ f\<bar> / 10 ^ f" using p by (simp only: abs_divide abs_of_pos)
  ultimately show ?thesis using assms by (simp add: decimal_val_fixed)
qed

lemma group_rev_filter: "\<forall>c \<in> set s. c \<noteq> 44 \<Longrightarrow> filter (\<lambda>c. c \<noteq> 44) (group_rev s) = s"
  by (induction s rule: group_rev.induct) auto

lemma group3_filter: "\<forall>c \<in> set s. c \<noteq> 44 \<Longrightarrow> filter (\<lambda>c. c \<noteq> 44) (group3 s) = s"
  using group_rev_filter[of "rev s"] by (simp add: group3_def flip: rev_filter)

lemma to_locale_int:
  "to_locale (Fin (of_int n)) = (if n < 0 then lit ''-'' else []) @ group3 (dec \<bar>n\<bar>)"
proof -
  have "\<lfloor>\<bar>of_int n :: rat\<bar> * 1000 + 1 / 2\<rfloor> = \<bar>n\<bar> * 1000" by (intro floor_unique) auto
  then show ?thesis by (simp add: to_locale_def Let_def strip_zeros_def dec.simps[of 0] digit_def numeral_eq_Suc)
qed

text \<open>Printing an integer with separators loses nothing.\<close>

lemma to_locale_int_inj: "to_locale (Fin (of_int m)) = to_locale (Fin (of_int n)) \<longleftrightarrow> m = n"
proof
  assume eq: "to_locale (Fin (of_int m)) = to_locale (Fin (of_int n))"
  have f: "filter (\<lambda>c. c \<noteq> 44) (to_locale (Fin (of_int k))) = (if k < 0 then lit ''-'' else []) @ dec \<bar>k\<bar>" for k
    using dec_digits[of "\<bar>k\<bar>"] is_digit_neq(2) by (simp add: to_locale_int group3_filter)
  have of_char_minus: "of_char (CHR ''-'') = (45 :: unit16)" by simp
  have h: "hd (dec \<bar>k\<bar>) \<noteq> 45" for k
    using dec_digits[of "\<bar>k\<bar>"] is_digit_neq(3) by (metis abs_ge_zero dec_nonempty hd_in_set)
  from eq f[of m] f[of n] have
    e: "(if m < 0 then [45] else []) @ dec \<bar>m\<bar> = (if n < 0 then [45] else []) @ dec \<bar>n\<bar>" by (simp only: lit_simps of_char_minus)
  from arg_cong[OF e, of hd] have "m < 0 \<longleftrightarrow> n < 0" using h[of m] h[of n] by (auto split: if_splits)
  moreover from e this have "dec \<bar>m\<bar> = dec \<bar>n\<bar>" by (cases "n < 0") simp_all
  ultimately show "m = n" using dec_inject[of "\<bar>m\<bar>" "\<bar>n\<bar>"] by auto
qed simp

end
