(* ===== verification/Js_Sort.thy ===== *)
theory Js_Sort
  imports Js_Order
begin

text \<open>
  \<open>Array.prototype.sort\<close> with a comparator. A comparator returns a number; only the test
  "below zero" matters to a merge or insertion sort, and a comparator is usable when that
  test is a strict weak order on the elements that occur. The locale \<open>comparator\<close> states
  this contract with a carrier \<open>ok\<close> (the well-formed rows of a page), proves what sorting
  then gives, and that every stable sort gives the same list, so the insertion sort of the
  model stands for whatever algorithm the engine runs. The locale \<open>consistent\<close> adds the
  language's own condition on comparators, which some comparators of the code do not meet: those
  of the competitors (\<open>pages/needsKit.tsx\<close>) and of the cohorts (\<open>pages/Needs.tsx\<close>) answer 1 on
  ties. There the language leaves the order to the engine, and the model follows the engines,
  whose merge and insertion sorts test a comparator below zero only.
\<close>

subsection \<open>The operation\<close>

definition js_less :: "('a \<Rightarrow> 'a \<Rightarrow> jsnum) \<Rightarrow> 'a \<Rightarrow> 'a \<Rightarrow> bool" where
  "js_less cmp x y = jlt (cmp x y) (Fin 0)"

fun ins_by :: "('a \<Rightarrow> 'a \<Rightarrow> bool) \<Rightarrow> 'a \<Rightarrow> 'a list \<Rightarrow> 'a list" where
  "ins_by lt x [] = [x]"
| "ins_by lt x (y # ys) = (if lt y x then y # ins_by lt x ys else x # y # ys)"

definition sort_by :: "('a \<Rightarrow> 'a \<Rightarrow> bool) \<Rightarrow> 'a list \<Rightarrow> 'a list" where
  "sort_by lt xs = foldr (ins_by lt) xs []"

definition js_sort :: "('a \<Rightarrow> 'a \<Rightarrow> jsnum) \<Rightarrow> 'a list \<Rightarrow> 'a list" where
  "js_sort cmp xs = sort_by (js_less cmp) xs"

lemma sort_by_simps [simp]: "sort_by lt [] = []" "sort_by lt (x # xs) = ins_by lt x (sort_by lt xs)"
  by (simp_all add: sort_by_def)

lemma mset_ins_by [simp]: "mset (ins_by lt x ys) = add_mset x (mset ys)"
  by (induction ys) auto

lemma mset_sort_by [simp]: "mset (sort_by lt xs) = mset xs"
  by (induction xs) auto

lemma set_sort_by [simp]: "set (sort_by lt xs) = set xs"
  by (metis mset_sort_by set_mset_mset)

lemma length_sort_by [simp]: "length (sort_by lt xs) = length xs"
  by (metis mset_sort_by size_mset)

lemma distinct_sort_by [simp]: "distinct (sort_by lt xs) = distinct xs"
  by (metis mset_sort_by mset_eq_imp_distinct_iff)

lemma sort_by_Nil_iff [simp]: "sort_by lt xs = [] \<longleftrightarrow> xs = []"
  by (metis length_0_conv length_sort_by)

lemma js_sort_facts [simp]:
  "mset (js_sort cmp xs) = mset xs" "set (js_sort cmp xs) = set xs" "length (js_sort cmp xs) = length xs"
  "distinct (js_sort cmp xs) = distinct xs" "js_sort cmp xs = [] \<longleftrightarrow> xs = []"
  by (simp_all add: js_sort_def)

subsection \<open>Strict weak orders on a carrier\<close>

locale weak_order =
  fixes lt :: "'a \<Rightarrow> 'a \<Rightarrow> bool" and ok :: "'a \<Rightarrow> bool"
  assumes asym: "ok x \<Longrightarrow> ok y \<Longrightarrow> lt x y \<Longrightarrow> \<not> lt y x"
    and negtrans: "ok x \<Longrightarrow> ok y \<Longrightarrow> ok z \<Longrightarrow> lt x z \<Longrightarrow> lt x y \<or> lt y z"
begin

lemma irrefl: "ok x \<Longrightarrow> \<not> lt x x"
  using asym by blast

lemma trans: "ok x \<Longrightarrow> ok y \<Longrightarrow> ok z \<Longrightarrow> lt x y \<Longrightarrow> lt y z \<Longrightarrow> lt x z"
  using asym negtrans by blast

lemma not_lt_trans: "ok x \<Longrightarrow> ok y \<Longrightarrow> ok z \<Longrightarrow> \<not> lt y x \<Longrightarrow> \<not> lt z y \<Longrightarrow> \<not> lt z x"
  using negtrans by blast

lemma sorted_ins:
  assumes "ok x" "\<forall>y \<in> set ys. ok y" "sorted_wrt (\<lambda>a b. \<not> lt b a) ys"
  shows "sorted_wrt (\<lambda>a b. \<not> lt b a) (ins_by lt x ys)"
  using assms
proof (induction ys)
  case (Cons y ys)
  show ?case
  proof (cases "lt y x")
    case True
    moreover have "set (ins_by lt x ys) = insert x (set ys)"
      by (metis mset_ins_by set_mset_add_mset_insert set_mset_mset)
    ultimately show ?thesis using Cons asym[of y x] by auto
  next
    case False
    with Cons.prems show ?thesis using not_lt_trans[of x y] by auto
  qed
qed simp

lemma sorted_sort:
  assumes "\<forall>x \<in> set xs. ok x"
  shows "sorted_wrt (\<lambda>a b. \<not> lt b a) (sort_by lt xs)"
  using assms by (induction xs) (auto intro!: sorted_ins)

definition equiv :: "'a \<Rightarrow> 'a \<Rightarrow> bool" where
  "equiv x y \<longleftrightarrow> \<not> lt x y \<and> \<not> lt y x"

lemma stable_ins:
  assumes "ok x" "ok z" "\<forall>y \<in> set ys. ok y"
  shows "filter (equiv z) (ins_by lt x ys) = (if equiv z x then x # filter (equiv z) ys else filter (equiv z) ys)"
  using assms
proof (induction ys)
  case (Cons y ys)
  have "\<not> equiv z y" if "lt y x" "equiv z x"
    using that Cons.prems negtrans[of y z x] by (auto simp: equiv_def)
  with Cons show ?case by auto
qed simp

lemma stable_sort:
  assumes "ok z" "\<forall>x \<in> set xs. ok x"
  shows "filter (equiv z) (sort_by lt xs) = filter (equiv z) xs"
  using assms by (induction xs) (auto simp: stable_ins)

text \<open>Being a permutation in order, with equivalent elements in their old order, fixes the list.\<close>

lemma stable_unique:
  assumes "\<forall>x \<in> set xs. ok x" "mset ys = mset xs"
    and "sorted_wrt (\<lambda>a b. \<not> lt b a) xs" "sorted_wrt (\<lambda>a b. \<not> lt b a) ys"
    and "\<forall>z. ok z \<longrightarrow> filter (equiv z) ys = filter (equiv z) xs"
  shows "ys = xs"
  using assms
proof (induction xs arbitrary: ys)
  case Nil
  then show ?case by simp
next
  case (Cons x xs)
  then obtain y ys' where ys: "ys = y # ys'" by (cases ys) auto
  have sets: "insert y (set ys') = insert x (set xs)"
    using Cons.prems(2) by (metis ys list.simps(15) set_mset_mset)
  then have mem: "y = x \<or> y \<in> set xs" "x = y \<or> x \<in> set ys'" by auto
  have okx: "ok x" and oky: "ok y" using Cons.prems(1) mem by auto
  have "equiv x y"
    using mem Cons.prems(3,4) irrefl okx by (auto simp: equiv_def ys)
  then have "filter (equiv x) (y # ys') = y # filter (equiv x) ys'" by simp
  moreover have "filter (equiv x) (x # xs) = x # filter (equiv x) xs"
    using irrefl okx by (simp add: equiv_def)
  ultimately have "y = x" using Cons.prems(5) okx ys by (metis list.inject)
  have "ys' = xs"
  proof (rule Cons.IH)
    show "\<forall>z. ok z \<longrightarrow> filter (equiv z) ys' = filter (equiv z) xs"
    proof (intro allI impI)
      fix z assume "ok z"
      with Cons.prems(5) have "filter (equiv z) (y # ys') = filter (equiv z) (x # xs)" by (simp add: ys)
      with \<open>y = x\<close> show "filter (equiv z) ys' = filter (equiv z) xs" by (simp split: if_splits)
    qed
  qed (use Cons.prems ys \<open>y = x\<close> in auto)
  with \<open>y = x\<close> ys show ?case by simp
qed

lemma sort_unique:
  assumes "\<forall>x \<in> set xs. ok x" "mset ys = mset xs" "sorted_wrt (\<lambda>a b. \<not> lt b a) ys"
    and "\<forall>z. ok z \<longrightarrow> filter (equiv z) ys = filter (equiv z) xs"
  shows "ys = sort_by lt xs"
  using assms by (intro stable_unique) (auto simp: sorted_sort stable_sort)

lemma sort_of_sorted:
  assumes "\<forall>x \<in> set xs. ok x" "sorted_wrt (\<lambda>a b. \<not> lt b a) xs"
  shows "sort_by lt xs = xs"
  using sort_unique[of xs xs] assms by simp

lemma sort_idem: "\<forall>x \<in> set xs. ok x \<Longrightarrow> sort_by lt (sort_by lt xs) = sort_by lt xs"
  by (rule sort_of_sorted) (auto simp: sorted_sort)

text \<open>The head is minimal, and a prefix of the sorted list holds nothing that comes after the rest.\<close>

lemma sort_head_least:
  assumes "\<forall>x \<in> set xs. ok x" "sort_by lt xs = y # ys" "z \<in> set xs"
  shows "\<not> lt z y"
proof -
  have "sorted_wrt (\<lambda>a b. \<not> lt b a) (y # ys)" using sorted_sort[OF assms(1)] assms(2) by simp
  moreover have "z \<in> set (y # ys)" using assms by (metis set_sort_by)
  ultimately show ?thesis using assms irrefl by auto
qed

lemma take_sort_best:
  assumes "\<forall>x \<in> set xs. ok x" "a \<in> set (take n (sort_by lt xs))" "b \<in> set (drop n (sort_by lt xs))"
  shows "\<not> lt b a"
proof -
  have "sorted_wrt (\<lambda>a b. \<not> lt b a) (take n (sort_by lt xs) @ drop n (sort_by lt xs))"
    using sorted_sort[OF assms(1)] by simp
  then show ?thesis using assms by (simp only: sorted_wrt_append) blast
qed

end

locale comparator =
  fixes cmp :: "'a \<Rightarrow> 'a \<Rightarrow> jsnum" and ok :: "'a \<Rightarrow> bool"
  assumes less_asym: "ok x \<Longrightarrow> ok y \<Longrightarrow> js_less cmp x y \<Longrightarrow> \<not> js_less cmp y x"
    and less_negtrans: "ok x \<Longrightarrow> ok y \<Longrightarrow> ok z \<Longrightarrow> js_less cmp x z \<Longrightarrow> js_less cmp x y \<or> js_less cmp y z"

sublocale comparator \<subseteq> weak_order "js_less cmp" ok
  by unfold_locales (use less_asym less_negtrans in blast)+

lemma comparator_weak: "comparator cmp ok \<Longrightarrow> weak_order (js_less cmp) ok"
  unfolding comparator_def weak_order_def .

text \<open>The language asks that \<open>cmp x y\<close> be above zero exactly when \<open>cmp y x\<close> is below.\<close>

locale consistent = comparator +
  assumes mirror: "ok x \<Longrightarrow> ok y \<Longrightarrow> jlt (Fin 0) (cmp x y) \<longleftrightarrow> js_less cmp y x"
begin

lemma self_zero: "ok x \<Longrightarrow> \<not> jlt (cmp x x) (Fin 0) \<and> \<not> jlt (Fin 0) (cmp x x)"
  using mirror[of x x] irrefl[of x] by (simp add: js_less_def)

end

subsection \<open>Comparators shared by the pages\<close>

text \<open>\<open>(a, b) => f(b) - f(a)\<close>: by a number, largest first.\<close>

definition cmp_desc :: "('a \<Rightarrow> jsnum) \<Rightarrow> 'a \<Rightarrow> 'a \<Rightarrow> jsnum" where
  "cmp_desc f a b = jsub (f b) (f a)"

definition num_ok :: "('a \<Rightarrow> jsnum) \<Rightarrow> 'a \<Rightarrow> bool" where
  "num_ok f a \<longleftrightarrow> is_dbl (f a) \<and> f a \<noteq> NaN"

lemma js_less_desc: "num_ok f a \<Longrightarrow> num_ok f b \<Longrightarrow> js_less (cmp_desc f) a b \<longleftrightarrow> jlt (f b) (f a)"
  by (simp add: js_less_def cmp_desc_def num_ok_def jsub_sign)

interpretation desc: consistent "cmp_desc f" "num_ok f" for f :: "'a \<Rightarrow> jsnum"
proof
  fix x y z :: 'a
  assume x: "num_ok f x" and y: "num_ok f y"
  then show "js_less (cmp_desc f) x y \<Longrightarrow> \<not> js_less (cmp_desc f) y x"
    by (simp add: js_less_desc jlt_asym)
  show "jlt (Fin 0) (cmp_desc f x y) \<longleftrightarrow> js_less (cmp_desc f) y x"
    using x y by (simp add: js_less_desc) (simp add: cmp_desc_def num_ok_def jsub_sign)
  assume "num_ok f z"
  then show "js_less (cmp_desc f) x z \<Longrightarrow> js_less (cmp_desc f) x y \<or> js_less (cmp_desc f) y z"
    using x y jlt_negtrans[of "f z" "f x" "f y"] by (auto simp: js_less_desc num_ok_def)
qed

text \<open>
  \<open>(a, b) => p(a, b) ? -1 : p(b, a) ? 1 : 0\<close> and \<open>(a, b) => p(a, b) ? -1 : 1\<close>, from a
  precedence test.
\<close>

definition cmp_of :: "('a \<Rightarrow> 'a \<Rightarrow> bool) \<Rightarrow> 'a \<Rightarrow> 'a \<Rightarrow> jsnum" where
  "cmp_of p a b = (if p a b then Fin (- 1) else if p b a then Fin 1 else Fin 0)"

definition cmp_two :: "('a \<Rightarrow> 'a \<Rightarrow> bool) \<Rightarrow> 'a \<Rightarrow> 'a \<Rightarrow> jsnum" where
  "cmp_two p a b = (if p a b then Fin (- 1) else Fin 1)"

lemma js_less_of [simp]: "js_less (cmp_of p) = p" "js_less (cmp_two p) = p"
  by (auto simp: js_less_def cmp_of_def cmp_two_def jlt_def fun_eq_iff)

lemma cmp_of_pos: "jlt (Fin 0) (cmp_of p x y) \<longleftrightarrow> \<not> p x y \<and> p y x"
  by (simp add: cmp_of_def jlt_def)

lemma sort_of_two: "js_sort (cmp_two p) xs = js_sort (cmp_of p) xs"
  by (simp add: js_sort_def)

end
