(* ===== verification/Js_Collate.thy ===== *)
theory Js_Collate
  imports Js_String Js_Sort
begin

text \<open>
  The orders of strings. \<open>sort()\<close> without a comparator compares code units; \<open>localeCompare\<close> is
  a comparator that the environment provides and is a parameter \<open>lc\<close> of the components that
  call it. The order by code units interprets the contract of a comparator and so serves as
  an instance of that parameter.
\<close>

type_synonym collate = "jsstr \<Rightarrow> jsstr \<Rightarrow> jsnum"

fun unit_less :: "jsstr \<Rightarrow> jsstr \<Rightarrow> bool" where
  "unit_less s [] = False"
| "unit_less [] (d # t) = True"
| "unit_less (c # s) (d # t) = (c < d \<or> c = d \<and> unit_less s t)"

lemma unit_less_asym: "unit_less s t \<Longrightarrow> \<not> unit_less t s"
  by (induction s t rule: unit_less.induct) auto

lemma unit_less_negtrans: "unit_less s u \<Longrightarrow> unit_less s t \<or> unit_less t u"
proof (induction s u arbitrary: t rule: unit_less.induct)
  case (2 d u)
  then show ?case by (cases t) auto
next
  case (3 c s d u)
  then show ?case by (cases t) auto
qed simp

definition unit_collate :: collate where
  "unit_collate = cmp_of unit_less"

interpretation ucol: consistent unit_collate "\<lambda>_. True"
  by unfold_locales (auto simp: unit_collate_def cmp_of_pos unit_less_asym unit_less_negtrans)

text \<open>\<open>xs.sort()\<close> and \<open>xs.sort((a, b) => a.localeCompare(b))\<close>.\<close>

definition sort_strings :: "jsstr list \<Rightarrow> jsstr list" where
  "sort_strings xs = js_sort unit_collate xs"

lemma sort_strings_facts [simp]: "set (sort_strings xs) = set xs" "length (sort_strings xs) = length xs" "mset (sort_strings xs) = mset xs"
  by (simp_all add: sort_strings_def)

end
