(* ===== verification/Format.thy ===== *)
theory Format
  imports Js_Collate
begin

text \<open>
  \<open>ui/src/lib/format.ts\<close>: every string the dashboard shows for a number, a Kubernetes
  quantity, a penalty bucket or an age. An argument of type \<open>T | undefined | null\<close> is an
  \<open>option\<close>; an object used as a dictionary is its list of entries in enumeration order, with
  distinct keys. The locale's collation (\<open>localeCompare\<close>) and \<open>Math.log2\<close>, whose result the
  language leaves to the implementation, are the parameters \<open>lc\<close> and \<open>lg\<close>.
\<close>

subsection \<open>Constants and helpers of the language\<close>

definition em_dash :: jsstr where "em_dash = [0x2014]"
definition micro_s :: jsstr where "micro_s = [32, 0xB5, 115]"
definition dot_sep :: jsstr where "dot_sep = [32, 0xB7, 32]"

text \<open>The literals \<open>1e-3\<close> and \<open>0.01\<close>, and \<open>x || 0\<close>.\<close>

definition lit_milli :: jsnum where "lit_milli = mk (1 / 1000)"
definition lit_centi :: jsnum where "lit_centi = mk (1 / 100)"

definition or_zero :: "jsnum \<Rightarrow> jsnum" where
  "or_zero x = (if x = NaN \<or> x = NZero then Fin 0 else x)"

subsection \<open>Durations, counts, rates\<close>

definition formatDuration :: "jsnum option \<Rightarrow> jsstr" where
  "formatDuration seconds =
     (case seconds of None \<Rightarrow> em_dash
      | Some s \<Rightarrow>
        if \<not> is_fin s \<or> jlt s (Fin 0) then em_dash
        else if jlt s lit_milli then num_to_string (jround (jmul s (Fin 1000000))) @ micro_s
        else if jlt s (Fin 1) then num_to_string (jround (jmul s (Fin 1000))) @ lit '' ms''
        else if jlt s (Fin 60) then to_fixed s 2 @ lit '' s''
        else let m = jfloor (jdiv s (Fin 60)); r = jround (jsub s (jmul m (Fin 60)))
             in num_to_string m @ lit ''m '' @ num_to_string r @ lit ''s'')"

definition formatInt :: "jsnum option \<Rightarrow> jsstr" where
  "formatInt n = (case n of None \<Rightarrow> em_dash | Some x \<Rightarrow> if is_fin x then to_locale (jround x) else em_dash)"

definition formatRate :: "jsnum option \<Rightarrow> jsstr" where
  "formatRate perSec =
     (case perSec of None \<Rightarrow> em_dash
      | Some r \<Rightarrow>
        if \<not> is_fin r then em_dash
        else if jeq r (Fin 0) then lit ''0/s''
        else if jlt r lit_centi then to_fixed (jmul r (Fin 60)) 2 @ lit ''/min''
        else to_fixed r 2 @ lit ''/s'')"

definition formatPenaltyBucket :: "jsstr \<Rightarrow> jsstr" where
  "formatPenaltyBucket b =
     (if b = lit ''pinned'' then lit ''Pinned''
      else if b = lit ''unspecified'' then lit ''unspec.''
      else let n = to_number b in
        if \<not> is_fin n then b
        else if jeq n (Fin 0) then lit ''$0''
        else if jlt n (Fin 1) then lit ''$'' @ num_to_string n
        else if jle (Fin 1000000) n then
          lit ''$'' @ to_fixed (jdiv n (Fin 1000000)) (if jeq (jmod n (Fin 1000000)) (Fin 0) then 0 else 1) @ lit ''M''
        else if jle (Fin 1000) n then
          lit ''$'' @ to_fixed (jdiv n (Fin 1000)) (if jeq (jmod n (Fin 1000)) (Fin 0) then 0 else 1) @ lit ''K''
        else lit ''$'' @ num_to_string n)"

subsection \<open>Kubernetes quantities\<close>

text \<open>\<open>.replace(/\.0+$/, "")\<close>, then \<open>.replace(/(\.[0-9]*?)0+$/, "$1")\<close>.\<close>

fun drop_point_zeros :: "jsstr \<Rightarrow> jsstr" where
  "drop_point_zeros [] = []"
| "drop_point_zeros (c # s) =
     (if c = 46 \<and> s \<noteq> [] \<and> list_all (\<lambda>d. d = 48) s then [] else c # drop_point_zeros s)"

fun trim_fraction :: "jsstr \<Rightarrow> jsstr" where
  "trim_fraction [] = []"
| "trim_fraction (c # s) =
     (if c = 46 \<and> s \<noteq> [] \<and> list_all is_digit s \<and> last s = 48 then c # strip_zeros s
      else c # trim_fraction s)"

definition trimNum :: "jsnum \<Rightarrow> nat \<Rightarrow> jsstr" where
  "trimNum n dp = (if is_fin n then trim_fraction (drop_point_zeros (to_fixed n dp)) else lit ''0'')"

definition is_line_end :: "unit16 \<Rightarrow> bool" where
  "is_line_end c \<longleftrightarrow> c = 10 \<or> c = 13 \<or> c = 0x2028 \<or> c = 0x2029"

definition shortResourceKey :: "jsstr \<Rightarrow> jsstr" where
  "shortResourceKey k =
     (let k1 = (if has_prefix (lit ''nvidia.com/'') k then drop 11 k else k);
          line = takeWhile (\<lambda>c. \<not> is_line_end c) k1
      in if 47 \<in> set line then rev (takeWhile (\<lambda>c. c \<noteq> 47) (rev line)) @ dropWhile (\<lambda>c. \<not> is_line_end c) k1
         else k1)"

definition BINARY_UNITS :: "(jsstr \<times> jsnum) list" where
  "BINARY_UNITS =
     [(lit ''Pi'', Fin (1024 ^ 5)), (lit ''Ti'', Fin (1024 ^ 4)), (lit ''Gi'', Fin (1024 ^ 3)),
      (lit ''Mi'', Fin (1024 ^ 2)), (lit ''Ki'', Fin 1024)]"

text \<open>
  The suffix table, and what an indexed read of it gives: a name that every object inherits
  (\<open>toString\<close> and the like) reads as a function, which counts as \<open>NaN\<close> in a product.
\<close>

definition QTY_SUFFIX :: "(jsstr \<times> jsnum) list" where
  "QTY_SUFFIX =
     [(lit '''', Fin 1), (lit ''m'', lit_milli), (lit ''k'', Fin 1000), (lit ''M'', Fin 1000000),
      (lit ''G'', Fin (10 ^ 9)), (lit ''T'', Fin (10 ^ 12)), (lit ''P'', Fin (10 ^ 15)),
      (lit ''Ki'', Fin 1024), (lit ''Mi'', Fin (1024 ^ 2)), (lit ''Gi'', Fin (1024 ^ 3)),
      (lit ''Ti'', Fin (1024 ^ 4)), (lit ''Pi'', Fin (1024 ^ 5))]"

definition inherited_names :: "jsstr list" where
  "inherited_names =
     [lit ''constructor'', lit ''hasOwnProperty'', lit ''isPrototypeOf'', lit ''propertyIsEnumerable'',
      lit ''toLocaleString'', lit ''toString'', lit ''valueOf'']"

definition qty_suffix :: "jsstr \<Rightarrow> jsnum option" where
  "qty_suffix s =
     (case map_of QTY_SUFFIX s of Some v \<Rightarrow> Some v | None \<Rightarrow> if s \<in> set inherited_names then Some NaN else None)"

datatype QtyKind = Cpu | Bytes | Count

definition qtyKind :: "jsstr \<Rightarrow> jsstr \<Rightarrow> QtyKind" where
  "qtyKind key raw =
     (let sk = shortResourceKey key in
      if sk = lit ''cpu'' then Cpu
      else if sk = lit ''memory'' \<or> str_includes (lit ''storage'') sk then Bytes
      else if list_ex (ends_with (trim raw)) [lit ''Ki'', lit ''Mi'', lit ''Gi'', lit ''Ti'', lit ''Pi''] then Bytes
      else Count)"

text \<open>The match of \<open>/^([0-9.]+)\s*([a-zA-Z]*)$/\<close>: the number and the suffix.\<close>

definition quantity_match :: "jsstr \<Rightarrow> (jsstr \<times> jsstr) option" where
  "quantity_match t =
     (let numeric = (\<lambda>c. is_digit c \<or> c = 46); num = takeWhile numeric t; rest = trim_start (dropWhile numeric t)
      in if num \<noteq> [] \<and> list_all is_letter rest then Some (num, rest) else None)"

definition parseQuantity :: "jsstr option \<Rightarrow> jsnum" where
  "parseQuantity s =
     (case s of None \<Rightarrow> Fin 0
      | Some r \<Rightarrow>
        if r = [] then Fin 0
        else case quantity_match (trim r) of
          None \<Rightarrow> or_zero (parse_float r)
        | Some (num, suffix) \<Rightarrow>
            jmul (or_zero (parse_float num)) (case qty_suffix suffix of Some v \<Rightarrow> v | None \<Rightarrow> Fin 1))"

fun fmt_bytes_from :: "(jsstr \<times> jsnum) list \<Rightarrow> jsnum \<Rightarrow> jsstr" where
  "fmt_bytes_from [] bytes = trimNum bytes 0 @ lit '' B''"
| "fmt_bytes_from ((unit, k) # us) bytes =
     (if jle k bytes then trimNum (jdiv bytes k) 1 @ lit '' '' @ unit else fmt_bytes_from us bytes)"

definition fmtBytes :: "jsnum \<Rightarrow> jsstr" where
  "fmtBytes bytes = fmt_bytes_from BINARY_UNITS bytes"

definition formatQuantityValue :: "jsstr \<Rightarrow> jsstr option \<Rightarrow> jsstr" where
  "formatQuantityValue key raw =
     (case raw of None \<Rightarrow> em_dash
      | Some r \<Rightarrow> (case qtyKind key r of Cpu \<Rightarrow> trimNum (parseQuantity (Some r)) 2
          | Bytes \<Rightarrow> fmtBytes (parseQuantity (Some r)) | Count \<Rightarrow> trimNum (parseQuantity (Some r)) 2))"

definition formatQuantity :: "jsstr \<Rightarrow> jsstr option \<Rightarrow> jsstr" where
  "formatQuantity key raw =
     (case raw of None \<Rightarrow> em_dash
      | Some r \<Rightarrow>
        let sk = shortResourceKey key; v = formatQuantityValue key raw
        in if qtyKind key r = Bytes then (if sk = lit ''memory'' then v else v @ lit '' '' @ sk)
           else v @ lit '' '' @ sk)"

text \<open>\<open>(a, b) => a[0].localeCompare(b[0])\<close>.\<close>

definition cmp_key :: "(jsstr \<Rightarrow> jsstr \<Rightarrow> jsnum) \<Rightarrow> jsstr \<times> 'v \<Rightarrow> jsstr \<times> 'v \<Rightarrow> jsnum" where
  "cmp_key lc a b = lc (fst a) (fst b)"

definition formatResources :: "collate \<Rightarrow> (jsstr \<times> jsstr) list option \<Rightarrow> jsstr" where
  "formatResources lc m =
     (case m of None \<Rightarrow> em_dash
      | Some es \<Rightarrow>
        let parts = js_sort (cmp_key lc) es
        in if parts = [] then em_dash else join dot_sep (map (\<lambda>(k, v). formatQuantity k (Some v)) parts))"

definition rawResources :: "collate \<Rightarrow> (jsstr \<times> jsstr) list option \<Rightarrow> jsstr" where
  "rawResources lc m =
     (case m of None \<Rightarrow> []
      | Some es \<Rightarrow> join (lit '' '') (map (\<lambda>(k, v). shortResourceKey k @ lit ''='' @ v) (js_sort (cmp_key lc) es)))"

subsection \<open>Penalty buckets\<close>

definition PENALTY_LADDER_MAX :: jsnum where "PENALTY_LADDER_MAX = Fin 27"

definition bucket_dollars :: "jsstr \<Rightarrow> jsnum" where
  "bucket_dollars b = parse_float (filter (\<lambda>c. is_digit c \<or> c = 46) b)"

definition penaltyOrdinal :: "(jsnum \<Rightarrow> jsnum) \<Rightarrow> jsstr option \<Rightarrow> jsnum" where
  "penaltyOrdinal lg bucket =
     (case bucket of None \<Rightarrow> Fin 0
      | Some s \<Rightarrow>
        if s = [] then Fin 0
        else let b = toUpperCase s in
          if b = lit ''UNSPECIFIED'' \<or> b = [] then Fin 0
          else if b = lit ''ZERO'' \<or> b = lit ''$0'' then Fin 1
          else if b = lit ''HALF_DOLLAR'' \<or> b = lit ''$0.50'' then Fin 2
          else if b = lit ''PINNED'' then PENALTY_LADDER_MAX
          else let n = bucket_dollars b in
            if \<not> is_fin n \<or> jle n (Fin 0) then Fin 0 else jadd (jround (lg n)) (Fin 3))"

definition formatPenalty :: "jsstr option \<Rightarrow> jsstr" where
  "formatPenalty bucket =
     (case bucket of None \<Rightarrow> lit ''unset''
      | Some s \<Rightarrow>
        if s = [] then lit ''unset''
        else let b = toUpperCase s in
          if b = lit ''UNSPECIFIED'' then lit ''unset''
          else if b = lit ''ZERO'' \<or> b = lit ''$0'' then lit ''$0''
          else if b = lit ''HALF_DOLLAR'' then lit ''$0.50''
          else if b = lit ''PINNED'' then lit ''pinned''
          else let n = bucket_dollars b in
            if \<not> is_fin n then s
            else if jle (Fin 1000000) n then lit ''$'' @ trimNum (jdiv n (Fin 1000000)) 1 @ lit ''M''
            else if jle (Fin 1000) n then lit ''$'' @ trimNum (jdiv n (Fin 1000)) 1 @ lit ''K''
            else lit ''$'' @ to_locale n)"

subsection \<open>Priorities, percentages, ages\<close>

definition formatPriorityCompact :: "jsnum option \<Rightarrow> jsstr" where
  "formatPriorityCompact p =
     (case p of None \<Rightarrow> em_dash
      | Some x \<Rightarrow>
        if \<not> is_fin x then em_dash
        else if jle (Fin (10 ^ 9)) (jabs x) then trimNum (jdiv x (Fin (10 ^ 9))) 1 @ lit ''B''
        else if jle (Fin (10 ^ 6)) (jabs x) then trimNum (jdiv x (Fin (10 ^ 6))) 1 @ lit ''M''
        else to_locale (jround x))"

definition formatPercent :: "jsnum option \<Rightarrow> nat \<Rightarrow> jsstr" where
  "formatPercent fraction digits =
     (case fraction of None \<Rightarrow> em_dash
      | Some x \<Rightarrow> if is_fin x then to_fixed (jmul x (Fin 100)) digits @ lit ''%'' else em_dash)"

definition formatRelative :: "jsnum option \<Rightarrow> jsnum \<Rightarrow> jsstr" where
  "formatRelative unixSec nowSec =
     (case unixSec of None \<Rightarrow> em_dash
      | Some t \<Rightarrow>
        if jle t (Fin 0) \<or> \<not> is_fin t then em_dash
        else let delta = jsub nowSec t in
          if jlt delta (Fin 60) then num_to_string (jround delta) @ lit ''s ago''
          else if jlt delta (Fin 3600) then num_to_string (jround (jdiv delta (Fin 60))) @ lit ''m ago''
          else if jlt delta (Fin 86400) then num_to_string (jround (jdiv delta (Fin 3600))) @ lit ''h ago''
          else num_to_string (jround (jdiv delta (Fin 86400))) @ lit ''d ago'')"

lemmas format_eval [jeval] = em_dash_def micro_s_def dot_sep_def lit_milli_def lit_centi_def or_zero_def
  formatDuration_def formatInt_def formatRate_def formatPenaltyBucket_def trimNum_def is_line_end_def
  shortResourceKey_def BINARY_UNITS_def QTY_SUFFIX_def inherited_names_def qty_suffix_def qtyKind_def
  is_letter_def quantity_match_def parseQuantity_def fmtBytes_def formatQuantityValue_def formatQuantity_def
  cmp_key_def formatResources_def rawResources_def PENALTY_LADDER_MAX_def bucket_dollars_def penaltyOrdinal_def
  formatPenalty_def formatPriorityCompact_def formatPercent_def formatRelative_def js_sort_def js_less_def

end
