(* ===== verification/Js_Print.thy ===== *)
theory Js_Print
  imports Js_String
begin

text \<open>
  Printing and reading back integers. The search for the shortest digits behind \<open>String(n)\<close>
  yields the plain decimal numeral for every integer below \<open>2 ^ 53\<close>, and \<open>parseFloat\<close> reads
  such a numeral back exactly, so counts survive the trip through the page's text.
\<close>

lemma mk_of_int: assumes "\<bar>n\<bar> \<le> 2 ^ 53" shows "mk (of_int n) = Fin (of_int n)"
proof -
  have "n \<le> 9007199254740992" "- 9007199254740992 \<le> n" using assms by (simp_all add: abs_le_iff)
  then have n: "(of_int n :: rat) \<le> 9007199254740992" "- 9007199254740992 \<le> (of_int n :: rat)"
    by linarith+
  moreover have "(9007199254740992 :: rat) < 2 ^ 1024" by simp
  ultimately have "(of_int n :: rat) < 2 ^ 1024" "- (2 ^ 1024) < (of_int n :: rat)" by linarith+
  then show ?thesis using fl_of_int[OF assms] by (simp add: mk_def Let_def del: power_numeral of_int_less_iff)
qed

lemma mk_int_inverse:
  assumes "mk (of_int j) = Fin (of_int n)" "0 \<le> n" "n < 2 ^ 53" "0 \<le> j"
  shows "j = n"
proof (cases "j < 2 ^ 53")
  case True
  then show ?thesis using mk_of_int[of j] assms by simp
next
  case False
  then have "(2::rat) ^ 53 \<le> of_int j" by (metis linorder_not_less of_int_le_iff of_int_numeral of_int_power)
  moreover have "dyadic53 (2 ^ 53)" using dyadic53_powi[of 53] by simp
  ultimately have "2 ^ 53 \<le> fl (of_int j)" by (rule fl_ge_dyadic)
  moreover have "fl (of_int j) = of_int n" using assms(1) by (simp add: mk_def Let_def split: if_splits)
  ultimately have "(2::rat) ^ 53 \<le> of_int n" by simp
  then have "(2::int) ^ 53 \<le> n" by (metis of_int_le_iff of_int_numeral of_int_power)
  with assms show ?thesis by simp
qed

lemma dec_times_power: "0 < s \<Longrightarrow> dec (s * 10 ^ j) = dec s @ replicate j 48"
proof (induction j)
  case (Suc j)
  have "1 \<le> s * 10 ^ j" using Suc.prems by (simp add: int_one_le_iff_zero_less)
  then have "dec (s * 10 ^ Suc j) = dec (s * 10 ^ j) @ [digit 0]"
    by (subst dec.simps) (simp add: mult.left_commute[of s 10])
  also have "\<dots> = (dec s @ replicate j 48) @ [48]" using Suc by (simp add: digit_def)
  finally show ?case by (simp add: replicate_append_same)
qed simp

lemma length_dec: "10 ^ k \<le> n \<Longrightarrow> n < 10 ^ Suc k \<Longrightarrow> length (dec n) = Suc k"
proof (induction k arbitrary: n)
  case 0
  then show ?case by (simp add: dec.simps[of n])
next
  case (Suc k)
  have p: "(1::int) \<le> 10 ^ k" by simp
  have "10 ^ k \<le> n div 10" "n div 10 < 10 ^ Suc k" using Suc.prems by auto
  from Suc.IH[OF this] have "length (dec (n div 10)) = Suc k" .
  moreover have "10 * 1 \<le> 10 * (10::int) ^ k" using p by (intro mult_left_mono) auto
  then have "\<not> n < 10" using Suc.prems(1) by (simp only: power_Suc not_less)
  ultimately show ?case by (simp add: dec.simps[of n])
qed

lemma flogb10_int: assumes "10 ^ k \<le> n" "n < 10 ^ Suc k" shows "flogb 10 (of_int n) = int k"
proof (rule flogb_eqI)
  have "(10::rat) ^ k \<le> of_int n" "of_int n < (10::rat) ^ Suc k"
    using assms by (metis of_int_le_iff of_int_numeral of_int_power, metis of_int_less_iff of_int_numeral of_int_power)
  moreover have "(10::rat) powi (int k + 1) = 10 ^ Suc k" by (simp add: power_int_add)
  ultimately show "of_int 10 powi int k \<le> (of_int n :: rat)" "(of_int n :: rat) < of_int 10 powi (int k + 1)" by simp_all
qed simp

lemma int_power_interval: "1 \<le> (n::int) \<Longrightarrow> \<exists>k. 10 ^ k \<le> n \<and> n < 10 ^ Suc k"
  using ilogb_bounds[of 10 n] by auto

text \<open>With no more digits than the integer has, a digit string that rounds back is exact.\<close>

lemma digits_try_int:
  assumes n: "0 < n" "n < 2 ^ 53" and k: "1 \<le> k" "k \<le> int l" and tr: "digits_try (of_int n) (int l) k = Some s"
  shows "s * 10 ^ nat (int l - k) = n"
proof -
  let ?w = "10 ^ nat (int l - k) :: int"
  have w: "(10::rat) powi (int l - k) = of_int ?w" using k by (simp add: power_int_def)
  from tr have "mk (of_int s * of_int ?w) = Fin (of_int n) \<and> \<lfloor>of_int n / (of_int ?w :: rat)\<rfloor> \<le> s"
    by (auto simp: digits_try_def Let_def w split: if_splits simp del: of_int_power)
  then have e: "mk (of_int (s * ?w)) = Fin (of_int n)" and lo: "n div ?w \<le> s"
    by (simp_all add: floor_divide_of_int_eq del: of_int_power)
  have "0 \<le> n div ?w" using n by (simp add: pos_imp_zdiv_nonneg_iff)
  with lo have "0 \<le> s * ?w" by simp
  from mk_int_inverse[OF e _ n(2) this] n show ?thesis by simp
qed

lemma digits_try_full:
  assumes "0 < n" "n < 2 ^ 53"
  shows "digits_try (of_int n) (int l) (int l) = Some n"
  using mk_of_int[of n] assms by (simp add: digits_try_def Let_def)

lemma shortest_int:
  assumes n: "0 < n" "n < 2 ^ 53" "n < 10 ^ l" and ks: "int l \<in> set ks" "sorted ks" "\<forall>k \<in> set ks. 1 \<le> k"
  shows "\<exists>s j. shortest (of_int n) (int l) ks = (s, int l) \<and> 0 < s \<and> s * 10 ^ j = n"
  using ks
proof (induction ks)
  case (Cons k ks)
  then have k: "1 \<le> k" "k \<le> int l" by auto
  show ?case
  proof (cases "digits_try (of_int n) (int l) k")
    case None
    then have "k \<noteq> int l" using digits_try_full[OF n(1,2)] by auto
    with Cons None show ?thesis by auto
  next
    case (Some s)
    from digits_try_int[OF n(1,2) k Some] have s: "s * 10 ^ nat (int l - k) = n" .
    have "s \<noteq> 10 ^ nat k"
    proof
      assume "s = 10 ^ nat k"
      then have "n = 10 ^ (nat k + nat (int l - k))" using s by (simp add: power_add)
      also have "nat k + nat (int l - k) = l" using k by simp
      finally show False using n by simp
    qed
    moreover have "0 < s" using s n by (metis zero_less_mult_pos2 zero_less_numeral zero_less_power)
    ultimately show ?thesis using Some s by auto
  qed
qed simp

theorem num_to_string_nat:
  assumes "0 \<le> n" "n < 2 ^ 53"
  shows "num_to_string (Fin (of_int n)) = dec n"
proof (cases "n = 0")
  case True
  then show ?thesis by (simp add: num_to_string_def dec.simps[of 0] digit_def)
next
  case False
  with assms have n: "0 < n" by simp
  then obtain k where k: "10 ^ k \<le> n" "n < 10 ^ Suc k" using int_power_interval[of n] by auto
  have "(10::int) ^ k < 10 ^ 16" using k(1) assms(2) by simp
  then have k16: "k < 16" using power_less_imp_less_exp by (metis one_less_numeral_iff semiring_norm(76))
  have mem: "int (Suc k) \<in> set digit_counts" "sorted digit_counts" "\<forall>k \<in> set digit_counts. 1 \<le> k"
    using k16 by (simp add: digit_counts_def, presburger) (simp_all add: digit_counts_def)
  from shortest_int[OF n assms(2) k(2) mem] obtain s j where
    sj: "shortest (of_int n) (int (Suc k)) digit_counts = (s, int (Suc k))" "0 < s" "s * 10 ^ j = n" by auto
  have d: "dec n = dec s @ replicate j 48" using dec_times_power[OF sj(2), of j] sj(3) by simp
  have len: "length (dec s) + j = Suc k" using length_dec[OF k] d by simp
  have "layout (dec s) (int (Suc k)) = dec s @ zeros (int j)"
  proof -
    have "int (Suc k) - int (length (dec s)) = int j" "int (length (dec s)) \<le> int (Suc k)" "int (Suc k) \<le> 21"
      using len k16 by simp_all
    then show ?thesis by (simp only: layout_def Let_def if_True simp_thms)
  qed
  then show ?thesis using n d sj flogb10_int[OF k]
    by (simp add: num_to_string_def pos_to_string_def zeros_def add.commute)
qed

lemma num_to_string_int:
  assumes "\<bar>n\<bar> < 2 ^ 53"
  shows "num_to_string (Fin (of_int n)) = (if n < 0 then lit ''-'' else []) @ dec \<bar>n\<bar>"
proof (cases "n < 0")
  case True
  have "num_to_string (Fin (of_int (- n))) = dec (- n)" using True assms by (intro num_to_string_nat) auto
  with True show ?thesis by (simp add: num_to_string_def)
next
  case False
  with assms show ?thesis by (simp add: num_to_string_nat)
qed

subsection \<open>Reading a numeral back\<close>

lemma parse_unsigned_digits:
  assumes "ds \<noteq> []" "\<forall>c \<in> set ds. is_digit c" "rest = [] \<or> \<not> is_digit (hd rest)" "rest = [] \<or> hd rest \<noteq> 46"
    "parse_exponent rest = (0, rest)"
  shows "parse_unsigned (ds @ rest) = Some (mk (of_int (digits_val ds)), rest)"
proof -
  define u where "u = ds @ rest"
  have "\<not> has_prefix (lit ''Infinity'') u"
    using assms(1,2) by (cases ds) (auto simp: is_digit_def u_def)
  moreover have "takeWhile is_digit u = ds" "dropWhile is_digit u = rest"
    unfolding u_def by (rule takeWhile_stop[OF assms(2,3)], rule dropWhile_stop[OF assms(2,3)])
  ultimately have "parse_unsigned u = Some (mk (of_int (digits_val ds)), rest)"
    using assms(1,4,5) by (cases rest) (simp_all add: parse_unsigned_def Let_def del: dropWhile_eq_Nil_conv)
  then show ?thesis by (simp add: u_def)
qed

lemma is_digit_not_space: "is_digit c \<Longrightarrow> \<not> is_space c"
  by (auto simp: is_digit_def is_space_def word_le_nat_alt)

lemma parse_float_digits:
  assumes "ds \<noteq> []" "\<forall>c \<in> set ds. is_digit c"
  shows "parse_float ds = mk (of_int (digits_val ds))"
proof -
  obtain c t where ds: "ds = c # t" using assms(1) by (cases ds) auto
  then have c: "is_digit c" "c \<noteq> 45" "c \<noteq> 43" using assms(2) by (auto simp: is_digit_def)
  have "parse_unsigned ds = Some (mk (of_int (digits_val ds)), [])"
    using parse_unsigned_digits[OF assms, of "[]"] by (simp add: parse_exponent_def)
  then show ?thesis using c ds is_digit_not_space[OF c(1)]
    by (simp add: parse_float_def trim_start_def parse_signed_def)
qed

lemma parse_float_dec: "0 \<le> n \<Longrightarrow> n \<le> 2 ^ 53 \<Longrightarrow> parse_float (dec n) = Fin (of_int n)"
  by (simp add: parse_float_digits dec_digits digits_val_dec mk_of_int)

end
