(* ===== verification/Js_Exact.thy ===== *)
theory Js_Exact
  imports Js_Order
begin

text \<open>
  Where rounding does not show. Splitting a duration into minutes and seconds divides by an
  integer, takes the floor and subtracts; below \<open>2 ^ 53\<close> the floor of the rounded quotient is
  the floor of the exact one and the remainder is computed exactly, so the split is the one
  of exact arithmetic.
\<close>

lemma fl_error: assumes "0 < x" shows "\<bar>fl x - x\<bar> \<le> 2 powi ulp_exp x / 2"
proof -
  let ?u = "(2::rat) powi ulp_exp x"
  have "\<bar>of_int (rhe (x / ?u)) - x / ?u\<bar> * ?u \<le> 1 / 2 * ?u"
    using rhe_error[of "x / ?u"] by (intro mult_right_mono) auto
  moreover have "\<bar>of_int (rhe (x / ?u)) - x / ?u\<bar> * ?u = \<bar>(of_int (rhe (x / ?u)) - x / ?u) * ?u\<bar>"
    by (simp add: abs_mult)
  moreover have "(of_int (rhe (x / ?u)) - x / ?u) * ?u = fl x - x"
    using assms by (simp add: fl_def Let_def left_diff_distrib)
  ultimately show ?thesis by simp
qed

text \<open>A double below \<open>2 ^ 53\<close> lies on the integer grid of its last bit, and so do the integers.\<close>

lemma grid:
  assumes "dyadic53 s" "1 \<le> s" "s < 2 ^ 53"
  obtains e m where "-1074 \<le> e" "e \<le> 0" "s = of_int m * 2 powi e" "s < 2 powi (e + 53)" "2 powi (e + 52) \<le> s"
proof -
  let ?e = "flogb 2 s - 52"
  have "0 \<le> flogb 2 s" using assms(2) by (intro flogb_ge) auto
  moreover have "flogb 2 s < 53" using assms by (intro flogb_less) auto
  ultimately have e: "- 1074 \<le> ?e" "?e \<le> 0" "ulp_exp s = ?e" using assms(2) by (auto simp: ulp_exp_def)
  have "s = fl s" using assms(1) by (simp add: dyadic53_iff)
  also have "\<dots> = of_int (rhe (s / 2 powi ?e)) * 2 powi ?e" using assms(2) e(3) by (simp add: fl_def Let_def)
  finally have "s = of_int (rhe (s / 2 powi ?e)) * 2 powi ?e" .
  moreover have "s < 2 powi (?e + 53)" "2 powi (?e + 52) \<le> s" using flogb_bounds[of 2 s] assms(2) by (simp_all add: algebra_simps)
  ultimately show ?thesis using that e by blast
qed

lemma int_on_grid: "e \<le> 0 \<Longrightarrow> of_int n = (of_int (n * 2 ^ nat (- e)) :: rat) * 2 powi e"
  using powi2_int[of "- e"] powi2_split[of "- e" e] by (simp add: mult.assoc flip: of_int_power)

lemma powi2_neg53: "(2::rat) powi (e - 53) = 2 powi e / 2 ^ 53"
  using powi2_split[of "e - 53" 53] by simp

text \<open>The rounded quotient by an integer has the floor of the exact one.\<close>

lemma floor_quotient:
  assumes s: "dyadic53 s" "s < 2 ^ 53" and c: "1 \<le> c" "of_int c \<le> s"
  shows "\<lfloor>fl (s / of_int c)\<rfloor> = \<lfloor>s / of_int c\<rfloor>"
proof -
  let ?x = "s / of_int c" and ?k = "\<lfloor>s / of_int c\<rfloor>"
  have c1: "(1::rat) \<le> of_int c" using c by simp
  then have s1: "1 \<le> s" using c by linarith
  have x1: "1 \<le> ?x" using c c1 by (simp add: pos_le_divide_eq)
  have "?x \<le> s" using c1 s1 by (simp add: pos_divide_le_eq mult_le_cancel_left1)
  with s have x53: "?x < 9007199254740992" by simp
  have kb: "of_int ?k \<le> ?x" "?x < of_int ?k + 1" by linarith+
  then have k: "1 \<le> ?k" "?k < 9007199254740992" using x1 x53 by linarith+
  have d: "dyadic53 (of_int ?k)" "dyadic53 (of_int (?k + 1))" by (rule dyadic53_int; use k in simp)+
  have lo: "of_int ?k \<le> fl ?x" using kb d by (intro fl_ge_dyadic) auto
  have "fl ?x \<noteq> of_int (?k + 1)"
  proof
    assume hit: "fl ?x = of_int (?k + 1)"
    from grid[OF s(1) s1 s(2)] obtain e m where
      e: "e \<le> 0" "s = of_int m * 2 powi e" "s < 2 powi (e + 53)" by metis
    have "\<bar>?x\<bar> = ?x" using x1 by linarith
    then have u: "ulp_exp ?x = flogb 2 ?x - 52" using x1 flogb_ge[of 2 0 ?x] by (simp only: ulp_exp_def) simp
    have "2 powi ulp_exp ?x / 2 = 2 powi flogb 2 ?x / (2 ^ 53 :: rat)"
      using powi2_split[of "flogb 2 ?x - 52" 52] by (simp add: u)
    also have "\<dots> \<le> ?x / 2 ^ 53" using flogb_bounds[of 2 ?x] x1 by (intro divide_right_mono) auto
    finally have "2 powi ulp_exp ?x / 2 \<le> ?x / 2 ^ 53" .
    moreover have "of_int (?k + 1) - ?x \<le> 2 powi ulp_exp ?x / 2"
      using fl_error[of ?x] x1 by (simp only: hit abs_le_iff)
    ultimately have "of_int (?k + 1) - ?x \<le> ?x / 2 ^ 53" by linarith
    then have "(of_int (?k + 1) - ?x) * of_int c \<le> ?x / 2 ^ 53 * of_int c" using c1 by (intro mult_right_mono) auto
    then have "of_int ((?k + 1) * c) - s \<le> s / 2 ^ 53" using c1 by (simp add: left_diff_distrib)
    also have "s / 2 ^ 53 < 2 powi (e + 53) / 2 ^ 53" using e by (intro divide_strict_right_mono) auto
    also have "\<dots> = 2 powi e" using powi2_split[of e 53] by simp
    finally have up: "of_int ((?k + 1) * c) - s < 2 powi e" .
    have "?x * of_int c < (of_int ?k + 1) * of_int c" using kb c1 by (intro mult_strict_right_mono) auto
    then have low: "0 < of_int ((?k + 1) * c) - s" using c1 by simp
    define j where "j = (?k + 1) * c * 2 ^ nat (- e) - m"
    have "of_int ((?k + 1) * c) - s = of_int j * 2 powi e"
      unfolding j_def e(2) by (subst int_on_grid[OF e(1)]) (simp only: of_int_diff left_diff_distrib)
    with up low have "of_int j * 2 powi e < 1 * (2::rat) powi e" "0 * (2::rat) powi e < of_int j * 2 powi e" by simp_all
    then have "(of_int j :: rat) < 1" "0 < (of_int j :: rat)" by (simp_all only: mult_less_cancel_right_pos powi2_pos)
    then show False by simp
  qed
  moreover have "fl ?x \<le> of_int (?k + 1)" using kb d by (intro fl_le_dyadic) auto
  ultimately have "fl ?x < of_int ?k + 1" by simp
  with lo show ?thesis by (intro floor_unique)
qed

lemma remainder_exact:
  assumes s: "dyadic53 s" "s < 2 ^ 53" and c: "1 \<le> c" "of_int c \<le> s"
  shows "fl (s - of_int (\<lfloor>s / of_int c\<rfloor> * c)) = s - of_int (\<lfloor>s / of_int c\<rfloor> * c)"
proof -
  let ?k = "\<lfloor>s / of_int c\<rfloor>"
  have c1: "(1::rat) \<le> of_int c" using c by simp
  then have s1: "1 \<le> s" using c by linarith
  from grid[OF s(1) s1 s(2)] obtain e m where
    e: "-1074 \<le> e" "e \<le> 0" "s = of_int m * 2 powi e" "s < 2 powi (e + 53)" by metis
  define j where "j = m - ?k * c * 2 ^ nat (- e)"
  have d: "s - of_int (?k * c) = of_int j * 2 powi e"
    unfolding j_def by (subst e(3), subst int_on_grid[OF e(2)]) (simp only: of_int_diff left_diff_distrib)
  have kb: "of_int ?k \<le> s / of_int c" "s / of_int c < of_int ?k + 1" by linarith+
  then have "of_int ?k * of_int c \<le> s / of_int c * of_int c" "s / of_int c * of_int c < (of_int ?k + 1) * of_int c"
    using c1 by (intro mult_right_mono mult_strict_right_mono; simp)+
  then have b: "0 \<le> s - of_int (?k * c)" "s - of_int (?k * c) < of_int c"
    using c1 by (simp_all add: algebra_simps)
  with c e d have "of_int j * 2 powi e < (2::rat) powi (e + 53)" "0 * 2 powi e \<le> of_int j * (2::rat) powi e" by linarith+
  moreover have "(2::rat) powi (e + 53) = 2 ^ 53 * 2 powi e" using powi2_split[of e 53] by simp
  ultimately have "(of_int j :: rat) < 2 ^ 53" "0 \<le> (of_int j :: rat)"
    by (simp_all only: mult_less_cancel_right_pos mult_le_cancel_right_pos powi2_pos)
  then have "\<bar>j\<bar> < 2 ^ 53" by simp
  with d e have "dyadic53 (s - of_int (?k * c))" unfolding dyadic53_def by blast
  then show ?thesis by (rule fl_exact)
qed

end
