(* ===== verification/Format_Facts.thy ===== *)
theory Format_Facts
  imports Format Js_Print Js_Exact
begin

text \<open>
  What the strings of \<open>Format\<close> denote: a duration of a minute or more shows the exact whole
  minutes and the rounded rest, a dash stands for a missing value only, a number is
  rounded to the nearest integer and grouped by threes, a trimmed decimal and a byte count stay within half a unit of their last
  digit, and a Kubernetes quantity reads as its decimal times its suffix.
\<close>

subsection \<open>Durations and missing values\<close>

lemma lit_milli_val: "lit_milli = Fin (fl (1 / 1000))" "0 < fl (1 / 1000)" "fl (1 / 1000) < 1 / 100"
  by (simp_all add: jeval)

text \<open>
C20: A duration of 60 seconds to 2^53 seconds is shown as its exact whole minutes and its
  remainder rounded half up, in spite of the rounding of the division and the product; a
  remainder of 59.5 seconds or more is therefore shown as 60s.
\<close>

theorem formatDuration_minutes:
  assumes "is_dbl (Fin s)" "60 \<le> s" "s < 2 ^ 53"
  shows "formatDuration (Some (Fin s)) =
    dec \<lfloor>s / 60\<rfloor> @ lit ''m '' @ dec \<lfloor>s - of_int (\<lfloor>s / 60\<rfloor> * 60) + 1 / 2\<rfloor> @ lit ''s''"
proof -
  let ?k = "\<lfloor>s / 60\<rfloor>"
  have d: "dyadic53 s" using assms(1) by (simp add: dyadic53_iff)
  have floor: "\<lfloor>fl (s / 60)\<rfloor> = ?k" and rem: "fl (s - of_int (?k * 60)) = s - of_int (?k * 60)"
    using floor_quotient[OF d assms(3), of 60] remainder_exact[OF d assms(3), of 60] assms(2) by simp_all
  have kb: "of_int ?k \<le> s / 60" "s / 60 < of_int ?k + 1" by linarith+
  have s53: "s < 9007199254740992" using assms(3) by simp
  have k: "1 \<le> ?k" "?k * 60 < 9007199254740992" using kb s53 assms(2) by linarith+
  have r: "0 \<le> s - of_int (?k * 60)" "s - of_int (?k * 60) < 60" using kb by simp_all
  have q: "0 \<le> s / 60" "s / 60 \<le> s" using assms(2) by simp_all
  have "\<bar>fl (s / 60)\<bar> < 2 ^ 1024" using fl_between_abs[OF q _ d] assms by (auto simp: abs_less_iff)
  moreover have "1 \<le> fl (s / 60)" using assms(2) by (intro fl_ge_dyadic) auto
  ultimately have m: "jfloor (jdiv (Fin s) (Fin 60)) = Fin (of_int ?k)"
    using assms(2) floor mk_fin[of "s / 60"] by (cases "mk (s / 60)") (auto simp: jdiv_def jfloor_def)
  have mm: "jmul (Fin (of_int ?k)) (Fin 60) = Fin (of_int (?k * 60))"
    using mk_of_int[of "?k * 60"] k by (simp add: jmul_def signed_zero_def)
  have "mk (s - of_int (?k * 60)) = Fin (s - of_int (?k * 60))"
  proof -
    have "(60::rat) < 2 ^ 1024" by simp
    then have "s - of_int (?k * 60) < 2 ^ 1024" using r by linarith
    then show ?thesis using r by (simp only: mk_def Let_def rem) simp
  qed
  then have "jsub (Fin s) (Fin (of_int (?k * 60))) = Fin (s - of_int (?k * 60))"
    by (cases "?k = 0") (simp_all add: jsub_def jadd_def jneg_def)
  then have rr: "jround (jsub (Fin s) (Fin (of_int (?k * 60)))) = Fin (of_int \<lfloor>s - of_int (?k * 60) + 1 / 2\<rfloor>)"
    using r by (simp add: jround_def Let_def)
  show ?thesis
  proof -
    have "?k < 9007199254740992" "0 \<le> ?k" using k by linarith+
    moreover have "(9007199254740992 :: int) = 2 ^ 53" by simp
    ultimately have ms: "num_to_string (Fin (of_int ?k)) = dec ?k" by (metis num_to_string_nat)
    have "0 \<le> \<lfloor>s - of_int (?k * 60) + 1 / 2\<rfloor>" "\<lfloor>s - of_int (?k * 60) + 1 / 2\<rfloor> < 2 ^ 53"
      using r by (simp, subst floor_less_iff, simp)
    then have rs: "num_to_string (Fin (of_int \<lfloor>s - of_int (?k * 60) + 1 / 2\<rfloor>)) = dec \<lfloor>s - of_int (?k * 60) + 1 / 2\<rfloor>"
      by (rule num_to_string_nat)
    have "\<not> jlt (Fin s) (Fin 0)" "\<not> jlt (Fin s) lit_milli" "\<not> jlt (Fin s) (Fin 1)" "\<not> jlt (Fin s) (Fin 60)"
      using assms(2) lit_milli_val(2,3) by (simp_all add: jlt_def lit_milli_val(1))
    then show ?thesis by (simp only: formatDuration_def Let_def option.case is_fin.simps if_False simp_thms m mm rr ms rs)
  qed
qed
lemma formatDuration_minutes_witness: "formatDuration (Some (Fin 90)) = lit ''1m 30s''"
  using formatDuration_minutes[of 90] by (simp add: jeval)

lemma digit_not_em: "is_digit c \<Longrightarrow> c \<noteq> 0x2014" by (auto simp: is_digit_def)

lemma dec_hd_digit: "0 \<le> n \<Longrightarrow> is_digit (hd (dec n))"
  using dec_digits[of n] by simp

lemma group_rev_Nil [simp]: "group_rev s = [] \<longleftrightarrow> s = []"
  by (cases s rule: group_rev.cases) auto

lemma last_group_rev: "s \<noteq> [] \<Longrightarrow> last (group_rev s) = last s"
  by (induction s rule: group_rev.induct) auto

lemma hd_group3: "s \<noteq> [] \<Longrightarrow> hd (group3 s) = hd s"
  by (simp add: group3_def hd_rev last_group_rev last_rev)

lemma group3_nonempty [simp]: "group3 s = [] \<longleftrightarrow> s = []"
  by (simp add: group3_def)

lemma to_locale_no_dash: assumes "is_fin x" shows "to_locale x \<noteq> 0x2014 # t"
proof (cases x)
  case (Fin q)
  define ip where "ip = group3 (dec (\<lfloor>\<bar>q\<bar> * 1000 + 1 / 2\<rfloor> div 1000))"
  have "is_digit (hd ip)" "ip \<noteq> []"
    by (simp_all add: ip_def hd_group3 dec_hd_digit pos_imp_zdiv_nonneg_iff)
  then obtain c r where ip: "ip = c # r" "c \<noteq> 0x2014" using digit_not_em by (cases ip) auto
  have "\<exists>f. to_locale x = (if q < 0 then [45] else []) @ ip @ f"
    by (simp add: Fin to_locale_def Let_def flip: ip_def)
  then show ?thesis using ip by (auto split: if_splits)
qed (use assms in \<open>simp_all add: to_locale_def\<close>)

text \<open>
C39: formatDuration, formatInt, formatRate, formatPercent and formatRelative show the dash
  exactly for a missing, non-finite or out-of-range argument.
\<close>

theorem dash_iff_missing:
  "(formatDuration a \<noteq> em_dash \<longleftrightarrow> (\<exists>x. a = Some x \<and> is_fin x \<and> \<not> jlt x (Fin 0)))
   \<and> (formatInt a \<noteq> em_dash \<longleftrightarrow> (\<exists>x. a = Some x \<and> is_fin x))
   \<and> (formatRate a \<noteq> em_dash \<longleftrightarrow> (\<exists>x. a = Some x \<and> is_fin x))
   \<and> (formatPercent a d \<noteq> em_dash \<longleftrightarrow> (\<exists>x. a = Some x \<and> is_fin x))
   \<and> (formatRelative a now \<noteq> em_dash \<longleftrightarrow> (\<exists>x. a = Some x \<and> is_fin x \<and> \<not> jle x (Fin 0)))"
proof (intro conjI)
  show "formatDuration a \<noteq> em_dash \<longleftrightarrow> (\<exists>x. a = Some x \<and> is_fin x \<and> \<not> jlt x (Fin 0))"
    by (auto simp: formatDuration_def em_dash_def micro_s_def Let_def append_eq_Cons_conv split: option.splits)
  show "formatInt a \<noteq> em_dash \<longleftrightarrow> (\<exists>x. a = Some x \<and> is_fin x)"
    by (auto simp: formatInt_def em_dash_def to_locale_no_dash split: option.splits)
  show "formatRate a \<noteq> em_dash \<longleftrightarrow> (\<exists>x. a = Some x \<and> is_fin x)"
    by (auto simp: formatRate_def em_dash_def append_eq_Cons_conv split: option.splits)
  show "formatPercent a d \<noteq> em_dash \<longleftrightarrow> (\<exists>x. a = Some x \<and> is_fin x)"
    by (auto simp: formatPercent_def em_dash_def append_eq_Cons_conv split: option.splits)
  show "formatRelative a now \<noteq> em_dash \<longleftrightarrow> (\<exists>x. a = Some x \<and> is_fin x \<and> \<not> jle x (Fin 0))"
    by (auto simp: formatRelative_def em_dash_def Let_def append_eq_Cons_conv split: option.splits)
qed

lemma group_rev_commas: "\<forall>c \<in> set s. c \<noteq> 44 \<Longrightarrow> i < length (group_rev s) \<Longrightarrow> group_rev s ! i = 44 \<longleftrightarrow> i mod 4 = 3"
proof (induction s arbitrary: i rule: group_rev.induct)
  case (1 a b c d r)
  have "i < 4 \<or> (\<exists>j. i = Suc (Suc (Suc (Suc j))))" by presburger
  then consider "i < 4" | j where "i = Suc (Suc (Suc (Suc j)))" by blast
  then show ?case
  proof cases
    case 1
    then have "i = 0 \<or> i = 1 \<or> i = 2 \<or> i = 3" by linarith
    then show ?thesis using "1.prems" by auto
  next
    case 2
    have "Suc (Suc (Suc (Suc j))) mod 4 = j mod 4" by presburger
    then show ?thesis using "1.IH"[of j] "1.prems" 2 by simp
  qed
qed (auto simp: less_Suc_eq nth_Cons')

lemma group3_commas: "\<forall>c \<in> set s. c \<noteq> 44 \<Longrightarrow> i < length (group3 s) \<Longrightarrow> rev (group3 s) ! i = 44 \<longleftrightarrow> i mod 4 = 3"
  using group_rev_commas[of "rev s" i] by (simp add: group3_def)

text \<open>
C40: formatInt shows every finite number as the digits of the nearest integer, halves rounded
  up, with a comma at exactly every fourth place from the right and none in front, after a minus
  sign exactly when the number is negative or negative zero (so -0.3 reads -0).
\<close>

theorem formatInt_nearest:
  assumes "is_fin x"
  shows "\<exists>t. formatInt (Some x) = (if val x < 0 \<or> x = NZero then lit ''-'' else []) @ t
    \<and> filter (\<lambda>c. c \<noteq> 44) t = dec \<bar>\<lfloor>val x + 1 / 2\<rfloor>\<bar>
    \<and> hd t \<noteq> 44 \<and> (\<forall>i < length t. rev t ! i = 44 \<longleftrightarrow> i mod 4 = 3)"
proof -
  let ?n = "\<lfloor>val x + 1 / 2\<rfloor>"
  define t where "t = group3 (dec \<bar>?n\<bar>)"
  have d: "\<forall>c \<in> set (dec \<bar>?n\<bar>). c \<noteq> 44" using dec_digits[of "\<bar>?n\<bar>"] is_digit_neq(2) by auto
  have "hd t \<noteq> 44" using d dec_nonempty by (simp add: t_def hd_group3)
  moreover have "formatInt (Some x) = (if val x < 0 \<or> x = NZero then lit ''-'' else []) @ t"
  proof (cases x)
    case NZero
    then show ?thesis by (simp add: formatInt_def jround_def to_locale_def t_def jeval)
  next
    case (Fin q)
    have r: "jround x = (if ?n = 0 \<and> q < 0 then NZero else Fin (of_int ?n))"
      by (simp add: Fin jround_def Let_def)
    show ?thesis
    proof (cases "?n = 0 \<and> q < 0")
      case True
      then have "t = lit ''0''" by (simp add: t_def dec.simps[of 0] group3_def digit_def)
      with True r show ?thesis by (simp add: Fin formatInt_def to_locale_def)
    next
      case False
      have "?n < 0 \<longleftrightarrow> q + 1 / 2 < 0" by (simp add: Fin floor_less_iff)
      moreover have "0 \<le> ?n \<Longrightarrow> q < 0 \<Longrightarrow> ?n < 1" by (subst floor_less_iff) (simp add: Fin)
      ultimately have "?n < 0 \<longleftrightarrow> q < 0" using False by linarith
      with False r show ?thesis by (simp only: Fin formatInt_def option.case is_fin.simps if_True if_False to_locale_int val.simps t_def jsnum.distinct simp_thms)
    qed
  qed (use assms in simp_all)
  ultimately show ?thesis using group3_filter[OF d] group3_commas[OF d] by (auto simp: t_def)
qed

lemma formatInt_nearest_witness:
  "\<exists>t. formatInt (Some (Fin (- 2469 / 2))) = lit ''-'' @ t \<and> filter (\<lambda>c. c \<noteq> 44) t = lit ''1234''"
proof -
  have "\<bar>\<lfloor>(- 2469 / 2 :: rat) + 1 / 2\<rfloor>\<bar> = 1234" by (simp add: floor_rat_eval)
  with formatInt_nearest[of "Fin (- 2469 / 2)"] show ?thesis by (auto simp: jeval)
qed

subsection \<open>Trimmed decimals and byte counts\<close>

lemma drop_point_zeros_int: "46 \<notin> set s \<Longrightarrow> drop_point_zeros s = s"
  by (induction s) auto

lemma drop_point_zeros_point:
  "46 \<notin> set ip \<Longrightarrow> fp \<noteq> [] \<Longrightarrow> 46 \<notin> set fp \<Longrightarrow>
   drop_point_zeros (ip @ 46 # fp) = (if list_all (\<lambda>d. d = 48) fp then ip else ip @ 46 # fp)"
  by (induction ip) (auto simp: drop_point_zeros_int)

lemma trim_fraction_int: "46 \<notin> set s \<Longrightarrow> trim_fraction s = s"
  by (induction s) auto

lemma trim_fraction_point:
  "46 \<notin> set ip \<Longrightarrow> fp \<noteq> [] \<Longrightarrow> \<forall>c \<in> set fp. is_digit c \<Longrightarrow>
   trim_fraction (ip @ 46 # fp) = ip @ 46 # (if last fp = 48 then strip_zeros fp else fp)"
proof (induction ip)
  case Nil
  then have "46 \<notin> set fp" using is_digit_neq(1) by blast
  with Nil show ?case by (simp add: trim_fraction_int list_all_iff)
qed auto

lemma strip_zeros_split: obtains n where "s = strip_zeros s @ replicate n 48"
proof -
  have "rev s = takeWhile (\<lambda>c. c = 48) (rev s) @ dropWhile (\<lambda>c. c = 48) (rev s)" by simp
  then have "s = strip_zeros s @ rev (takeWhile (\<lambda>c. c = 48) (rev s))"
    unfolding strip_zeros_def by (metis rev_append rev_rev_ident)
  moreover have "takeWhile (\<lambda>c. c = 48) (rev s) = replicate n 48" if "n = length (takeWhile (\<lambda>c. c = 48) (rev s))" for n
    using that by (metis (mono_tags, lifting) replicate_eqI set_takeWhileD)
  ultimately show ?thesis using that by (metis rev_replicate)
qed

lemma strip_zeros_last: "\<not> list_all (\<lambda>c. c = 48) s \<Longrightarrow> strip_zeros s \<noteq> [] \<and> last (strip_zeros s) \<noteq> 48"
  using hd_dropWhile[of "\<lambda>c. c = 48" "rev s"]
  by (auto simp: strip_zeros_def last_rev list_all_iff)

lemma all_zeros: "list_all (\<lambda>d. d = 48) s \<Longrightarrow> s = replicate (length s) (48 :: unit16)"
  by (induction s) auto

text \<open>Trimming keeps the denoted value and leaves no idle zero.\<close>

lemma trim_fixed:
  assumes "0 \<le> q"
    and "t = trim_fraction (drop_point_zeros (fixed_digits q dp))"
  shows "decimal_val t = decimal_val (fixed_digits q dp)" and "46 \<in> set t \<Longrightarrow> last t \<noteq> 48 \<and> last t \<noteq> 46"
proof -
  have "decimal_val t = decimal_val (fixed_digits q dp) \<and> (46 \<in> set t \<longrightarrow> last t \<noteq> 48 \<and> last t \<noteq> 46)"
  proof (cases "dp = 0")
    case True
    have "46 \<notin> set (dec \<lfloor>q + 1 / 2\<rfloor>)" using dec_digits[of "\<lfloor>q + 1 / 2\<rfloor>"] is_digit_neq(1) assms(1) by auto
    then show ?thesis by (simp add: assms(2) True fixed_digits_0 drop_point_zeros_int trim_fraction_int)
  next
    case False
    then obtain ip fp where f: "fixed_digits q dp = ip @ 46 # fp" "fp \<noteq> []" "\<forall>c \<in> set ip. is_digit c" "\<forall>c \<in> set fp. is_digit c"
      using fixed_digits_shape[OF assms(1), of dp] by (metis Un_iff gr0I length_0_conv set_append)
    then have n: "46 \<notin> set ip" "46 \<notin> set fp" using is_digit_neq(1) by blast+
    have val: "decimal_val (ip @ 46 # u) = of_int (digits_val (ip @ u)) / 10 ^ length u" for u
      by (rule decimal_val_point[OF f(3)])
    show ?thesis
    proof (cases "list_all (\<lambda>d. d = 48) fp")
      case True
      then have "t = ip" using f n by (simp add: assms(2) drop_point_zeros_point trim_fraction_int)
      moreover have "digits_val (ip @ fp) = digits_val ip * 10 ^ length fp"
        by (subst all_zeros[OF True]) (simp add: digits_val_append)
      then have "decimal_val (ip @ 46 # fp) = of_int (digits_val ip)" by (simp add: val)
      ultimately show ?thesis using f n by (simp add: decimal_val_int)
    next
      case False
      obtain k where k: "fp = strip_zeros fp @ replicate k 48" by (rule strip_zeros_split)
      have t: "t = ip @ 46 # (if last fp = 48 then strip_zeros fp else fp)"
        using f n False by (simp add: assms(2) drop_point_zeros_point trim_fraction_point)
      have "decimal_val (ip @ 46 # strip_zeros fp) = decimal_val (ip @ 46 # fp)"
        by (subst (2) k, simp only: val) (simp add: digits_val_append power_add flip: append_assoc)
      moreover have "last t \<noteq> 48 \<and> last t \<noteq> 46"
        using t f(2,4) strip_zeros_last[OF False] is_digit_neq(1) k by (auto split: if_splits) (metis UnCI last_in_set set_append)
      ultimately show ?thesis using t f by simp
    qed
  qed
  then show "decimal_val t = decimal_val (fixed_digits q dp)" "46 \<in> set t \<Longrightarrow> last t \<noteq> 48 \<and> last t \<noteq> 46" by auto
qed

lemma trimNum_fixed:
  "0 \<le> q \<Longrightarrow> q < 10 ^ 21 \<Longrightarrow> trimNum (Fin q) dp = trim_fraction (drop_point_zeros (fixed_digits q dp))"
  by (simp add: trimNum_def to_fixed_def)

text \<open>
C34: trimNum shows a non-negative number below 10^21 (from there toFixed turns to exponents)
  within half a unit of its last requested digit and leaves no idle zero or point at the end.
\<close>

theorem trimNum_exact:
  assumes "0 \<le> q" "q < 10 ^ 21"
  shows "\<bar>decimal_val (trimNum (Fin q) dp) - q\<bar> \<le> 1 / (2 * 10 ^ dp)
    \<and> (46 \<in> set (trimNum (Fin q) dp) \<longrightarrow> last (trimNum (Fin q) dp) \<noteq> 48 \<and> last (trimNum (Fin q) dp) \<noteq> 46)"
  unfolding trimNum_fixed[OF assms] using trim_fixed[OF assms(1) refl, of dp] decimal_val_fixed_error[OF assms(1), of dp] by auto

lemma trimNum_exact_witness: "\<bar>decimal_val (trimNum (Fin (85 / 8)) 1) - 85 / 8\<bar> \<le> 1 / 20"
  using trimNum_exact[of "85 / 8" 1] by simp

lemma dyadic53_scale: assumes "dyadic53 q" "2 ^ j \<le> q" shows "dyadic53 (q / 2 ^ j)"
proof -
  obtain m e where q: "q = of_int m * 2 powi e" "\<bar>m\<bar> < 2 ^ 53" using assms(1) by (auto simp: dyadic53_def)
  have "(of_int m :: rat) \<le> 2 ^ 53" using q(2) by (metis abs_less_iff of_int_le_iff of_int_numeral of_int_power order_less_imp_le)
  then have "of_int m * (2::rat) powi e \<le> 2 ^ 53 * 2 powi e" by (intro mult_right_mono) auto
  then have "q \<le> 2 powi (e + 53)" using powi2_split[of e 53] q(1) by (simp add: mult.commute)
  with assms(2) have "(2::rat) powi int j \<le> 2 powi (e + 53)" by simp
  then have "int j \<le> e + 53" by (metis linorder_not_less power_int_strict_increasing one_less_numeral_iff semiring_norm(76))
  moreover have "q / 2 ^ j = of_int m * 2 powi (e - int j)"
    by (simp add: q(1) power_int_diff)
  ultimately show ?thesis using q(2) unfolding dyadic53_def by (intro exI[of _ m] exI[of _ "e - int j"]) auto
qed

lemma jdiv_power_exact:
  assumes "is_dbl (Fin b)" "2 ^ j \<le> b"
  shows "jdiv (Fin b) (Fin (2 ^ j)) = Fin (b / 2 ^ j)"
proof -
  have f: "fl (b / 2 ^ j) = b / 2 ^ j"
    using dyadic53_scale[of b j] assms by (simp add: dyadic53_iff)
  have p: "(0::rat) < 2 ^ j" "1 \<le> (2::rat) ^ j" by simp_all
  then have "0 < b" "b / 2 ^ j \<le> b" using assms(2) by (linarith, simp add: pos_divide_le_eq mult_le_cancel_left1)
  moreover from this have "0 < b / 2 ^ j" "b / 2 ^ j < 2 ^ 1024" using assms(1) p by (simp, simp only: is_dbl.simps abs_less_iff) linarith
  ultimately show ?thesis using p by (simp add: jdiv_def mk_def Let_def f)
qed

lemma fmtBytes_unit:
  assumes b: "is_dbl (Fin b)" and u: "(unit, k) \<in> set BINARY_UNITS" "jle k (Fin b)"
    and best: "\<forall>(unit', k') \<in> set BINARY_UNITS. jle k' (Fin b) \<longrightarrow> jle k' k"
  shows "fmtBytes (Fin b) = trimNum (Fin (b / val k)) 1 @ lit '' '' @ unit"
proof -
  have d: "jdiv (Fin b) (Fin (2 ^ j)) = Fin (b / 2 ^ j)" if "2 ^ j \<le> b" for j
    using jdiv_power_exact[OF b that] .
  show ?thesis using u best d[of 10] d[of 20] d[of 30] d[of 40] d[of 50]
    by (auto simp: BINARY_UNITS_def fmtBytes_def jle_fin)
qed

lemma trimNum_scaled:
  assumes "0 \<le> q" "q < 10 ^ 21" "0 < k"
  shows "\<bar>decimal_val (trimNum (Fin q) dp) * k - q * k\<bar> \<le> k / (2 * 10 ^ dp)"
proof -
  have "decimal_val (trimNum (Fin q) dp) = decimal_val (fixed_digits q dp)"
    unfolding trimNum_fixed[OF assms(1,2)] by (rule trim_fixed[OF assms(1) refl])
  then have "\<bar>decimal_val (trimNum (Fin q) dp) - q\<bar> \<le> 1 / (2 * 10 ^ dp)"
    using decimal_val_fixed_error[OF assms(1), of dp] by simp
  then have "\<bar>decimal_val (trimNum (Fin q) dp) - q\<bar> * k \<le> 1 / (2 * 10 ^ dp) * k"
    using assms(3) by (intro mult_right_mono) auto
  moreover have "\<bar>decimal_val (trimNum (Fin q) dp) - q\<bar> * k = \<bar>(decimal_val (trimNum (Fin q) dp) - q) * k\<bar>"
    using assms(3) by (simp add: abs_mult)
  ultimately show ?thesis by (simp add: left_diff_distrib)
qed

text \<open>
C32: fmtBytes shows a non-negative byte count below 10^21 * 1024^5 in the largest binary unit
  that does not exceed it, within a twentieth of the unit, and a count below 1024 in bytes,
  within half a byte.
\<close>

theorem fmtBytes_exact:
  assumes "is_dbl (Fin b)" "0 \<le> b" "b < 10 ^ 21 * 1024 ^ 5"
  shows "\<exists>t unit k. fmtBytes (Fin b) = t @ lit '' '' @ unit \<and> (unit, k) \<in> set ((lit ''B'', Fin 1) # BINARY_UNITS)
    \<and> (k = Fin 1 \<or> jle k (Fin b)) \<and> (\<forall>(unit', k') \<in> set BINARY_UNITS. jle k' (Fin b) \<longrightarrow> jle k' k)
    \<and> \<bar>decimal_val t * val k - b\<bar> \<le> (if k = Fin 1 then 1 / 2 else val k / 20)"
proof (cases "b < 1024")
  case True
  then have "fmtBytes (Fin b) = trimNum (Fin b) 0 @ lit '' '' @ lit ''B''" "\<forall>(unit', k') \<in> set BINARY_UNITS. \<not> jle k' (Fin b)"
    by (simp_all add: fmtBytes_def BINARY_UNITS_def jle_fin)
  moreover have "\<bar>decimal_val (trimNum (Fin b) 0) * 1 - b\<bar> \<le> 1 / 2"
    using trimNum_scaled[of b 1 0] True assms(2) by simp
  ultimately show ?thesis
    by (intro exI[of _ "trimNum (Fin b) 0"] exI[of _ "lit ''B''"] exI[of _ "Fin 1"]) (auto simp del: lit_simps)
next
  case False
  obtain unit k where u: "(unit, k) \<in> set BINARY_UNITS" "jle k (Fin b)"
    "\<forall>(unit', k') \<in> set BINARY_UNITS. jle k' (Fin b) \<longrightarrow> jle k' k" "b < 10 ^ 21 * val k"
  proof -
    consider "1024 ^ 5 \<le> b" | "1024 ^ 4 \<le> b" "b < 1024 ^ 5" | "1024 ^ 3 \<le> b" "b < 1024 ^ 4" | "1024 ^ 2 \<le> b" "b < 1024 ^ 3"
      | "1024 \<le> b" "b < 1024 ^ 2" using False by linarith
    then show ?thesis
    proof cases
      case 1 then show ?thesis using assms(3) that[of "lit ''Pi''" "Fin (1024 ^ 5)"] by (simp add: BINARY_UNITS_def jle_fin)
    next
      case 2 then show ?thesis using that[of "lit ''Ti''" "Fin (1024 ^ 4)"] by (simp add: BINARY_UNITS_def jle_fin)
    next
      case 3 then show ?thesis using that[of "lit ''Gi''" "Fin (1024 ^ 3)"] by (simp add: BINARY_UNITS_def jle_fin)
    next
      case 4 then show ?thesis using that[of "lit ''Mi''" "Fin (1024 ^ 2)"] by (simp add: BINARY_UNITS_def jle_fin)
    next
      case 5 then show ?thesis using that[of "lit ''Ki''" "Fin 1024"] by (simp add: BINARY_UNITS_def jle_fin)
    qed
  qed
  have k: "0 < val k" "is_fin k" "k \<noteq> Fin 1" using u(1) by (auto simp: BINARY_UNITS_def)
  have q: "0 \<le> b / val k" "b / val k < 10 ^ 21" using assms(2) u(4) k by (simp, simp add: pos_divide_less_eq)
  have "\<bar>decimal_val (trimNum (Fin (b / val k)) 1) * val k - b\<bar> \<le> val k / 20"
    using trimNum_scaled[OF q k(1), of 1] k(1) by simp
  then show ?thesis using u(1-3) k(3) fmtBytes_unit[OF assms(1) u(1-3)]
    by (intro exI[of _ "trimNum (Fin (b / val k)) 1"] exI[of _ unit] exI[of _ k]) auto
qed

lemma fmtBytes_exact_witness:
  "\<exists>t unit k. fmtBytes (Fin 11408506880) = t @ lit '' '' @ unit \<and> jle (Fin (1024 ^ 3)) k \<and> \<bar>decimal_val t * val k - 11408506880\<bar> \<le> val k / 20"
proof -
  have "is_dbl (Fin 11408506880)" using dyadic53_int[of 11408506880] by (simp add: dyadic53_iff)
  from fmtBytes_exact[OF this] obtain t unit k where
    t: "fmtBytes (Fin 11408506880) = t @ lit '' '' @ unit" "\<forall>(unit', k') \<in> set BINARY_UNITS. jle k' (Fin 11408506880) \<longrightarrow> jle k' k"
      "\<bar>decimal_val t * val k - 11408506880\<bar> \<le> (if k = Fin 1 then 1 / 2 else val k / 20)" by auto
  have "jle (Fin (1024 ^ 3)) k" using t(2) by (simp add: BINARY_UNITS_def jle_fin)
  moreover from this have "k \<noteq> Fin 1" by (auto simp: jle_fin)
  ultimately show ?thesis using t by auto
qed

lemma trim_id: "\<forall>c \<in> set s. \<not> is_space c \<Longrightarrow> trim s = s"
proof -
  have d: "\<forall>c \<in> set u. \<not> is_space c \<Longrightarrow> dropWhile is_space u = u" for u by (cases u) auto
  assume "\<forall>c \<in> set s. \<not> is_space c"
  then show ?thesis by (simp add: trim_def trim_start_def d)
qed

lemma is_letter_not_space: "is_letter c \<Longrightarrow> \<not> is_space c"
  by (auto simp: is_letter_def is_space_def word_le_nat_alt)

lemma suffix_letters: "(sfx, v) \<in> set QTY_SUFFIX \<Longrightarrow> list_all is_letter sfx \<and> qty_suffix sfx = Some v \<and> (sfx = [] \<or> \<not> (is_digit (hd sfx) \<or> hd sfx = 46))"
  by (auto simp: QTY_SUFFIX_def is_letter_def qty_suffix_def is_digit_def)

lemma parse_float_decimal:
  assumes ip: "ip \<noteq> []" "\<forall>c \<in> set ip. is_digit c" and fp: "\<forall>c \<in> set fp. is_digit c"
  shows "parse_float (ip @ 46 # fp) = mk (decimal_val (ip @ 46 # fp))"
proof -
  obtain c t where c: "ip = c # t" "is_digit c" using ip by (cases ip) auto
  then have cn: "c \<noteq> 45" "c \<noteq> 43" "\<not> is_space c" "\<not> has_prefix (lit ''Infinity'') (ip @ 46 # fp)"
    using is_digit_not_space by (auto simp: is_digit_def)
  have s: "takeWhile is_digit (ip @ 46 # fp) = ip" "dropWhile is_digit (ip @ 46 # fp) = 46 # fp"
    using takeWhile_stop[OF ip(2), of "46 # fp"] dropWhile_stop[OF ip(2), of "46 # fp"] is_digit_neq(1) by auto
  have f: "takeWhile is_digit fp = fp" "dropWhile is_digit fp = []" using fp by auto
  have "parse_unsigned (ip @ 46 # fp) = Some (mk (of_int (digits_val (ip @ fp)) * 10 powi (0 - int (length fp))), [])"
    unfolding parse_unsigned_def Let_def s using ip(1) cn(4) by (simp add: f parse_exponent_def)
  moreover have "of_int (digits_val (ip @ fp)) * 10 powi (0 - int (length fp)) = decimal_val (ip @ 46 # fp)"
    by (simp add: decimal_val_point[OF ip(2)] power_int_minus divide_inverse)
  ultimately show ?thesis using c(1) cn by (simp add: parse_float_def trim_start_def parse_signed_def)
qed

lemma or_zero_mk: "0 \<le> r \<Longrightarrow> or_zero (mk r) = mk r"
  by (auto simp: or_zero_def mk_def Let_def split: if_splits)

lemma digits_val_nonneg: "\<forall>c \<in> set s. is_digit c \<Longrightarrow> 0 \<le> digits_val s"
  by (induction s rule: rev_induct) (auto simp: digit_val_def is_digit_def word_le_def)

text \<open>Trimming removes the white space around a text that neither starts nor ends with any.\<close>

lemma trim_around:
  assumes "\<forall>c \<in> set (before @ after). is_space c" "s \<noteq> []" "\<not> is_space (hd s)" "\<not> is_space (last s)"
  shows "trim (before @ s @ after) = s"
proof -
  have d: "dropWhile is_space (u @ w) = w" if "\<forall>c \<in> set u. is_space c" "w \<noteq> []" "\<not> is_space (hd w)" for u w
    using that by (cases w) (auto simp: dropWhile_append2)
  have "dropWhile is_space (before @ s @ after) = s @ after" using assms by (intro d) auto
  moreover have "dropWhile is_space (rev after @ rev s) = rev s" using assms by (intro d) (auto simp: hd_rev)
  ultimately show ?thesis by (simp add: trim_def trim_start_def)
qed

lemma point_not_space: "\<not> is_space 46" by (simp add: is_space_def)

lemma quantity_split:
  assumes "num \<noteq> []" "\<forall>c \<in> set num. is_digit c \<or> c = 46" "\<forall>c \<in> set between. is_space c" "(sfx, v) \<in> set QTY_SUFFIX"
  shows "quantity_match (num @ between @ sfx) = Some (num, sfx)"
proof -
  note s = suffix_letters[OF assms(4)]
  have "between @ sfx = [] \<or> \<not> (is_digit (hd (between @ sfx)) \<or> hd (between @ sfx) = 46)"
    using assms(3) s is_digit_not_space point_not_space by (cases between) auto
  note st = takeWhile_stop[OF assms(2) this] dropWhile_stop[OF assms(2) this]
  have "trim_start (between @ sfx) = sfx" using assms(3) s is_letter_not_space
    by (cases sfx) (auto simp: trim_start_def dropWhile_append2)
  then show ?thesis using st s assms(1) by (simp add: quantity_match_def Let_def)
qed

text \<open>
C33: parseQuantity reads an unsigned decimal numeral with at least one digit before the point
  (with or without a point and digits after it), followed by a suffix of the table and with
  white space anywhere around the two, as the double nearest to the numeral times the suffix's
  factor.
\<close>

theorem parseQuantity_suffix:
  assumes ip: "ip \<noteq> []" "\<forall>c \<in> set (ip @ fp). is_digit c" and num: "num = ip @ (if point then 46 # fp else [])"
    and sfx: "(sfx, v) \<in> set QTY_SUFFIX" and sp: "\<forall>c \<in> set (before @ between @ after). is_space c"
  shows "parseQuantity (Some (before @ num @ between @ sfx @ after)) = jmul (mk (decimal_val num)) v"
proof -
  note s = suffix_letters[OF sfx]
  have n: "num \<noteq> []" "\<forall>c \<in> set num. is_digit c \<or> c = 46" using ip by (auto simp: num)
  then have ns: "\<forall>c \<in> set num. \<not> is_space c" using is_digit_not_space point_not_space by auto
  have t: "trim (before @ num @ between @ sfx @ after) = num @ (if sfx = [] then [] else between @ sfx)"
  proof (cases "sfx = []")
    case True
    then show ?thesis using trim_around[of before "between @ after" num] sp n(1) ns by auto
  next
    case False
    then have "\<not> is_space (last sfx)" using s is_letter_not_space by (auto simp: list_all_iff)
    then show ?thesis using trim_around[of before after "num @ between @ sfx"] sp n(1) ns False by auto
  qed
  have m: "quantity_match (num @ (if sfx = [] then [] else between @ sfx)) = Some (num, sfx)"
    using quantity_split[OF n _ sfx, of "if sfx = [] then [] else between"] sp by auto
  have "0 \<le> decimal_val num \<and> parse_float num = mk (decimal_val num)"
  proof (cases point)
    case True
    then show ?thesis using ip parse_float_decimal[of ip fp] decimal_val_point[of ip fp] digits_val_nonneg[of "ip @ fp"]
      by (simp add: num)
  next
    case False
    then show ?thesis using ip parse_float_digits[of ip] decimal_val_int[of ip] digits_val_nonneg[of ip] by (simp add: num)
  qed
  then have "or_zero (parse_float num) = mk (decimal_val num)" using or_zero_mk by simp
  then show ?thesis using n(1) s m by (simp add: parseQuantity_def t)
qed

lemma parseQuantity_suffix_witness: "parseQuantity (Some (lit '' 1.5 Gi '')) = Fin 1610612736"
proof -
  have "lit '' 1.5 Gi '' = lit '' '' @ lit ''1.5'' @ lit '' '' @ lit ''Gi'' @ lit '' ''" by simp
  moreover have "mk (decimal_val (lit ''1.5'')) = Fin (3 / 2)" by (simp add: decimal_val_def mk_def jeval)
  moreover have "jmul (Fin (3 / 2)) (Fin (1024 ^ 3)) = Fin 1610612736" using mk_of_int[of 1610612736] by (simp add: jmul_def)
  ultimately show ?thesis
    using parseQuantity_suffix[of "lit ''1''" "lit ''5''" "lit ''1.5''" True "lit ''Gi''" "Fin (1024 ^ 3)" "lit '' ''" "lit '' ''" "lit '' ''"]
    by (simp add: QTY_SUFFIX_def is_digit_def is_space_def)
qed

end
