(* ===== verification/Format_Penalty.thy ===== *)
theory Format_Penalty
  imports Format_Facts
begin

text \<open>
  The penalty buckets of the wire (\<open>shardclient.shortBucket\<close>: UNSPECIFIED, ZERO, HALF_DOLLAR, the
  powers of two from 1 to 8388608, PINNED) as a linearly ordered type. \<open>penaltyOrdinal\<close> is an
  embedding of that order and \<open>formatPenalty\<close> keeps the buckets apart.
\<close>

subsection \<open>The penalty ladder\<close>

datatype penalty_bucket = Unset | Zero_Dollars | Half_Dollar | Dollars nat | Pinned

fun on_ladder :: "penalty_bucket \<Rightarrow> bool" where
  "on_ladder (Dollars k) = (k \<le> 23)"
| "on_ladder _ = True"

fun wire :: "penalty_bucket \<Rightarrow> jsstr" where
  "wire Unset = lit ''UNSPECIFIED''"
| "wire Zero_Dollars = lit ''ZERO''"
| "wire Half_Dollar = lit ''HALF_DOLLAR''"
| "wire (Dollars k) = dec (2 ^ k)"
| "wire Pinned = lit ''PINNED''"

fun ladder_key :: "penalty_bucket \<Rightarrow> nat \<times> nat" where
  "ladder_key Unset = (0, 0)"
| "ladder_key Zero_Dollars = (1, 0)"
| "ladder_key Half_Dollar = (2, 0)"
| "ladder_key (Dollars k) = (3, k)"
| "ladder_key Pinned = (4, 0)"

lemma ladder_key_inj: "ladder_key a = ladder_key b \<longleftrightarrow> a = b"
  by (cases a; cases b) auto

instantiation penalty_bucket :: linorder
begin

definition less_eq_penalty_bucket :: "penalty_bucket \<Rightarrow> penalty_bucket \<Rightarrow> bool" where
  "a \<le> b \<longleftrightarrow> fst (ladder_key a) < fst (ladder_key b) \<or>
     fst (ladder_key a) = fst (ladder_key b) \<and> snd (ladder_key a) \<le> snd (ladder_key b)"

definition less_penalty_bucket :: "penalty_bucket \<Rightarrow> penalty_bucket \<Rightarrow> bool" where
  "a < b \<longleftrightarrow> a \<le> b \<and> \<not> b \<le> (a :: penalty_bucket)"

instance
proof
  fix a b c :: penalty_bucket
  show "a < b \<longleftrightarrow> a \<le> b \<and> \<not> b \<le> a" by (rule less_penalty_bucket_def)
  show "a \<le> a" by (simp add: less_eq_penalty_bucket_def)
  show "a \<le> b \<Longrightarrow> b \<le> c \<Longrightarrow> a \<le> c" "a \<le> b \<or> b \<le> a" by (auto simp: less_eq_penalty_bucket_def)
  show "a \<le> b \<Longrightarrow> b \<le> a \<Longrightarrow> a = b"
    using ladder_key_inj[of a b] by (auto simp: less_eq_penalty_bucket_def prod_eq_iff)
qed

end

fun rank :: "penalty_bucket \<Rightarrow> int" where
  "rank Unset = 0"
| "rank Zero_Dollars = 1"
| "rank Half_Dollar = 2"
| "rank (Dollars k) = int k + 3"
| "rank Pinned = 27"

lemma rank_less: "on_ladder a \<Longrightarrow> on_ladder b \<Longrightarrow> rank a < rank b \<longleftrightarrow> a < b"
  by (cases a; cases b) (auto simp: less_penalty_bucket_def less_eq_penalty_bucket_def)

text \<open>What the code relies on of \<open>Math.log2\<close>: on a power of two it is off by less than a half.\<close>

definition log2_near :: "(jsnum \<Rightarrow> jsnum) \<Rightarrow> bool" where
  "log2_near lg \<longleftrightarrow> (\<forall>k \<le> 23. is_fin (lg (Fin (2 ^ k))) \<and> \<bar>val (lg (Fin (2 ^ k))) - of_nat k\<bar> < 1 / 2)"

lemma digits_upper: "\<forall>c \<in> set s. is_digit c \<Longrightarrow> toUpperCase s = s"
  by (induction s) (auto simp: toUpperCase_def is_digit_def dest: order_trans)

lemma digits_kept: "\<forall>c \<in> set s. is_digit c \<Longrightarrow> filter (\<lambda>c. is_digit c \<or> c = 46) s = s"
  by (induction s) auto

lemma dec_not_word: "0 \<le> n \<Longrightarrow> \<not> is_digit c \<Longrightarrow> dec n \<noteq> c # s"
  using dec_hd_digit[of n] by (metis list.sel(1))

lemma bucket_of_dec: "0 \<le> n \<Longrightarrow> n \<le> 2 ^ 53 \<Longrightarrow> bucket_dollars (toUpperCase (dec n)) = Fin (of_int n)"
  by (simp add: bucket_dollars_def digits_upper digits_kept dec_digits parse_float_dec)


lemma penaltyOrdinal_dec:
  assumes "log2_near lg" "k \<le> 23"
  shows "penaltyOrdinal lg (Some (dec (2 ^ k))) = Fin (of_nat k + 3)"
proof -
  have p: "(2::int) ^ k \<le> 2 ^ 23" using assms(2) by (intro power_increasing) auto
  then have d: "bucket_dollars (toUpperCase (dec (2 ^ k))) = Fin (2 ^ k)" using bucket_of_dec[of "2 ^ k"] by simp
  have l: "is_fin (lg (Fin (2 ^ k)))" "\<bar>val (lg (Fin (2 ^ k))) - of_nat k\<bar> < 1 / 2"
    using assms by (auto simp: log2_near_def)
  then have "of_nat k \<le> val (lg (Fin (2 ^ k))) + 1 / 2" "val (lg (Fin (2 ^ k))) + 1 / 2 < of_nat k + 1" by linarith+
  then have "\<lfloor>val (lg (Fin (2 ^ k))) + 1 / 2\<rfloor> = int k" by (intro floor_unique) auto
  then have r: "is_fin (jround (lg (Fin (2 ^ k))))" "val (jround (lg (Fin (2 ^ k)))) = of_nat k"
    using l by (simp_all add: val_jround)
  have "jadd (jround (lg (Fin (2 ^ k)))) (Fin 3) = mk (of_int (int k + 3))"
    using r by (auto simp: jadd_def is_fin_not_NaN)
  also have "\<dots> = Fin (of_nat k + 3)" using mk_of_int[of "int k + 3"] assms(2) by simp
  finally have s: "jadd (jround (lg (Fin (2 ^ k)))) (Fin 3) = Fin (of_nat k + 3)" .
  have u: "toUpperCase (dec (2 ^ k)) = dec (2 ^ k)" by (rule digits_upper[OF dec_digits]) simp
  have w: "dec (2 ^ k) \<noteq> c # t" if "\<not> is_digit c" for c t using dec_not_word[of "2 ^ k"] that by simp
  have "\<not> (2::rat) ^ k \<le> 0" by (simp add: not_le)
  then show ?thesis using d s
    by (simp add: penaltyOrdinal_def u w is_digit_def Let_def jle_fin)
qed

lemma penaltyOrdinal_wire:
  assumes "log2_near lg" "on_ladder b"
  shows "penaltyOrdinal lg (Some (wire b)) = Fin (of_int (rank b))"
  using assms penaltyOrdinal_dec[of lg] by (cases b) (simp_all add: penaltyOrdinal_def toUpperCase_def PENALTY_LADDER_MAX_def)

text \<open>
C24: penaltyOrdinal embeds the order of the 28 penalty buckets of the wire, for every Math.log2
  that is off by less than a half on powers of two.
\<close>

theorem penaltyOrdinal_monotone:
  assumes "log2_near lg" "on_ladder a" "on_ladder b"
  shows "jlt (penaltyOrdinal lg (Some (wire a))) (penaltyOrdinal lg (Some (wire b))) \<longleftrightarrow> a < b"
  using assms by (simp add: penaltyOrdinal_wire jlt_fin rank_less)

definition log2_model :: "jsnum \<Rightarrow> jsnum" where
  "log2_model x = Fin (of_int (flogb 2 (val x)))"

lemma log2_model_near: "log2_near log2_model"
proof -
  have "flogb 2 (2 ^ k) = int k" for k by (rule flogb_eqI) (auto simp: power_int_add)
  then show ?thesis by (simp add: log2_near_def log2_model_def)
qed

lemma penaltyOrdinal_monotone_witness:
  "jlt (penaltyOrdinal log2_model (Some (wire (Dollars 13)))) (penaltyOrdinal log2_model (Some (wire Pinned)))"
  using penaltyOrdinal_monotone[OF log2_model_near, of "Dollars 13" Pinned]
  by (simp add: less_penalty_bucket_def less_eq_penalty_bucket_def)

definition ladder :: "penalty_bucket list" where
  "ladder = [Unset, Zero_Dollars, Half_Dollar, Pinned] @
     map Dollars ([0, 1, 2, 3, 4, 5] @ [6, 7, 8, 9, 10, 11] @ [12, 13, 14, 15, 16, 17] @ [18, 19, 20, 21, 22, 23])"

lemma ladder_complete: "on_ladder b \<Longrightarrow> b \<in> set ladder"
proof (cases b)
  case (Dollars k)
  assume "on_ladder b"
  then have "k \<le> 23" by (simp add: Dollars)
  then show ?thesis by (simp add: ladder_def Dollars, presburger)
qed (simp_all add: ladder_def)

lemma dollar_units:
  "map (\<lambda>k. formatPenalty (Some (dec (2 ^ k)))) [0, 1, 2, 3, 4, 5] =
    [lit ''$1'', lit ''$2'', lit ''$4'', lit ''$8'', lit ''$16'', lit ''$32'']"
  by (simp add: jeval)

lemma dollar_tens:
  "map (\<lambda>k. formatPenalty (Some (dec (2 ^ k)))) [6, 7, 8, 9, 10, 11] =
    [lit ''$64'', lit ''$128'', lit ''$256'', lit ''$512'', lit ''$1K'', lit ''$2K'']"
  by (simp add: jeval)

lemma dollar_thousands:
  "map (\<lambda>k. formatPenalty (Some (dec (2 ^ k)))) [12, 13, 14, 15, 16, 17] =
    [lit ''$4.1K'', lit ''$8.2K'', lit ''$16.4K'', lit ''$32.8K'', lit ''$65.5K'', lit ''$131.1K'']"
  by (simp add: jeval)

lemma dollar_millions:
  "map (\<lambda>k. formatPenalty (Some (dec (2 ^ k)))) [18, 19, 20, 21, 22, 23] =
    [lit ''$262.1K'', lit ''$524.3K'', lit ''$1M'', lit ''$2.1M'', lit ''$4.2M'', lit ''$8.4M'']"
  by (simp add: jeval)

lemmas dollar_labels = dollar_units dollar_tens dollar_thousands dollar_millions

lemma penalty_labels:
  "map (\<lambda>b. formatPenalty (Some (wire b))) ladder =
    [lit ''unset'', lit ''$0'', lit ''$0.50'', lit ''pinned'']
    @ [lit ''$1'', lit ''$2'', lit ''$4'', lit ''$8'', lit ''$16'', lit ''$32''] @ [lit ''$64'', lit ''$128'', lit ''$256'', lit ''$512'', lit ''$1K'', lit ''$2K'']
    @ [lit ''$4.1K'', lit ''$8.2K'', lit ''$16.4K'', lit ''$32.8K'', lit ''$65.5K'', lit ''$131.1K''] @ [lit ''$262.1K'', lit ''$524.3K'', lit ''$1M'', lit ''$2.1M'', lit ''$4.2M'', lit ''$8.4M'']"
  unfolding ladder_def map_append list.map_comp comp_def wire.simps dollar_labels by (simp add: formatPenalty_def toUpperCase_def)

text \<open>
C25: formatPenalty gives the 28 penalty buckets of the wire 28 different labels.
\<close>

theorem formatPenalty_inj:
  assumes "on_ladder a" "on_ladder b"
  shows "formatPenalty (Some (wire a)) = formatPenalty (Some (wire b)) \<longleftrightarrow> a = b"
proof -
  have "distinct (map (\<lambda>b. formatPenalty (Some (wire b))) ladder)" unfolding penalty_labels by simp
  then show ?thesis using assms ladder_complete by (auto simp: distinct_map dest: inj_onD)
qed

lemma formatPenalty_inj_witness: "formatPenalty (Some (wire (Dollars 9))) \<noteq> formatPenalty (Some (wire (Dollars 10)))"
  using formatPenalty_inj[of "Dollars 9" "Dollars 10"] by simp

end
