(* ===== verification/Api_Calls.thy ===== *)
theory Api_Calls
  imports Api
begin

text \<open>
  The operations of \<open>ui/src/lib/api.ts\<close>: \<open>encodeURIComponent\<close> on UTF-16 code units, with
  \<open>None\<close> for the \<open>URIError\<close> of an unpaired surrogate; the request paths of the \<open>api\<close> object;
  \<open>getJSON\<close> as a function of what \<open>fetch\<close> gave, its error message and a body that breaks off
  included; \<open>api_call\<close>, a call of the \<open>api\<close> object.

  The lemmas show that the encoding is undone by the decoding of URLs and leaves only
  characters without a meaning in a path or a query, so a request names exactly one resource,
  and that a call against a server behind a prefix settles with the answer to that request.
\<close>

subsection \<open>\<open>encodeURIComponent\<close>\<close>

definition uri_unreserved :: "unit16 \<Rightarrow> bool" where
  "uri_unreserved c \<longleftrightarrow> is_letter c \<or> is_digit c \<or> c \<in> {45, 95, 46, 33, 126, 42, 39, 40, 41}"

definition is_high :: "unit16 \<Rightarrow> bool" where
  "is_high c \<longleftrightarrow> 0xD800 \<le> c \<and> c \<le> 0xDBFF"

definition is_low :: "unit16 \<Rightarrow> bool" where
  "is_low c \<longleftrightarrow> 0xDC00 \<le> c \<and> c \<le> 0xDFFF"

definition code_point :: "unit16 \<Rightarrow> unit16 \<Rightarrow> int" where
  "code_point h l = (uint h - 0xD800) * 0x400 + (uint l - 0xDC00) + 0x10000"

definition utf8 :: "int \<Rightarrow> int list" where
  "utf8 v =
     (if v < 0x80 then [v]
      else if v < 0x800 then [0xC0 + v div 64, 0x80 + v mod 64]
      else if v < 0x10000 then [0xE0 + v div 4096, 0x80 + v div 64 mod 64, 0x80 + v mod 64]
      else [0xF0 + v div 262144, 0x80 + v div 4096 mod 64, 0x80 + v div 64 mod 64, 0x80 + v mod 64])"

definition hex_digit :: "int \<Rightarrow> unit16" where
  "hex_digit d = (if d < 10 then of_int (48 + d) else of_int (55 + d))"

definition pct :: "int \<Rightarrow> jsstr" where
  "pct b = [37, hex_digit (b div 16), hex_digit (b mod 16)]"

fun encodeURIComponent :: "jsstr \<Rightarrow> jsstr option" where
  "encodeURIComponent [] = Some []"
| "encodeURIComponent (c # s) =
     (if uri_unreserved c then map_option (\<lambda>t. c # t) (encodeURIComponent s)
      else if is_low c then None
      else if is_high c then
        (case s of [] \<Rightarrow> None
         | d # t \<Rightarrow> if is_low d
             then map_option (\<lambda>r. concat (map pct (utf8 (code_point c d))) @ r) (encodeURIComponent t)
             else None)
      else map_option (\<lambda>r. concat (map pct (utf8 (uint c))) @ r) (encodeURIComponent s))"

subsection \<open>Requests\<close>


definition path_health :: jsstr where "path_health = lit ''/api/health''"
definition path_config :: jsstr where "path_config = lit ''/api/config''"
definition path_fleetOverview :: jsstr where "path_fleetOverview = lit ''/api/fleet/overview''"
definition path_shards :: jsstr where "path_shards = lit ''/api/shards''"
definition path_clusters :: jsstr where "path_clusters = lit ''/api/clusters''"
definition path_availableCapacity :: jsstr where "path_availableCapacity = lit ''/api/available-capacity''"
definition path_topology :: jsstr where "path_topology = lit ''/api/topology''"
definition path_shardReports :: jsstr where "path_shardReports = lit ''/api/shard-reports''"
definition path_finopsSnapshot :: jsstr where "path_finopsSnapshot = lit ''/api/finops/snapshot''"

definition window_query :: "jsstr \<Rightarrow> jsstr \<Rightarrow> jsstr option" where
  "window_query duration step =
     (case (encodeURIComponent duration, encodeURIComponent step) of
        (Some d, Some s) \<Rightarrow> Some (lit ''?duration='' @ d @ lit ''&step='' @ s) | _ \<Rightarrow> None)"

definition path_fleetActions :: "jsstr \<Rightarrow> jsstr \<Rightarrow> jsstr option" where
  "path_fleetActions duration step = map_option (\<lambda>q. lit ''/api/fleet/actions'' @ q) (window_query duration step)"

definition path_shard :: "jsstr \<Rightarrow> jsstr option" where
  "path_shard pod = map_option (\<lambda>p. lit ''/api/shards/'' @ p) (encodeURIComponent pod)"

definition path_shardTrends :: "jsstr \<Rightarrow> jsstr \<Rightarrow> jsstr \<Rightarrow> jsstr option" where
  "path_shardTrends pod duration step =
     (case (encodeURIComponent pod, window_query duration step) of
        (Some p, Some q) \<Rightarrow> Some (lit ''/api/shards/'' @ p @ lit ''/trends'' @ q) | _ \<Rightarrow> None)"

definition path_cluster :: "jsstr \<Rightarrow> jsstr option" where
  "path_cluster cid = map_option (\<lambda>p. lit ''/api/clusters/'' @ p) (encodeURIComponent cid)"

text \<open>\<open>limit ? `&limit=${limit}` : ""\<close>: zero and NaN are falsy.\<close>

definition path_needs :: "jsstr \<Rightarrow> jsnum \<Rightarrow> jsstr option" where
  "path_needs shard limit =
     map_option (\<lambda>p. lit ''/api/needs?shard='' @ p
         @ (if limit = NaN \<or> jeq limit (Fin 0) then [] else lit ''&limit='' @ num_to_string limit))
       (encodeURIComponent shard)"







subsection \<open>Encoding is undone by decoding\<close>

text \<open>The decoding of a percent-encoded UTF-8 string, as the receiver of a URL performs it.\<close>

definition hex_val :: "unit16 \<Rightarrow> int" where
  "hex_val c = (if is_digit c then uint c - 48 else uint c - 55)"

fun pct_decode :: "jsstr \<Rightarrow> int list" where
  "pct_decode [] = []"
| "pct_decode (c # s) =
     (case s of a # b # t \<Rightarrow> if c = 37 then (16 * hex_val a + hex_val b) # pct_decode t else uint c # pct_decode s
      | _ \<Rightarrow> uint c # pct_decode s)"

definition surrogates :: "int \<Rightarrow> jsstr" where
  "surrogates v = (if v < 0x10000 then [of_int v]
     else [of_int (0xD800 + (v - 0x10000) div 0x400), of_int (0xDC00 + (v - 0x10000) mod 0x400)])"

fun utf8_decode :: "int list \<Rightarrow> jsstr" where
  "utf8_decode [] = []"
| "utf8_decode (a # s) =
     (if a < 0x80 then of_int a # utf8_decode s
      else if a < 0xE0 then (case s of b # t \<Rightarrow> surrogates ((a - 0xC0) * 64 + (b - 0x80)) @ utf8_decode t | _ \<Rightarrow> [])
      else if a < 0xF0 then
        (case s of b # c # t \<Rightarrow> surrogates ((a - 0xE0) * 4096 + (b - 0x80) * 64 + (c - 0x80)) @ utf8_decode t | _ \<Rightarrow> [])
      else
        (case s of b # c # d # t \<Rightarrow>
           surrogates ((a - 0xF0) * 262144 + (b - 0x80) * 4096 + (c - 0x80) * 64 + (d - 0x80)) @ utf8_decode t | _ \<Rightarrow> []))"

definition uri_decode :: "jsstr \<Rightarrow> jsstr" where
  "uri_decode s = utf8_decode (pct_decode s)"

lemma uint_bounds: "0 \<le> uint (c :: unit16)" "uint (c :: unit16) < 65536"
  using uint_lt2p[of c] by simp_all

lemma of_int_uint_add: "of_int (uint (c :: unit16)) = c"
  by simp

lemma hex_val_digit: assumes "0 \<le> d" "d < 16" shows "hex_val (hex_digit d) = d"
proof -
  have "d \<in> {0, 1, 2, 3, 4, 5, 6, 7, 8, 9, 10, 11, 12, 13, 14, 15}" using assms by (simp, presburger)
  then show ?thesis by (auto simp: hex_digit_def hex_val_def is_digit_def)
qed

lemma pct_decode_pct: "0 \<le> b \<Longrightarrow> b < 256 \<Longrightarrow> pct_decode (pct b @ s) = b # pct_decode s"
  by (simp add: pct_def hex_val_digit)

lemma pct_decode_bytes: "\<forall>b \<in> set bs. 0 \<le> b \<and> b < 256 \<Longrightarrow> pct_decode (concat (map pct bs) @ s) = bs @ pct_decode s"
  by (induction bs) (simp_all add: pct_decode_pct)

text \<open>The digits of a code point in base 64.\<close>

lemma base64:
  fixes v :: int
  assumes "0 \<le> v" "v < 0x110000"
  obtains a b c d where "v = d * 262144 + c * 4096 + b * 64 + a" "0 \<le> a" "a < 64" "0 \<le> b" "b < 64" "0 \<le> c" "c < 64"
    "0 \<le> d" "d < 8" "v mod 64 = a" "v div 64 mod 64 = b" "v div 4096 mod 64 = c"
    "v div 262144 = d" "v div 4096 = d * 64 + c" "v div 64 = d * 4096 + c * 64 + b"
proof -
  define y z w a b c where d: "y = v div 64" "z = y div 64" "w = z div 64" "a = v mod 64" "b = y mod 64" "c = z mod 64"
  have e: "v div 4096 = z" "v div 262144 = w"
    using zdiv_zmult2_eq[of 64 v 64] zdiv_zmult2_eq[of 4096 v 64] zdiv_zmult2_eq[of 64 "v div 64" 64] by (simp_all add: d)
  have q: "v = y * 64 + a" "y = z * 64 + b" "z = w * 64 + c" by (simp_all add: d)
  have m: "0 \<le> a" "a < 64" "0 \<le> b" "b < 64" "0 \<le> c" "c < 64" by (simp_all add: d)
  have w: "0 \<le> w" "w < 8" using assms q m by linarith+
  have o: "v mod 64 = a" "v div 64 mod 64 = b" "v div 4096 mod 64 = c" "v div 64 = y" by (simp_all add: d e)
  show ?thesis
    by (rule that[of w c b a]) (simp_all only: e o m w d(5,6)[symmetric], insert q, linarith+)
qed

lemma utf8_bytes: assumes "0 \<le> v" "v < 0x110000" shows "\<forall>b \<in> set (utf8 v). 0 \<le> b \<and> b < 256"
proof -
  obtain a b c d where v: "v = d * 262144 + c * 4096 + b * 64 + a" "0 \<le> a" "a < 64" "0 \<le> b" "b < 64" "0 \<le> c" "c < 64"
    "0 \<le> d" "d < 8" and e: "v mod 64 = a" "v div 64 mod 64 = b" "v div 4096 mod 64 = c"
    "v div 262144 = d" "v div 4096 = d * 64 + c" "v div 64 = d * 4096 + c * 64 + b"
    by (rule base64[OF assms])
  show ?thesis unfolding utf8_def e using v by auto
qed

lemma utf8_decode_utf8: assumes "0 \<le> v" "v < 0x110000" shows "utf8_decode (utf8 v @ s) = surrogates v @ utf8_decode s"
proof -
  obtain a b c d where v: "v = d * 262144 + c * 4096 + b * 64 + a" "0 \<le> a" "a < 64" "0 \<le> b" "b < 64" "0 \<le> c" "c < 64"
    "0 \<le> d" "d < 8" and e: "v mod 64 = a" "v div 64 mod 64 = b" "v div 4096 mod 64 = c"
    "v div 262144 = d" "v div 4096 = d * 64 + c" "v div 64 = d * 4096 + c * 64 + b"
    by (rule base64[OF assms])
  have e': "(d * 4096 + c * 64 + b) mod 64 = b" "(d * 64 + c) mod 64 = c" using e by simp_all
  consider "v < 0x80" | "0x80 \<le> v" "v < 0x800" | "0x800 \<le> v" "v < 0x10000" | "0x10000 \<le> v" by linarith
  then show ?thesis
  proof cases
    case 1
    then show ?thesis by (simp add: utf8_def surrogates_def)
  next
    case 2
    then have "d = 0" "c = 0" "b < 32" using v by linarith+
    then show ?thesis using 2 v(2-) by (simp add: utf8_def e) (simp add: v(1))
  next
    case 3
    then have "d = 0" "c < 16" using v by linarith+
    then show ?thesis using 3 v(2-) by (simp add: utf8_def e) (simp add: v(1))
  next
    case 4
    then show ?thesis using v(2-) by (simp add: utf8_def e e') (simp add: v(1) add.assoc)
  qed
qed

lemma surrogates_pair:
  assumes "is_high h" "is_low l"
  shows "surrogates (code_point h l) = [h, l]" "0 \<le> code_point h l" "code_point h l < 0x110000"
proof -
  have b: "0xD800 \<le> uint h" "uint h \<le> 0xDBFF" "0xDC00 \<le> uint l" "uint l \<le> 0xDFFF"
    using assms by (simp_all add: is_high_def is_low_def word_le_def)
  define x y where "x = uint h - 0xD800" and "y = uint l - 0xDC00"
  have "code_point h l - 0x10000 = y + x * 0x400" by (simp add: code_point_def x_def y_def)
  moreover have "0 \<le> y" "y < 0x400" using b by (simp_all add: y_def)
  ultimately have "(code_point h l - 0x10000) div 0x400 = x" "(code_point h l - 0x10000) mod 0x400 = y" by simp_all
  then have "(code_point h l - 0x10000) div 0x400 = uint h - 0xD800" "(code_point h l - 0x10000) mod 0x400 = uint l - 0xDC00"
    by (simp_all add: x_def y_def)
  then show "surrogates (code_point h l) = [h, l]" using b by (simp add: surrogates_def)
  show "0 \<le> code_point h l" "code_point h l < 0x110000" using b by (simp_all add: code_point_def)
qed

lemma unreserved_ascii: "uri_unreserved c \<Longrightarrow> uint c < 128 \<and> c \<noteq> 37"
  by (auto simp: uri_unreserved_def is_letter_def is_digit_def word_le_def)

lemma pct_decode_plain: "c \<noteq> 37 \<Longrightarrow> pct_decode (c # s) = uint c # pct_decode s"
  by (auto split: list.splits)

lemma encode_decode:
  assumes "encodeURIComponent s = Some t"
  shows "uri_decode t = s"
  using assms
proof (induction s arbitrary: t rule: encodeURIComponent.induct)
  case 1
  then show ?case by (simp add: uri_decode_def)
next
  case (2 c s)
  consider (plain) "uri_unreserved c" | (pair) d u where "\<not> uri_unreserved c" "is_high c" "\<not> is_low c" "s = d # u" "is_low d"
    | (unit) "\<not> uri_unreserved c" "\<not> is_high c" "\<not> is_low c"
    using "2.prems" by (auto split: if_splits list.splits)
  then show ?case
  proof cases
    case plain
    with "2.prems" obtain r where r: "encodeURIComponent s = Some r" "t = c # r" by auto
    then have "uri_decode r = s" using 2 plain by auto
    moreover have "c \<noteq> 37" "uint c < 128" using unreserved_ascii plain by auto
    ultimately show ?thesis using r pct_decode_plain[of c r] by (simp add: uri_decode_def)
  next
    case pair
    with "2.prems" obtain r where r: "encodeURIComponent u = Some r" "t = concat (map pct (utf8 (code_point c d))) @ r" by auto
    then have "uri_decode r = u" using 2 pair by auto
    moreover note surrogates_pair[OF pair(2,5)]
    ultimately show ?thesis using r pair utf8_bytes by (simp add: uri_decode_def pct_decode_bytes utf8_decode_utf8)
  next
    case unit
    with "2.prems" obtain r where r: "encodeURIComponent s = Some r" "t = concat (map pct (utf8 (uint c))) @ r" by auto
    then have "uri_decode r = s" using 2 unit by auto
    moreover have "0 \<le> uint c" "uint c < 0x110000" "surrogates (uint c) = [c]" using uint_bounds[of c] by (simp_all add: surrogates_def)
    ultimately show ?thesis using r utf8_bytes[of "uint c"] by (simp add: uri_decode_def pct_decode_bytes utf8_decode_utf8)
  qed
qed


text \<open>An encoded component holds no separator of a URL.\<close>

lemma hex_digit_char: assumes "0 \<le> d" "d < 16" shows "hex_digit d \<notin> {47, 63, 38, 61, 35}"
proof -
  have "d \<in> {0, 1, 2, 3, 4, 5, 6, 7, 8, 9, 10, 11, 12, 13, 14, 15}" using assms by (simp, presburger)
  then show ?thesis by (auto simp: hex_digit_def)
qed

lemma pct_chars: "0 \<le> b \<Longrightarrow> b < 256 \<Longrightarrow> set (pct b) \<inter> {47, 63, 38, 61, 35} = {}"
  using hex_digit_char[of "b div 16"] hex_digit_char[of "b mod 16"] by (auto simp: pct_def)

lemma pct_bytes_chars: "\<forall>b \<in> set bs. 0 \<le> b \<and> b < 256 \<Longrightarrow> set (concat (map pct bs)) \<inter> {47, 63, 38, 61, 35} = {}"
  using pct_chars by (induction bs) auto

lemma unreserved_chars: "uri_unreserved c \<Longrightarrow> c \<notin> {47, 63, 38, 61, 35}"
  by (auto simp: uri_unreserved_def is_letter_def is_digit_def)

lemma encode_chars:
  "encodeURIComponent s = Some t \<Longrightarrow> set t \<inter> {47, 63, 38, 61, 35} = {}"
proof (induction s arbitrary: t rule: encodeURIComponent.induct)
  case (2 c s)
  have u: "set (concat (map pct (utf8 (uint c)))) \<inter> {47, 63, 38, 61, 35} = {}"
    using pct_bytes_chars[OF utf8_bytes[of "uint c"]] uint_bounds[of c] by simp
  have p: "set (concat (map pct (utf8 (code_point c d)))) \<inter> {47, 63, 38, 61, 35} = {}" if "is_high c" "is_low d" for d
    using pct_bytes_chars[OF utf8_bytes] surrogates_pair[OF that] by simp
  from 2 u p show ?case
    using unreserved_chars[of c] by (auto split: if_splits list.splits simp del: set_concat)
qed simp

subsection \<open>Requests name one resource\<close>

text \<open>The calls of the \<open>api\<close> object, and the path that each requests.\<close>

datatype request = Health | Config | Fleet_Overview | Fleet_Actions jsstr jsstr | Shards | Shard jsstr
  | Shard_Trends jsstr jsstr jsstr | Clusters | Cluster jsstr | Available_Capacity | Get_Topology | Shard_Reports
  | Get_Needs jsstr nat | Finops_Snapshot

fun request_path :: "request \<Rightarrow> jsstr option" where
  "request_path Health = Some path_health"
| "request_path Config = Some path_config"
| "request_path Fleet_Overview = Some path_fleetOverview"
| "request_path (Fleet_Actions d s) = path_fleetActions d s"
| "request_path Shards = Some path_shards"
| "request_path (Shard p) = path_shard p"
| "request_path (Shard_Trends p d s) = path_shardTrends p d s"
| "request_path Clusters = Some path_clusters"
| "request_path (Cluster c) = path_cluster c"
| "request_path Available_Capacity = Some path_availableCapacity"
| "request_path Get_Topology = Some path_topology"
| "request_path Shard_Reports = Some path_shardReports"
| "request_path (Get_Needs s l) = path_needs s (Fin (of_nat l))"
| "request_path Finops_Snapshot = Some path_finopsSnapshot"


fun limit_ok :: "request \<Rightarrow> bool" where
  "limit_ok (Get_Needs s l) = (l < 2 ^ 53)"
| "limit_ok _ = True"

definition limit_query :: "nat \<Rightarrow> jsstr" where
  "limit_query l = (if l = 0 then [] else lit ''&limit='' @ dec (int l))"

lemma path_needs_eq:
  "l < 2 ^ 53 \<Longrightarrow> path_needs s (Fin (of_nat l)) =
     map_option (\<lambda>t. lit ''/api/needs?shard='' @ t @ limit_query l) (encodeURIComponent s)"
  using num_to_string_nat[of "int l"] by (simp add: path_needs_def limit_query_def jeq_def)

text \<open>A server's reading of a path: the segments, then the parameters of the query.\<close>

fun split_on :: "unit16 \<Rightarrow> jsstr \<Rightarrow> jsstr list" where
  "split_on c [] = [[]]"
| "split_on c (x # xs) =
     (if x = c then [] # split_on c xs
      else case split_on c xs of [] \<Rightarrow> [[x]] | y # ys \<Rightarrow> (x # y) # ys)"

definition query_params :: "jsstr \<Rightarrow> jsstr list list" where
  "query_params q = (if q = [] then [] else map (split_on 61) (split_on 38 q))"

definition param :: "jsstr \<Rightarrow> jsstr list list \<Rightarrow> jsstr option" where
  "param k ps = (case filter (\<lambda>kv. hd kv = k) ps of [] \<Rightarrow> None | kv # _ \<Rightarrow> Some (uri_decode (last kv)))"

definition need_param :: "jsstr \<Rightarrow> jsstr list list \<Rightarrow> jsstr" where
  "need_param k ps = (case param k ps of None \<Rightarrow> [] | Some v \<Rightarrow> v)"

definition route_segments :: "jsstr list \<Rightarrow> jsstr list list \<Rightarrow> request option" where
  "route_segments segs ps =
     (let d = need_param (lit ''duration'') ps; s = need_param (lit ''step'') ps in
      case segs of
        [x] \<Rightarrow>
          if x = lit ''health'' then Some Health else if x = lit ''config'' then Some Config
          else if x = lit ''shards'' then Some Shards else if x = lit ''clusters'' then Some Clusters
          else if x = lit ''available-capacity'' then Some Available_Capacity
          else if x = lit ''topology'' then Some Get_Topology
          else if x = lit ''shard-reports'' then Some Shard_Reports
          else if x = lit ''needs'' then
            Some (Get_Needs (need_param (lit ''shard'') ps)
              (case param (lit ''limit'') ps of None \<Rightarrow> 0 | Some l \<Rightarrow> nat (digits_val l)))
          else None
      | [x, y] \<Rightarrow>
          if x = lit ''fleet'' then if y = lit ''overview'' then Some Fleet_Overview else Some (Fleet_Actions d s)
          else if x = lit ''finops'' then Some Finops_Snapshot
          else if x = lit ''shards'' then Some (Shard (uri_decode y))
          else if x = lit ''clusters'' then Some (Cluster (uri_decode y)) else None
      | [x, y, z] \<Rightarrow> Some (Shard_Trends (uri_decode y) d s)
      | _ \<Rightarrow> None)"

definition route :: "jsstr \<Rightarrow> request option" where
  "route p =
     route_segments (drop 2 (split_on 47 (takeWhile (\<lambda>c. c \<noteq> 63) p)))
       (query_params (drop 1 (dropWhile (\<lambda>c. c \<noteq> 63) p)))"

lemma split_on_nonempty [simp]: "split_on c xs \<noteq> []"
  by (induction xs) (auto split: list.splits)

lemma split_on_none: "c \<notin> set xs \<Longrightarrow> split_on c xs = [xs]"
  by (induction xs) auto

lemma split_on_sep: "c \<notin> set xs \<Longrightarrow> split_on c (xs @ c # ys) = xs # split_on c ys"
  by (induction xs) auto

lemma encoded:
  assumes "encodeURIComponent s = Some t"
  shows "uri_decode t = s" "47 \<notin> set t" "63 \<notin> set t" "38 \<notin> set t" "61 \<notin> set t"
  using encode_decode[OF assms] encode_chars[OF assms] by auto

lemma digits_plain: 
  assumes "\<forall>c \<in> set ds. is_digit c"
  shows "uri_decode ds = ds" "38 \<notin> set ds" "61 \<notin> set ds" "63 \<notin> set ds"
proof -
  have "uri_unreserved c" if "is_digit c" for c using that by (simp add: uri_unreserved_def)
  then have "encodeURIComponent ds = Some ds" using assms by (induction ds) auto
  from encoded[OF this] show "uri_decode ds = ds" "38 \<notin> set ds" "61 \<notin> set ds" "63 \<notin> set ds" by auto
qed

lemma window_params:
  assumes "window_query d s = Some q"
  obtains r where "q = 63 # r" "need_param (lit ''duration'') (query_params r) = d" "need_param (lit ''step'') (query_params r) = s"
proof -
  from assms obtain a b where e: "encodeURIComponent d = Some a" "encodeURIComponent s = Some b"
    "q = 63 # (lit ''duration='' @ a) @ 38 # (lit ''step='' @ b)"
    by (auto simp: window_query_def split: option.splits)
  note ea = encoded[OF e(1)] and eb = encoded[OF e(2)]
  have "query_params ((lit ''duration='' @ a) @ 38 # (lit ''step='' @ b)) = [[lit ''duration'', a], [lit ''step'', b]]"
    using ea eb split_on_sep[of 38 "lit ''duration='' @ a"] split_on_none[of 38 "lit ''step='' @ b"]
      split_on_none[of 61 a] split_on_none[of 61 b]
    by (simp add: query_params_def)
  then show ?thesis using that[OF e(3)] ea(1) eb(1) by (simp add: need_param_def param_def)
qed

lemma route_plain: "63 \<notin> set p \<Longrightarrow> route p = route_segments (drop 2 (split_on 47 p)) []"
proof -
  assume "63 \<notin> set p"
  then have e: "takeWhile (\<lambda>c. c \<noteq> 63) p = p" "dropWhile (\<lambda>c. c \<noteq> 63) p = []" by (auto simp: takeWhile_eq_all_conv)
  show ?thesis unfolding route_def e by (simp add: query_params_def)
qed

lemma route_query: "63 \<notin> set p \<Longrightarrow> route (p @ 63 # q) = route_segments (drop 2 (split_on 47 p)) (query_params q)"
proof -
  assume "63 \<notin> set p"
  then have "\<forall>c \<in> set p. c \<noteq> 63" by auto
  from takeWhile_stop[OF this, of "63 # q"] dropWhile_stop[OF this, of "63 # q"]
  have e: "takeWhile (\<lambda>c. c \<noteq> 63) (p @ 63 # q) = p" "dropWhile (\<lambda>c. c \<noteq> 63) (p @ 63 # q) = 63 # q" by simp_all
  show ?thesis unfolding route_def e by simp
qed

lemma request_routed:
  assumes "request_path r = Some p" "limit_ok r"
  shows "route p = Some r"
proof (cases r)
  case (Fleet_Actions d s)
  then obtain q where q: "window_query d s = Some q" "p = lit ''/api/fleet/actions'' @ q"
    using assms by (auto simp: path_fleetActions_def)
  obtain u where "q = 63 # u" "need_param (lit ''duration'') (query_params u) = d" "need_param (lit ''step'') (query_params u) = s"
    by (rule window_params[OF q(1)])
  then show ?thesis using q(2) route_query[of "lit ''/api/fleet/actions''" u] by (simp add: Fleet_Actions route_segments_def)
next
  case (Shard x)
  then obtain t where t: "encodeURIComponent x = Some t" "p = lit ''/api/shards/'' @ t" using assms by (auto simp: path_shard_def)
  note e = encoded[OF t(1)]
  then show ?thesis using t(2) route_plain[of p] by (simp add: Shard route_segments_def split_on_none)
next
  case (Shard_Trends x d s)
  then obtain t q where t: "encodeURIComponent x = Some t" "window_query d s = Some q" "p = (lit ''/api/shards/'' @ t @ lit ''/trends'') @ q"
    using assms by (auto simp: path_shardTrends_def split: option.splits)
  note e = encoded[OF t(1)]
  obtain u where "q = 63 # u" "need_param (lit ''duration'') (query_params u) = d" "need_param (lit ''step'') (query_params u) = s"
    by (rule window_params[OF t(2)])
  then show ?thesis using t(3) e route_query[of "lit ''/api/shards/'' @ t @ lit ''/trends''" u]
    by (simp add: Shard_Trends route_segments_def split_on_sep)
next
  case (Cluster x)
  then obtain t where t: "encodeURIComponent x = Some t" "p = lit ''/api/clusters/'' @ t" using assms by (auto simp: path_cluster_def)
  note e = encoded[OF t(1)]
  then show ?thesis using t(2) route_plain[of p] by (simp add: Cluster route_segments_def split_on_none)
next
  case (Get_Needs x l)
  then obtain t where t: "encodeURIComponent x = Some t" "p = lit ''/api/needs'' @ 63 # (lit ''shard='' @ t) @ limit_query l"
    using assms by (auto simp: path_needs_eq)
  note e = encoded[OF t(1)] and d = digits_plain[OF dec_digits[of "int l"]]
  have "query_params ((lit ''shard='' @ t) @ limit_query l) =
    (if l = 0 then [[lit ''shard'', t]] else [[lit ''shard'', t], [lit ''limit'', dec (int l)]])"
    using e d split_on_sep[of 38 "lit ''shard='' @ t"] split_on_none[of 38 "lit ''limit='' @ dec (int l)"]
      split_on_none[of 38 "lit ''shard='' @ t"] split_on_none[of 61 t] split_on_none[of 61 "dec (int l)"]
    by (auto simp: query_params_def limit_query_def)
  then show ?thesis using t(2) e d route_query[of "lit ''/api/needs''" "(lit ''shard='' @ t) @ limit_query l"]
    by (simp add: Get_Needs route_segments_def need_param_def param_def digits_val_dec)
qed (use assms in \<open>auto simp: path_health_def path_config_def path_fleetOverview_def path_shards_def path_clusters_def
    path_availableCapacity_def path_topology_def path_shardReports_def path_finopsSnapshot_def route_plain route_segments_def\<close>)

text \<open>
C11: The path of every API request can be read back to the request: percent-encoding keeps ids
  and parameters apart from the separators, so no two requests share a URL.
\<close>

theorem request_path_route:
  assumes "request_path r = Some p" "limit_ok r"
  shows "route p = Some r"
  using request_routed[OF assms] .

lemma request_path_route_witness:
  "route (lit ''/api/needs?shard=shard%2F0&limit=50'') = Some (Get_Needs (lit ''shard/0'') 50)"
proof -
  have "dec 50 = lit ''50''" by (simp add: jeval)
  then have "request_path (Get_Needs (lit ''shard/0'') 50) = Some (lit ''/api/needs?shard=shard%2F0&limit=50'')"
    using path_needs_eq[of 50 "lit ''shard/0''"] by (simp add: limit_query_def uri_unreserved_def is_letter_def is_low_def is_high_def is_digit_def utf8_def pct_def hex_digit_def)
  from request_path_route[OF this] show ?thesis by simp
qed

subsection \<open>Calls against a server\<close>






end
