(* ===== verification/Ui.thy ===== *)
theory Ui
  imports Format
begin

text \<open>
  What the pages share to describe what they render: the tones of \<open>components/Badge.tsx\<close> and
  the language's reads of optional and indexed data, and the tree that a component renders.
  In a tree an element keeps its tag, its children and the attributes that carry information
  (\<open>title\<close>, \<open>href\<close>, \<open>value\<close>, widths, heights and colours of its style). Constant class names are
  dropped; a class name that depends on data is kept as the attribute \<open>class\<close>. Keys, event
  handlers and SVG icons are left out.
\<close>

datatype Tone = Neutral | Good | Warn | Danger | Info | Violet | Accent

text \<open>\<open>d ?? {}\<close> and \<open>xs ?? []\<close>; \<open>d?.[k]\<close>.\<close>

definition entries :: "'a list option \<Rightarrow> 'a list" where
  "entries d = (case d of None \<Rightarrow> [] | Some es \<Rightarrow> es)"

definition get_opt :: "(jsstr \<times> 'v) list option \<Rightarrow> jsstr \<Rightarrow> 'v option" where
  "get_opt d k = (case d of None \<Rightarrow> None | Some es \<Rightarrow> map_of es k)"

text \<open>Truth of a number and of an optional string or number.\<close>

definition truthy :: "jsnum \<Rightarrow> bool" where
  "truthy x \<longleftrightarrow> x \<noteq> NaN \<and> \<not> jeq x (Fin 0)"

definition truthy_str :: "jsstr option \<Rightarrow> bool" where
  "truthy_str s \<longleftrightarrow> (\<exists>t. s = Some t \<and> t \<noteq> [])"

lemma truthy_str_simps [simp]: "truthy_str None = False" "truthy_str (Some t) = (t \<noteq> [])"
  by (simp_all add: truthy_str_def)

lemma entries_simps [simp]: "entries None = []" "entries (Some xs) = xs"
  by (simp_all add: entries_def)

lemma get_opt_simps [simp]: "get_opt None k = None" "get_opt (Some es) k = map_of es k"
  by (simp_all add: get_opt_def)

text \<open>A plural: \<open>x === 1 ? "" : "s"\<close>.\<close>

definition plural :: "jsnum \<Rightarrow> jsstr" where
  "plural x = (if jeq x (Fin 1) then [] else lit ''s'')"

text \<open>\<open>Array.from({ length: x })\<close>: the length is the integer part, nothing below one.\<close>

definition array_length :: "jsnum \<Rightarrow> nat" where
  "array_length x = (if is_fin x then nat \<lfloor>val x\<rfloor> else 0)"

subsection \<open>Rendered trees\<close>

datatype html = T jsstr | E string "(string \<times> jsstr) list" "html list"

definition el :: "string \<Rightarrow> html list \<Rightarrow> html" where
  "el tag kids = E tag [] kids"

definition leaf :: "string \<Rightarrow> jsstr \<Rightarrow> html" where
  "leaf tag s = E tag [] [T s]"

text \<open>\<open>cond && <X />\<close>.\<close>

definition show_if :: "bool \<Rightarrow> html list \<Rightarrow> html list" where
  "show_if b kids = (if b then kids else [])"

text \<open>The text of a tree, in document order.\<close>

fun text_of :: "html \<Rightarrow> jsstr" where
  "text_of (T s) = s"
| "text_of (E tag attrs kids) = concat (map text_of kids)"

definition percent :: "jsnum \<Rightarrow> jsstr" where
  "percent x = num_to_string x @ lit ''%''"

definition str_nat :: "nat \<Rightarrow> jsnum" where
  "str_nat n = Fin (of_nat n)"

subsection \<open>\<open>components/Badge.tsx\<close>\<close>

fun toneClasses :: "Tone \<Rightarrow> jsstr" where
  "toneClasses Neutral = (lit ''bg-[var(--surface-3)] text-[var(--text-muted)]'')"
| "toneClasses Good = (lit ''bg-emerald-100 text-emerald-700 dark:bg-emerald-500/15 dark:text-emerald-300'')"
| "toneClasses Warn = (lit ''bg-amber-100 text-amber-800 dark:bg-amber-500/15 dark:text-amber-300'')"
| "toneClasses Danger = (lit ''bg-red-100 text-red-700 dark:bg-red-500/15 dark:text-red-300'')"
| "toneClasses Info = (lit ''bg-sky-100 text-sky-700 dark:bg-sky-500/15 dark:text-sky-300'')"
| "toneClasses Violet = (lit ''bg-violet-100 text-violet-700 dark:bg-violet-500/15 dark:text-violet-300'')"
| "toneClasses Accent = (lit ''bg-[var(--accent-soft)] text-[var(--accent-soft-fg)]'')"

fun dotColour :: "Tone \<Rightarrow> jsstr" where
  "dotColour Neutral = (lit ''bg-[var(--text-subtle)]'')"
| "dotColour Good = (lit ''bg-emerald-500'')"
| "dotColour Warn = (lit ''bg-amber-500'')"
| "dotColour Danger = (lit ''bg-red-500'')"
| "dotColour Info = (lit ''bg-sky-500'')"
| "dotColour Violet = (lit ''bg-violet-500'')"
| "dotColour Accent = (lit ''bg-[var(--accent)]'')"

definition Badge :: "Tone \<Rightarrow> bool \<Rightarrow> html list \<Rightarrow> html" where
  "Badge tone dot children =
     E ''span'' [(''class'', toneClasses tone)]
       (show_if dot [E ''span'' [(''class'', dotColour tone)] []] @ children)"

end
