(* ===== verification/Parts.thy ===== *)
theory Parts
  imports Ui Api_Calls
begin

text \<open>
  \<open>ui/src/components\<close> and \<open>ui/src/lib/colours.ts\<close>: the building blocks that the pages share.
  A slot of type \<open>ReactNode\<close> is a list of trees, empty when the slot is not given; a slot
  that is given is taken to be truthy. \<open>Date.now() / 1000\<close> is a parameter, once per call.
  A link to an id percent-encodes it, which throws on an unpaired surrogate: \<open>None\<close>.
\<close>

subsection \<open>Colours\<close>

definition stateColours :: "(jsstr \<times> jsstr) list" where
  "stateColours =
     [((lit ''Speculative''), (lit ''#94a3b8'')), ((lit ''Creating''), (lit ''#93c5fd'')), ((lit ''Idle''), (lit ''#3b82f6'')), ((lit ''Configuring''), (lit ''#fbbf24'')),
      ((lit ''Configured''), (lit ''#10b981'')), ((lit ''Draining''), (lit ''#f59e0b'')), ((lit ''Deleting''), (lit ''#b45309'')), ((lit ''Failed''), (lit ''#ef4444''))]"

definition capacityTypeColours :: "(jsstr \<times> jsstr) list" where
  "capacityTypeColours =
     [((lit ''BareMetal''), (lit ''#475569'')), ((lit ''Reserved''), (lit ''#6366f1'')), ((lit ''OnDemand''), (lit ''#3b82f6'')), ((lit ''Spot''), (lit ''#f59e0b''))]"

definition fallback :: "jsstr list" where
  "fallback = [(lit ''#0891b2''), (lit ''#7c3aed''), (lit ''#db2777''), (lit ''#65a30d''), (lit ''#ea580c''), (lit ''#0ea5e9'')]"

definition crPhaseColours :: "(jsstr \<times> jsstr) list" where
  "crPhaseColours = [((lit ''Pending''), (lit ''#f59e0b'')), ((lit ''Acknowledged''), (lit ''#10b981''))]"

definition upcomingNodePhaseColours :: "(jsstr \<times> jsstr) list" where
  "upcomingNodePhaseColours =
     [((lit ''Provisioning''), (lit ''#93c5fd'')), ((lit ''Launched''), (lit ''#3b82f6'')), ((lit ''Registered''), (lit ''#6366f1'')), ((lit ''Ready''), (lit ''#10b981'')),
      ((lit ''Draining''), (lit ''#f59e0b'')), ((lit ''Drained''), (lit ''#94a3b8'')), ((lit ''Failed''), (lit ''#ef4444''))]"

text \<open>\<open>palette[key] ?? colours[idx % colours.length] ?? "#888"\<close>; an index is never negative.\<close>

definition pick_colour :: "jsstr list \<Rightarrow> (jsstr \<times> jsstr) list \<Rightarrow> jsstr \<Rightarrow> nat \<Rightarrow> jsstr" where
  "pick_colour colours palette k idx =
     (case map_of palette k of Some c \<Rightarrow> c
      | None \<Rightarrow> if colours = [] then (lit ''#888'') else colours ! (idx mod length colours))"

definition colourFor :: "(jsstr \<times> jsstr) list \<Rightarrow> jsstr \<Rightarrow> nat \<Rightarrow> jsstr" where
  "colourFor palette k idx = pick_colour fallback palette k idx"

subsection \<open>Queries\<close>

text \<open>
  What \<open>useQuery\<close> (TanStack Query) shows of a request: the last data, the error of the last
  attempt, and whether the first data are still awaited. \<open>wired\<close> reads a flag of the
  client configuration that may not have arrived.
\<close>

record 'a query =
  q_data :: "'a option"
  q_error :: "jsstr option"
  q_loading :: bool

definition wired :: "(ClientConfig \<Rightarrow> bool) \<Rightarrow> ClientConfig query \<Rightarrow> bool" where
  "wired flag cfg = (case q_data cfg of None \<Rightarrow> False | Some c \<Rightarrow> flag c)"

subsection \<open>Notices\<close>

definition ErrorBox :: "jsstr \<Rightarrow> html" where
  "ErrorBox message = el ''div'' [leaf ''span'' message]"

definition EmptyState :: "bool \<Rightarrow> jsstr \<Rightarrow> html list \<Rightarrow> html" where
  "EmptyState warn title children =
     E ''div'' [(''class'', if warn
          then (lit ''border-amber-300/70 bg-amber-50 text-amber-900 dark:border-amber-700/50''
    @ lit '' dark:bg-amber-950/20 dark:text-amber-200'')
          else (lit ''border-[var(--border)] bg-[var(--surface)] text-[var(--text-muted)]''))]
       (leaf ''div'' title # show_if (children \<noteq> []) [el ''div'' children])"

definition UnwiredNotice :: "jsstr \<Rightarrow> jsstr \<Rightarrow> html" where
  "UnwiredNotice source flag =
     el ''div'' [leaf ''div'' (source @ (lit '' not wired'')),
       el ''div'' [T (lit ''Pass ''), leaf ''code'' (flag @ (lit ''='' @ [0x2026])), T (lit '' ''), T (lit ''on the dashboard binary to enable this view.'')]]"

definition Prometheus_Unwired :: html where
  "Prometheus_Unwired = UnwiredNotice (lit ''Prometheus'') (lit ''--prometheus-url'')"

definition PageHeader :: "html list \<Rightarrow> jsstr option \<Rightarrow> html list \<Rightarrow> html" where
  "PageHeader title subtitle right =
     el ''header'' (el ''div'' (el ''h1'' title # show_if (truthy_str subtitle) [leaf ''p'' (the subtitle)])
       # show_if (right \<noteq> []) [el ''div'' right])"

subsection \<open>Tiles and cards\<close>

datatype TileTone = Tile_Neutral | Tile_Good | Tile_Warn | Tile_Danger

fun toneText :: "TileTone \<Rightarrow> jsstr" where
  "toneText Tile_Neutral = (lit ''text-[var(--text)]'')"
| "toneText Tile_Good = (lit ''text-emerald-600 dark:text-emerald-400'')"
| "toneText Tile_Warn = (lit ''text-amber-600 dark:text-amber-400'')"
| "toneText Tile_Danger = (lit ''text-red-600 dark:text-red-400'')"

fun toneAccent :: "TileTone \<Rightarrow> jsstr" where
  "toneAccent Tile_Neutral = (lit ''bg-[var(--border-strong)]'')"
| "toneAccent Tile_Good = (lit ''bg-emerald-500'')"
| "toneAccent Tile_Warn = (lit ''bg-amber-500'')"
| "toneAccent Tile_Danger = (lit ''bg-red-500'')"

definition Tile :: "jsstr \<Rightarrow> jsstr \<Rightarrow> jsstr option \<Rightarrow> TileTone \<Rightarrow> html" where
  "Tile label v subtitle tone =
     el ''div''
       ([E ''span'' [(''class'', toneAccent tone)] [], leaf ''div'' label, E ''div'' [(''class'', toneText tone)] [T v]]
        @ show_if (truthy_str subtitle) [leaf ''div'' (the subtitle)])"

definition Card :: "html list \<Rightarrow> jsstr option \<Rightarrow> html list \<Rightarrow> html list \<Rightarrow> html" where
  "Card title subtitle right children =
     el ''section''
       (show_if (title \<noteq> [] \<or> right \<noteq> [])
          [el ''header''
            (el ''div'' (show_if (title \<noteq> []) [el ''h2'' title] @ show_if (truthy_str subtitle) [leaf ''p'' (the subtitle)])
             # show_if (right \<noteq> []) [el ''div'' right])]
        @ [el ''div'' children])"

subsection \<open>Stacked bar\<close>

record Segment =
  g_label :: jsstr
  g_value :: jsnum
  g_colour :: jsstr

definition stacked_sum :: "Segment list \<Rightarrow> jsnum option \<Rightarrow> jsnum" where
  "stacked_sum segments t =
     (case t of Some x \<Rightarrow> x | None \<Rightarrow> foldl (\<lambda>s x. jadd s (g_value x)) (Fin 0) segments)"

definition stacked_visible :: "Segment list \<Rightarrow> Segment list" where
  "stacked_visible segments = filter (\<lambda>s. jlt (Fin 0) (g_value s)) segments"

definition stacked_width :: "jsnum \<Rightarrow> Segment \<Rightarrow> jsnum" where
  "stacked_width t s = jmul (jdiv (g_value s) t) (Fin 100)"

definition StackedBar :: "Segment list \<Rightarrow> jsnum option \<Rightarrow> (jsnum \<Rightarrow> jsstr) option \<Rightarrow> html" where
  "StackedBar segments t formatValue =
     (let s = stacked_sum segments t; visible = stacked_visible segments;
          fmt = (case formatValue of Some f \<Rightarrow> f | None \<Rightarrow> to_locale)
      in if visible = [] \<or> jeq s (Fin 0) then leaf ''div'' (lit ''No data.'')
         else el ''div''
           [el ''div'' (map (\<lambda>g. E ''div'' [(''width'', percent (stacked_width s g)), (''backgroundColor'', g_colour g),
               (''title'', g_label g @ (lit '': '') @ fmt (g_value g))] []) visible),
            el ''ul'' (map (\<lambda>g. el ''li'' [E ''span'' [(''backgroundColor'', g_colour g)] [],
               leaf ''span'' (g_label g), leaf ''span'' (fmt (g_value g))]) visible)])"

text \<open>\<open>formatInt\<close> as a formatter, and a bar over the entries of a dictionary.\<close>

definition format_int :: "jsnum \<Rightarrow> jsstr" where
  "format_int v = formatInt (Some v)"

definition entry_segments :: "(jsstr \<times> jsstr) list \<Rightarrow> (jsstr \<times> jsnum) list option \<Rightarrow> Segment list" where
  "entry_segments palette d =
     map (\<lambda>(i, k, v). \<lparr>g_label = k, g_value = v, g_colour = colourFor palette k i\<rparr>) (enumerate 0 (entries d))"

subsection \<open>Freshness\<close>

definition Dot :: "jsstr \<Rightarrow> html" where
  "Dot className = E ''span'' [(''class'', className)] []"

definition snapshot_missing :: "jsnum \<Rightarrow> bool" where
  "snapshot_missing unixNanos \<longleftrightarrow> \<not> truthy unixNanos \<or> jle unixNanos (Fin 0)"

definition snapshot_sec :: "jsnum \<Rightarrow> jsnum" where
  "snapshot_sec unixNanos = jdiv unixNanos (Fin 1000000000)"

definition snapshot_stale :: "jsnum \<Rightarrow> jsnum \<Rightarrow> jsnum \<Rightarrow> bool" where
  "snapshot_stale now unixNanos staleAfterSec = jlt staleAfterSec (jsub now (snapshot_sec unixNanos))"

definition Freshness :: "jsnum \<Rightarrow> jsnum \<Rightarrow> jsnum \<Rightarrow> jsnum option \<Rightarrow> jsnum \<Rightarrow> jsstr \<Rightarrow> html" where
  "Freshness now now' unixNanos cycle staleAfterSec emptyLabel =
     (if snapshot_missing unixNanos then el ''span'' [Dot (lit ''bg-amber-500''), T emptyLabel]
      else let stale = snapshot_stale now unixNanos staleAfterSec
        in E ''span'' [(''class'', if stale then (lit ''text-amber-700 dark:text-amber-400'') else (lit ''text-[var(--text-muted)]''))]
          ([Dot (if stale then (lit ''bg-amber-500'') else (lit ''bg-emerald-500''))]
           @ (case cycle of None \<Rightarrow> [] | Some c \<Rightarrow> [leaf ''span'' ((lit ''cycle '') @ num_to_string c @ (lit '' '' @ [0xB7] @ lit '' ''))])
           @ [T ((lit ''updated '') @ formatRelative (Some (snapshot_sec unixNanos)) now')]
           @ show_if stale [T (lit '' (stale)'')]))"

definition no_data_yet :: jsstr where "no_data_yet = (lit ''no data yet (rebuilding)'')"

subsection \<open>Tables\<close>

definition TableShell :: "html list \<Rightarrow> html" where
  "TableShell children = el ''section'' [el ''div'' [el ''table'' children]]"

definition THead :: "html list \<Rightarrow> html" where
  "THead children = el ''thead'' children"

definition TH :: "bool \<Rightarrow> jsstr \<Rightarrow> html" where
  "TH right title = E ''th'' [(''class'', if right then (lit ''px-4 py-2.5 font-semibold text-right'') else (lit ''px-4 py-2.5 font-semibold text-left''))] [T title]"

definition TR :: "bool \<Rightarrow> jsstr \<Rightarrow> html list \<Rightarrow> html" where
  "TR hover className children =
     E ''tr'' [(''class'', (lit ''border-b border-[var(--border)] last:border-0 '')
       @ (if hover then (lit ''transition-colors hover:bg-[var(--surface-2)]'') else []) @ (lit '' '') @ className)] children"

record TDProps =
  td_right :: bool
  td_mono :: bool
  td_muted :: bool
  td_class :: jsstr
  td_colSpan :: "nat option"
  td_title :: "jsstr option"

definition td :: TDProps where
  "td = \<lparr>td_right = False, td_mono = False, td_muted = False, td_class = [], td_colSpan = None, td_title = None\<rparr>"

definition TD :: "TDProps \<Rightarrow> html list \<Rightarrow> html" where
  "TD p children =
     E ''td''
       ((case td_colSpan p of None \<Rightarrow> [] | Some n \<Rightarrow> [(''colSpan'', num_to_string (str_nat n))])
        @ (case td_title p of None \<Rightarrow> [] | Some t \<Rightarrow> [(''title'', t)])
        @ [(''class'', (lit ''px-4 py-2.5 '') @ (if td_right p then (lit ''text-right tabular-nums'') else []) @ (lit '' '')
             @ (if td_mono p then (lit ''font-mono text-xs'') else []) @ (lit '' '')
             @ (if td_muted p then (lit ''text-[var(--text-muted)]'') else (lit ''text-[var(--text)]'')) @ (lit '' '') @ td_class p)])
       children"

definition MessageRow :: "nat \<Rightarrow> jsstr \<Rightarrow> html" where
  "MessageRow colSpan message = el ''tr'' [E ''td'' [(''colSpan'', num_to_string (str_nat colSpan))] [T message]]"

subsection \<open>Drawer\<close>

datatype DrawerSize = Size_md | Size_lg | Size_xl

fun sizeClass :: "DrawerSize \<Rightarrow> jsstr" where
  "sizeClass Size_md = (lit ''max-w-md'')"
| "sizeClass Size_lg = (lit ''max-w-2xl'')"
| "sizeClass Size_xl = (lit ''max-w-3xl'')"

definition Drawer :: "bool \<Rightarrow> html list \<Rightarrow> html list \<Rightarrow> DrawerSize \<Rightarrow> html list \<Rightarrow> html list" where
  "Drawer opened title subtitle width children =
     (if \<not> opened then []
      else [E ''div'' [(''role'', (lit ''dialog'')), (''aria-modal'', (lit ''true''))]
        [E ''button'' [(''aria-label'', (lit ''Close''))] [],
         E ''div'' [(''class'', sizeClass width)]
           [el ''header'' [el ''div'' (el ''h2'' title # show_if (subtitle \<noteq> []) [el ''div'' subtitle]),
              E ''button'' [(''aria-label'', (lit ''Close panel''))] []],
            el ''div'' children]]])"

text \<open>The listener that is registered while the drawer is open: whether a key closes it.\<close>

definition drawer_key :: "bool \<Rightarrow> jsstr \<Rightarrow> bool" where
  "drawer_key opened k \<longleftrightarrow> opened \<and> k = (lit ''Escape'')"

subsection \<open>Links\<close>

definition Link :: "jsstr \<Rightarrow> html list \<Rightarrow> html" where
  "Link target children = E ''a'' [(''href'', target)] children"

definition link_id :: "jsstr \<Rightarrow> jsstr \<Rightarrow> html list \<Rightarrow> html option" where
  "link_id prefix i children = map_option (\<lambda>p. Link (prefix @ p) children) (encodeURIComponent i)"

end
