(* ===== verification/Js_Counts.thy ===== *)
theory Js_Counts
  imports Js_Exact Js_Print
begin

text \<open>
  Counts: whole numbers that a double holds exactly. Sums of counts up to \<open>2 ^ 53\<close> are exact, in
  whatever order they are added; \<open>fl_abs_error\<close> and \<open>fl_rel_error\<close> bound what one rounding loses.
\<close>

subsection \<open>The error of one rounding\<close>

lemma ulp_le_power: assumes "0 < x" "x \<le> 2 powi k" "- 1000 \<le> k" shows "ulp_exp x \<le> k - 52"
proof -
  have "(2::rat) powi flogb 2 x \<le> 2 powi k" using flogb_bounds[of 2 x] assms by simp
  then have "flogb 2 x \<le> k" by (metis one_less_numeral_iff power_int_strict_increasing semiring_norm(76) linorder_not_less)
  with assms show ?thesis by (auto simp: ulp_exp_def)
qed

lemma fl_abs_error: assumes "\<bar>x\<bar> \<le> 2 powi k" "- 1000 \<le> k" shows "\<bar>fl x - x\<bar> \<le> 2 powi (k - 53)"
proof -
  have pos: "\<bar>fl y - y\<bar> \<le> 2 powi (k - 53)" if "0 < y" "y \<le> 2 powi k" for y
  proof -
    have "ulp_exp y - 1 \<le> k - 53" using ulp_le_power[OF that assms(2)] by simp
    then have "(2::rat) powi (ulp_exp y - 1) \<le> 2 powi (k - 53)" by (intro power_int_increasing) auto
    moreover have "(2::rat) powi (ulp_exp y - 1) = 2 powi ulp_exp y / 2" by (simp add: power_int_diff)
    ultimately show ?thesis using fl_error[OF that(1)] by linarith
  qed
  consider "0 < x" | "x = 0" | "0 < - x" by linarith
  then show ?thesis
  proof cases
    case 3
    with pos[of "- x"] assms(1) show ?thesis by simp
  qed (use pos[of x] assms(1) in simp_all)
qed

lemma fl_rel_error: assumes "2 powi (- 1000) \<le> x" shows "\<bar>fl x - x\<bar> \<le> x / 2 ^ 53"
proof -
  have "(0::rat) < 2 powi (- 1000)" by simp
  with assms have x: "0 < x" by linarith
  have "- 1000 \<le> flogb 2 x" by (rule flogb_ge) (use assms x in auto)
  then have "ulp_exp x = flogb 2 x - 52" using x by (simp add: ulp_exp_def)
  then have "(2::rat) powi ulp_exp x / 2 = 2 powi flogb 2 x / 2 ^ 53" by (simp add: power_int_diff)
  moreover have "\<dots> \<le> x / 2 ^ 53" using flogb_bounds[of 2 x] x by (intro divide_right_mono) auto
  ultimately show ?thesis using fl_error[OF x] by linarith
qed

subsection \<open>Sums of counts\<close>

definition whole :: "jsnum \<Rightarrow> bool" where
  "whole x \<longleftrightarrow> (\<exists>k. 0 \<le> k \<and> x = Fin (of_int k))"

lemma whole_val [simp]: "whole x \<Longrightarrow> is_fin x" "whole x \<Longrightarrow> 0 \<le> val x"
  by (auto simp: whole_def)

lemma whole_nat [simp]: "whole (Fin (of_nat n))" "whole (Fin (numeral m))" "whole (Fin 0)" "whole (Fin 1)"
  unfolding whole_def by (rule exI[of _ "int n"], simp) (rule exI[of _ "numeral m"], simp, rule exI[of _ 0], simp, rule exI[of _ 1], simp)

lemma sum_counts:
  assumes "\<forall>x \<in> set xs. whole x" "0 \<le> a" "of_int a + (\<Sum>x \<leftarrow> xs. val x) \<le> 2 ^ 53"
  shows "foldl jadd (Fin (of_int a)) xs = Fin (of_int a + (\<Sum>x \<leftarrow> xs. val x))"
  using assms
proof (induction xs arbitrary: a)
  case (Cons x xs)
  then obtain k where k: "0 \<le> k" "x = Fin (of_int k)" by (auto simp: whole_def)
  have "0 \<le> (\<Sum>x \<leftarrow> xs. val x)" using Cons.prems(1) by (intro sum_list_nonneg) auto
  with Cons.prems(3) k have "of_int (a + k) \<le> (of_int (2 ^ 53) :: rat)" by simp
  then have "a + k \<le> 2 ^ 53" unfolding of_int_le_iff .
  then have "jadd (Fin (of_int a)) x = Fin (of_int (a + k))"
    using k Cons.prems(2) mk_of_int[of "a + k"] by (simp add: jadd_def)
  with Cons.IH[of "a + k"] Cons.prems k show ?case by (simp add: add.assoc)
qed simp

end
