(* ===== verification/Parts_Facts.thy ===== *)
theory Parts_Facts
  imports Parts Js_Counts
begin

text \<open>
  What the shared components guarantee: the segments of a stacked bar fill it, a snapshot is
  called stale at the right age, and a link leads to the id it was made for.
\<close>

subsection \<open>Stacked bar\<close>

lemma sum_positive:
  assumes "\<forall>g \<in> set segs. whole (g_value g)"
  shows "(\<Sum>g \<leftarrow> stacked_visible segs. val (g_value g)) = (\<Sum>g \<leftarrow> segs. val (g_value g))"
  using assms
proof (induction segs)
  case (Cons g segs)
  then have g: "is_fin (g_value g)" "0 \<le> val (g_value g)" by simp_all
  show ?case
  proof (cases "0 < val (g_value g)")
    case False
    then have "val (g_value g) = 0" using g(2) by linarith
    with Cons g(1) show ?thesis by (simp add: stacked_visible_def jlt_fin)
  qed (use Cons g(1) in \<open>simp add: stacked_visible_def jlt_fin\<close>)
qed (simp add: stacked_visible_def)

lemma visible_facts:
  assumes "\<forall>g \<in> set segs. whole (g_value g)" "g \<in> set (stacked_visible segs)"
  shows "is_fin (g_value g)" "1 \<le> val (g_value g)" "val (g_value g) \<le> (\<Sum>g \<leftarrow> segs. val (g_value g))"
proof -
  from assms obtain k where k: "0 \<le> k" "g_value g = Fin (of_int k)" "0 < k"
    by (auto simp: stacked_visible_def whole_def jlt_def dest!: bspec)
  then show "is_fin (g_value g)" "1 \<le> val (g_value g)" by simp_all
  have "g \<in> set segs" using assms(2) by (simp add: stacked_visible_def)
  then show "val (g_value g) \<le> (\<Sum>g \<leftarrow> segs. val (g_value g))"
    using assms(1) member_le_sum_list[of "val (g_value g)" "map (\<lambda>g. val (g_value g)) segs"] by fastforce
qed

text \<open>A share as it is drawn, against the exact share.\<close>

lemma drawn_share:
  assumes lo: "1 / 2 ^ 53 \<le> q"
  shows "\<bar>fl (fl q * 100) - q * 100\<bar> \<le> q / 2 ^ 44"
proof -
  have e: "(2::rat) powi (- 54) = 1 / 2 ^ 54" by (simp only: power_int_minus power_int_numeral inverse_eq_divide)
  have "(2::rat) powi (- 1000) \<le> 2 powi (- 54)" by (rule power_int_increasing) simp_all
  then have p: "(2::rat) powi (- 1000) \<le> 1 / 2 ^ 54" unfolding e .
  have "1 / 2 ^ 54 \<le> (1 / 2 ^ 53 :: rat)" by simp
  then have "2 powi (- 1000) \<le> q" using lo p by linarith
  then have a: "\<bar>fl q - q\<bar> \<le> q / 2 ^ 53" by (rule fl_rel_error)
  have "(0::rat) < 1 / 2 ^ 53" by simp
  then have q: "0 < q" using lo by linarith
  have h: "q / 2 ^ 53 \<le> q / 2" using q by simp
  have f: "q / 2 \<le> fl q" "fl q \<le> 2 * q" using a h q by (simp_all only: abs_le_iff) linarith+
  have "2 powi (- 1000) \<le> fl q * 100" using f(1) lo p by simp
  then have b: "\<bar>fl (fl q * 100) - fl q * 100\<bar> \<le> fl q * 100 / 2 ^ 53" by (rule fl_rel_error)
  show ?thesis using abs_le_D1[OF a] abs_le_D2[OF a] abs_le_D1[OF b] abs_le_D2[OF b] f q by (intro abs_leI) simp_all
qed

lemma drawn_width:
  assumes "is_fin v" "is_fin s" "1 \<le> val v" "val v \<le> val s"
  shows "is_fin (jmul (jdiv v s) (Fin 100)) \<and> val (jmul (jdiv v s) (Fin 100)) = fl (fl (val v / val s) * 100)
    \<and> val (jmul (jdiv v s) (Fin 100)) \<le> 100"
proof -
  have r: "0 \<le> val v" "0 < val s" using assms by simp_all
  note u = ratio_unit[OF assms(1,2) r(1) assms(4) r(2)]
  note w = percent_unit[OF u]
  have q: "0 \<le> val v / val s" "val v / val s \<le> 1" using assms r by simp_all
  have "\<bar>fl (val v / val s)\<bar> < 2 ^ 1024" by (rule fl_between_abs[OF q]) simp_all
  then have d: "val (jdiv v s) = fl (val v / val s)" using jdiv_val[of v s] assms(1,2) r by simp
  have m: "0 \<le> val (jdiv v s) * 100" "val (jdiv v s) * 100 \<le> 100" using u by simp_all
  have "\<bar>fl (val (jdiv v s) * 100)\<bar> < 2 ^ 1024" by (rule fl_between_abs[OF m]) simp_all
  then have "val (jmul (jdiv v s) (Fin 100)) = fl (val (jdiv v s) * 100)" using jmul_val[of "jdiv v s" "Fin 100"] u(1) by simp
  with d w show ?thesis by simp
qed

lemma sum_list_error:
  fixes f g :: "'a \<Rightarrow> rat"
  assumes "\<And>x. x \<in> set xs \<Longrightarrow> \<bar>f x - g x\<bar> \<le> h x"
  shows "\<bar>(\<Sum>x \<leftarrow> xs. f x) - (\<Sum>x \<leftarrow> xs. g x)\<bar> \<le> (\<Sum>x \<leftarrow> xs. h x)"
  using assms
proof (induction xs)
  case (Cons x xs)
  have "\<bar>f x - g x\<bar> \<le> h x" "\<bar>(\<Sum>x \<leftarrow> xs. f x) - (\<Sum>x \<leftarrow> xs. g x)\<bar> \<le> (\<Sum>x \<leftarrow> xs. h x)"
    using Cons by simp_all
  then show ?case by (simp add: abs_le_iff)
qed simp

lemma sum_list_scale: "(\<Sum>x \<leftarrow> xs. f x / s * c) = (\<Sum>x \<leftarrow> xs. f x) / s * (c :: rat)"
  by (induction xs) (simp_all add: add_divide_distrib distrib_right)

text \<open>
C13: For whole counts that add up to at most 2^53 the stacked bar's sum is exact, each segment
  shown is wider than 0 and at most 100 percent, and the widths add up to 100 percent within
  2^-44.
\<close>

theorem stacked_widths:
  assumes "\<forall>g \<in> set segs. whole (g_value g)" "(\<Sum>g \<leftarrow> segs. val (g_value g)) \<le> 2 ^ 53" "stacked_visible segs \<noteq> []"
  defines "w \<equiv> \<lambda>g. stacked_width (stacked_sum segs None) g"
  shows "stacked_sum segs None = Fin (\<Sum>g \<leftarrow> segs. val (g_value g))
    \<and> (\<forall>g \<in> set (stacked_visible segs). is_fin (w g) \<and> 0 < val (w g) \<and> val (w g) \<le> 100)
    \<and> \<bar>(\<Sum>g \<leftarrow> stacked_visible segs. val (w g)) - 100\<bar> \<le> 1 / 2 ^ 44"
proof -
  define s where "s = (\<Sum>g \<leftarrow> segs. val (g_value g))"
  have "stacked_sum segs None = foldl jadd (Fin 0) (map g_value segs)" by (simp add: stacked_sum_def foldl_map)
  also have "\<dots> = Fin s" using sum_counts[of "map g_value segs" 0] assms(1,2) by (simp add: s_def comp_def)
  finally have S: "stacked_sum segs None = Fin s" .
  obtain g0 where "g0 \<in> set (stacked_visible segs)" using assms(3) by (cases "stacked_visible segs") auto
  from visible_facts[OF assms(1) this] have s1: "1 \<le> s" by (simp add: s_def)
  have W: "is_fin (w g) \<and> val (w g) = fl (fl (val (g_value g) / s) * 100) \<and> val (w g) \<le> 100"
    and E: "\<bar>val (w g) - val (g_value g) / s * 100\<bar> \<le> val (g_value g) / s / 2 ^ 44" and V: "1 \<le> val (g_value g)"
    if "g \<in> set (stacked_visible segs)" for g
  proof -
    note v = visible_facts[OF assms(1) that, folded s_def]
    then show W: "is_fin (w g) \<and> val (w g) = fl (fl (val (g_value g) / s) * 100) \<and> val (w g) \<le> 100"
      using drawn_width[of "g_value g" "Fin s"] by (simp add: w_def S stacked_width_def)
    have "1 / 2 ^ 53 \<le> val (g_value g) / s" using v assms(2) s1 by (intro frac_le) (simp_all add: s_def)
    from drawn_share[OF this] W
    show "\<bar>val (w g) - val (g_value g) / s * 100\<bar> \<le> val (g_value g) / s / 2 ^ 44" by simp
    show "1 \<le> val (g_value g)" by (rule v)
  qed
  have P: "0 < val (w g)" if g: "g \<in> set (stacked_visible segs)" for g
  proof -
    have "0 < val (g_value g) / s" using V[OF g] s1 by simp
    then show ?thesis using E[OF g] by (simp add: abs_le_iff)
  qed
  have one: "(\<Sum>g \<leftarrow> stacked_visible segs. val (g_value g) / s * c) = c" for c
    unfolding sum_list_scale sum_positive[OF assms(1)] s_def[symmetric] using s1 by simp
  have "\<bar>(\<Sum>g \<leftarrow> stacked_visible segs. val (w g)) - (\<Sum>g \<leftarrow> stacked_visible segs. val (g_value g) / s * 100)\<bar>
    \<le> (\<Sum>g \<leftarrow> stacked_visible segs. val (g_value g) / s * (1 / 2 ^ 44))"
    using E by (intro sum_list_error) simp
  then have T: "\<bar>(\<Sum>g \<leftarrow> stacked_visible segs. val (w g)) - 100\<bar> \<le> 1 / 2 ^ 44" unfolding one .
  show ?thesis unfolding S s_def[symmetric] using W P T by blast
qed

definition sample_segments :: "Segment list" where
  "sample_segments = [\<lparr>g_label = lit ''Spot'', g_value = Fin 1, g_colour = lit ''#f59e0b''\<rparr>,
     \<lparr>g_label = lit ''Reserved'', g_value = Fin 2, g_colour = lit ''#6366f1''\<rparr>]"

lemma stacked_widths_witness:
  "\<bar>(\<Sum>g \<leftarrow> stacked_visible sample_segments. val (stacked_width (stacked_sum sample_segments None) g)) - 100\<bar> \<le> 1 / 2 ^ 44"
proof -
  have 1: "\<forall>g \<in> set sample_segments. whole (g_value g)" by (simp add: sample_segments_def)
  have 2: "(\<Sum>g \<leftarrow> sample_segments. val (g_value g)) \<le> 2 ^ 53" by (simp add: sample_segments_def)
  have 3: "stacked_visible sample_segments \<noteq> []" by (simp add: sample_segments_def stacked_visible_def jlt_def)
  from stacked_widths[OF 1 2 3] show ?thesis by blast
qed

subsection \<open>Freshness\<close>

lemma snapshot_sec_error:
  assumes "is_fin ns" "0 \<le> val ns" "val ns \<le> 2 ^ 63"
  shows "is_fin (snapshot_sec ns)" "0 \<le> val (snapshot_sec ns)" "val (snapshot_sec ns) \<le> 2 ^ 34"
    "\<bar>val (snapshot_sec ns) - val ns / 10 ^ 9\<bar> \<le> 1 / 2 ^ 19"
proof -
  have q: "0 \<le> val ns / 10 ^ 9" "val ns / 10 ^ 9 \<le> 17179869184" using assms by simp_all
  have d: "dyadic53 17179869184" by simp
  have b: "\<bar>fl (val ns / 10 ^ 9)\<bar> < 2 ^ 1024" by (rule fl_between_abs[OF q _ d]) simp_all
  have v: "is_fin (snapshot_sec ns)" "val (snapshot_sec ns) = fl (val ns / 10 ^ 9)"
    using jdiv_val[of ns "Fin (10 ^ 9)"] assms(1) b by (simp_all add: snapshot_sec_def)
  show "is_fin (snapshot_sec ns)" by (rule v)
  show "0 \<le> val (snapshot_sec ns)" "val (snapshot_sec ns) \<le> 2 ^ 34"
    using fl_between[OF q _ d] v(2) by simp_all
  have "\<bar>fl (val ns / 10 ^ 9) - val ns / 10 ^ 9\<bar> \<le> 2 powi (34 - 53)"
    by (rule fl_abs_error) (use q in simp_all)
  then show "\<bar>val (snapshot_sec ns) - val ns / 10 ^ 9\<bar> \<le> 1 / 2 ^ 19"
    unfolding v(2) by (simp add: power_int_minus_divide)
qed

lemma snapshot_age_error:
  assumes "is_fin ns" "0 \<le> val ns" "val ns \<le> 2 ^ 63" "is_fin now" "0 \<le> val now" "val now \<le> 2 ^ 34"
  shows "is_fin (jsub now (snapshot_sec ns))" "\<bar>val (jsub now (snapshot_sec ns)) - (val now - val ns / 10 ^ 9)\<bar> \<le> 1 / 2 ^ 18"
proof -
  note s = snapshot_sec_error[OF assms(1-3)]
  have q: "- 17179869184 \<le> val now - val (snapshot_sec ns)" "val now - val (snapshot_sec ns) \<le> 17179869184"
    using s(2,3) assms(5,6) by simp_all
  have d: "dyadic53 (- 17179869184)" "dyadic53 17179869184" by simp_all
  have b: "\<bar>fl (val now - val (snapshot_sec ns))\<bar> < 2 ^ 1024" by (rule fl_between_abs[OF q d]) simp_all
  note v = jsub_val[OF assms(4) s(1) b]
  show "is_fin (jsub now (snapshot_sec ns))" by (rule v)
  have "\<bar>fl (val now - val (snapshot_sec ns)) - (val now - val (snapshot_sec ns))\<bar> \<le> 2 powi (34 - 53)"
    by (rule fl_abs_error) (use q in simp_all)
  then have a: "\<bar>val (jsub now (snapshot_sec ns)) - (val now - val (snapshot_sec ns))\<bar> \<le> 1 / 2 ^ 19"
    unfolding v(2) by (simp add: power_int_minus_divide)
  show "\<bar>val (jsub now (snapshot_sec ns)) - (val now - val ns / 10 ^ 9)\<bar> \<le> 1 / 2 ^ 18"
    using abs_le_D1[OF a] abs_le_D2[OF a] abs_le_D1[OF s(4)] abs_le_D2[OF s(4)] by (intro abs_leI) simp_all
qed

text \<open>
C22: A snapshot is flagged stale exactly when it is older than the limit, up to four
  microseconds of rounding, for timestamps of 64 bits.
\<close>

theorem snapshot_stale_age:
  assumes "is_fin ns" "0 \<le> val ns" "val ns \<le> 2 ^ 63" "is_fin now" "0 \<le> val now" "val now \<le> 2 ^ 34" "is_fin limit"
  shows "(val limit + 1 / 2 ^ 18 < val now - val ns / 10 ^ 9 \<longrightarrow> snapshot_stale now ns limit)
    \<and> (snapshot_stale now ns limit \<longrightarrow> val limit - 1 / 2 ^ 18 < val now - val ns / 10 ^ 9)"
proof -
  note e = snapshot_age_error[OF assms(1-6)]
  have "snapshot_stale now ns limit \<longleftrightarrow> val limit < val (jsub now (snapshot_sec ns))"
    using e(1) by (simp add: snapshot_stale_def jlt_fin assms(7))
  then show ?thesis using abs_le_D1[OF e(2)] abs_le_D2[OF e(2)] by (intro conjI impI) simp_all
qed

lemma snapshot_stale_age_witness: "snapshot_stale (Fin 1800000060) (Fin (1800000000 * 10 ^ 9)) (Fin 30)"
  using snapshot_stale_age[of "Fin (1800000000 * 10 ^ 9)" "Fin 1800000060" "Fin 30"] by simp

subsection \<open>Links\<close>

text \<open>
C35: A link made for an id decodes back to that id and its encoded part holds no slash and no
  question mark; no link is made only when percent-encoding the id throws.
\<close>

theorem link_leads_back:
  "(case link_id prefix i children of
      None \<Rightarrow> encodeURIComponent i = None
    | Some a \<Rightarrow> \<exists>u. a = Link (prefix @ u) children \<and> uri_decode u = i \<and> 47 \<notin> set u \<and> 63 \<notin> set u)"
  by (auto simp: link_id_def encoded split: option.split)

end
