(* ===== verification/Js_Map.thy ===== *)
theory Js_Map
  imports Prelude
begin

text \<open>
  \<open>Map\<close> as the code uses it: keys in the order of their first insertion. \<open>upsert\<close> is
  \<open>m.set(k, f(m.get(k)))\<close>; \<open>group_by\<close> collects the elements of a list under a key and \<open>tally\<close>
  folds them into one value per key. The locale states what a client of such an index relies
  on: one entry per key that occurs, holding exactly the elements with that key in order.
\<close>

fun upsert :: "'k \<Rightarrow> ('v option \<Rightarrow> 'v) \<Rightarrow> ('k \<times> 'v) list \<Rightarrow> ('k \<times> 'v) list" where
  "upsert k f [] = [(k, f None)]"
| "upsert k f ((j, v) # m) = (if j = k then (j, f (Some v)) # m else (j, v) # upsert k f m)"

lemma map_of_upsert [simp]: "map_of (upsert k f m) j = (if j = k then Some (f (map_of m k)) else map_of m j)"
  by (induction m) auto

lemma keys_upsert [simp]: "map fst (upsert k f m) = (if k \<in> set (map fst m) then map fst m else map fst m @ [k])"
  by (induction m) (auto simp del: set_map split: if_splits)

definition tally :: "('a \<Rightarrow> 'k) \<Rightarrow> ('a \<Rightarrow> 'v option \<Rightarrow> 'v) \<Rightarrow> 'a list \<Rightarrow> ('k \<times> 'v) list" where
  "tally key f xs = foldl (\<lambda>m x. upsert (key x) (f x) m) [] xs"

definition push :: "'a \<Rightarrow> 'a list option \<Rightarrow> 'a list" where
  "push x g = (case g of None \<Rightarrow> [x] | Some xs \<Rightarrow> xs @ [x])"

definition group_by :: "('a \<Rightarrow> 'k) \<Rightarrow> 'a list \<Rightarrow> ('k \<times> 'a list) list" where
  "group_by key xs = tally key push xs"

lemma tally_Nil [simp]: "tally key f [] = []"
  by (simp add: tally_def)

lemma tally_snoc [simp]: "tally key f (xs @ [x]) = upsert (key x) (f x) (tally key f xs)"
  by (simp add: tally_def)

lemma tally_keys: "set (map fst (tally key f xs)) = key ` set xs \<and> distinct (map fst (tally key f xs))"
  by (induction xs rule: rev_induct) (auto simp del: map_map)

lemma tally_value:
  "map_of (tally key f xs) k =
     (case filter (\<lambda>x. key x = k) xs of [] \<Rightarrow> None | y # ys \<Rightarrow> Some (foldl (\<lambda>v x. f x (Some v)) (f y None) ys))"
proof (induction xs rule: rev_induct)
  case (snoc x xs)
  then show ?case by (auto split: list.splits)
qed simp

lemma tally_mem: "(k, v) \<in> set (tally key f xs) \<longleftrightarrow> map_of (tally key f xs) k = Some v"
  using tally_keys[of key f xs] by (simp add: map_of_eq_Some_iff)

text \<open>An index of a list: what a page that looks its rows up by a key relies on.\<close>

locale index =
  fixes key :: "'a \<Rightarrow> 'k" and groups :: "'a list \<Rightarrow> ('k \<times> 'a list) list"
  assumes keys_distinct: "distinct (map fst (groups xs))"
    and group_iff: "(k, g) \<in> set (groups xs) \<longleftrightarrow> g = filter (\<lambda>x. key x = k) xs \<and> g \<noteq> []"
begin

lemma group_filter: "(k, g) \<in> set (groups xs) \<Longrightarrow> g = filter (\<lambda>x. key x = k) xs"
  by (simp add: group_iff)

lemma group_key: "(k, g) \<in> set (groups xs) \<Longrightarrow> x \<in> set g \<Longrightarrow> key x = k"
  by (auto simp: group_iff)

lemma keys: "set (map fst (groups xs)) = key ` set xs"
proof -
  have "(key x, filter (\<lambda>y. key y = key x) xs) \<in> set (groups xs)" if "x \<in> set xs" for x
    using that by (auto simp: group_iff filter_empty_conv)
  then have "key ` set xs \<subseteq> set (map fst (groups xs))" by force
  moreover have "set (map fst (groups xs)) \<subseteq> key ` set xs"
    using group_iff by (fastforce simp: filter_empty_conv)
  ultimately show ?thesis by blast
qed

lemma groups_distinct: "distinct (groups xs)"
  using keys_distinct distinct_map by blast

lemma groups_sum: "(\<Sum>(k, g) \<leftarrow> groups xs. f k g) = (\<Sum>k \<in> key ` set xs. f k (filter (\<lambda>x. key x = k) xs))"
  for f :: "'k \<Rightarrow> 'a list \<Rightarrow> 'b :: comm_monoid_add"
proof -
  have "(\<Sum>(k, g) \<leftarrow> groups xs. f k g) = (\<Sum>p \<in> set (groups xs). f (fst p) (snd p))"
    using groups_distinct by (simp add: sum_list_distinct_conv_sum_set case_prod_beta)
  also have "\<dots> = (\<Sum>p \<in> set (groups xs). f (fst p) (filter (\<lambda>x. key x = fst p) xs))"
    by (rule sum.cong) (auto dest: group_filter)
  also have "\<dots> = (\<Sum>k \<in> fst ` set (groups xs). f k (filter (\<lambda>x. key x = k) xs))"
    using keys_distinct by (simp add: distinct_map sum.reindex)
  finally show ?thesis using keys by simp
qed

text \<open>Grouping neither loses nor repeats an element.\<close>

lemma groups_mset: "mset (concat (map snd (groups xs))) = mset xs"
proof -
  have "mset (concat (map snd (groups xs))) = (\<Sum>(k, g) \<leftarrow> groups xs. mset g)"
    by (simp add: mset_concat case_prod_unfold comp_def)
  also have "\<dots> = (\<Sum>k \<in> key ` set xs. mset (filter (\<lambda>x. key x = k) xs))" by (rule groups_sum)
  also have "\<dots> = mset xs"
  proof (rule multiset_eqI)
    fix x
    have "count (\<Sum>k \<in> key ` set xs. mset (filter (\<lambda>y. key y = k) xs)) x
        = (\<Sum>k \<in> key ` set xs. if k = key x then count (mset xs) x else 0)"
      by (subst count_sum, rule sum.cong) (auto simp: count_mset count_list_eq_length_filter length_filter_conv_card intro: arg_cong)
    also have "\<dots> = count (mset xs) x" by (cases "x \<in> set xs") (auto simp: sum.delta' not_in_iff)
    finally show "count (\<Sum>k \<in> key ` set xs. mset (filter (\<lambda>y. key y = k) xs)) x = count (mset xs) x" .
  qed
  finally show ?thesis .
qed

end

lemma push_None: "push x None = [x]"
  by (simp add: push_def)

lemma push_fold: "foldl (\<lambda>v x. push x (Some v)) v xs = v @ xs"
  by (induction xs arbitrary: v) (simp_all add: push_def)

interpretation grp: index key "group_by key" for key :: "'a \<Rightarrow> 'k"
proof
  fix xs :: "'a list" and k :: 'k and g
  show "distinct (map fst (group_by key xs))" using tally_keys[of key push xs] by (simp add: group_by_def)
  show "(k, g) \<in> set (group_by key xs) \<longleftrightarrow> g = filter (\<lambda>x. key x = k) xs \<and> g \<noteq> []"
    by (auto simp: group_by_def tally_mem tally_value push_fold push_None split: list.splits)
qed

end
