(* ===== verification/Needs_Walk.thy ===== *)
theory Needs_Walk
  imports Needs_Kit Js_Map
begin

text \<open>
  The computations of \<open>ui/src/pages/Needs.tsx\<close>: the clusters of a shard with their counts, the
  filters, the summary, and \<open>buildWalk\<close>, which turns the filtered needs into the flat list of
  headers, rows and cut-lines that the table renders.
\<close>

subsection \<open>Clusters, filters, summary\<close>

record cluster_count =
  k_total :: nat
  k_unmet :: nat

definition count_need :: "NeedView \<Rightarrow> cluster_count option \<Rightarrow> cluster_count" where
  "count_need n e =
     (let c = (case e of None \<Rightarrow> \<lparr>k_total = 0, k_unmet = 0\<rparr> | Some c \<Rightarrow> c)
      in \<lparr>k_total = k_total c + 1, k_unmet = (if n_satisfied n then k_unmet c else k_unmet c + 1)\<rparr>)"

text \<open>\<open>b.unmet - a.unmet || a.id.localeCompare(b.id)\<close>.\<close>

definition cmp_clusters :: "collate \<Rightarrow> jsstr \<times> cluster_count \<Rightarrow> jsstr \<times> cluster_count \<Rightarrow> jsnum" where
  "cmp_clusters lc a b =
     (let d = jsub (Fin (of_nat (k_unmet (snd b)))) (Fin (of_nat (k_unmet (snd a))))
      in if truthy d then d else lc (fst a) (fst b))"

definition needs_clusters :: "collate \<Rightarrow> NeedView list \<Rightarrow> (jsstr \<times> cluster_count) list" where
  "needs_clusters lc all = js_sort (cmp_clusters lc) (tally n_clusterId count_need all)"

definition ALL_CLUSTERS :: jsstr where "ALL_CLUSTERS = lit ''*''"

text \<open>The two effects: which shard and which cluster are selected when none is.\<close>

definition default_shard :: "jsstr \<Rightarrow> jsstr list \<Rightarrow> jsstr" where
  "default_shard shard shard_ids = (case shard_ids of first # _ \<Rightarrow> if shard = [] then first else shard | [] \<Rightarrow> shard)"

definition default_cluster :: "jsstr \<Rightarrow> (jsstr \<times> cluster_count) list \<Rightarrow> jsstr" where
  "default_cluster cluster clusters =
     (case clusters of c # _ \<Rightarrow> if cluster = [] then fst c else cluster | [] \<Rightarrow> cluster)"

datatype StatusFilter = All_Needs | Only_Satisfied | Only_Unmet

definition status_of :: "jsstr \<Rightarrow> StatusFilter" where
  "status_of raw =
     (if raw = lit ''satisfied'' then Only_Satisfied else if raw = lit ''unmet'' then Only_Unmet else All_Needs)"

definition scoped_needs :: "NeedView list \<Rightarrow> jsstr \<Rightarrow> NeedView list" where
  "scoped_needs all cluster =
     (if cluster \<noteq> [] \<and> cluster \<noteq> ALL_CLUSTERS then filter (\<lambda>n. n_clusterId n = cluster) all else all)"

definition visible_needs :: "NeedView list \<Rightarrow> StatusFilter \<Rightarrow> jsstr option \<Rightarrow> NeedView list" where
  "visible_needs scoped status reason =
     (let r1 = (case status of Only_Satisfied \<Rightarrow> filter n_satisfied scoped
                 | Only_Unmet \<Rightarrow> filter (\<lambda>n. \<not> n_satisfied n) scoped | All_Needs \<Rightarrow> scoped)
      in case reason of None \<Rightarrow> r1
         | Some rf \<Rightarrow> if rf = [] then r1 else filter (\<lambda>n. \<not> n_satisfied n \<and> n_unmetReason n = rf) r1)"

definition bump :: "'a \<Rightarrow> nat option \<Rightarrow> nat" where
  "bump x c = (case c of None \<Rightarrow> 0 | Some k \<Rightarrow> k) + 1"

definition summary_step :: "nat \<times> (jsstr \<times> nat) list \<Rightarrow> NeedView \<Rightarrow> nat \<times> (jsstr \<times> nat) list" where
  "summary_step st n =
     (if n_satisfied n then (fst st + 1, snd st) else (fst st, upsert (n_unmetReason n) (bump n) (snd st)))"

definition needs_summary :: "NeedView list \<Rightarrow> nat \<times> (jsstr \<times> nat) list" where
  "needs_summary scoped = foldl summary_step (0, []) scoped"

definition cmp_reason_counts :: "jsstr \<times> nat \<Rightarrow> jsstr \<times> nat \<Rightarrow> jsnum" where
  "cmp_reason_counts = cmp_desc (\<lambda>e. Fin (of_nat (snd e)))"

definition summary_reasons :: "(jsstr \<times> nat) list \<Rightarrow> (jsstr \<times> nat) list" where
  "summary_reasons by_reason = js_sort cmp_reason_counts by_reason"

text \<open>\<open>setReasonFilter((cur) => (cur === r ? null : r))\<close>.\<close>

definition toggle_reason :: "jsstr option \<Rightarrow> jsstr \<Rightarrow> jsstr option" where
  "toggle_reason cur r = (if cur = Some r then None else Some r)"

subsection \<open>The walk\<close>

datatype WalkItem =
    Header jsstr jsstr nat bool "MatchingSupply option"
  | Cutline jsstr nat
  | Row jsstr NeedView

fun item_key :: "WalkItem \<Rightarrow> jsstr" where
  "item_key (Header k fp c contested supply) = k"
| "item_key (Cutline k below) = k"
| "item_key (Row k n) = k"

definition fingerprint :: "NeedView \<Rightarrow> jsstr" where
  "fingerprint n = (case n_profileFingerprint n of None \<Rightarrow> [] | Some fp \<Rightarrow> fp)"

definition walk_step :: "bool \<Rightarrow> (jsstr \<times> NeedView list) list \<times> NeedView list \<Rightarrow> NeedView
    \<Rightarrow> (jsstr \<times> NeedView list) list \<times> NeedView list" where
  "walk_step showCluster st n =
     (if fingerprint n = [] \<or> showCluster then (fst st, snd st @ [n])
      else (upsert (fingerprint n) (push n) (fst st), snd st))"

definition cuts :: "NeedView \<Rightarrow> NeedView \<Rightarrow> bool" where
  "cuts a b \<longleftrightarrow> jlt (Fin 0) (n_claimedMachineCount a) \<and> \<not> n_satisfied b \<and> jeq (n_claimedMachineCount b) (Fin 0)"

fun cut_index :: "NeedView list \<Rightarrow> nat option" where
  "cut_index (a # b # g) = (if cuts a b then Some 0 else map_option Suc (cut_index (b # g)))"
| "cut_index _ = None"

definition header_key :: "jsstr \<Rightarrow> jsstr" where "header_key fp = lit ''h:'' @ fp"
definition cut_key :: "jsstr \<Rightarrow> jsstr" where "cut_key fp = lit ''c:'' @ fp"
definition row_key :: "jsstr \<Rightarrow> nat \<Rightarrow> jsstr" where "row_key fp i = lit ''r:'' @ fp @ lit '':'' @ dec (int i)"

definition flat_key :: "nat \<Rightarrow> NeedView \<Rightarrow> jsstr" where
  "flat_key i n = lit ''f:'' @ dec (int i) @ lit '':'' @ n_clusterId n @ lit '':'' @ num_to_string (n_priority n)"

definition contested :: "NeedView list \<Rightarrow> bool" where
  "contested g = list_ex (\<lambda>m. \<not> n_satisfied m) g"

definition pool :: "NeedView list \<Rightarrow> MatchingSupply option" where
  "pool g = (case find (\<lambda>m. n_matchingSupply m \<noteq> None) g of None \<Rightarrow> None | Some m \<Rightarrow> n_matchingSupply m)"

definition cohort_row :: "jsstr \<Rightarrow> NeedView list \<Rightarrow> nat \<Rightarrow> WalkItem list" where
  "cohort_row fp g i =
     Row (row_key fp i) (g ! i) #
     (if cut_index g = Some i then [Cutline (cut_key fp) (length g - i - 1)] else [])"

definition cohort_items :: "jsstr \<times> NeedView list \<Rightarrow> WalkItem list" where
  "cohort_items c =
     (case c of (fp, g) \<Rightarrow>
       Header (header_key fp) fp (length g) (contested g) (pool g) # concat (map (cohort_row fp g) [0..<length g]))"

definition cmp_cohorts :: "jsstr \<times> NeedView list \<Rightarrow> jsstr \<times> NeedView list \<Rightarrow> jsnum" where
  "cmp_cohorts = cmp_two (\<lambda>a b. precedes (hd (snd a)) (hd (snd b)))"

definition sort_needs :: "NeedView list \<Rightarrow> NeedView list" where
  "sort_needs rows = js_sort (cmp_of precedes) rows"

definition walk_groups :: "NeedView list \<Rightarrow> bool \<Rightarrow> (jsstr \<times> NeedView list) list \<times> NeedView list" where
  "walk_groups rows showCluster = foldl (walk_step showCluster) ([], []) (sort_needs rows)"

definition buildWalk :: "NeedView list \<Rightarrow> bool \<Rightarrow> WalkItem list" where
  "buildWalk rows showCluster =
     (case walk_groups rows showCluster of (groups, flat) \<Rightarrow>
       let cohorts = filter (\<lambda>c. 2 \<le> length (snd c)) groups;
           cohortKeys = map fst cohorts;
           flat' = flat @ concat (map snd (filter (\<lambda>c. fst c \<notin> set cohortKeys) groups));
           tail = sort_needs flat'
       in concat (map cohort_items (js_sort cmp_cohorts cohorts))
          @ map (\<lambda>i. Row (flat_key i (tail ! i)) (tail ! i)) [0..<length tail])"

definition VIRTUALIZE_OVER :: nat where "VIRTUALIZE_OVER = 150"

fun is_row :: "WalkItem \<Rightarrow> bool" where
  "is_row (Row k n) = True"
| "is_row _ = False"

definition virtualized :: "WalkItem list \<Rightarrow> bool" where
  "virtualized items \<longleftrightarrow> \<not> length (filter is_row items) \<le> VIRTUALIZE_OVER"

definition estimate_size :: "WalkItem \<Rightarrow> nat" where
  "estimate_size it = (case it of Header k fp c ct s \<Rightarrow> 34 | Cutline k b \<Rightarrow> 30 | Row k n \<Rightarrow> 42)"

end
