(* ===== verification/Needs_Facts.thy ===== *)
theory Needs_Facts
  imports Needs_Kit
begin

text \<open>
  What the decisions of \<open>Needs_Kit\<close> compute. Coverage of a need whose quantities read as finite
  numbers is the least of 1 and its covered shares and lies between 0 and 1; the chunk estimate
  is the largest count over the dimensions, at the dimension that is named; precedence
  interprets the comparator contract of \<open>Js_Sort\<close>, on which the theorem on competitors and the
  theorems on the walk rest.
\<close>

text \<open>A need with a priority, an arrival and a claim, on which the theorems are evaluated.\<close>

definition sample_need :: "jsstr \<Rightarrow> int \<Rightarrow> int \<Rightarrow> int \<Rightarrow> bool \<Rightarrow> NeedView" where
  "sample_need fp prio arr claimed sat =
     \<lparr>n_clusterId = lit ''c1'', n_priority = Fin (of_int prio),
      n_aggregateResources = Some [(lit ''cpu'', lit ''8''), (lit ''memory'', lit ''16Gi'')],
      n_minUnit = Some [(lit ''cpu'', lit ''2''), (lit ''memory'', lit ''8Gi'')],
      n_group = None, n_requirements = None, n_spread = None,
      n_interruptionPenaltyBucket = lit ''ZERO'', n_reclamationPenaltyBucket = lit ''1024'',
      n_satisfied = sat, n_residualDeficit = Some [(lit ''cpu'', lit ''2'')],
      n_claimedMachineCount = Fin (of_int claimed), n_bootstrapCount = Fin 0, n_provisionCount = Fin 0,
      n_sameDomain = None, n_sameSatisfiable = False, n_acquisitionParked = False, n_parkedAgeCycles = None,
      n_ageCyclesUnmet = Fin 3, n_unmetReason = lit ''PRIORITY_STARVED'',
      n_arrivalUnixNanos = Some (Fin (of_int arr)), n_profileFingerprint = Some fp,
      n_matchingSupply = None, n_preemption = None, n_sameCandidates = None\<rparr>"

lemma sample_quantities:
  "parseQuantity (Some (lit ''8'')) = Fin 8" "parseQuantity (Some (lit ''16Gi'')) = Fin 17179869184"
  "parseQuantity (Some (lit ''2'')) = Fin 2" "parseQuantity (Some (lit ''8Gi'')) = Fin 8589934592" "parseQuantity None = Fin 0"
  by (simp_all add: jeval)

subsection \<open>Coverage is the worst covered fraction\<close>

lemma is_dbl_parse_unsigned: "parse_unsigned s = Some (v, r) \<Longrightarrow> is_dbl v"
  by (auto simp: parse_unsigned_def Let_def split: if_splits prod.splits)

lemma is_dbl_parse_float [simp]: "is_dbl (parse_float s)"
proof -
  have "is_dbl v" if "parse_signed t = Some (v, r)" for t v r
    using that by (auto simp: parse_signed_def is_dbl_parse_unsigned split: list.splits if_splits)
  then show ?thesis by (auto simp: parse_float_def split: option.splits)
qed

lemma is_dbl_parseQuantity [simp]: "is_dbl (parseQuantity q)"
  by (auto simp: parseQuantity_def or_zero_def split: option.splits)

lemma is_dbl_covered [simp]: "is_dbl (covered_fraction n kv)"
  by (simp add: covered_fraction_def Let_def)

text \<open>A quantity is plain when it reads as a finite number; a residual deficit may be negative.\<close>

definition plain_needs :: "NeedView \<Rightarrow> bool" where
  "plain_needs n \<longleftrightarrow> (\<forall>kv \<in> set (entries (n_aggregateResources n)).
     is_fin (want kv) \<and> is_fin (parseQuantity (get_opt (n_residualDeficit n) (fst kv))))"

definition demanded :: "NeedView \<Rightarrow> (jsstr \<times> jsstr) list" where
  "demanded n = filter (\<lambda>kv. jlt (Fin 0) (want kv)) (entries (n_aggregateResources n))"

text \<open>The covered share of a dimension as a rational: demand less residual, at least 0, over demand.\<close>

definition covered_share :: "NeedView \<Rightarrow> jsstr \<times> jsstr \<Rightarrow> rat" where
  "covered_share n kv =
     fl (max 0 (fl (val (want kv) - val (parseQuantity (get_opt (n_residualDeficit n) (fst kv))))) / val (want kv))"

lemma jdiv_capped:
  assumes "is_fin y" "0 < val y" "is_fin x" "0 \<le> val x"
  shows "is_fin (jdiv x y) \<and> val (jdiv x y) = fl (val x / val y) \<or> jdiv x y = PInf \<and> 1 \<le> fl (val x / val y)"
proof (cases "fl (val x / val y) < 2 ^ 1024")
  case True
  moreover have "0 \<le> fl (val x / val y)" using assms by (intro fl_nonneg) simp
  ultimately have "\<bar>fl (val x / val y)\<bar> < 2 ^ 1024" by linarith
  with assms show ?thesis by (simp add: jdiv_val)
next
  case False
  then have "val x \<noteq> 0" using fl_0 by (cases "val x = 0") auto
  moreover have "(1::rat) \<le> 2 ^ 1024" by simp
  then have "1 \<le> fl (val x / val y)" using False by linarith
  moreover have "mk (val x / val y) = PInf" using False by (simp add: mk_def Let_def)
  ultimately show ?thesis using assms by (simp add: jdiv_def is_fin_not_NaN)
qed

lemma covered_fraction_share:
  assumes "is_fin (want kv)" "0 < val (want kv)" "is_fin (parseQuantity (get_opt (n_residualDeficit n) (fst kv)))"
  shows "is_fin (covered_fraction n kv) \<and> val (covered_fraction n kv) = covered_share n kv
    \<or> covered_fraction n kv = PInf \<and> 1 \<le> covered_share n kv"
proof -
  let ?w = "want kv" and ?r = "parseQuantity (get_opt (n_residualDeficit n) (fst kv))"
  let ?d = "fl (val ?w - val ?r)"
  have cf: "covered_fraction n kv = jdiv (jmax (Fin 0) (jsub ?w ?r)) ?w" by (simp add: covered_fraction_def Let_def)
  have dw: "is_dbl ?w" by (simp add: want_def)
  have d: "dyadic53 (- val ?r)" by (simp add: is_dbl_val)
  have "- val ?r \<le> val ?w - val ?r" using assms by simp
  then have lo: "- val ?r \<le> ?d" using d by (rule fl_ge_dyadic)
  moreover have "\<bar>val ?r\<bar> < 2 ^ 1024" using is_dbl_abs_val[of ?r] by simp
  ultimately have lo: "- (2 ^ 1024) < ?d" by linarith
  show ?thesis
  proof (cases "?d < 2 ^ 1024")
    case True
    with lo have "\<bar>?d\<bar> < 2 ^ 1024" by linarith
    note s = jsub_val[OF assms(1,3) this]
    have g: "is_fin (jmax (Fin 0) (jsub ?w ?r))" "val (jmax (Fin 0) (jsub ?w ?r)) = max 0 ?d"
      using jmax_fin[of "Fin 0", OF _ s(1)] s(2) by simp_all
    from jdiv_capped[OF assms(1,2) g(1)] show ?thesis by (simp add: cf covered_share_def g(2))
  next
    case False
    have "?w \<noteq> NZero" "?w \<noteq> NaN" "?r \<noteq> NaN" using assms(1-3) by auto
    then have "jsub ?w ?r = mk (val ?w - val ?r)" using assms by (simp add: jsub_def jadd_def)
    then have "jsub ?w ?r = PInf" using False by (simp add: mk_def Let_def)
    moreover have "\<not> is_neg ?w" using assms(1,2) by (cases ?w) auto
    ultimately have "covered_fraction n kv = PInf" using assms by (simp add: cf jdiv_def jmax_def jlt_def is_fin_not_NaN)
    moreover have "val ?w \<le> ?d" using False is_dbl_abs_val[OF dw] by linarith
    then have "1 \<le> max 0 ?d / val ?w" using assms(2) by (simp add: pos_le_divide_eq)
    then have "1 \<le> covered_share n kv" unfolding covered_share_def by (intro fl_ge_dyadic) auto
    ultimately show ?thesis by simp
  qed
qed

lemma demanded_share:
  assumes "plain_needs n" "kv \<in> set (demanded n)"
  shows "is_fin (covered_fraction n kv) \<and> val (covered_fraction n kv) = covered_share n kv
    \<or> covered_fraction n kv = PInf \<and> 1 \<le> covered_share n kv" and "0 \<le> covered_share n kv"
proof -
  have w: "is_fin (want kv)" "0 < val (want kv)" "is_fin (parseQuantity (get_opt (n_residualDeficit n) (fst kv)))"
    using assms by (auto simp: demanded_def plain_needs_def jlt_fin)
  from covered_fraction_share[OF this] show "is_fin (covered_fraction n kv) \<and> val (covered_fraction n kv) = covered_share n kv
    \<or> covered_fraction n kv = PInf \<and> 1 \<le> covered_share n kv" .
  show "0 \<le> covered_share n kv" unfolding covered_share_def using w by (intro fl_nonneg) simp
qed

lemma foldl_min:
  assumes "\<forall>kv \<in> set kvs. is_fin (f kv) \<and> val (f kv) = g kv \<or> f kv = PInf \<and> 1 \<le> g kv" "is_fin m" "val m \<le> 1"
  shows "is_fin (foldl (\<lambda>m kv. jmin m (f kv)) m kvs) \<and>
    val (foldl (\<lambda>m kv. jmin m (f kv)) m kvs) = Min (insert (val m) (g ` set kvs))"
  using assms
proof (induction kvs arbitrary: m)
  case (Cons kv kvs)
  have m: "is_fin (jmin m (f kv)) \<and> val (jmin m (f kv)) = min (val m) (g kv)"
  proof (cases "is_fin (f kv)")
    case True
    with Cons.prems jmin_fin show ?thesis by auto
  next
    case False
    then have "f kv = PInf" "1 \<le> g kv" using Cons.prems(1) by auto
    with Cons.prems(2,3) show ?thesis by (auto simp: jmin_def jlt_def is_fin_not_NaN)
  qed
  have "Min (insert (min a b) S) = Min (insert a (insert b S))" if "finite S" for a b :: rat and S
    using that by (cases "S = {}") (auto simp: min.assoc)
  with Cons m show ?case by (simp add: min.coboundedI1)
qed simp

lemma foldl_filter: "foldl (\<lambda>m x. if P x then m else g m x) m xs = foldl g m (filter (\<lambda>x. \<not> P x) xs)"
  by (induction xs arbitrary: m) auto

lemma coverage_unmet:
  assumes "plain_needs n" "\<not> n_satisfied n"
  shows "is_fin (coverage n)" "val (coverage n) = Min (insert 1 (covered_share n ` set (demanded n)))"
proof -
  have "filter (\<lambda>kv. \<not> jle (want kv) (Fin 0)) (entries (n_aggregateResources n)) = demanded n"
    unfolding demanded_def using assms(1) by (intro filter_cong) (auto simp: plain_needs_def jlt_fin jle_fin)
  then have "coverage n = foldl (\<lambda>m kv. jmin m (covered_fraction n kv)) (Fin 1) (demanded n)"
    using assms(2) by (simp add: coverage_def foldl_filter)
  then show "is_fin (coverage n)" "val (coverage n) = Min (insert 1 (covered_share n ` set (demanded n)))"
    using foldl_min[of "demanded n" "covered_fraction n" "covered_share n" "Fin 1"] demanded_share(1)[OF assms(1)] by auto
qed

lemma coverage_unit:
  assumes "plain_needs n"
  shows "is_fin (coverage n)" "0 \<le> val (coverage n)" "val (coverage n) \<le> 1"
proof -
  have "is_fin (coverage n) \<and> 0 \<le> val (coverage n) \<and> val (coverage n) \<le> 1"
  proof (cases "n_satisfied n")
    case True
    then show ?thesis by (simp add: coverage_def)
  next
    case False
    then show ?thesis using coverage_unmet[OF assms] demanded_share(2)[OF assms] by (auto simp: Min_ge_iff)
  qed
  then show "is_fin (coverage n)" "0 \<le> val (coverage n)" "val (coverage n) \<le> 1" by blast+
qed

text \<open>
C9: When the aggregate quantities and the residual deficits of a need read as finite numbers (a
  deficit may be negative), its coverage is finite and between 0 and 1: 1 when it is satisfied,
  and otherwise the least of 1 and, over the resources demanded in a positive quantity, the
  demand less the residual deficit, at least 0, over the demand, with the difference and the
  quotient each rounded to a double.
\<close>

theorem coverage_worst:
  assumes "plain_needs n"
  shows "is_fin (coverage n) \<and> 0 \<le> val (coverage n) \<and> val (coverage n) \<le> 1 \<and>
    val (coverage n) = (if n_satisfied n then 1 else Min (insert 1 ((\<lambda>kv.
      fl (max 0 (fl (val (want kv) - val (parseQuantity (get_opt (n_residualDeficit n) (fst kv))))) / val (want kv)))
        ` {kv \<in> set (entries (n_aggregateResources n)). jlt (Fin 0) (want kv)})))"
proof (cases "n_satisfied n")
  case True
  then show ?thesis by (simp add: coverage_def)
next
  case False
  then show ?thesis using coverage_unmet[OF assms False] coverage_unit[OF assms]
    by (simp add: covered_share_def[abs_def] demanded_def)
qed

lemma sample_entries:
  "entries (n_aggregateResources (sample_need fp p a c s)) = [(lit ''cpu'', lit ''8''), (lit ''memory'', lit ''16Gi'')]"
  "get_opt (n_residualDeficit (sample_need fp p a c s)) (lit ''cpu'') = Some (lit ''2'')"
  "get_opt (n_residualDeficit (sample_need fp p a c s)) (lit ''memory'') = None"
  by (simp_all add: sample_need_def)

lemma sample_wants: "want (lit ''cpu'', lit ''8'') = Fin 8" "want (lit ''memory'', lit ''16Gi'') = Fin 17179869184"
  unfolding want_def snd_conv by (fact sample_quantities)+

lemma sample_plain: "plain_needs (sample_need fp p a c s)"
  by (simp add: plain_needs_def sample_entries sample_wants sample_quantities del: lit_simps)

lemma coverage_worst_witness: "val (coverage (sample_need [] 1 1 0 False)) = 3 / 4"
proof -
  let ?n = "sample_need [] 1 1 0 False"
  note q = sample_quantities and w = sample_wants and es = sample_entries and p = sample_plain
  have d: "{kv \<in> set (entries (n_aggregateResources ?n)). jlt (Fin 0) (want kv)}
      = {(lit ''cpu'', lit ''8''), (lit ''memory'', lit ''16Gi'')}"
    by (auto simp: es w jlt_fin simp del: lit_simps)
  have "fl (3 / 4) = 3 / 4" "fl 6 = 6" "fl 1 = 1" "fl 17179869184 = 17179869184" by (simp_all add: number_eval)
  moreover have "\<not> n_satisfied ?n" by (simp add: sample_need_def)
  ultimately show ?thesis using coverage_worst[OF p, of "[]" 1 1 0 False, unfolded d] by (simp add: es w q del: lit_simps)
qed

subsection \<open>The chunk estimate is the largest one\<close>

lemma chunk_fold:
  assumes "fst st \<noteq> NaN"
    and "r = foldl (chunk_step mu) st kvs"
  shows "fst r \<noteq> NaN \<and> \<not> jlt (fst r) (fst st) \<and>
    (\<forall>kv \<in> set kvs. jle (chunk mu kv) (Fin 0) \<or> \<not> jlt (fst r) (chunks_for mu kv)) \<and>
    (r = st \<or> (\<exists>kv \<in> set kvs. \<not> jle (chunk mu kv) (Fin 0) \<and> r = (chunks_for mu kv, fst kv)))"
  using assms
proof (induction kvs arbitrary: st r)
  case Nil
  then show ?case by (simp add: jlt_irrefl)
next
  case (Cons kv kvs)
  let ?s = "chunk_step mu st kv"
  have s: "fst ?s \<noteq> NaN" "\<not> jlt (fst ?s) (fst st)" "jle (chunk mu kv) (Fin 0) \<or> \<not> jlt (fst ?s) (chunks_for mu kv)"
    "?s = st \<or> \<not> jle (chunk mu kv) (Fin 0) \<and> ?s = (chunks_for mu kv, fst kv)"
    using Cons.prems(1) jlt_NaN jlt_irrefl jlt_asym by (auto simp: chunk_step_def)
  have "r = foldl (chunk_step mu) ?s kvs" using Cons.prems(2) by simp
  note IH = Cons.IH[OF s(1) this]
  have t: "\<not> jlt (fst r) x" if "\<not> jlt (fst ?s) x" for x
    using IH that s(1) jlt_negtrans by blast
  from IH t s show ?case by auto
qed

lemma chunkEstimate_ceil: "chunkEstimate n = Some e \<Longrightarrow> \<exists>x. fst e = jceil x"
proof -
  assume "chunkEstimate n = Some e"
  then obtain mu where e: "foldl (chunk_step mu) (Fin 0, []) (entries (n_aggregateResources n)) = e" "jlt (Fin 0) (fst e)"
    by (auto simp: chunkEstimate_def Let_def split: option.splits if_splits)
  then have "e \<noteq> (Fin 0, [])" using jlt_irrefl by auto
  with chunk_fold[OF _ e(1)[symmetric]] show ?thesis by (auto simp: chunks_for_def)
qed

text \<open>
C21: chunkEstimate reports the dimension whose ceiled ratio of aggregate to min-unit is the
  largest, and that ratio, which is above zero.
\<close>

theorem chunkEstimate_largest:
  assumes "chunkEstimate n = Some (t, d)"
  shows "\<exists>mu. n_minUnit n = Some mu \<and> jlt (Fin 0) t
    \<and> (\<exists>kv \<in> set (entries (n_aggregateResources n)). fst kv = d \<and> t = chunks_for mu kv \<and> \<not> jle (chunk mu kv) (Fin 0))
    \<and> (\<forall>kv \<in> set (entries (n_aggregateResources n)). jle (chunk mu kv) (Fin 0) \<or> \<not> jlt t (chunks_for mu kv))"
proof -
  from assms obtain mu where mu: "n_minUnit n = Some mu" "jlt (Fin 0) t"
    "foldl (chunk_step mu) (Fin 0, []) (entries (n_aggregateResources n)) = (t, d)"
    by (auto simp: chunkEstimate_def Let_def split: option.splits if_splits)
  have "t \<noteq> Fin 0" using mu(2) jlt_irrefl by blast
  with chunk_fold[OF _ mu(3)[symmetric]] mu show ?thesis by auto
qed

lemma chunkEstimate_largest_witness:
  "\<not> jlt (Fin 4) (chunks_for [(lit ''cpu'', lit ''2''), (lit ''memory'', lit ''8Gi'')] (lit ''memory'', lit ''16Gi''))"
proof -
  let ?n = "sample_need [] 1 1 0 False"
  let ?mu = "[(lit ''cpu'', lit ''2''), (lit ''memory'', lit ''8Gi'')]"
  have es: "entries (n_aggregateResources ?n) = [(lit ''cpu'', lit ''8''), (lit ''memory'', lit ''16Gi'')]" "n_minUnit ?n = Some ?mu"
    by (simp_all add: sample_need_def)
  have "map_of ?mu (lit ''cpu'') = Some (lit ''2'')" "map_of ?mu (lit ''memory'') = Some (lit ''8Gi'')" by simp_all
  then have c: "chunk ?mu (lit ''cpu'', v) = Fin 2" "chunk ?mu (lit ''memory'', v) = Fin 8589934592" for v
    by (simp_all only: chunk_def fst_conv sample_quantities)
  have k: "chunks_for ?mu (lit ''cpu'', lit ''8'') = Fin 4" "chunks_for ?mu (lit ''memory'', lit ''16Gi'') = Fin 2"
    unfolding chunks_for_def c snd_conv sample_quantities by (simp_all add: number_eval)
  have "chunkEstimate ?n = Some (Fin 4, lit ''cpu'')"
    by (simp add: chunkEstimate_def es chunk_step_def c k jle_fin jlt_fin del: lit_simps)
  from chunkEstimate_largest[OF this] show ?thesis
    by (simp add: es c jle_fin del: lit_simps)
qed

subsection \<open>Precedence\<close>

definition need_ok :: "NeedView \<Rightarrow> bool" where
  "need_ok n \<longleftrightarrow> n_priority n \<noteq> NaN \<and> arrival n \<noteq> NaN"

lemma precedes_asym: "precedes a b \<Longrightarrow> \<not> precedes b a"
  using jlt_asym jeq_sym by (auto simp: precedes_def split: if_splits)

lemma precedes_negtrans:
  assumes "need_ok a" "need_ok b" "need_ok c" "precedes a c"
  shows "precedes a b \<or> precedes b c"
  using assms by (auto simp: need_ok_def precedes_def jlt_def jeq_def split: if_splits)

definition cmp_precedes :: "NeedView \<Rightarrow> NeedView \<Rightarrow> jsnum" where
  "cmp_precedes = cmp_of precedes"

interpretation prec: consistent cmp_precedes need_ok
  by unfold_locales
    (auto simp: cmp_precedes_def precedes_asym precedes_negtrans cmp_of_pos)

definition cmp_competitors :: "need_ref \<Rightarrow> need_ref \<Rightarrow> jsnum" where
  "cmp_competitors = cmp_two (\<lambda>x y. precedes (snd x) (snd y))"

interpretation comp: comparator cmp_competitors "\<lambda>r. need_ok (snd r)"
  by unfold_locales (auto simp: cmp_competitors_def precedes_asym precedes_negtrans)


text \<open>The comparator answers \<open>1\<close> on equal needs, which the language does not allow a comparator to do.\<close>

lemma cmp_competitors_self: "jlt (Fin 0) (cmp_competitors x x) \<and> jlt (Fin 0) (cmp_competitors x y) \<or> precedes (snd x) (snd y)"
  using precedes_asym by (auto simp: cmp_competitors_def cmp_two_def jlt_def)

text \<open>
C3: competitorsFor gives at most eight needs, all of them eligible competitors, in precedence
  order, and an eligible competitor it leaves out precedes none of the eight it shows, although
  its comparator answers 1 on ties.
\<close>

theorem competitorsFor_best:
  assumes "\<forall>c \<in> set all. need_ok (snd c)"
  shows "length (competitorsFor n all) \<le> 8
    \<and> set (competitorsFor n all) \<subseteq> {c \<in> set all. competes n c}
    \<and> sorted_wrt (\<lambda>x y. \<not> precedes (snd y) (snd x)) (competitorsFor n all)
    \<and> (\<forall>c \<in> set all. competes n c \<longrightarrow> c \<in> set (competitorsFor n all)
         \<or> length (competitorsFor n all) = 8 \<and> (\<forall>b \<in> set (competitorsFor n all). \<not> precedes (snd c) (snd b)))"
proof -
  let ?cs = "filter (competes n) all"
  define s where "s = js_sort cmp_competitors ?cs"
  have ok: "\<forall>c \<in> set ?cs. need_ok (snd c)" using assms by auto
  have e: "competitorsFor n all = take 8 s"
    by (simp add: competitorsFor_def cmp_competitors_def s_def)
  have sorted: "sorted_wrt (\<lambda>x y. \<not> precedes (snd y) (snd x)) s"
    using comp.sorted_sort[OF ok] by (simp add: s_def js_sort_def cmp_competitors_def)
  have set: "set s = set ?cs" by (simp add: s_def)
  have rest: "length (take 8 s) = 8 \<and> (\<forall>b \<in> set (take 8 s). \<not> precedes (snd c) (snd b))"
    if c: "c \<in> set s" "c \<notin> set (take 8 s)" for c
  proof -
    have "c \<in> set (drop 8 s)" using c by (metis Un_iff append_take_drop_id set_append)
    then have "drop 8 s \<noteq> []" by auto
    moreover have "\<not> precedes (snd c) (snd b)" if "b \<in> set (take 8 s)" for b
      using comp.take_sort_best[OF ok, of b 8 c] that \<open>c \<in> set (drop 8 s)\<close>
      by (simp add: s_def js_sort_def cmp_competitors_def)
    ultimately show ?thesis by auto
  qed
  have "sorted_wrt (\<lambda>x y. \<not> precedes (snd y) (snd x)) (take 8 s)"
    using sorted by (metis append_take_drop_id sorted_wrt_append)
  moreover have "set (take 8 s) \<subseteq> {c \<in> set all. competes n c}" using set set_take_subset[of 8 s] by auto
  ultimately show ?thesis unfolding e using rest set by auto
qed

lemma competitorsFor_best_witness:
  "sorted_wrt (\<lambda>x y. \<not> precedes (snd y) (snd x))
     (competitorsFor (0, sample_need [] 1 9 0 False) [(1, sample_need [] 2 5 1 True), (2, sample_need [] 3 5 1 True)])"
  using competitorsFor_best[of "[(1, sample_need [] 2 5 1 True), (2, sample_need [] 3 5 1 True)]" "(0, sample_need [] 1 9 0 False)"]
  by (simp add: need_ok_def arrival_def sample_need_def)

end
