(* ===== verification/Needs_Walk_Facts.thy ===== *)
theory Needs_Walk_Facts
  imports Needs_Walk Needs_Facts
begin

text \<open>
  What \<open>buildWalk\<close> and the counts of the Needs page guarantee: the walk shows every need exactly
  once under distinct keys; a header counts the needs of its shape; a cut-line sits between a
  need that claimed and one that got nothing and counts the needs of the shape below it;
  cohorts and tail are in precedence order. Clusters and reasons are counted exactly, and
  the cluster selected first is one with the most unmet needs.
\<close>

subsection \<open>Cut-lines and keys\<close>

lemma cut_index_Some:
  "cut_index g = Some i \<Longrightarrow> Suc i < length g \<and> cuts (g ! i) (g ! Suc i) \<and> (\<forall>j < i. \<not> cuts (g ! j) (g ! Suc j))"
proof (induction g arbitrary: i rule: cut_index.induct)
  case (1 a b g)
  show ?case
  proof (cases "cuts a b")
    case False
    with "1.prems" obtain k where "cut_index (b # g) = Some k" "i = Suc k" by auto
    with "1.IH"[OF False, of k] False show ?thesis by (auto simp: less_Suc_eq_0_disj)
  qed (use "1.prems" in simp)
qed simp_all

lemma cut_index_None: "cut_index g = None \<Longrightarrow> Suc i < length g \<Longrightarrow> \<not> cuts (g ! i) (g ! Suc i)"
proof (induction g arbitrary: i rule: cut_index.induct)
  case (1 a b g)
  then show ?case by (cases i) (auto split: if_splits)
qed simp_all

text \<open>A decimal numeral after the last colon, or before the first one, can be read back.\<close>

lemma colon_not_digit: "is_digit c \<Longrightarrow> c \<noteq> 58"
  by (auto simp: is_digit_def)

lemma colon_dec: "58 \<notin> set (dec (int i))"
  using dec_digits[of "int i"] colon_not_digit by auto

lemma colon_split:
  "xs @ 58 # us = ys @ 58 # vs \<Longrightarrow> 58 \<notin> set xs \<Longrightarrow> 58 \<notin> set ys \<Longrightarrow> xs = ys \<and> us = (vs :: jsstr)"
  by (simp add: split_at_first)

lemma dec_int_inject: "dec (int i) = dec (int j) \<longleftrightarrow> i = j"
  by (simp add: dec_inject)

lemma row_key_inj: "row_key f i = row_key g j \<longleftrightarrow> f = g \<and> i = j"
proof
  assume "row_key f i = row_key g j"
  then have "rev (f @ 58 # dec (int i)) = rev (g @ 58 # dec (int j))" by (simp add: row_key_def)
  then have "rev (dec (int i)) @ 58 # rev f = rev (dec (int j)) @ 58 # rev g" by simp
  then have "rev (dec (int i)) = rev (dec (int j)) \<and> rev f = rev g" by (rule colon_split) (simp_all add: colon_dec)
  then show "f = g \<and> i = j" by (simp add: dec_int_inject)
qed simp

lemma flat_key_inj: "flat_key i m = flat_key j n \<Longrightarrow> i = j"
proof -
  assume "flat_key i m = flat_key j n"
  then have "dec (int i) = dec (int j)"
    unfolding flat_key_def lit_simps by (auto dest!: colon_split simp: colon_dec)
  then show "i = j" by (simp add: dec_int_inject)
qed

lemmas key_defs = header_key_def cut_key_def row_key_def flat_key_def

subsection \<open>What the loop collects\<close>

definition grouped :: "NeedView \<Rightarrow> bool" where
  "grouped n \<longleftrightarrow> fingerprint n \<noteq> []"

lemma walk_step_grouped:
  "foldl (walk_step False) st xs =
     (foldl (\<lambda>m n. upsert (fingerprint n) (push n) m) (fst st) (filter grouped xs), snd st @ filter (\<lambda>n. \<not> grouped n) xs)"
  by (induction xs arbitrary: st) (auto simp: walk_step_def grouped_def)

lemma walk_step_flat: "foldl (walk_step True) st xs = (fst st, snd st @ xs)"
  by (induction xs arbitrary: st) (auto simp: walk_step_def)

lemma walk_groups_eq:
  "walk_groups rows sc =
     (if sc then ([], sort_needs rows)
      else (group_by fingerprint (filter grouped (sort_needs rows)), filter (\<lambda>n. \<not> grouped n) (sort_needs rows)))"
  by (simp add: walk_groups_def walk_step_grouped walk_step_flat group_by_def tally_def)

lemma sort_needs_facts [simp]: "mset (sort_needs xs) = mset xs" "set (sort_needs xs) = set xs" "length (sort_needs xs) = length xs"
  by (simp_all add: sort_needs_def)

subsection \<open>Rows of the walk\<close>

fun row_needs :: "WalkItem list \<Rightarrow> NeedView list" where
  "row_needs [] = []"
| "row_needs (Row k n # its) = n # row_needs its"
| "row_needs (_ # its) = row_needs its"

lemma row_needs_append [simp]: "row_needs (xs @ ys) = row_needs xs @ row_needs ys"
  by (induction xs rule: row_needs.induct) auto

lemma row_needs_rows: "row_needs (map (\<lambda>i. Row (k i) (f i)) is) = map f is"
  by (induction "is") auto

lemma row_needs_cohort_rows: "row_needs (concat (map (cohort_row fp g) is)) = map (\<lambda>i. g ! i) is"
  by (induction "is") (auto simp: cohort_row_def)

lemma row_needs_cohort [simp]: "row_needs (cohort_items (fp, g)) = g"
  by (simp add: cohort_items_def row_needs_cohort_rows map_nth)

lemma row_needs_cohorts: "row_needs (concat (map cohort_items cs)) = concat (map snd cs)"
  by (induction cs) (auto simp: case_prod_beta)

lemma mset_concat_sort: "mset (concat (map snd (js_sort cmp cs))) = mset (concat (map snd cs))"
  by (simp add: mset_concat flip: sum_mset_sum_list)

lemma mset_concat_filter:
  "mset (concat (map snd (filter P cs))) + mset (concat (map snd (filter (\<lambda>c. \<not> P c) cs))) = mset (concat (map snd cs))"
  by (induction cs) auto

lemma key_filter:
  assumes "distinct (map fst cs)"
  shows "filter (\<lambda>c. fst c \<notin> set (map fst (filter P cs))) cs = filter (\<lambda>c. \<not> P c) cs"
proof (rule filter_cong[OF refl])
  fix c assume c: "c \<in> set cs"
  show "fst c \<notin> set (map fst (filter P cs)) \<longleftrightarrow> \<not> P c"
    using assms c by (auto simp: distinct_map dest: inj_onD)
qed

text \<open>The walk is its cohorts in order, then its tail.\<close>

definition walk_cohorts :: "NeedView list \<Rightarrow> bool \<Rightarrow> (jsstr \<times> NeedView list) list" where
  "walk_cohorts rows sc = js_sort cmp_cohorts (filter (\<lambda>c. 2 \<le> length (snd c)) (fst (walk_groups rows sc)))"

definition walk_tail :: "NeedView list \<Rightarrow> bool \<Rightarrow> NeedView list" where
  "walk_tail rows sc = sort_needs (snd (walk_groups rows sc)
     @ concat (map snd (filter (\<lambda>c. \<not> 2 \<le> length (snd c)) (fst (walk_groups rows sc)))))"

definition tail_rows :: "NeedView list \<Rightarrow> WalkItem list" where
  "tail_rows t = map (\<lambda>i. Row (flat_key i (t ! i)) (t ! i)) [0..<length t]"

lemma groups_keys: "distinct (map fst (fst (walk_groups rows sc)))"
  by (simp add: walk_groups_eq grp.keys_distinct)

lemma buildWalk_shape: "buildWalk rows sc = concat (map cohort_items (walk_cohorts rows sc)) @ tail_rows (walk_tail rows sc)"
  unfolding buildWalk_def walk_cohorts_def walk_tail_def tail_rows_def
  by (simp only: case_prod_beta Let_def key_filter[OF groups_keys])

lemma row_needs_tail [simp]: "row_needs (tail_rows t) = t"
  by (simp add: tail_rows_def row_needs_rows map_nth)

lemma row_needs_buildWalk: "row_needs (buildWalk rows sc) = concat (map snd (walk_cohorts rows sc)) @ walk_tail rows sc"
  by (simp add: buildWalk_shape row_needs_cohorts)

lemma walk_parts: "mset (concat (map snd (walk_cohorts rows sc))) + mset (walk_tail rows sc) = mset rows"
proof -
  have "mset (concat (map snd (fst (walk_groups rows sc)))) + mset (snd (walk_groups rows sc)) = mset rows"
    using grp.groups_mset[of fingerprint] mset_filter_split[of grouped "sort_needs rows"] by (simp add: walk_groups_eq)
  then show ?thesis using mset_concat_filter[of "\<lambda>c. 2 \<le> length (snd c)" "fst (walk_groups rows sc)"]
    by (simp add: walk_cohorts_def walk_tail_def mset_concat_sort ac_simps)
qed

lemma walk_tail_subset: "set (walk_tail rows sc) \<subseteq> set rows"
  using arg_cong[OF walk_parts[of rows sc], of set_mset] by auto

text \<open>
C1: buildWalk shows every filtered need exactly once: the needs of the rows of the walk are a
  permutation of its input, whatever the fingerprints, cohorts and cut-lines.
\<close>

theorem buildWalk_rows: "mset (row_needs (buildWalk rows sc)) = mset rows"
  using walk_parts[of rows sc] by (simp add: row_needs_buildWalk)

subsection \<open>Keys\<close>

lemma cohort_keys:
  assumes "cut_index g = c"
  shows "map item_key (cohort_items (fp, g)) =
    header_key fp # concat (map (\<lambda>i. row_key fp i # (if c = Some i then [cut_key fp] else [])) [0..<length g])"
  using assms by (auto simp: cohort_items_def cohort_row_def map_concat comp_def intro!: arg_cong[where f = concat])

lemma distinct_rows_cut:
  "distinct is \<Longrightarrow> distinct (concat (map (\<lambda>i. row_key fp i # (if c = Some i then [cut_key fp] else [])) is))"
  by (induction "is") (auto simp: row_key_inj, auto simp: key_defs)

lemma cohort_keys_distinct: "distinct (map item_key (cohort_items (fp, g)))"
  by (simp add: cohort_keys[OF refl] distinct_rows_cut del: map_map) (auto simp: key_defs)

lemma cohort_keys_set: "k \<in> item_key ` set (cohort_items (fp, g)) \<Longrightarrow> k = header_key fp \<or> k = cut_key fp \<or> (\<exists>i. k = row_key fp i)"
  by (auto simp: cohort_items_def cohort_row_def split: if_splits)

lemma cohorts_keys_distinct:
  "distinct (map fst cs) \<Longrightarrow> distinct (map item_key (concat (map cohort_items cs)))"
proof (induction cs)
  case (Cons c cs)
  obtain fp g where c: "c = (fp, g)" by force
  have "fp \<noteq> fp'" if "(fp', g') \<in> set cs" for fp' g' using Cons.prems that c by force
  then have "item_key ` set (cohort_items c) \<inter> item_key ` set (concat (map cohort_items cs)) = {}"
    using c by (auto dest!: cohort_keys_set[OF imageI] simp: row_key_inj) (auto simp: key_defs)
  with Cons c cohort_keys_distinct[of fp g] show ?case by (simp del: set_concat)
qed simp

lemma walk_cohorts_keys: "distinct (map fst (walk_cohorts rows sc))"
proof -
  have "mset (map fst (walk_cohorts rows sc)) = mset (map fst (filter (\<lambda>c. 2 \<le> length (snd c)) (fst (walk_groups rows sc))))"
    by (simp add: walk_cohorts_def)
  then show ?thesis using groups_keys distinct_map_filter mset_eq_imp_distinct_iff by blast
qed

text \<open>
C23: The React keys of the items of a walk are pairwise distinct, also for fingerprints and
  cluster ids that contain colons.
\<close>

theorem buildWalk_keys: "distinct (map item_key (buildWalk rows sc))"
proof -
  have "distinct (map item_key (tail_rows t))" for t
    by (auto simp: tail_rows_def distinct_map intro!: inj_onI dest: flat_key_inj)
  moreover have "k \<noteq> flat_key i n" if "k \<in> item_key ` set (concat (map cohort_items cs))" for k i n cs
    using that by (auto dest!: cohort_keys_set[OF imageI]) (auto simp: key_defs)
  then have "item_key ` set (concat (map cohort_items cs)) \<inter> item_key ` set (tail_rows t) = {}" for cs t
    by (fastforce simp: tail_rows_def simp del: set_concat)
  ultimately show ?thesis using cohorts_keys_distinct[OF walk_cohorts_keys[of rows sc]]
    by (simp add: buildWalk_shape del: set_concat map_concat)
qed

subsection \<open>Headers\<close>

lemma walk_cohorts_mem:
  "(fp, g) \<in> set (walk_cohorts rows sc) \<longleftrightarrow>
     \<not> sc \<and> fp \<noteq> [] \<and> g = filter (\<lambda>n. fingerprint n = fp) (sort_needs rows) \<and> 2 \<le> length g"
proof -
  have "filter (\<lambda>n. fingerprint n = fp) (filter grouped xs) = (if fp = [] then [] else filter (\<lambda>n. fingerprint n = fp) xs)" for xs
    by (auto simp: grouped_def filter_empty_conv intro!: filter_cong)
  then show ?thesis using grp.group_iff[of fp g fingerprint] by (auto simp: walk_cohorts_def walk_groups_eq)
qed

lemma header_in_cohort: "Header k fp c ct ms \<in> set (cohort_items p) \<longleftrightarrow>
   fp = fst p \<and> k = header_key fp \<and> c = length (snd p) \<and> ct = contested (snd p) \<and> ms = pool (snd p)"
  by (cases p) (auto simp: cohort_items_def cohort_row_def)

lemma pool_filter:
  "pool g = (case filter (\<lambda>n. n_matchingSupply n \<noteq> None) g of [] \<Rightarrow> None | n # _ \<Rightarrow> n_matchingSupply n)"
  unfolding pool_def by (induction g) auto

lemma length_filter_sort: "length (filter P (sort_needs rows)) = length (filter P rows)"
  by (metis mset_filter size_mset sort_needs_facts(1))

text \<open>
C4: The walk has a header for a fingerprint exactly when clusters are not mixed and at least two
  needs share it; the header counts them, is contested exactly when one of them is unmet, and
  carries the supply pool of the first need in precedence order, among those of the fingerprint,
  that has one.
\<close>

theorem buildWalk_headers:
  "Header k fp c ct ms \<in> set (buildWalk rows sc) \<longleftrightarrow>
     \<not> sc \<and> fp \<noteq> [] \<and> k = header_key fp \<and> c = length (filter (\<lambda>n. fingerprint n = fp) rows) \<and> 2 \<le> c
     \<and> ct = (\<exists>n \<in> set rows. fingerprint n = fp \<and> \<not> n_satisfied n)
     \<and> ms = (case filter (\<lambda>n. fingerprint n = fp \<and> n_matchingSupply n \<noteq> None) (sort_needs rows) of
               [] \<Rightarrow> None | n # _ \<Rightarrow> n_matchingSupply n)"
proof -
  have "filter (\<lambda>n. n_matchingSupply n \<noteq> None) (filter (\<lambda>n. fingerprint n = fp) xs)
      = filter (\<lambda>n. fingerprint n = fp \<and> n_matchingSupply n \<noteq> None) xs" for xs
    by (auto intro: filter_cong)
  note pool = pool_filter[of "filter (\<lambda>n. fingerprint n = fp) (sort_needs rows)", unfolded this]
  have "Header k fp c ct ms \<in> set (buildWalk rows sc) \<longleftrightarrow> (\<exists>g. (fp, g) \<in> set (walk_cohorts rows sc)
      \<and> k = header_key fp \<and> c = length g \<and> ct = contested g \<and> ms = pool g)"
    by (force simp: buildWalk_shape tail_rows_def header_in_cohort)
  then show ?thesis
    by (auto simp: walk_cohorts_mem length_filter_sort contested_def list_ex_iff pool)
qed

subsection \<open>Cut-lines\<close>

lemma cohort_rows_upto:
  assumes "cut_index g = Some i"
  shows "\<exists>us vs. cohort_items (fp, g) =
    us @ Row (row_key fp i) (g ! i) # Cutline (cut_key fp) (length g - i - 1) # Row (row_key fp (Suc i)) (g ! Suc i) # vs
    \<and> row_needs vs = drop (Suc (Suc i)) g"
proof -
  have i: "Suc i < length g" using cut_index_Some[OF assms] by simp
  have "[0..<length g] = [0..<i] @ i # Suc i # [Suc (Suc i)..<length g]"
    using i upt_add_eq_append[of 0 i "length g - i"] by (simp add: upt_conv_Cons)
  then have "cohort_items (fp, g) = (Header (header_key fp) fp (length g) (contested g) (pool g) # concat (map (cohort_row fp g) [0..<i]))
     @ Row (row_key fp i) (g ! i) # Cutline (cut_key fp) (length g - i - 1) # Row (row_key fp (Suc i)) (g ! Suc i)
       # concat (map (cohort_row fp g) [Suc (Suc i)..<length g])"
    by (simp add: cohort_items_def cohort_row_def assms)
  moreover have "row_needs (concat (map (cohort_row fp g) [Suc (Suc i)..<length g])) = drop (Suc (Suc i)) g"
    by (rule nth_equalityI) (simp_all add: row_needs_cohort_rows)
  ultimately show ?thesis by blast
qed

text \<open>
C2: A cut-line of the walk sits directly between a row that claimed machines and a row of the
  same fingerprint that is unmet and claimed none, and its count is the number of needs of that
  fingerprint from there to the end of the walk.
\<close>

theorem buildWalk_cutlines:
  assumes "Cutline k b \<in> set (buildWalk rows sc)"
  shows "\<exists>us a r1 r2 c vs. buildWalk rows sc = us @ Row r1 a # Cutline k b # Row r2 c # vs \<and> cuts a c
    \<and> fingerprint a = fingerprint c \<and> k = cut_key (fingerprint a)
    \<and> b = length (filter (\<lambda>n. fingerprint n = fingerprint a) (c # row_needs vs))"
proof -
  from assms obtain fp g where g: "(fp, g) \<in> set (walk_cohorts rows sc)" "Cutline k b \<in> set (cohort_items (fp, g))"
    by (auto simp: buildWalk_shape tail_rows_def)
  then obtain i where i: "cut_index g = Some i" "k = cut_key fp" "b = length g - i - 1"
    by (auto simp: cohort_items_def cohort_row_def split: if_splits)
  note ci = cut_index_Some[OF i(1)]
  have gm: "g = filter (\<lambda>n. fingerprint n = fp) (sort_needs rows)" "fp \<noteq> []" "\<not> sc" "2 \<le> length g" using g(1) unfolding walk_cohorts_mem by blast+
  have gf: "fingerprint n = fp" if "n \<in> set g" for n using that gm(1) by simp
  obtain us vs where c: "cohort_items (fp, g) =
    us @ Row (row_key fp i) (g ! i) # Cutline k b # Row (row_key fp (Suc i)) (g ! Suc i) # vs" "row_needs vs = drop (Suc (Suc i)) g"
    using cohort_rows_upto[OF i(1)] i by blast
  obtain cs1 cs2 where cs: "walk_cohorts rows sc = cs1 @ (fp, g) # cs2" using g(1) split_list by fast
  let ?vs = "vs @ concat (map cohort_items cs2) @ tail_rows (walk_tail rows sc)"
  have w: "buildWalk rows sc = (concat (map cohort_items cs1) @ us) @ Row (row_key fp i) (g ! i) # Cutline k b
    # Row (row_key fp (Suc i)) (g ! Suc i) # ?vs"
    by (simp add: buildWalk_shape cs c(1))
  have "fingerprint n \<noteq> fp" if n: "n \<in> set (row_needs (concat (map cohort_items cs2)))" for n
  proof -
    obtain fp' g' where c2: "(fp', g') \<in> set cs2" "n \<in> set g'" using n by (auto simp: row_needs_cohorts)
    then have "fingerprint n = fp'" using walk_cohorts_mem[of fp' g' rows sc] cs by auto
    moreover have "fp' \<noteq> fp" using walk_cohorts_keys[of rows sc] imageI[OF c2(1), of fst] by (auto simp: cs)
    ultimately show ?thesis by simp
  qed
  moreover have "fingerprint n \<noteq> fp" if n: "n \<in> set (walk_tail rows sc)" for n
  proof
    assume f: "fingerprint n = fp"
    then obtain g' where g': "(fp, g') \<in> set (fst (walk_groups rows sc))" "\<not> 2 \<le> length g'"
      using n gm(2,3) by (auto simp: walk_tail_def walk_groups_eq grouped_def dest: grp.group_key)
    have "(fp, g) \<in> set (fst (walk_groups rows sc))" using g(1) by (auto simp: walk_cohorts_def)
    then have "g' = g" using g'(1) groups_keys[of rows sc] by (metis eq_key_imp_eq_value)
    with g' gm(4) show False by simp
  qed
  ultimately have "filter (\<lambda>n. fingerprint n = fp) (row_needs ?vs) = drop (Suc (Suc i)) g"
    using c(2) gf by (auto simp: filter_empty_conv filter_id_conv dest: in_set_dropD)
  moreover have "g ! i \<in> set g" "g ! Suc i \<in> set g" using ci by auto
  then have "fingerprint (g ! i) = fp" "fingerprint (g ! Suc i) = fp" using gf by blast+
  ultimately have "cuts (g ! i) (g ! Suc i) \<and> fingerprint (g ! i) = fingerprint (g ! Suc i) \<and> k = cut_key (fingerprint (g ! i))
    \<and> b = length (filter (\<lambda>n. fingerprint n = fingerprint (g ! i)) (g ! Suc i # row_needs ?vs))"
    using ci i Suc_diff_Suc[of "Suc i" "length g"] by simp
  with w show ?thesis by blast
qed


text \<open>Two needs of one shape, of which the first claimed and the second got nothing.\<close>

definition sample_rows :: "NeedView list" where
  "sample_rows = [sample_need (lit ''p'') 1 7 0 False, sample_need (lit ''p'') 5 3 2 True]"

lemma sample_walk:
  "buildWalk sample_rows False =
     [Header (lit ''h:p'') (lit ''p'') 2 True None,
      Row (row_key (lit ''p'') 0) (sample_need (lit ''p'') 5 3 2 True), Cutline (lit ''c:p'') 1,
      Row (row_key (lit ''p'') 1) (sample_need (lit ''p'') 1 7 0 False)]"
proof -
  have p: "precedes (sample_need (lit ''p'') 5 3 2 True) (sample_need (lit ''p'') 1 7 0 False)"
    "\<not> precedes (sample_need (lit ''p'') 1 7 0 False) (sample_need (lit ''p'') 5 3 2 True)"
    by (simp_all add: precedes_def sample_need_def jeq_def jlt_def)
  have f: "fingerprint (sample_need fp a b c d) = fp" for fp a b c d by (simp add: fingerprint_def sample_need_def)
  have c: "cuts (sample_need (lit ''p'') 5 3 2 True) (sample_need (lit ''p'') 1 7 0 False)"
    by (simp add: cuts_def sample_need_def jeq_def jlt_def)
  have m: "contested [sample_need (lit ''p'') 5 3 2 True, sample_need (lit ''p'') 1 7 0 False]"
    "pool [sample_need (lit ''p'') 5 3 2 True, sample_need (lit ''p'') 1 7 0 False] = None"
    by (simp_all add: contested_def pool_def sample_need_def)
  have "sort_needs sample_rows = [sample_need (lit ''p'') 5 3 2 True, sample_need (lit ''p'') 1 7 0 False]" using p
    by (simp add: sort_needs_def js_sort_def cmp_precedes_def sample_rows_def)
  then have g: "walk_groups sample_rows False = ([(lit ''p'', [sample_need (lit ''p'') 5 3 2 True, sample_need (lit ''p'') 1 7 0 False])], [])"
    by (simp add: walk_groups_def walk_step_def f push_def)
  then have "walk_cohorts sample_rows False = [(lit ''p'', [sample_need (lit ''p'') 5 3 2 True, sample_need (lit ''p'') 1 7 0 False])]"
    "walk_tail sample_rows False = []"
    by (simp_all add: walk_cohorts_def walk_tail_def js_sort_def sort_needs_def)
  then show ?thesis using c m
    by (simp add: buildWalk_shape tail_rows_def cohort_items_def cohort_row_def upt_rec header_key_def cut_key_def)
qed

lemma buildWalk_cutlines_witness:
  "\<exists>us a r1 r2 c vs. buildWalk sample_rows False = us @ Row r1 a # Cutline (lit ''c:p'') 1 # Row r2 c # vs \<and> cuts a c"
proof -
  have "Cutline (lit ''c:p'') 1 \<in> set (buildWalk sample_rows False)" by (simp add: sample_walk)
  from buildWalk_cutlines[OF this] show ?thesis by blast
qed

subsection \<open>Order\<close>

lemma sort_needs_sorted:
  "\<forall>n \<in> set rows. need_ok n \<Longrightarrow> sorted_wrt (\<lambda>a b. \<not> precedes b a) (sort_needs rows)"
  using prec.sorted_sort[of rows] by (simp add: sort_needs_def js_sort_def cmp_precedes_def)

definition cohort_ok :: "jsstr \<times> NeedView list \<Rightarrow> bool" where
  "cohort_ok c \<longleftrightarrow> snd c \<noteq> [] \<and> need_ok (hd (snd c))"

interpretation coh: comparator cmp_cohorts cohort_ok
  by unfold_locales (auto simp: cmp_cohorts_def cohort_ok_def precedes_asym precedes_negtrans)

text \<open>
C5: When priorities and arrivals are numbers, the members of each cohort, the cohorts by their
  top need, and the flat tail are each in precedence order.
\<close>

theorem buildWalk_order:
  assumes "\<forall>n \<in> set rows. need_ok n"
  shows "\<exists>cohorts rest. buildWalk rows sc = concat (map cohort_items cohorts) @ tail_rows rest
    \<and> sorted_wrt (\<lambda>a b. \<not> precedes b a) rest
    \<and> (\<forall>c \<in> set cohorts. sorted_wrt (\<lambda>a b. \<not> precedes b a) (snd c))
    \<and> sorted_wrt (\<lambda>a b. \<not> precedes (hd (snd b)) (hd (snd a))) cohorts"
proof (intro exI conjI)
  show "buildWalk rows sc = concat (map cohort_items (walk_cohorts rows sc)) @ tail_rows (walk_tail rows sc)"
    by (rule buildWalk_shape)
  have "\<forall>n \<in> set (walk_tail rows sc). need_ok n" using assms walk_tail_subset[of rows sc] by blast
  then show "sorted_wrt (\<lambda>a b. \<not> precedes b a) (walk_tail rows sc)"
    unfolding walk_tail_def by (intro sort_needs_sorted) simp
  have g: "sorted_wrt (\<lambda>a b. \<not> precedes b a) (snd c) \<and> cohort_ok c" if "c \<in> set (walk_cohorts rows sc)" for c
  proof -
    obtain fp g where c: "c = (fp, g)" by force
    with that have m: "g = filter (\<lambda>n. fingerprint n = fp) (sort_needs rows)" "2 \<le> length g" unfolding c walk_cohorts_mem by blast+
    then have "g \<noteq> []" by auto
    moreover from this have "hd g \<in> set rows" using m(1) hd_in_set[of g] by auto
    ultimately show ?thesis
      using m(1) sort_needs_sorted[OF assms] assms by (simp add: c cohort_ok_def sorted_wrt_filter)
  qed
  then show "\<forall>c \<in> set (walk_cohorts rows sc). sorted_wrt (\<lambda>a b. \<not> precedes b a) (snd c)" by blast
  have "\<forall>c \<in> set (filter (\<lambda>c. 2 \<le> length (snd c)) (fst (walk_groups rows sc))). cohort_ok c"
    using g by (simp add: walk_cohorts_def)
  from coh.sorted_sort[OF this]
  show "sorted_wrt (\<lambda>a b. \<not> precedes (hd (snd b)) (hd (snd a))) (walk_cohorts rows sc)"
    by (simp add: walk_cohorts_def js_sort_def cmp_cohorts_def)
qed

lemma buildWalk_order_witness:
  "\<exists>cohorts rest. buildWalk sample_rows False = concat (map cohort_items cohorts) @ tail_rows rest
    \<and> (\<forall>c \<in> set cohorts. sorted_wrt (\<lambda>a b. \<not> precedes b a) (snd c))"
proof -
  have "\<forall>n \<in> set sample_rows. need_ok n" by (simp add: sample_rows_def need_ok_def arrival_def sample_need_def)
  from buildWalk_order[OF this] show ?thesis by blast
qed

subsection \<open>Counts\<close>

lemma count_fold:
  "foldl (\<lambda>v n. count_need n (Some v)) c ns =
     \<lparr>k_total = k_total c + length ns, k_unmet = k_unmet c + length (filter (\<lambda>n. \<not> n_satisfied n) ns)\<rparr>"
  by (induction ns arbitrary: c) (auto simp: count_need_def)

lemma count_first: "count_need n None = \<lparr>k_total = 1, k_unmet = length (filter (\<lambda>n. \<not> n_satisfied n) [n])\<rparr>"
  by (simp add: count_need_def)

lemma clusters_mem:
  "(cid, c) \<in> set (needs_clusters lc all) \<longleftrightarrow>
     (let ns = filter (\<lambda>n. n_clusterId n = cid) all
      in ns \<noteq> [] \<and> c = \<lparr>k_total = length ns, k_unmet = length (filter (\<lambda>n. \<not> n_satisfied n) ns)\<rparr>)"
proof -
  define ns where "ns = filter (\<lambda>n. n_clusterId n = cid) all"
  have "map_of (tally n_clusterId count_need all) cid =
    (if ns = [] then None else Some \<lparr>k_total = length ns, k_unmet = length (filter (\<lambda>n. \<not> n_satisfied n) ns)\<rparr>)"
    unfolding tally_value ns_def[symmetric] by (cases ns) (simp_all add: count_fold count_first)
  then show ?thesis by (auto simp: needs_clusters_def tally_mem Let_def ns_def)
qed

lemma sum_upsert: "(\<And>v. h (f (Some v)) = h v + d) \<Longrightarrow> h (f None) = d \<Longrightarrow>
   (\<Sum>e \<leftarrow> upsert k f m. h (snd e)) = (\<Sum>e \<leftarrow> m. h (snd e)) + (d :: nat)"
  by (induction m) auto

lemma sum_tally:
  assumes "\<And>x v. h (f x (Some v)) = h v + (d x :: nat)" "\<And>x. h (f x None) = d x"
  shows "(\<Sum>e \<leftarrow> tally key f xs. h (snd e)) = (\<Sum>x \<leftarrow> xs. d x)"
  by (induction xs rule: rev_induct) (simp_all add: sum_upsert[where h = h] assms)

lemma sum_sorted: "(\<Sum>e \<leftarrow> js_sort cmp xs. h e) = (\<Sum>e \<leftarrow> xs. h e :: nat)"
  by (metis js_sort_facts(1) mset_map sum_mset_sum_list)

text \<open>
C26: The cluster list has one entry per cluster id that occurs, with the number of its needs and
  of its unmet needs, and the entries add up to all needs and all unmet needs.
\<close>

theorem needs_clusters_counts:
  "((cid, c) \<in> set (needs_clusters lc all) \<longleftrightarrow>
     (let ns = filter (\<lambda>n. n_clusterId n = cid) all
      in ns \<noteq> [] \<and> c = \<lparr>k_total = length ns, k_unmet = length (filter (\<lambda>n. \<not> n_satisfied n) ns)\<rparr>))
   \<and> (\<Sum>e \<leftarrow> needs_clusters lc all. k_total (snd e)) = length all
   \<and> (\<Sum>e \<leftarrow> needs_clusters lc all. k_unmet (snd e)) = length (filter (\<lambda>n. \<not> n_satisfied n) all)"
proof (intro conjI)
  have t: "(\<Sum>e \<leftarrow> tally n_clusterId count_need all. k_total (snd e)) = (\<Sum>n \<leftarrow> all. 1)"
    by (rule sum_tally) (simp_all add: count_need_def Let_def)
  then show "(\<Sum>e \<leftarrow> needs_clusters lc all. k_total (snd e)) = length all"
    by (simp add: needs_clusters_def sum_sorted sum_list_triv)
  have "(\<Sum>e \<leftarrow> tally n_clusterId count_need all. k_unmet (snd e)) = (\<Sum>n \<leftarrow> all. if n_satisfied n then 0 else 1)"
    by (rule sum_tally) (simp_all add: count_need_def Let_def)
  also have "\<dots> = length (filter (\<lambda>n. \<not> n_satisfied n) all)" by (induction all) auto
  finally show "(\<Sum>e \<leftarrow> needs_clusters lc all. k_unmet (snd e)) = length (filter (\<lambda>n. \<not> n_satisfied n) all)"
    by (simp add: needs_clusters_def sum_sorted)
qed (rule clusters_mem)

lemma summary_fold:
  "foldl summary_step st ns =
     (fst st + length (filter n_satisfied ns),
      foldl (\<lambda>m n. upsert (n_unmetReason n) (bump n) m) (snd st) (filter (\<lambda>n. \<not> n_satisfied n) ns))"
  by (induction ns arbitrary: st) (auto simp: summary_step_def)

lemma bump_first: "bump x None = 1"
  by (simp add: bump_def)

lemma bump_fold: "foldl (\<lambda>v n. bump n (Some v)) k ns = k + length ns"
  by (induction ns arbitrary: k) (auto simp: bump_def)

text \<open>
C28: The summary counts the satisfied needs and, under distinct reasons, the unmet needs of each
  reason.
\<close>

theorem needs_summary_counts:
  "fst (needs_summary ns) = length (filter n_satisfied ns)
   \<and> distinct (map fst (snd (needs_summary ns)))
   \<and> (\<forall>r. map_of (snd (needs_summary ns)) r =
        (let k = length (filter (\<lambda>n. \<not> n_satisfied n \<and> n_unmetReason n = r) ns) in if k = 0 then None else Some k))"
proof -
  let ?u = "filter (\<lambda>n. \<not> n_satisfied n) ns"
  have e: "needs_summary ns = (length (filter n_satisfied ns), tally n_unmetReason bump ?u)"
    by (simp add: needs_summary_def summary_fold tally_def)
  have "map_of (tally n_unmetReason bump ?u) r =
    (let k = length (filter (\<lambda>n. \<not> n_satisfied n \<and> n_unmetReason n = r) ns) in if k = 0 then None else Some k)" for r
    by (auto simp: tally_value bump_fold Let_def conj_commute filter_empty_conv bump_first split: list.splits)
  then show ?thesis using tally_keys[of n_unmetReason bump ?u] by (simp add: e)
qed

subsection \<open>The cluster selected first\<close>

definition count_ok :: "jsstr \<times> cluster_count \<Rightarrow> bool" where
  "count_ok c \<longleftrightarrow> k_unmet (snd c) < 2 ^ 53"

lemma is_dbl_nat: "n < 2 ^ 53 \<Longrightarrow> is_dbl (Fin (of_nat n))"
  using mk_of_int[of "int n"] is_dbl_mk[of "of_nat n"] by simp

lemma jsub_nat:
  assumes "m < 2 ^ 53" "n < 2 ^ 53"
  shows "jlt (jsub (Fin (of_nat m)) (Fin (of_nat n))) (Fin 0) \<longleftrightarrow> m < n" "truthy (jsub (Fin (of_nat m)) (Fin (of_nat n))) \<longleftrightarrow> m \<noteq> n"
proof -
  let ?d = "jsub (Fin (of_nat m)) (Fin (of_nat n))"
  note s = jsub_sign[OF is_dbl_nat[OF assms(1)] is_dbl_nat[OF assms(2)]]
  then show "jlt ?d (Fin 0) \<longleftrightarrow> m < n" by (simp add: jlt_fin)
  have "?d \<noteq> NaN" by (auto simp: jsub_def jadd_def jneg_def)
  moreover from this have "jeq ?d (Fin 0) \<longleftrightarrow> \<not> jlt ?d (Fin 0) \<and> \<not> jlt (Fin 0) ?d"
    using jlt_linear[of ?d "Fin 0"] jeq_not_lt jeq_sym by blast
  ultimately show "truthy ?d \<longleftrightarrow> m \<noteq> n" using s by (auto simp: truthy_def jlt_fin)
qed

lemma js_less_clusters:
  "count_ok a \<Longrightarrow> count_ok b \<Longrightarrow> js_less (cmp_clusters lc) a b \<longleftrightarrow>
     k_unmet (snd b) < k_unmet (snd a) \<or> k_unmet (snd b) = k_unmet (snd a) \<and> js_less lc (fst a) (fst b)"
  by (auto simp: js_less_def cmp_clusters_def Let_def count_ok_def jsub_nat)

lemma comparator_clusters:
  assumes "comparator lc (\<lambda>_. True)"
  shows "comparator (cmp_clusters lc) count_ok"
proof
  fix x y z :: "jsstr \<times> cluster_count"
  assume x: "count_ok x" and y: "count_ok y"
  show "js_less (cmp_clusters lc) x y \<Longrightarrow> \<not> js_less (cmp_clusters lc) y x"
    using comparator.less_asym[OF assms, of "fst x" "fst y"] by (auto simp: js_less_clusters[OF x y] js_less_clusters[OF y x])
  assume z: "count_ok z"
  show "js_less (cmp_clusters lc) x z \<Longrightarrow> js_less (cmp_clusters lc) x y \<or> js_less (cmp_clusters lc) y z"
    using comparator.less_negtrans[OF assms TrueI TrueI TrueI, of "fst x" "fst z" "fst y"]
    by (auto simp: js_less_clusters[OF x y] js_less_clusters[OF y z] js_less_clusters[OF x z])
qed

text \<open>
C27: The cluster selected when none is chosen is one of the list and no cluster has more unmet
  needs, for every consistent collation.
\<close>

theorem default_cluster_worst:
  assumes "comparator lc (\<lambda>_. True)" "length all < 2 ^ 53" "all \<noteq> []"
  shows "\<exists>c. (default_cluster [] (needs_clusters lc all), c) \<in> set (needs_clusters lc all)
    \<and> (\<forall>(cid, d) \<in> set (needs_clusters lc all). k_unmet d \<le> k_unmet c)"
proof -
  let ?t = "tally n_clusterId count_need all"
  have "?t \<noteq> []" using tally_keys[of n_clusterId count_need all] assms(3) by auto
  then obtain c cs where c: "needs_clusters lc all = c # cs" by (cases "needs_clusters lc all") (auto simp: needs_clusters_def)
  have ok: "\<forall>e \<in> set ?t. count_ok e"
  proof
    fix e assume "e \<in> set ?t"
    then have "(fst e, snd e) \<in> set (needs_clusters lc all)" by (simp add: needs_clusters_def)
    from this[unfolded clusters_mem] have "k_unmet (snd e) \<le> length all"
      using order_trans[OF length_filter_le length_filter_le] by (auto simp: Let_def)
    then show "count_ok e" using assms(2) by (simp add: count_ok_def)
  qed
  have least: "\<not> js_less (cmp_clusters lc) e c" if "e \<in> set ?t" for e
    using weak_order.sort_head_least[OF comparator_weak[OF comparator_clusters[OF assms(1)]] ok _ that, of c cs] c
    by (simp add: needs_clusters_def js_sort_def)
  have mem: "set (needs_clusters lc all) = set ?t" by (simp add: needs_clusters_def)
  then have "c \<in> set ?t" using c by auto
  have "k_unmet d \<le> k_unmet (snd c)" if "(cid, d) \<in> set (needs_clusters lc all)" for cid d
    using least[of "(cid, d)"] that ok \<open>c \<in> set ?t\<close> mem by (auto simp: js_less_clusters)
  moreover have "(default_cluster [] (needs_clusters lc all), snd c) \<in> set (needs_clusters lc all)"
    by (simp add: c default_cluster_def)
  ultimately show ?thesis by blast
qed

lemma default_cluster_worst_witness:
  "\<exists>c. (default_cluster [] (needs_clusters unit_collate sample_rows), c) \<in> set (needs_clusters unit_collate sample_rows)"
  using default_cluster_worst[OF ucol.comparator_axioms, of sample_rows] by (auto simp: sample_rows_def)

end
