(* ===== verification/Needs_Views.thy ===== *)
theory Needs_Views
  imports Needs_Kit Needs_Walk
begin

text \<open>
  The components of \<open>ui/src/pages/needsKit.tsx\<close> as functions from a need to the tree they
  render (\<open>Ui\<close>). The collation and \<open>Math.log2\<close> are the parameters \<open>lc\<close> and \<open>lg\<close>.
\<close>

subsection \<open>Small parts\<close>

definition Section :: "jsstr \<Rightarrow> jsstr option \<Rightarrow> html list \<Rightarrow> html" where
  "Section title hint children =
     el ''div'' (el ''div'' (leaf ''div'' title #
       show_if (truthy_str hint) [E ''div'' [] [T (([0xB7] @ lit '' '') @ (case hint of None \<Rightarrow> [] | Some h \<Rightarrow> h))]]) # children)"

definition KV :: "jsstr \<Rightarrow> html list \<Rightarrow> html" where
  "KV k v = el ''div'' [leaf ''dt'' k, el ''dd'' v]"

definition OP_GLYPH :: "(jsstr \<times> jsstr) list" where
  "OP_GLYPH = [((lit ''In''), [0x2208]), ((lit ''NotIn''), [0x2209]), ((lit ''Exists''), [0x2203]),
     ((lit ''DoesNotExist''), [0x2204]), ((lit ''Same''), [0x22C8])]"

definition RequirementChip :: "Requirement \<Rightarrow> html" where
  "RequirementChip req =
     (let same = (rq_operator req = (lit ''Same''));
          glyph = (case map_of OP_GLYPH (rq_operator req) of Some g \<Rightarrow> g | None \<Rightarrow> rq_operator req);
          vals = join (lit '', '') (entries (rq_values req))
      in E ''span''
           [(''title'', rq_key req @ (lit '' '') @ rq_operator req @ (if vals = [] then [] else (lit '' ['') @ vals @ (lit '']''))),
            (''class'', if same then (lit ''border-violet-400/50 bg-violet-500/10 text-violet-700 dark:text-violet-300'')
                        else (lit ''border-[var(--border)] bg-[var(--surface-2)] text-[var(--text-muted)]''))]
           ([leaf ''span'' (shortResourceKey (rq_key req)),
             E ''span'' [(''class'', if same then (lit ''text-violet-500'') else (lit ''text-[var(--text-subtle)]''))] [T glyph]]
            @ show_if (vals \<noteq> []) [leaf ''span'' vals] @ show_if same [leaf ''span'' (lit ''co-loc'')]))"

definition SpreadChip :: "TopologySpread \<Rightarrow> html" where
  "SpreadChip s =
     (let hard = (sp_whenUnsatisfiable s = Some (lit ''DoNotSchedule''))
      in E ''span''
           [(''title'', (lit ''topology spread on '') @ sp_topologyKey s @ (lit '', maxSkew '') @ num_to_string (sp_maxSkew s) @ (lit '', '')
               @ (case sp_whenUnsatisfiable s of None \<Rightarrow> (lit ''undefined'') | Some w \<Rightarrow> w))]
           ([leaf ''span'' (lit ''spread''), leaf ''span'' (shortResourceKey (sp_topologyKey s)),
             leaf ''span'' ((lit ''skew'' @ [0x2264]) @ num_to_string (sp_maxSkew s))]
            @ show_if hard [leaf ''span'' (lit ''hard'')]))"

datatype PenaltyKind = Interruption | Reclamation

fun PENALTY_ACCENT :: "PenaltyKind \<Rightarrow> jsstr" where
  "PENALTY_ACCENT Interruption = (lit ''bg-amber-500'')"
| "PENALTY_ACCENT Reclamation = (lit ''bg-teal-500'')"

fun kind_name :: "PenaltyKind \<Rightarrow> jsstr" where
  "kind_name Interruption = (lit ''interruption'')"
| "kind_name Reclamation = (lit ''reclamation'')"

definition PenaltyPill :: "jsstr \<Rightarrow> PenaltyKind \<Rightarrow> html" where
  "PenaltyPill bucket k =
     E ''span'' [(''title'', kind_name k @ (lit '' penalty: '') @ bucket)]
       [E ''span'' [(''class'', PENALTY_ACCENT k)] [],
        T (if toUpperCase bucket = (lit ''PINNED'') then [0xD83D, 0xDCCC] else formatPenalty (Some bucket))]"

text \<open>A stop of the ladder: whether it is filled, and its height in pixels.\<close>

definition ladder_filled :: "(jsnum \<Rightarrow> jsnum) \<Rightarrow> jsstr \<Rightarrow> nat \<Rightarrow> bool" where
  "ladder_filled lg bucket i = jlt (str_nat i) (penaltyOrdinal lg (Some bucket))"

definition ladder_height :: "nat \<Rightarrow> jsnum" where
  "ladder_height i = jadd (Fin 6) (jmul (jdiv (str_nat i) PENALTY_LADDER_MAX) (Fin 8))"

definition ladder_stop :: "(jsnum \<Rightarrow> jsnum) \<Rightarrow> jsstr \<Rightarrow> PenaltyKind \<Rightarrow> nat \<Rightarrow> html" where
  "ladder_stop lg bucket k i =
     E ''span'' [(''class'', if ladder_filled lg bucket i then PENALTY_ACCENT k else (lit ''bg-[var(--surface-3)]'')),
                 (''height'', num_to_string (ladder_height i) @ (lit ''px''))] []"

definition PenaltyLadder :: "(jsnum \<Rightarrow> jsnum) \<Rightarrow> jsstr \<Rightarrow> PenaltyKind \<Rightarrow> html" where
  "PenaltyLadder lg bucket k =
     (let pinned = jle PENALTY_LADDER_MAX (penaltyOrdinal lg (Some bucket))
      in el ''div'' [el ''div'' (map (ladder_stop lg bucket k) [0..<array_length PENALTY_LADDER_MAX]),
           el ''span'' (T (formatPenalty (Some bucket)) # show_if pinned [T (lit '' '' @ [0xD83D, 0xDD12])])])"

subsection \<open>Chunks and coverage\<close>

definition CHUNK_CAP :: jsnum where "CHUNK_CAP = Fin 16"

definition chunk_total :: "NeedView \<Rightarrow> jsnum" where
  "chunk_total n = (case chunkEstimate n of Some e \<Rightarrow> fst e | None \<Rightarrow> Fin 1)"

definition chunks_shown :: "NeedView \<Rightarrow> jsnum" where
  "chunks_shown n = jmin (chunk_total n) CHUNK_CAP"

definition chunks_covered :: "NeedView \<Rightarrow> jsnum" where
  "chunks_covered n = (if n_satisfied n then chunks_shown n else jround (jmul (coverage n) (chunks_shown n)))"

definition ChunkMeter :: "NeedView \<Rightarrow> html" where
  "ChunkMeter n =
     el ''div'' (map (\<lambda>i. E ''span'' [(''class'', if jlt (str_nat i) (chunks_covered n) then (lit ''bg-emerald-500'')
            else (lit ''border border-dashed border-amber-500/70 bg-amber-500/5''))] []) [0..<array_length (chunks_shown n)]
       @ show_if (jlt CHUNK_CAP (chunk_total n)) [leaf ''span'' ((lit ''+'') @ formatInt (Some (jsub (chunk_total n) CHUNK_CAP)))])"

definition coverage_width :: "NeedView \<Rightarrow> jsnum" where
  "coverage_width n = jmax (Fin 3) (jmul (coverage n) (Fin 100))"

definition CoverageBar :: "NeedView \<Rightarrow> html" where
  "CoverageBar n =
     el ''div'' [E ''div'' [(''class'', if n_satisfied n then (lit ''bg-emerald-500'')
           else if jlt (Fin 0) (coverage n) then (lit ''bg-amber-500'') else (lit ''bg-red-500'')),
         (''width'', percent (coverage_width n))] []]"

subsection \<open>Decision trace\<close>

definition acquired :: "NeedView \<Rightarrow> jsnum" where
  "acquired n = jadd (n_bootstrapCount n) (n_provisionCount n)"

definition HeldPanel :: "NeedView \<Rightarrow> html" where
  "HeldPanel n =
     (let held = n_claimedMachineCount n; got = acquired n
      in el ''div''
        [el ''div'' [leaf ''span'' (formatInt (Some held)),
           el ''span'' ([T ((lit ''machine'') @ plural held @ (lit '' held''))]
             @ show_if (jlt (Fin 0) got) [T (lit '' '' @ [0xB7] @ lit '' ''), leaf ''span'' ((lit ''+'') @ formatInt (Some got) @ (lit '' new this cycle''))])],
         if jeq got (Fin 0) then
           el ''p'' [T (lit ''All already configured '' @ [0x2014] @ lit '' carried from earlier cycles and re-affirmed this cycle with no''
    @ lit '' acquisition and no preemption. Holding steady with the engine quiet is BigFleet's ''),
             leaf ''span'' (lit ''static-stability''), T (lit '' property.'')]
         else
           el ''p'' ([T (formatInt (Some (n_bootstrapCount n)) @ (lit '' bootstrapped '')), leaf ''span'' (lit ''(idle '' @ [0x2192] @ lit '' configured)''),
             T ((lit '' '' @ [0xB7] @ lit '' '') @ formatInt (Some (n_provisionCount n)) @ (lit '' provisioned '')), leaf ''span'' (lit ''(speculative '' @ [0x2192] @ lit '' configured)''),
             T (if jlt (Fin 0) (jsub held got) then (lit '' '' @ [0x2014] @ lit '' the other '') @ formatInt (Some (jsub held got)) @ (lit '' were already held.'')
                else (lit ''.''))])])"

datatype StageTone = Stage_Good | Stage_Warn | Stage_Danger | Stage_Muted

definition WaterfallStage :: "jsstr \<Rightarrow> jsstr \<Rightarrow> html \<Rightarrow> StageTone \<Rightarrow> html" where
  "WaterfallStage phase title body tone =
     E ''div'' [(''class'', case tone of Stage_Good \<Rightarrow> (lit ''border-emerald-400/40'') | Stage_Warn \<Rightarrow> (lit ''border-amber-400/40'')
         | Stage_Danger \<Rightarrow> (lit ''border-red-400/40'') | Stage_Muted \<Rightarrow> (lit ''border-[var(--border)]''))]
       [el ''div'' [leaf ''span'' phase, leaf ''span'' title], el ''div'' [body]]"

definition WaterfallArrow :: html where
  "WaterfallArrow = leaf ''div'' [0x2192]"

definition victims :: "NeedView \<Rightarrow> jsnum" where
  "victims n = (case n_preemption n of None \<Rightarrow> Fin 0 | Some p \<Rightarrow> ps_victimsFound p)"

definition UnmetWaterfall :: "collate \<Rightarrow> NeedView \<Rightarrow> html" where
  "UnmetWaterfall lc n =
     (let claimed = n_claimedMachineCount n; p2 = victims n
      in el ''div''
        [WaterfallStage (lit ''Phase 1'') (lit ''assign'')
           (if jlt (Fin 0) claimed then
              el ''span'' [T (lit ''claimed ''), leaf ''b'' (formatInt (Some claimed)),
                T ((lit '' machine'') @ plural claimed
                   @ (if jlt (Fin 0) (acquired n) then (lit '' (+'') @ formatInt (Some (acquired n)) @ (lit '' new)'') else [])
                   @ (lit '' '' @ [0x2014] @ lit '' not enough''))]
            else leaf ''span'' (lit ''claimed nothing '' @ [0x2014] @ lit '' matching supply held above your cut-line''))
           (if jlt (Fin 0) claimed then Stage_Warn else Stage_Muted),
         WaterfallArrow,
         WaterfallStage (lit ''Phase 2'') (lit ''preempt'')
           (case n_preemption n of
              Some p \<Rightarrow> el ''span'' [T (formatInt (Some p2) @ (lit '' victim'') @ plural p2 @ (lit '', freed '')),
                leaf ''b'' (formatResources lc (ps_capacityFreed p))]
            | None \<Rightarrow> leaf ''span'' (lit ''no displaceable victim of your shape''))
           (if jlt (Fin 0) p2 then Stage_Warn else Stage_Muted),
         WaterfallArrow,
         WaterfallStage (lit ''Verdict'') (lit ''still short'') (leaf ''span'' (formatResources lc (n_residualDeficit n))) Stage_Danger])"

definition DecisionTrace :: "collate \<Rightarrow> NeedView \<Rightarrow> html" where
  "DecisionTrace lc n = (if n_satisfied n then HeldPanel n else UnmetWaterfall lc n)"

subsection \<open>Supply funnel\<close>

definition ms_matching :: "MatchingSupply option \<Rightarrow> jsnum" where
  "ms_matching ms = (case ms of None \<Rightarrow> Fin 0 | Some s \<Rightarrow> jadd (jadd (ms_idle s) (ms_configured s)) (ms_speculative s))"

definition ms_claimable :: "MatchingSupply option \<Rightarrow> jsnum" where
  "ms_claimable ms = (case ms of None \<Rightarrow> Fin 0 | Some s \<Rightarrow> jadd (ms_idle s) (ms_configured s))"

definition funnel_hint :: "MatchingSupply option \<Rightarrow> jsstr" where
  "funnel_hint ms = (case ms of None \<Rightarrow> em_dash
     | Some s \<Rightarrow> formatInt (Some (ms_idle s)) @ (lit '' idle '' @ [0xB7] @ lit '' '') @ formatInt (Some (ms_configured s)) @ (lit '' configured '' @ [0xB7] @ lit '' '')
         @ formatInt (Some (ms_speculative s)) @ (lit '' speculative'') @ (if ms_capped s then (lit '' (capped)'') else []))"

definition funnel_stages :: "NeedView \<Rightarrow> (jsstr \<times> jsnum \<times> jsstr) list" where
  "funnel_stages n =
     [((lit ''Match your requirements''), ms_matching (n_matchingSupply n), funnel_hint (n_matchingSupply n)),
      ((lit ''Ready to claim this cycle''), ms_claimable (n_matchingSupply n), (lit ''idle + configured (speculative isn't ready yet)'')),
      ((lit ''Claimed for you''), n_claimedMachineCount n,
        if jlt (Fin 0) (n_claimedMachineCount n) then (lit ''above the cut-line'') else (lit ''below the cut-line''))]"

definition funnel_max :: "NeedView \<Rightarrow> jsnum" where
  "funnel_max n = jmax (jmax (jmax (ms_matching (n_matchingSupply n)) (ms_claimable (n_matchingSupply n)))
     (n_claimedMachineCount n)) (Fin 1)"

definition funnel_width :: "NeedView \<Rightarrow> jsnum \<Rightarrow> jsnum" where
  "funnel_width n v = jmax (Fin 6) (jmul (jdiv v (funnel_max n)) (Fin 100))"

definition capped :: "NeedView \<Rightarrow> bool" where
  "capped n = (case n_matchingSupply n of None \<Rightarrow> False | Some s \<Rightarrow> ms_capped s)"

definition funnel_row :: "NeedView \<Rightarrow> nat \<Rightarrow> html" where
  "funnel_row n i =
     (case funnel_stages n ! i of (label, v, hint) \<Rightarrow>
        let drained = (i = length (funnel_stages n) - 1 \<and> \<not> n_satisfied n)
        in el ''div''
          [leaf ''div'' label,
           el ''div'' [E ''div'' [(''class'', if drained then (lit ''bg-amber-500/20'') else (lit ''bg-[var(--accent-soft,var(--surface-2))]'')),
               (''width'', percent (funnel_width n v))]
             [leaf ''span'' (formatInt (Some v) @ (if i = 0 \<and> capped n then (lit ''+'') else []))]],
           leaf ''div'' hint])"

definition SupplyFunnel :: "NeedView \<Rightarrow> html" where
  "SupplyFunnel n =
     (let meta = reasonMeta (n_satisfied n) (n_unmetReason n)
      in el ''div'' (el ''div'' (map (funnel_row n) [0..<length (funnel_stages n)])
           # show_if (\<not> n_satisfied n)
               [el ''div'' [leaf ''span'' (lit ''supply ran out here '' @ [0xB7] @ lit '' ''), Badge (rm_tone meta) False [T (rm_label meta)]]]))"

subsection \<open>Aggregation key\<close>

definition AggregationKeyCard :: "(jsnum \<Rightarrow> jsnum) \<Rightarrow> NeedView \<Rightarrow> html" where
  "AggregationKeyCard lg n =
     el ''div''
      ([el ''p'' [T (lit ''Every unschedulable pod whose fields match this key collapsed into this one Need''), leaf ''span'' (lit '' (ADR-0027)''),
          T (lit ''. ''), leaf ''span'' (lit ''aggregate''), T (lit '' is their vector sum; ''), leaf ''span'' (lit ''min-unit''),
          T (lit '' is the largest single chunk.'')],
        el ''dl''
         ([KV (lit ''requirements'')
             (if entries (n_requirements n) \<noteq> [] then [el ''div'' (map RequirementChip (entries (n_requirements n)))]
              else [leaf ''span'' (lit ''none (any node)'')]),
           KV (lit ''priority'') [E ''span'' [(''title'', formatInt (Some (n_priority n)))] [T (formatInt (Some (n_priority n)))]]]
          @ show_if (entries (n_spread n) \<noteq> []) [KV (lit ''spread'') [el ''div'' (map SpreadChip (entries (n_spread n)))]]
          @ [KV (lit ''interruption penalty'') [PenaltyLadder lg (n_interruptionPenaltyBucket n) Interruption],
             KV (lit ''reclamation penalty'') [PenaltyLadder lg (n_reclamationPenaltyBucket n) Reclamation]])]
       @ show_if (truthy_str (n_profileFingerprint n) \<or> truthy_str (n_group n))
          [el ''div''
            (show_if (truthy_str (n_group n)) [leaf ''span'' ((lit ''gang '') @ the (n_group n))]
             @ show_if (truthy_str (n_profileFingerprint n))
                [E ''span'' [(''title'', (lit ''aggregation profile '') @ the (n_profileFingerprint n))]
                   [T (lit ''profile ''), leaf ''span'' (take 12 (the (n_profileFingerprint n)))]])])"

subsection \<open>Demand shape\<close>

definition resource_short :: "NeedView \<Rightarrow> jsstr \<Rightarrow> jsnum" where
  "resource_short n k = (if n_satisfied n then Fin 0 else parseQuantity (get_opt (n_residualDeficit n) k))"

definition resource_frac :: "NeedView \<Rightarrow> jsstr \<Rightarrow> jsnum" where
  "resource_frac n k =
     (let need = parseQuantity (get_opt (n_aggregateResources n) k); got = jmax (Fin 0) (jsub need (resource_short n k))
      in if jlt (Fin 0) need then jdiv got need else Fin 1)"

definition resource_row :: "NeedView \<Rightarrow> jsstr \<Rightarrow> html" where
  "resource_row n k =
     el ''div''
      [leaf ''span'' (shortResourceKey k),
       el ''div'' [E ''div'' [(''class'', if jle (Fin 1) (resource_frac n k) then (lit ''bg-emerald-500'') else (lit ''bg-amber-500'')),
           (''width'', percent (jmax (Fin 2) (jmul (resource_frac n k) (Fin 100))))] []],
       el ''span'' (T (formatQuantityValue k (get_opt (n_aggregateResources n) k))
         # show_if (jlt (Fin 0) (resource_short n k))
             [leaf ''span'' ((lit '' '' @ [0xB7] @ lit '' '' @ [0x2212]) @ formatQuantityValue k (get_opt (n_residualDeficit n) k))])]"

definition ResourceCoverage :: "NeedView \<Rightarrow> html list" where
  "ResourceCoverage n =
     (let keys = sort_strings (map fst (entries (n_aggregateResources n)))
      in if keys = [] then [] else [el ''div'' (map (resource_row n) keys)])"

definition DemandShape :: "collate \<Rightarrow> NeedView \<Rightarrow> html" where
  "DemandShape lc n =
     el ''div''
      (el ''div''
        [el ''div''
          ([leaf ''div'' (lit ''aggregate '' @ [0xB7] @ lit '' '' @ [0x3A3] @ lit '' requested''),
            E ''div'' [(''title'', rawResources lc (n_aggregateResources n))] [T (formatResources lc (n_aggregateResources n))]]
           @ show_if (entries (n_minUnit n) \<noteq> []) [leaf ''div'' (lit ''min-unit '' @ [0xB7] @ lit '' one indivisible chunk'')]
           @ show_if (entries (n_minUnit n) \<noteq> [])
               [E ''div'' [(''title'', rawResources lc (n_minUnit n))] [T (formatResources lc (n_minUnit n))]]),
         el ''div''
          ((case chunkEstimate n of None \<Rightarrow> []
            | Some (t, d) \<Rightarrow>
                [el ''div'' (T (([0x2248] @ lit '' '') @ formatInt (Some t) @ (lit '' chunk'') @ plural t)
                   # show_if (d \<noteq> []) [leaf ''span'' ((lit '' '' @ [0xB7] @ lit '' bound by '') @ shortResourceKey d)]),
                 el ''div'' [ChunkMeter n]])
           @ [el ''div'' [T (lit ''an estimate of ''), leaf ''span'' (lit ''machines''), T (lit '' (the engine's output) '' @ [0x2014] @ lit '' ''),
                leaf ''span'' (lit ''not a pod count''), T (lit '' (ADR-0027).'')]])]
       # ResourceCoverage n)"

subsection \<open>Cohort header and cut-line\<close>

definition pool_width :: "jsnum \<Rightarrow> jsnum \<Rightarrow> jsnum" where
  "pool_width part t = jmul (jdiv part t) (Fin 100)"

definition CohortHeader :: "jsstr \<Rightarrow> nat \<Rightarrow> bool \<Rightarrow> MatchingSupply option \<Rightarrow> html" where
  "CohortHeader fp c contst supply =
     (let t = ms_matching supply
      in el ''div''
        ([leaf ''span'' (if contst then (lit ''contested shape'') else (lit ''shared shape'')),
          E ''span'' [(''title'', (lit ''aggregation profile '') @ fp)] [T (take 10 fp)],
          leaf ''span'' (([0xB7] @ lit '' '') @ formatInt (Some (str_nat c)) @ (lit '' need'') @ plural (str_nat c))]
         @ (case supply of None \<Rightarrow> []
            | Some s \<Rightarrow> show_if (contst \<and> jlt (Fin 0) t)
                [el ''span'' [leaf ''span'' (lit ''pool''),
                   el ''span'' [E ''span'' [(''class'', (lit ''bg-emerald-500'')), (''width'', percent (pool_width (ms_idle s) t))] [],
                     E ''span'' [(''class'', (lit ''bg-sky-500'')), (''width'', percent (pool_width (ms_configured s) t))] [],
                     E ''span'' [(''class'', (lit ''bg-violet-500'')), (''width'', percent (pool_width (ms_speculative s) t))] []],
                   leaf ''span'' (formatInt (Some t) @ (if ms_capped s then (lit ''+'') else []))]])))"

definition CutLine :: "nat \<Rightarrow> html" where
  "CutLine below =
     el ''div'' [el ''div'' [],
       leaf ''span'' ((lit ''supply exhausted here '' @ [0xB7] @ lit '' '') @ formatInt (Some (str_nat below)) @ (lit '' need'') @ plural (str_nat below)
         @ (lit '' below the cut-line''))]"

end
