(* ===== verification/Needs_Views_Facts.thy ===== *)
theory Needs_Views_Facts
  imports Needs_Views Needs_Facts Format_Penalty
begin

text \<open>
  Bounds on what the components of \<open>Needs_Views\<close> draw: bars stay between their least width and
  the full track, the chunk meter draws at most sixteen cells and never more covered cells
  than cells, and a penalty ladder fills exactly as many stops as the rank of its bucket.
\<close>

subsection \<open>The supply funnel\<close>

definition count_num :: "jsnum \<Rightarrow> bool" where
  "count_num x \<longleftrightarrow> is_fin x \<and> 0 \<le> val x"

definition funnel_ok :: "NeedView \<Rightarrow> bool" where
  "funnel_ok n \<longleftrightarrow> count_num (n_claimedMachineCount n) \<and>
     (case n_matchingSupply n of None \<Rightarrow> True
      | Some s \<Rightarrow> count_num (ms_idle s) \<and> count_num (ms_configured s) \<and> count_num (ms_speculative s)
          \<and> is_dbl (ms_idle s) \<and> is_dbl (ms_configured s) \<and> is_fin (ms_matching (Some s)))"

lemma jadd_counts:
  assumes "count_num x" "count_num y" "is_fin (jadd x y)" "is_dbl x"
  shows "count_num (jadd x y)" "val x \<le> val (jadd x y)"
proof -
  have f: "is_fin x" "is_fin y" "0 \<le> val x" "0 \<le> val y" using assms by (simp_all add: count_num_def)
  have m: "x = NZero \<and> y = NZero \<or> jadd x y = mk (val x + val y)" using f by (auto simp: jadd_def is_fin_not_NaN)
  have "val (jadd x y) = fl (val x + val y)"
  proof (cases "x = NZero \<and> y = NZero")
    case True
    then show ?thesis by (simp add: jadd_def)
  next
    case False
    with m have "jadd x y = mk (val x + val y)" by blast
    with assms(3) show ?thesis by (auto simp: mk_def Let_def split: if_splits)
  qed
  moreover have "val x \<le> fl (val x + val y)" using f is_dbl_val[OF assms(4)] by (intro fl_ge_dyadic) auto
  ultimately show "count_num (jadd x y)" "val x \<le> val (jadd x y)" using f assms(3) by (simp_all add: count_num_def)
qed

lemma jadd_inf: "is_fin (jadd x y) \<Longrightarrow> is_fin x \<and> is_fin y"
  by (auto simp: jadd_def split: if_splits)

lemma funnel_counts:
  assumes "funnel_ok n"
  shows "count_num (ms_matching (n_matchingSupply n))" "count_num (ms_claimable (n_matchingSupply n))"
    "val (ms_claimable (n_matchingSupply n)) \<le> val (ms_matching (n_matchingSupply n))"
proof -
  have "count_num (ms_matching (n_matchingSupply n)) \<and> count_num (ms_claimable (n_matchingSupply n))
    \<and> val (ms_claimable (n_matchingSupply n)) \<le> val (ms_matching (n_matchingSupply n))"
  proof (cases "n_matchingSupply n")
    case None
    then show ?thesis by (simp add: ms_matching_def ms_claimable_def count_num_def)
  next
    case (Some s)
    with assms have c: "count_num (ms_idle s)" "count_num (ms_configured s)" "count_num (ms_speculative s)" "is_dbl (ms_idle s)"
      "is_dbl (ms_configured s)" "is_fin (jadd (jadd (ms_idle s) (ms_configured s)) (ms_speculative s))"
      by (auto simp: funnel_ok_def ms_matching_def)
    then have r: "is_fin (jadd (ms_idle s) (ms_configured s))" using jadd_inf by blast
    note a = jadd_counts[OF c(1,2) r c(4)]
    have d: "is_dbl (jadd (ms_idle s) (ms_configured s))" using c by simp
    note b = jadd_counts[OF a(1) c(3,6) d]
    from a b Some show ?thesis by (simp add: ms_matching_def ms_claimable_def)
  qed
  then show "count_num (ms_matching (n_matchingSupply n))" "count_num (ms_claimable (n_matchingSupply n))"
    "val (ms_claimable (n_matchingSupply n)) \<le> val (ms_matching (n_matchingSupply n))" by blast+
qed

lemma funnel_max_val:
  assumes "funnel_ok n"
  shows "is_fin (funnel_max n)" "val (funnel_max n) = max (max (max (val (ms_matching (n_matchingSupply n)))
     (val (ms_claimable (n_matchingSupply n)))) (val (n_claimedMachineCount n))) 1"
proof -
  have f: "is_fin (ms_matching (n_matchingSupply n))" "is_fin (ms_claimable (n_matchingSupply n))" "is_fin (n_claimedMachineCount n)"
    using funnel_counts[OF assms] assms by (auto simp: count_num_def funnel_ok_def)
  note a = jmax_fin[OF f(1,2)] and b = jmax_fin[OF conjunct1[OF jmax_fin[OF f(1,2)]] f(3)]
  from b jmax_fin[OF conjunct1[OF b], of "Fin 1"] a
  show "is_fin (funnel_max n)" "val (funnel_max n) = max (max (max (val (ms_matching (n_matchingSupply n)))
     (val (ms_claimable (n_matchingSupply n)))) (val (n_claimedMachineCount n))) 1"
    by (simp_all add: funnel_max_def)
qed

lemma bar_width:
  assumes "is_fin v" "is_fin m" "0 \<le> val v" "val v \<le> val m" "0 < val m" "0 \<le> lo" "lo \<le> 100"
  shows "is_fin (jmax (Fin lo) (jmul (jdiv v m) (Fin 100)))"
    "lo \<le> val (jmax (Fin lo) (jmul (jdiv v m) (Fin 100)))" "val (jmax (Fin lo) (jmul (jdiv v m) (Fin 100))) \<le> 100"
proof -
  note r = ratio_unit[OF assms(1-5)]
  note p = percent_unit[OF r]
  from jmax_fin[of "Fin lo", OF _ p(1)] p assms(6,7)
  show "is_fin (jmax (Fin lo) (jmul (jdiv v m) (Fin 100)))"
    "lo \<le> val (jmax (Fin lo) (jmul (jdiv v m) (Fin 100)))" "val (jmax (Fin lo) (jmul (jdiv v m) (Fin 100))) \<le> 100"
    by simp_all
qed

text \<open>
C36: For supply and claim counts that are finite, not negative and have a finite sum, the supply
  funnel narrows from matching to claimable, and every stage is drawn between 6 and 100 percent
  wide.
\<close>

theorem funnel_narrows:
  assumes "funnel_ok n"
  shows "val (ms_claimable (n_matchingSupply n)) \<le> val (ms_matching (n_matchingSupply n))
    \<and> (\<forall>st \<in> set (funnel_stages n). is_fin (funnel_width n (fst (snd st)))
        \<and> 6 \<le> val (funnel_width n (fst (snd st))) \<and> val (funnel_width n (fst (snd st))) \<le> 100)"
proof -
  have "is_fin v \<and> 0 \<le> val v \<and> val v \<le> val (funnel_max n)" if "(l, v, h) \<in> set (funnel_stages n)" for l v h
    using that assms funnel_counts[OF assms] funnel_max_val[OF assms]
    by (auto simp: funnel_stages_def count_num_def funnel_ok_def)
  moreover have "0 < val (funnel_max n)" using funnel_max_val(2)[OF assms] by simp
  note w = bar_width[OF _ funnel_max_val(1)[OF assms] _ _ this, of _ 6]
  have "is_fin (funnel_width n v) \<and> 6 \<le> val (funnel_width n v) \<and> val (funnel_width n v) \<le> 100"
    if m: "(l, v, h) \<in> set (funnel_stages n)" for l v h
  proof -
    have v: "is_fin v" "0 \<le> val v" "val v \<le> val (funnel_max n)" using calculation[OF m] by blast+
    then show ?thesis using w[OF v] by (simp add: funnel_width_def)
  qed
  then show ?thesis using funnel_counts(3)[OF assms] by auto
qed

lemma funnel_narrows_witness: "val (funnel_width (sample_need [] 1 1 3 False) (Fin 3)) \<le> 100"
proof -
  have "funnel_ok (sample_need [] 1 1 3 False)" by (simp add: funnel_ok_def count_num_def sample_need_def)
  from funnel_narrows[OF this] show ?thesis by (simp add: funnel_stages_def sample_need_def)
qed

subsection \<open>The chunk meter\<close>

lemma chunk_total_pos: "chunk_total n \<noteq> NaN \<and> jlt (Fin 0) (chunk_total n)"
  by (auto simp: chunk_total_def chunkEstimate_def Let_def jlt_def split: option.splits if_splits)

text \<open>
C37: When the aggregate quantities and the residual deficits of a need read as finite numbers
  the chunk meter draws between one and sixteen cells, and the covered ones are at most the
  cells drawn.
\<close>

theorem chunk_meter_bounds:
  assumes "plain_needs n"
  shows "1 \<le> array_length (chunks_shown n) \<and> array_length (chunks_shown n) \<le> 16 \<and> is_fin (chunks_covered n) \<and> 0 \<le> val (chunks_covered n)
    \<and> val (chunks_covered n) \<le> val (chunks_shown n)"
proof -
  have s: "is_fin (chunks_shown n)" "0 < val (chunks_shown n)" "val (chunks_shown n) \<le> 16"
    using chunk_total_pos[of n] by (cases "chunk_total n"; auto simp: chunks_shown_def CHUNK_CAP_def jmin_def jlt_def)+
  have "is_fin (chunk_total n) \<Longrightarrow> \<exists>k. val (chunk_total n) = of_int k"
    using chunkEstimate_ceil[of n] val_jceil by (fastforce simp: chunk_total_def intro: exI[of _ 1] split: option.splits)
  then have "\<exists>k. val (chunks_shown n) = of_int k"
  proof (cases "is_fin (chunk_total n)")
    case True
    assume "is_fin (chunk_total n) \<Longrightarrow> \<exists>k. val (chunk_total n) = of_int k"
    with True obtain k where "val (chunk_total n) = of_int k" by blast
    then have "val (chunks_shown n) = of_int (min k 16)"
      using jmin_fin[OF True, of CHUNK_CAP] by (simp add: chunks_shown_def CHUNK_CAP_def of_int_min)
    then show ?thesis ..
  next
    case False
    then have "chunks_shown n = CHUNK_CAP" using chunk_total_pos[of n]
      by (cases "chunk_total n") (auto simp: chunks_shown_def CHUNK_CAP_def jmin_def jlt_def)
    then show ?thesis by (intro exI[of _ 16]) (simp add: CHUNK_CAP_def)
  qed
  then obtain k where k: "val (chunks_shown n) = of_int k" by blast
  note c = coverage_unit[OF assms]
  have "is_fin (chunks_covered n) \<and> 0 \<le> val (chunks_covered n) \<and> val (chunks_covered n) \<le> val (chunks_shown n)"
  proof (cases "n_satisfied n")
    case True
    with s show ?thesis by (simp add: chunks_covered_def)
  next
    case False
    let ?p = "val (coverage n) * val (chunks_shown n)"
    have p: "0 \<le> ?p" "?p \<le> val (chunks_shown n)" using c s by (simp_all add: mult_left_le_one_le)
    have k16: "0 \<le> k" "k \<le> 16" using s k by simp_all
    then have d: "dyadic53 (val (chunks_shown n))" unfolding k by (intro dyadic53_int) simp
    have "(16 :: rat) < 2 ^ 1024" by simp
    then have b: "\<bar>val (chunks_shown n)\<bar> < 2 ^ 1024" using s by linarith
    note f = fl_between[OF p _ d] and fa = fl_between_abs[OF p _ d _ b]
    have m: "is_fin (jmul (coverage n) (chunks_shown n))" "val (jmul (coverage n) (chunks_shown n)) = fl ?p"
      using jmul_val[OF c(1) s(1)] fa by simp_all
    have "\<lfloor>fl ?p + 1 / 2\<rfloor> \<le> k" using f(2) k by (simp add: floor_le_iff)
    moreover have "0 \<le> \<lfloor>fl ?p + 1 / 2\<rfloor>" using f(1) by simp
    ultimately show ?thesis using False m by (simp add: chunks_covered_def val_jround k)
  qed
  moreover have "array_length (chunks_shown n) = nat k" using s k by (simp add: array_length_def)
  moreover have "0 < k" "k \<le> 16" using s k by simp_all
  then have "1 \<le> nat k" "nat k \<le> 16" by linarith+
  ultimately show ?thesis by simp
qed

lemma chunk_meter_bounds_witness: "1 \<le> array_length (chunks_shown (sample_need [] 1 1 0 True))"
  using chunk_meter_bounds[OF sample_plain] by blast

subsection \<open>The penalty ladder\<close>

lemma filter_upt: "m \<le> n \<Longrightarrow> filter (\<lambda>i. i < m) [0..<n] = [0..<m]"
  by (metis (no_types, lifting) atLeastLessThan_iff filter_False filter_True filter_append append_Nil2 le_add_diff_inverse linorder_not_less set_upt upt_add_eq_append zero_le)

text \<open>
C38: The penalty ladder of a bucket of the wire fills exactly the first rank-many of its 27
  stops, the rank being the bucket's place in the order of the ladder.
\<close>

theorem ladder_fill:
  assumes "log2_near lg" "on_ladder b"
  shows "filter (ladder_filled lg (wire b)) [0..<array_length PENALTY_LADDER_MAX] = [0..<nat (rank b)]
    \<and> length [0..<array_length PENALTY_LADDER_MAX] = 27"
proof -
  have r: "0 \<le> rank b" "rank b \<le> 27" using assms(2) by (cases b; simp)+
  have "(of_nat i :: rat) < of_int k \<longleftrightarrow> i < nat k" for i k
    by (metis of_int_less_iff of_int_of_nat_eq zless_nat_eq_int_zless)
  then have "ladder_filled lg (wire b) = (\<lambda>i. i < nat (rank b))"
    by (intro ext) (simp only: ladder_filled_def penaltyOrdinal_wire[OF assms] str_nat_def jlt_fin is_fin.simps val.simps)
  moreover have "filter (\<lambda>i. i < nat (rank b)) [0..<27] = [0..<nat (rank b)]"
    using r by (intro filter_upt) simp
  ultimately show ?thesis by (simp add: array_length_def PENALTY_LADDER_MAX_def)
qed

lemma ladder_fill_witness: "filter (ladder_filled log2_model (wire Pinned)) [0..<array_length PENALTY_LADDER_MAX] = [0..<27]"
proof -
  have "on_ladder Pinned" by simp
  from ladder_fill[OF log2_model_near this] show ?thesis unfolding rank.simps nat_numeral by blast
qed

end
