(* ===== verification/Search_Params.thy ===== *)
theory Search_Params
  imports Ui
begin

text \<open>
  \<open>ui/src/lib/useSearchParamState.ts\<close>: a filter of a page kept in one parameter of the URL.
  \<open>URLSearchParams\<close> is a list of pairs in which a key may occur more than once: \<open>get\<close> reads
  the first, \<open>set\<close> overwrites the first and drops the others, \<open>delete\<close> drops all.

  The locale \<open>param_store\<close> states what the hook needs of such a store and proves its contract:
  what is read after a write, and that other parameters are left alone. \<open>tidy_store\<close> adds the
  entries that the URL shows, and that a write never leaves an empty or default value there.
\<close>

type_synonym params = "(jsstr \<times> jsstr) list"

definition params_get :: "params \<Rightarrow> jsstr \<Rightarrow> jsstr option" where
  "params_get p k = map_of p k"

definition params_delete :: "params \<Rightarrow> jsstr \<Rightarrow> params" where
  "params_delete p k = filter (\<lambda>e. fst e \<noteq> k) p"

fun params_set :: "params \<Rightarrow> jsstr \<Rightarrow> jsstr \<Rightarrow> params" where
  "params_set [] k v = [(k, v)]"
| "params_set ((j, w) # p) k v = (if j = k then (k, v) # params_delete p k else (j, w) # params_set p k v)"

text \<open>The hook over a store: the value, and the next parameters after \<open>setValue(v)\<close>.\<close>

definition read_param :: "('p \<Rightarrow> jsstr \<Rightarrow> jsstr option) \<Rightarrow> jsstr \<Rightarrow> jsstr \<Rightarrow> 'p \<Rightarrow> jsstr" where
  "read_param get k fb p = (case get p k of None \<Rightarrow> fb | Some v \<Rightarrow> v)"

definition write_param :: "('p \<Rightarrow> jsstr \<Rightarrow> jsstr \<Rightarrow> 'p) \<Rightarrow> ('p \<Rightarrow> jsstr \<Rightarrow> 'p) \<Rightarrow> jsstr \<Rightarrow> jsstr \<Rightarrow> jsstr \<Rightarrow> 'p \<Rightarrow> 'p" where
  "write_param put del k fb v p = (if v \<noteq> [] \<and> v \<noteq> fb then put p k v else del p k)"

definition param_value :: "jsstr \<Rightarrow> jsstr \<Rightarrow> params \<Rightarrow> jsstr" where
  "param_value = read_param params_get"

definition set_param :: "jsstr \<Rightarrow> jsstr \<Rightarrow> jsstr \<Rightarrow> params \<Rightarrow> params" where
  "set_param = write_param params_set params_delete"

subsection \<open>The contract\<close>

locale param_store =
  fixes get :: "'p \<Rightarrow> jsstr \<Rightarrow> jsstr option" and put :: "'p \<Rightarrow> jsstr \<Rightarrow> jsstr \<Rightarrow> 'p" and del :: "'p \<Rightarrow> jsstr \<Rightarrow> 'p"
  assumes get_put: "get (put p k v) j = (if j = k then Some v else get p j)"
    and get_del: "get (del p k) j = (if j = k then None else get p j)"
begin

lemma read_write: "read_param get k fb (write_param put del k fb v p) = (if v = [] then fb else v)"
  by (auto simp: read_param_def write_param_def get_put get_del)

lemma write_frame: "j \<noteq> k \<Longrightarrow> get (write_param put del k fb v p) j = get p j"
  by (simp add: write_param_def get_put get_del)

lemma read_frame: "j \<noteq> k \<Longrightarrow> read_param get j fb' (write_param put del k fb v p) = read_param get j fb' p"
  by (simp add: read_param_def write_frame)

lemma write_shown: "get (write_param put del k fb v p) k = (if v = [] \<or> v = fb then None else Some v)"
  by (auto simp: write_param_def get_put get_del)

lemma write_write: "get (write_param put del k fb v (write_param put del k fb w p)) j = get (write_param put del k fb v p) j"
  by (cases "j = k") (simp_all add: write_shown write_frame)

end

locale tidy_store = param_store get put del
  for get :: "'p \<Rightarrow> jsstr \<Rightarrow> jsstr option" and put :: "'p \<Rightarrow> jsstr \<Rightarrow> jsstr \<Rightarrow> 'p" and del :: "'p \<Rightarrow> jsstr \<Rightarrow> 'p" +
  fixes items :: "'p \<Rightarrow> (jsstr \<times> jsstr) set"
  assumes items_put: "items (put p k v) = insert (k, v) {e \<in> items p. fst e \<noteq> k}"
    and items_del: "items (del p k) = {e \<in> items p. fst e \<noteq> k}"
begin

lemma write_items:
  "items (write_param put del k fb v p) = (if v = [] \<or> v = fb then {} else {(k, v)}) \<union> {e \<in> items p. fst e \<noteq> k}"
  by (auto simp: write_param_def items_put items_del)

end

subsection \<open>The URL meets it\<close>

lemma get_delete: "params_get (params_delete p k) j = (if j = k then None else params_get p j)"
  by (induction p) (auto simp: params_get_def params_delete_def)

lemma get_set: "params_get (params_set p k v) j = (if j = k then Some v else params_get p j)"
  using get_delete by (induction p k v rule: params_set.induct) (auto simp: params_get_def)

lemma items_set: "set (params_set p k v) = insert (k, v) {e \<in> set p. fst e \<noteq> k}"
  by (induction p k v rule: params_set.induct) (auto simp: params_delete_def)

lemma items_delete: "set (params_delete p k) = {e \<in> set p. fst e \<noteq> k}"
  by (simp add: params_delete_def)

interpretation url: tidy_store params_get params_set params_delete set
  by unfold_locales (simp_all add: get_set get_delete items_set items_delete)

lemmas url_read [simp] = url.read_write [folded param_value_def set_param_def]
lemmas url_frame = url.read_frame [folded param_value_def set_param_def]
lemmas url_keeps = url.write_frame [folded set_param_def]
lemmas url_shown = url.write_shown [folded set_param_def]
lemmas url_items = url.write_items [folded set_param_def]

text \<open>
C17: After a filter is written to the URL it is read back, an empty value reading as the
  default; other parameters keep their values, and the URL holds the filter only when it is
  neither empty nor the default.
\<close>

theorem set_param_contract:
  "param_value k fb (set_param k fb v p) = (if v = [] then fb else v)
    \<and> params_get (set_param k fb v p) j = (if j \<noteq> k then params_get p j else if v = [] \<or> v = fb then None else Some v)
    \<and> set (set_param k fb v p) = (if v = [] \<or> v = fb then {} else {(k, v)}) \<union> {e \<in> set p. fst e \<noteq> k}"
  by (cases "j = k") (simp_all add: url_items url_shown url_keeps)

end
