(* ===== verification/Needs_State.thy ===== *)
theory Needs_State
  imports Search_Params Needs_Facts Needs_Walk_Facts
begin

text \<open>
  The state of the needs page (\<open>ui/src/pages/Needs.tsx\<close>): three parameters of the URL, the
  reason filter and the selected need of \<open>useState\<close>, whether the configuration says that the
  coordinator is wired, and the query cache: the queries that were started, the shards last
  received, the needs under the shard they were asked for, and the shards whose last needs
  request failed. A query is started only while the coordinator is wired, and the one of needs
  only for a shard that is not the empty name. The events are the user's actions, each enabled
  only where the page offers it, the two effects, the start and the outcome of queries, and a
  navigation that replaces the URL under the mounted page. \<open>needs_step\<close> is the step relation;
  \<open>needs_reach lc p Q\<close> is what the page reaches from the URL \<open>p\<close> when navigation goes to URLs of
  \<open>Q\<close>. The two effects of one commit would both write the URL from the same old parameters; that
  they are never due together is one of the theorems.
\<close>

record needs_ui =
  u_params :: params
  u_reason :: "jsstr option"
  u_selected :: "NeedView option"
  u_wired :: bool
  u_topology :: bool
  u_asked :: "jsstr set"
  u_shards :: "jsstr list"
  u_cache :: "jsstr \<rightharpoonup> NeedView list"
  u_failed :: "jsstr set"

definition key_shard :: jsstr where "key_shard = (lit ''shard'')"
definition key_cluster :: jsstr where "key_cluster = (lit ''cluster'')"
definition key_status :: jsstr where "key_status = (lit ''status'')"
definition status_all :: jsstr where "status_all = (lit ''all'')"

definition ui_shard :: "needs_ui \<Rightarrow> jsstr" where
  "ui_shard u = param_value key_shard [] (u_params u)"

definition ui_cluster :: "needs_ui \<Rightarrow> jsstr" where
  "ui_cluster u = param_value key_cluster [] (u_params u)"

definition ui_status :: "needs_ui \<Rightarrow> StatusFilter" where
  "ui_status u = status_of (param_value key_status status_all (u_params u))"

definition set_shard :: "jsstr \<Rightarrow> needs_ui \<Rightarrow> needs_ui" where
  "set_shard v u = u\<lparr>u_params := set_param key_shard [] v (u_params u)\<rparr>"

definition set_cluster :: "jsstr \<Rightarrow> needs_ui \<Rightarrow> needs_ui" where
  "set_cluster v u = u\<lparr>u_params := set_param key_cluster [] v (u_params u)\<rparr>"

definition set_status :: "jsstr \<Rightarrow> needs_ui \<Rightarrow> needs_ui" where
  "set_status v u = u\<lparr>u_params := set_param key_status status_all v (u_params u)\<rparr>"

definition ui_all :: "needs_ui \<Rightarrow> NeedView list" where
  "ui_all u = (case u_cache u (ui_shard u) of None \<Rightarrow> [] | Some ns \<Rightarrow> ns)"

definition ui_clusters :: "collate \<Rightarrow> needs_ui \<Rightarrow> (jsstr \<times> cluster_count) list" where
  "ui_clusters lc u = needs_clusters lc (ui_all u)"

text \<open>The two effects that select the first shard and the first cluster.\<close>

definition shard_due :: "needs_ui \<Rightarrow> bool" where
  "shard_due u \<longleftrightarrow> ui_shard u = [] \<and> u_shards u \<noteq> []"

definition cluster_due :: "collate \<Rightarrow> needs_ui \<Rightarrow> bool" where
  "cluster_due lc u \<longleftrightarrow> ui_cluster u = [] \<and> ui_clusters lc u \<noteq> []"

definition effect_shard :: "needs_ui \<Rightarrow> needs_ui" where
  "effect_shard u = (if shard_due u then set_shard (hd (u_shards u)) u else u)"

definition effect_cluster :: "collate \<Rightarrow> needs_ui \<Rightarrow> needs_ui" where
  "effect_cluster lc u = (if cluster_due lc u then set_cluster (fst (hd (ui_clusters lc u))) u else u)"

text \<open>What is shown: the needs of the cluster, the rows that pass the filters, the reason buttons.\<close>

definition ui_scoped :: "needs_ui \<Rightarrow> NeedView list" where
  "ui_scoped u = scoped_needs (ui_all u) (ui_cluster u)"

definition ui_rows :: "needs_ui \<Rightarrow> NeedView list" where
  "ui_rows u = visible_needs (ui_scoped u) (ui_status u) (u_reason u)"

definition ui_buttons :: "needs_ui \<Rightarrow> jsstr list" where
  "ui_buttons u = map fst (summary_reasons (snd (needs_summary (ui_scoped u))))"

text \<open>
  The queries of a commit while the coordinator is wired: the topology, and the needs of the
  shard when it is not the empty name. A refetch without data forgets the failure before it.
\<close>

definition start_queries :: "needs_ui \<Rightarrow> needs_ui" where
  "start_queries u = u\<lparr>u_topology := True,
     u_asked := (if ui_shard u \<noteq> [] then insert (ui_shard u) (u_asked u) else u_asked u),
     u_failed := (if ui_shard u \<noteq> [] \<and> u_cache u (ui_shard u) = None then u_failed u - {ui_shard u} else u_failed u)\<rparr>"

text \<open>The table and the summary are on the page.\<close>

definition needs_shown :: "needs_ui \<Rightarrow> bool" where
  "needs_shown u \<longleftrightarrow> u_wired u \<and> ui_shard u \<notin> u_failed u \<and> ui_all u \<noteq> []"

datatype needs_event =
    Config_Arrive bool | Run_Queries | Shards_Arrive "jsstr list" | Needs_Arrive jsstr "NeedView list" | Needs_Fail jsstr
  | Effect_Shard | Effect_Cluster
  | Pick_Shard jsstr | Pick_Cluster jsstr | Pick_Status jsstr | Pick_Reason jsstr | Select NeedView | Close
  | Navigate params

inductive needs_step :: "collate \<Rightarrow> needs_ui \<Rightarrow> needs_event \<Rightarrow> needs_ui \<Rightarrow> bool" for lc where
  config_arrive: "needs_step lc u (Config_Arrive b) (u\<lparr>u_wired := b\<rparr>)"
| run_queries: "u_wired u \<Longrightarrow> needs_step lc u Run_Queries (start_queries u)"
| shards_arrive: "u_topology u \<Longrightarrow> needs_step lc u (Shards_Arrive ids) (u\<lparr>u_shards := ids\<rparr>)"
| needs_arrive: "s \<in> u_asked u
    \<Longrightarrow> needs_step lc u (Needs_Arrive s ns) (u\<lparr>u_cache := (u_cache u)(s \<mapsto> ns), u_failed := u_failed u - {s}\<rparr>)"
| needs_fail: "s \<in> u_asked u \<Longrightarrow> needs_step lc u (Needs_Fail s) (u\<lparr>u_failed := insert s (u_failed u)\<rparr>)"
| run_shard: "shard_due u \<Longrightarrow> needs_step lc u Effect_Shard (effect_shard u)"
| run_cluster: "cluster_due lc u \<Longrightarrow> needs_step lc u Effect_Cluster (effect_cluster lc u)"
| pick_shard: "u_wired u \<Longrightarrow> s \<in> set (u_shards u) \<Longrightarrow> needs_step lc u (Pick_Shard s) (set_shard s u)"
| pick_cluster: "u_wired u \<Longrightarrow> c = ALL_CLUSTERS \<or> c \<in> set (map fst (ui_clusters lc u))
    \<Longrightarrow> needs_step lc u (Pick_Cluster c) (set_cluster c u)"
| pick_status: "u_wired u \<Longrightarrow> v \<in> {status_all, (lit ''unmet''), (lit ''satisfied'')} \<Longrightarrow> needs_step lc u (Pick_Status v) (set_status v u)"
| pick_reason: "needs_shown u \<Longrightarrow> r \<in> set (ui_buttons u)
    \<Longrightarrow> needs_step lc u (Pick_Reason r) (u\<lparr>u_reason := toggle_reason (u_reason u) r\<rparr>)"
| select: "needs_shown u \<Longrightarrow> n \<in> set (ui_rows u) \<Longrightarrow> needs_step lc u (Select n) (u\<lparr>u_selected := Some n\<rparr>)"
| close: "u_selected u \<noteq> None \<Longrightarrow> needs_step lc u Close (u\<lparr>u_selected := None\<rparr>)"
| navigate: "needs_step lc u (Navigate q) (u\<lparr>u_params := q\<rparr>)"

inductive_simps step_pick_reason: "needs_step lc u (Pick_Reason r) u'"

definition opened :: "params \<Rightarrow> needs_ui" where
  "opened p = \<lparr>u_params = p, u_reason = None, u_selected = None, u_wired = False, u_topology = False, u_asked = {},
     u_shards = [], u_cache = Map.empty, u_failed = {}\<rparr>"

inductive needs_reach :: "collate \<Rightarrow> params \<Rightarrow> params set \<Rightarrow> needs_ui \<Rightarrow> bool" for lc p Q where
  start: "needs_reach lc p Q (opened p)"
| step: "needs_reach lc p Q u \<Longrightarrow> needs_step lc u e u' \<Longrightarrow> (\<And>q. e = Navigate q \<Longrightarrow> q \<in> Q) \<Longrightarrow> needs_reach lc p Q u'"

subsection \<open>The URL stays clean\<close>

definition tidy_entry :: "jsstr \<times> jsstr \<Rightarrow> bool" where
  "tidy_entry e \<longleftrightarrow> \<not> (fst e \<in> {key_shard, key_cluster, key_status} \<and> snd e = []) \<and> e \<noteq> (key_status, status_all)"

definition untidy :: "params \<Rightarrow> (jsstr \<times> jsstr) set" where
  "untidy p = {e \<in> set p. \<not> tidy_entry e}"

lemma keys_distinct: "key_shard \<noteq> key_cluster" "key_shard \<noteq> key_status" "key_cluster \<noteq> key_status"
  by (simp_all add: key_shard_def key_cluster_def key_status_def lit_def)

lemma untidy_set_param:
  "tidy_entry (k, v) \<or> v = [] \<or> v = fb \<Longrightarrow> untidy (set_param k fb v p) \<subseteq> untidy p"
  by (auto simp: untidy_def url_items)

lemma untidy_setters [intro, simp]:
  "untidy (u_params (set_shard v u)) \<subseteq> untidy (u_params u)"
  "untidy (u_params (set_cluster v u)) \<subseteq> untidy (u_params u)"
  "untidy (u_params (set_status v u)) \<subseteq> untidy (u_params u)"
  using untidy_set_param[of key_shard v "[]" "u_params u"] untidy_set_param[of key_cluster v "[]" "u_params u"]
    untidy_set_param[of key_status v status_all "u_params u"] keys_distinct
  by (auto simp: set_shard_def set_cluster_def set_status_def tidy_entry_def)

lemma untidy_effects [simp]:
  "untidy (u_params (effect_shard u)) \<subseteq> untidy (u_params u)" "untidy (u_params (effect_cluster lc u)) \<subseteq> untidy (u_params u)"
  by (simp_all add: effect_shard_def effect_cluster_def)

lemma start_queries_params [simp]:
  "u_params (start_queries u) = u_params u" "u_cache (start_queries u) = u_cache u" "u_shards (start_queries u) = u_shards u"
  by (simp_all add: start_queries_def)

lemma untidy_step:
  "needs_step lc u e u' \<Longrightarrow> untidy (u_params u') \<subseteq> untidy (u_params u) \<union> (case e of Navigate q \<Rightarrow> untidy q | _ \<Rightarrow> {})"
  by (induction rule: needs_step.induct) simp_all

text \<open>
C6: In every state the needs page can reach from some URL, the URL has no empty and no default
  filter value that was not already in the URL the page was opened with or in a URL it was
  navigated to.
\<close>

theorem needs_url_tidy:
  assumes "needs_reach lc p Q u"
  shows "{e \<in> set (u_params u). \<not> tidy_entry e} \<subseteq> {e \<in> set p \<union> (\<Union>q \<in> Q. set q). \<not> tidy_entry e}"
  using assms
proof induction
  case start
  show ?case by (auto simp: opened_def)
next
  case (step u e u')
  from untidy_step[OF step.hyps(2)] step.hyps(3) have "untidy (u_params u') \<subseteq> untidy (u_params u) \<union> (\<Union>q \<in> Q. untidy q)"
    by (cases e) auto
  with step.IH show ?case by (auto simp: untidy_def)
qed

definition sample_url :: params where
  "sample_url = [(key_status, status_all), (key_cluster, (lit ''c1''))]"

definition wired_ui :: "params \<Rightarrow> needs_ui" where
  "wired_ui p = start_queries ((opened p)\<lparr>u_wired := True\<rparr>)"

lemma wired_reached: "needs_reach lc p Q (wired_ui p)"
  unfolding wired_ui_def
  by (rule needs_reach.step[OF needs_reach.step[OF needs_reach.start needs_step.config_arrive] needs_step.run_queries]) simp_all

lemma wired_reads [simp]:
  "u_params (wired_ui p) = p" "u_wired (wired_ui p)" "u_topology (wired_ui p)" "u_reason (wired_ui p) = None"
  "u_failed (wired_ui p) = {}" "u_shards (wired_ui p) = []"
  by (simp_all add: wired_ui_def start_queries_def opened_def)

lemma needs_url_tidy_witness:
  "{e \<in> set (u_params (set_status (lit ''unmet'') (wired_ui sample_url))). \<not> tidy_entry e} \<subseteq> {e \<in> set sample_url. \<not> tidy_entry e}"
proof -
  have "needs_reach unit_collate sample_url {} (set_status (lit ''unmet'') (wired_ui sample_url))"
    by (rule needs_reach.step[OF wired_reached needs_step.pick_status]) simp_all
  from needs_url_tidy[OF this] show ?thesis by simp
qed

subsection \<open>The effects\<close>

lemma setter_reads [simp]:
  "ui_shard (set_shard v u) = v" "ui_cluster (set_cluster v u) = v"
  "ui_cluster (set_shard v u) = ui_cluster u" "ui_shard (set_cluster v u) = ui_shard u"
  "u_shards (set_shard v u) = u_shards u" "u_shards (set_cluster v u) = u_shards u" "u_shards (set_status v u) = u_shards u"
  "u_asked (set_shard v u) = u_asked u" "u_asked (set_cluster v u) = u_asked u" "u_asked (set_status v u) = u_asked u"
  "u_wired (set_cluster v u) = u_wired u" "u_failed (set_cluster v u) = u_failed u"
  "u_cache (set_shard v u) = u_cache u" "u_cache (set_cluster v u) = u_cache u" "u_cache (set_status v u) = u_cache u"
  "u_reason (set_cluster v u) = u_reason u" "u_selected (set_cluster v u) = u_selected u"
  "ui_all (set_cluster v u) = ui_all u" "ui_clusters lc (set_cluster v u) = ui_clusters lc u"
  using keys_distinct
  by (simp_all add: set_shard_def set_cluster_def set_status_def ui_shard_def ui_cluster_def ui_all_def ui_clusters_def url_frame)

lemma effect_reads [simp]:
  "u_shards (effect_shard u) = u_shards u" "u_cache (effect_shard u) = u_cache u"
  "u_asked (effect_shard u) = u_asked u" "u_asked (effect_cluster lc u) = u_asked u"
  "u_shards (effect_cluster lc u) = u_shards u" "u_cache (effect_cluster lc u) = u_cache u"
  "ui_shard (effect_cluster lc u) = ui_shard u" "ui_cluster (effect_shard u) = ui_cluster u"
  "ui_clusters lc (effect_cluster lc u) = ui_clusters lc u"
  by (simp_all add: effect_shard_def effect_cluster_def)

lemma effect_defaults:
  "ui_shard (effect_shard u) = default_shard (ui_shard u) (u_shards u)"
  "ui_cluster (effect_cluster lc u) = default_cluster (ui_cluster u) (ui_clusters lc u)"
  by (auto simp: effect_shard_def effect_cluster_def shard_due_def cluster_due_def default_shard_def default_cluster_def split: list.split)

text \<open>Needs are neither asked nor held for the empty shard name.\<close>

lemma anonymous_step:
  "needs_step lc u e u' \<Longrightarrow> u_cache u [] = None \<and> [] \<notin> u_asked u \<Longrightarrow> u_cache u' [] = None \<and> [] \<notin> u_asked u'"
  by (induction rule: needs_step.induct) (auto simp: start_queries_def)

lemma no_anonymous_needs: "needs_reach lc p Q u \<Longrightarrow> u_cache u [] = None \<and> [] \<notin> u_asked u"
proof (induction rule: needs_reach.induct)
  case start
  show ?case by (simp add: opened_def)
next
  case (step u e u')
  then show ?case using anonymous_step by blast
qed

text \<open>
C7: In no reachable state of the needs page are both effects due, so the two never write the URL
  from the same old parameters.
\<close>

theorem needs_effects_exclusive:
  assumes "needs_reach lc p Q u"
  shows "\<not> (shard_due u \<and> cluster_due lc u)"
  using no_anonymous_needs[OF assms]
  by (simp add: shard_due_def cluster_due_def ui_clusters_def ui_all_def needs_clusters_def)

lemma needs_effects_exclusive_witness:
  "\<not> (shard_due ((wired_ui sample_url)\<lparr>u_shards := [(lit ''s1'')]\<rparr>) \<and> cluster_due unit_collate ((wired_ui sample_url)\<lparr>u_shards := [(lit ''s1'')]\<rparr>))"
  by (rule needs_effects_exclusive[OF needs_reach.step[OF wired_reached needs_step.shards_arrive]]) simp_all

text \<open>
C15: Running the two effects once, in order, leaves neither due: the shard and cluster in effect
  are the selected ones or the first of their lists, when no name is empty.
\<close>

theorem needs_effects_settle:
  assumes "[] \<notin> set (u_shards u)" "[] \<notin> set (map fst (ui_clusters lc (effect_shard u)))"
  shows "\<not> shard_due (effect_cluster lc (effect_shard u)) \<and> \<not> cluster_due lc (effect_cluster lc (effect_shard u))
    \<and> ui_shard (effect_cluster lc (effect_shard u)) = default_shard (ui_shard u) (u_shards u)
    \<and> ui_cluster (effect_cluster lc (effect_shard u)) = default_cluster (ui_cluster u) (ui_clusters lc (effect_shard u))"
proof -
  have "default_shard (ui_shard u) (u_shards u) \<noteq> []" if "u_shards u \<noteq> []"
    using that assms(1) by (cases "u_shards u") (auto simp: default_shard_def)
  moreover have "default_cluster (ui_cluster u) (ui_clusters lc (effect_shard u)) \<noteq> []" if "ui_clusters lc (effect_shard u) \<noteq> []"
    using that assms(2) by (cases "ui_clusters lc (effect_shard u)") (auto simp: default_cluster_def)
  ultimately show ?thesis by (auto simp: shard_due_def cluster_due_def effect_defaults)
qed

lemma needs_effects_settle_witness:
  "ui_shard (effect_cluster unit_collate (effect_shard ((opened [])\<lparr>u_shards := [(lit ''s1'')]\<rparr>))) = default_shard [] [(lit ''s1'')]"
proof -
  have "[] \<notin> set (u_shards ((opened [])\<lparr>u_shards := [(lit ''s1'')]\<rparr>))" by simp
  moreover have "ui_clusters unit_collate (effect_shard ((opened [])\<lparr>u_shards := [(lit ''s1'')]\<rparr>)) = []"
    by (simp add: ui_clusters_def ui_all_def needs_clusters_def opened_def)
  then have "[] \<notin> set (map fst (ui_clusters unit_collate (effect_shard ((opened [])\<lparr>u_shards := [(lit ''s1'')]\<rparr>))))" by simp
  moreover have "ui_shard ((opened [])\<lparr>u_shards := [(lit ''s1'')]\<rparr>) = []"
    by (simp add: ui_shard_def opened_def param_value_def read_param_def params_get_def)
  ultimately show ?thesis using needs_effects_settle[of "(opened [])\<lparr>u_shards := [(lit ''s1'')]\<rparr>" unit_collate] by simp
qed

subsection \<open>A filter that cannot be cleared\<close>

definition idle_cluster :: "NeedView list" where
  "idle_cluster = [sample_need [] 1 1 0 False, (sample_need [] 1 1 2 True)\<lparr>n_clusterId := (lit ''c2'')\<rparr>]"

definition stuck_url :: params where
  "stuck_url = [(key_shard, (lit ''s1''))]"

definition stuck_ui :: needs_ui where
  "stuck_ui = \<lparr>u_params = [(key_shard, (lit ''s1'')), (key_cluster, (lit ''c2''))], u_reason = Some (lit ''PRIORITY_STARVED''), u_selected = None,
     u_wired = True, u_topology = True, u_asked = {(lit ''s1'')}, u_shards = [], u_cache = [(lit ''s1'') \<mapsto> idle_cluster], u_failed = {}\<rparr>"

lemma idle_keys: "set (map fst (needs_clusters lc idle_cluster)) = {(lit ''c1''), (lit ''c2'')}"
  by (simp add: needs_clusters_def idle_cluster_def tally_keys[THEN conjunct1] sample_need_def del: set_map) (simp add: tally_def sample_need_def)

lemma idle_scoped:
  "scoped_needs idle_cluster (lit ''c1'') = [sample_need [] 1 1 0 False]"
  "scoped_needs idle_cluster (lit ''c2'') = [(sample_need [] 1 1 2 True)\<lparr>n_clusterId := (lit ''c2'')\<rparr>]"
  by (simp_all add: scoped_needs_def idle_cluster_def sample_need_def ALL_CLUSTERS_def)

lemma stuck_reached: "needs_reach lc stuck_url {} stuck_ui"
proof -
  let ?u1 = "(wired_ui stuck_url)\<lparr>u_cache := (u_cache (wired_ui stuck_url))((lit ''s1'') \<mapsto> idle_cluster),
    u_failed := u_failed (wired_ui stuck_url) - {(lit ''s1'')}\<rparr>"
  let ?u2 = "set_cluster (lit ''c1'') ?u1"
  let ?u3 = "?u2\<lparr>u_reason := toggle_reason (u_reason ?u2) (lit ''PRIORITY_STARVED'')\<rparr>"
  have w: "ui_shard ((opened stuck_url)\<lparr>u_wired := True\<rparr>) = (lit ''s1'')"
    by (simp add: ui_shard_def opened_def stuck_url_def param_value_def read_param_def params_get_def)
  then have "(lit ''s1'') \<in> u_asked (wired_ui stuck_url)" by (simp add: wired_ui_def start_queries_def)
  then have 1: "needs_reach lc stuck_url {} ?u1" by (intro needs_reach.step[OF wired_reached needs_step.needs_arrive]) simp_all
  have s: "ui_shard ?u1 = (lit ''s1'')" by (simp add: ui_shard_def stuck_url_def param_value_def read_param_def params_get_def)
  then have all: "ui_all ?u1 = idle_cluster" by (simp add: ui_all_def)
  then have keys: "set (map fst (ui_clusters lc ?u1)) = {(lit ''c1''), (lit ''c2'')}" unfolding ui_clusters_def by (simp only: idle_keys)
  have 2: "needs_reach lc stuck_url {} ?u2"
    by (rule needs_reach.step[OF 1 needs_step.pick_cluster]) (simp, simp only: keys, simp_all)
  have b: "ui_buttons ?u2 = [(lit ''PRIORITY_STARVED'')]"
    unfolding ui_buttons_def ui_scoped_def setter_reads all idle_scoped
    by (simp add: needs_summary_def summary_step_def summary_reasons_def js_sort_def sample_need_def)
  have n: "needs_shown ?u2" unfolding needs_shown_def setter_reads all by (simp add: idle_cluster_def set_cluster_def)
  have 3: "needs_reach lc stuck_url {} ?u3" by (rule needs_reach.step[OF 2 needs_step.pick_reason[OF n]]) (simp_all only: b, simp_all)
  have "ui_clusters lc ?u3 = ui_clusters lc ?u1" by (simp add: ui_clusters_def ui_all_def ui_shard_def set_cluster_def url_frame keys_distinct)
  moreover have "u_wired ?u3" by (simp add: set_cluster_def)
  ultimately have 4: "needs_reach lc stuck_url {} (set_cluster (lit ''c2'') ?u3)"
    by (intro needs_reach.step[OF 3 needs_step.pick_cluster]) (assumption, simp only: keys, simp_all)
  have "u_asked (wired_ui stuck_url) = {(lit ''s1'')}" "u_cache (wired_ui stuck_url) = Map.empty" "u_selected (wired_ui stuck_url) = None"
    using w by (simp_all add: wired_ui_def start_queries_def) (simp_all add: opened_def)
  then have "set_cluster (lit ''c2'') ?u3 = stuck_ui" using keys_distinct
    by (simp add: stuck_ui_def stuck_url_def set_cluster_def toggle_reason_def set_param_def write_param_def params_delete_def)
  with 4 show ?thesis by simp
qed

lemma stuck_reads:
  "ui_cluster stuck_ui = (lit ''c2'')" "ui_status stuck_ui = All_Needs" "ui_all stuck_ui = idle_cluster" "needs_shown stuck_ui"
proof -
  show "ui_cluster stuck_ui = (lit ''c2'')" "ui_status stuck_ui = All_Needs" using keys_distinct
    by (simp_all add: ui_cluster_def ui_status_def stuck_ui_def param_value_def read_param_def params_get_def
      status_of_def status_all_def)
  show "ui_all stuck_ui = idle_cluster" using keys_distinct
    by (simp add: ui_all_def ui_shard_def stuck_ui_def param_value_def read_param_def params_get_def)
  then show "needs_shown stuck_ui" by (simp add: needs_shown_def idle_cluster_def) (simp add: stuck_ui_def)
qed

lemma stuck_shows:
  "ui_scoped stuck_ui = [(sample_need [] 1 1 2 True)\<lparr>n_clusterId := (lit ''c2'')\<rparr>]"
  "ui_rows stuck_ui = []" "ui_buttons stuck_ui = []"
proof -
  show s: "ui_scoped stuck_ui = [(sample_need [] 1 1 2 True)\<lparr>n_clusterId := (lit ''c2'')\<rparr>]"
    unfolding ui_scoped_def stuck_reads idle_scoped ..
  show "ui_rows stuck_ui = []"
    unfolding ui_rows_def s stuck_reads by (simp add: visible_needs_def stuck_ui_def sample_need_def)
  show "ui_buttons stuck_ui = []"
    unfolding ui_buttons_def s by (simp add: needs_summary_def summary_step_def summary_reasons_def js_sort_def sample_need_def)
qed

text \<open>
C29: The needs page can reach, by user actions and arriving data only, a state where the
  coordinator is wired, the last request did not fail and needs are in scope, and yet the table
  is empty although every status is shown: a reason filter is set, and no reason button is
  offered that would clear it.
\<close>

theorem needs_filter_stuck:
  "\<exists>u. needs_reach lc stuck_url {} u \<and> needs_shown u \<and> ui_scoped u \<noteq> [] \<and> ui_rows u = [] \<and> ui_status u = All_Needs
    \<and> u_reason u \<noteq> None \<and> (\<nexists>r u'. needs_step lc u (Pick_Reason r) u')"
proof -
  have "u_reason stuck_ui \<noteq> None" by (simp add: stuck_ui_def)
  then show ?thesis
    by (intro exI[of _ stuck_ui]) (simp add: stuck_reached stuck_shows stuck_reads step_pick_reason)
qed

end
