(* ===== verification/Needs_Page.thy ===== *)
theory Needs_Page
  imports Needs_Views Needs_State Parts
begin

text \<open>
  What \<open>ui/src/pages/Needs.tsx\<close> renders: the filters and notices of the page, the summary, the
  table of the walk with its rows, and the decision report of the selected need. The list of
  the virtual rows comes from \<open>useVirtualizer\<close> and is a parameter \<open>virt\<close>; \<open>now\<close> is the clock in
  seconds. A need is passed with its reference where the code compares references.
\<close>

subsection \<open>Summary\<close>

definition Field :: "jsstr \<Rightarrow> html list \<Rightarrow> html" where
  "Field label children = el ''label'' (T label # children)"

definition summary_button :: "jsstr option \<Rightarrow> jsstr \<times> nat \<Rightarrow> html" where
  "summary_button active e =
     (case e of (reason, c) \<Rightarrow>
       let meta = reasonMeta False reason; picked = (active = Some reason)
       in E ''button''
         [(''class'', if truthy_str active \<and> \<not> picked then (lit ''opacity-45 hover:opacity-80'') else []),
          (''title'', if picked then (lit ''clear filter'') else (lit ''filter to '') @ rm_label meta)]
         [Badge (rm_tone meta) True [T (format_int (str_nat c) @ (lit '' '') @ rm_label meta)]])"

definition SummaryBar :: "nat \<Rightarrow> (jsstr \<times> nat) list \<Rightarrow> nat \<Rightarrow> jsstr option \<Rightarrow> html" where
  "SummaryBar satisfied byReason t active =
     (let reasons = summary_reasons byReason
      in el ''div''
        ([leaf ''span'' (format_int (str_nat t) @ (lit '' needs '' @ [0xB7])),
          Badge Good True [T (format_int (str_nat satisfied) @ (lit '' satisfied''))]]
         @ map (summary_button active) reasons
         @ show_if (reasons = [] \<and> 0 < satisfied) [leaf ''span'' (lit ''all satisfied '' @ [0xD83C, 0xDF89])]))"

subsection \<open>Table\<close>

definition gridCols :: "bool \<Rightarrow> (string \<times> jsstr) list" where
  "gridCols showCluster =
     [(''gridTemplateColumns'',
       if showCluster then (lit ''minmax(130px,150px) minmax(96px,140px) 92px minmax(180px,1.4fr) minmax(150px,150px) 50px''
    @ lit '' 28px'')
       else (lit ''minmax(130px,150px) 92px minmax(190px,1.5fr) minmax(150px,150px) 50px 28px''))]"

definition HeadCell :: "bool \<Rightarrow> jsstr \<Rightarrow> html" where
  "HeadCell right title = E ''div'' [(''class'', if right then (lit ''text-right'') else [])] [T title]"

definition NeedsTableHeader :: "bool \<Rightarrow> html" where
  "NeedsTableHeader showCluster =
     E ''div'' (gridCols showCluster)
       ([HeadCell False (lit ''Status'')] @ show_if showCluster [HeadCell False (lit ''Cluster'')]
        @ [HeadCell True (lit ''Priority''), HeadCell False (lit ''Shape '' @ [0x2192] @ lit '' coverage''), HeadCell False (lit ''Penalties (int '' @ [0xB7] @ lit '' rec)''),
           HeadCell True (lit ''Age''), el ''div'' []])"

definition SupplyCell :: "collate \<Rightarrow> NeedView \<Rightarrow> html" where
  "SupplyCell lc n =
     (let reqs = entries (n_requirements n)
      in el ''div''
        ([CoverageBar n,
          el ''div''
            ((if reqs \<noteq> [] then map RequirementChip (take 2 reqs) else [leaf ''span'' (formatResources lc (n_aggregateResources n))])
             @ show_if (2 < length reqs) [leaf ''span'' ((lit ''+'') @ num_to_string (str_nat (length reqs - 2)))])]
         @ show_if (\<not> n_satisfied n \<and> n_residualDeficit n \<noteq> None)
             [leaf ''span'' ((lit ''short '') @ formatResources lc (n_residualDeficit n))]))"

text \<open>\<open>s.replace(pat, "")\<close>: the first occurrence.\<close>

fun remove_first :: "jsstr \<Rightarrow> jsstr \<Rightarrow> jsstr" where
  "remove_first pat [] = []"
| "remove_first pat (c # s) = (if has_prefix pat (c # s) then drop (length pat) (c # s) else c # remove_first pat s)"

definition truthy_num :: "jsnum option \<Rightarrow> bool" where
  "truthy_num x = (case x of None \<Rightarrow> False | Some y \<Rightarrow> truthy y)"

definition age_title :: "NeedView \<Rightarrow> jsstr" where
  "age_title n =
     (if \<not> n_satisfied n then (lit ''unmet for '') @ format_int (n_ageCyclesUnmet n) @ (lit '' cycles'')
      else if truthy_num (n_arrivalUnixNanos n) then (lit ''held since'') else [])"

definition age_text :: "jsnum \<Rightarrow> NeedView \<Rightarrow> jsstr" where
  "age_text now n =
     (if \<not> n_satisfied n then
        if jlt (Fin 0) (n_ageCyclesUnmet n) then format_int (n_ageCyclesUnmet n) @ (lit ''c'') else em_dash
      else if truthy_num (n_arrivalUnixNanos n) then
        remove_first (lit '' ago'') (formatRelative (Some (jdiv (the (n_arrivalUnixNanos n)) (Fin (10 ^ 9)))) now)
      else em_dash)"

definition NeedRow :: "collate \<Rightarrow> jsnum \<Rightarrow> bool \<Rightarrow> NeedView \<Rightarrow> html" where
  "NeedRow lc now showCluster n =
     (let meta = reasonMeta (n_satisfied n) (n_unmetReason n)
      in E ''button'' (gridCols showCluster @ [(''class'', if truthy_str (n_group n) then (lit ''border-l-2 border-l-violet-500/60'') else [])])
        ([el ''div'' [Badge (rm_tone meta) True [T (rm_label meta)]]]
         @ show_if showCluster [E ''div'' [(''title'', n_clusterId n)] [T (n_clusterId n)]]
         @ [E ''div'' [(''title'', format_int (n_priority n))] [T (formatPriorityCompact (Some (n_priority n)))],
            el ''div'' [SupplyCell lc n],
            el ''div'' [PenaltyPill (n_interruptionPenaltyBucket n) Interruption, PenaltyPill (n_reclamationPenaltyBucket n) Reclamation],
            E ''div'' [(''title'', age_title n)] [T (age_text now n)],
            el ''div'' []]))"

definition WalkRow :: "collate \<Rightarrow> jsnum \<Rightarrow> bool \<Rightarrow> WalkItem \<Rightarrow> html" where
  "WalkRow lc now showCluster item =
     (case item of Header k fp c contst supply \<Rightarrow> CohortHeader fp c contst supply
      | Cutline k below \<Rightarrow> CutLine below
      | Row k n \<Rightarrow> NeedRow lc now showCluster n)"

text \<open>A virtual item: the index of the item it shows, and its offset in pixels.\<close>

record virtual_rows =
  v_totalSize :: jsnum
  v_items :: "(nat \<times> jsnum) list"

definition VirtualRows :: "collate \<Rightarrow> jsnum \<Rightarrow> bool \<Rightarrow> (nat list \<Rightarrow> virtual_rows) \<Rightarrow> WalkItem list \<Rightarrow> html" where
  "VirtualRows lc now showCluster virt items =
     (let v = virt (map estimate_size items)
      in el ''div'' [E ''div'' [(''height'', num_to_string (v_totalSize v))]
        (concat (map (\<lambda>(i, start). if i < length items
           then [E ''div'' [(''transform'', (lit ''translateY('') @ num_to_string start @ (lit ''px)''))] [WalkRow lc now showCluster (items ! i)]]
           else []) (v_items v)))])"

definition NeedsTable :: "collate \<Rightarrow> jsnum \<Rightarrow> bool \<Rightarrow> (nat list \<Rightarrow> virtual_rows) \<Rightarrow> WalkItem list \<Rightarrow> html" where
  "NeedsTable lc now showCluster virt items =
     el ''section''
       [NeedsTableHeader showCluster,
        if \<not> virtualized items then el ''div'' (map (WalkRow lc now showCluster) items)
        else VirtualRows lc now showCluster virt items]"

subsection \<open>Decision report\<close>

definition CrossLink :: "jsstr \<Rightarrow> jsstr \<Rightarrow> html" where
  "CrossLink target label = Link target [T label]"

definition competitor_row :: "collate \<Rightarrow> NeedView \<Rightarrow> NeedView \<Rightarrow> html" where
  "competitor_row lc n c =
     el ''tr''
      [el ''td'' (T (n_clusterId c) # show_if (n_clusterId c = n_clusterId n) [leaf ''span'' (lit ''this cluster'')]),
       E ''td'' [(''title'', format_int (n_priority c))] [T (formatPriorityCompact (Some (n_priority c)))],
       leaf ''td'' (formatResources lc (n_aggregateResources c)),
       leaf ''td'' (format_int (n_claimedMachineCount c))]"

definition Competition :: "collate \<Rightarrow> need_ref \<Rightarrow> need_ref list \<Rightarrow> html" where
  "Competition lc n all =
     (let comp = competitorsFor n all
      in if comp = [] then leaf ''div'' (lit ''No higher-precedence need with a compatible shape claimed machines this cycle.'')
         else el ''div'' [el ''table''
           [el ''thead'' [el ''tr'' [leaf ''th'' (lit ''Cluster''), leaf ''th'' (lit ''Priority''), leaf ''th'' (lit ''Wants''), leaf ''th'' (lit ''Claimed'')]],
            el ''tbody'' (map (\<lambda>c. competitor_row lc (snd n) (snd c)) comp)]])"

definition domain_width :: "DomainCoverage \<Rightarrow> jsnum" where
  "domain_width c = jmax (Fin 2) (jdiv (dc_coveragePerMille c) (Fin 10))"

definition domain_row :: "NeedView \<Rightarrow> DomainCoverage \<Rightarrow> html" where
  "domain_row n c =
     el ''div''
      [leaf ''span'' (dc_domain c @ (if Some (dc_domain c) = n_sameDomain n then (lit '' '' @ [0x25C0] @ lit '' chosen'') else [])),
       el ''div'' [E ''div'' [(''class'', if dc_satisfiable c then (lit ''bg-emerald-500'') else (lit ''bg-violet-500'')),
           (''width'', percent (domain_width c))] []],
       leaf ''span'' (percent (jround (jdiv (dc_coveragePerMille c) (Fin 10))))]"

definition TopologyBlock :: "NeedView \<Rightarrow> html" where
  "TopologyBlock n =
     el ''div''
      (el ''dl''
        (show_if (truthy_str (n_group n)) [KV (lit ''Gang'') [leaf ''span'' (the (n_group n))]]
         @ show_if (truthy_str (n_sameDomain n))
             [KV (lit ''Chosen domain'') [el ''span'' [leaf ''span'' (the (n_sameDomain n)),
               Badge (if n_sameSatisfiable n then Good else Violet) False
                 [T (if n_sameSatisfiable n then (lit ''satisfiable'') else (lit ''unsatisfiable''))]]]])
       # show_if (entries (n_sameCandidates n) \<noteq> [])
           [el ''div'' [leaf ''div'' (lit ''Candidate domains the pre-pass weighed (coverage of your deficit):''),
              el ''div'' (map (domain_row n) (entries (n_sameCandidates n)))]])"

text \<open>\<open>n.arrivalUnixNanos && \<dots>\<close> renders the number itself when it is zero or \<open>NaN\<close>.\<close>

definition aging_arrival :: "jsnum \<Rightarrow> NeedView \<Rightarrow> html list" where
  "aging_arrival now n =
     (case n_arrivalUnixNanos n of None \<Rightarrow> []
      | Some t \<Rightarrow> if \<not> truthy t then [T (num_to_string t)]
          else show_if (jlt (Fin 0) t) [KV (lit ''In desired state since'') [T (formatRelative (Some (jdiv t (Fin (10 ^ 9)))) now)]])"

definition Aging :: "jsnum \<Rightarrow> NeedView \<Rightarrow> html" where
  "Aging now n =
     el ''dl''
      (show_if (\<not> n_satisfied n)
         [KV (lit ''Unmet for'') [T (format_int (n_ageCyclesUnmet n) @ (lit '' cycles'')
            @ (if jlt (Fin 5) (n_ageCyclesUnmet n) then (lit '' (escalated)'') else []))]]
       @ aging_arrival now n
       @ show_if (n_acquisitionParked n)
           [KV (lit ''Acquisition parked'') [el ''span''
             [Badge Warn False [T ((lit ''parked '') @ (if truthy_num (n_parkedAgeCycles n) then formatInt (n_parkedAgeCycles n) @ (lit ''c'') else []))],
              leaf ''span'' (lit ''re-probes every 32 cycles'')]]]
       @ [KV (lit ''Levers'') [el ''span''
            [leaf ''span'' ((lit ''prio '') @ formatPriorityCompact (Some (n_priority n))), leaf ''span'' [0xB7],
             E ''span'' [(''title'', (lit ''interruption penalty '' @ [0x2014] @ lit '' feeds effective_cost and the Phase-2 victim score''))]
               [T ((lit ''int '') @ formatPenalty (Some (n_interruptionPenaltyBucket n)))], leaf ''span'' [0xB7],
             E ''span'' [(''title'', (lit ''reclamation penalty '' @ [0x2014] @ lit '' idle tiebreak + Phase 2/3 reluctance to reclaim''))]
               [T ((lit ''rec '') @ formatPenalty (Some (n_reclamationPenaltyBucket n)))]]]])"

definition report_hero :: "NeedView \<Rightarrow> html" where
  "report_hero need =
     (let meta = reasonMeta (n_satisfied need) (n_unmetReason need)
      in E ''div'' [(''class'', if n_satisfied need
             then (lit ''border-emerald-300/60 bg-emerald-50 dark:border-emerald-700/40 dark:bg-emerald-950/20'')
             else (lit ''border-[var(--border)] bg-[var(--surface-2)]''))]
        ([Badge (rm_tone meta) True [T (if n_satisfied need then (lit ''satisfied'') else (lit ''unmet '' @ [0xB7] @ lit '' '') @ rm_label meta)],
          leaf ''p'' (rm_explain meta)]
         @ show_if (rm_action meta \<noteq> []) [el ''div'' [leaf ''span'' (lit ''What to do '' @ [0xB7] @ lit '' ''), leaf ''span'' (rm_action meta)]]))"

definition report_body :: "collate \<Rightarrow> (jsnum \<Rightarrow> jsnum) \<Rightarrow> jsnum \<Rightarrow> need_ref \<Rightarrow> need_ref list \<Rightarrow> html \<Rightarrow> html" where
  "report_body lc lg now ref all cluster_link =
     (let need = snd ref
      in el ''div''
        ([report_hero need,
          Section (lit ''Aggregation key'') (Some (lit ''the 5-tuple that collapsed pods into this Need'')) [AggregationKeyCard lg need],
          Section (lit ''Demand shape'') None [DemandShape lc need],
          Section (if n_satisfied need then (lit ''How it's held'') else (lit ''Decision trace''))
            (Some (if n_satisfied need then (lit ''standing state, re-derived this cycle'') else (lit ''how the engine walked it'')))
            [DecisionTrace lc need]]
         @ show_if (\<not> n_satisfied need \<and> n_matchingSupply need \<noteq> None)
             [Section (lit ''Supply funnel'') (Some (lit ''inventory '' @ [0x2192] @ lit '' your shape '' @ [0x2192] @ lit '' claimable'')) [SupplyFunnel need]]
         @ show_if (\<not> n_satisfied need \<and> n_unmetReason need = (lit ''PRIORITY_STARVED''))
             [Section (lit ''Ahead of you in line'')
               (Some (lit ''precedence-ordered needs of a compatible shape that claimed machines '' @ [0x2014] @ lit '' an approximation;''
    @ lit '' the exact displacement chain isn't retained''))
               [Competition lc ref all]]
         @ show_if (truthy_str (n_sameDomain need) \<or> entries (n_sameCandidates need) \<noteq> [])
             [Section (lit ''Topology (co-location)'') None [TopologyBlock need]]
         @ [Section (lit ''Aging & timing'') None [Aging now need],
            Section (lit ''Related'') None [el ''div'' [cluster_link, CrossLink (lit ''/available-capacity'') (lit ''Provider shapes on offer '' @ [0x2192])]]]))"

definition DecisionReport :: "collate \<Rightarrow> (jsnum \<Rightarrow> jsnum) \<Rightarrow> jsnum \<Rightarrow> need_ref option \<Rightarrow> need_ref list \<Rightarrow> html list option" where
  "DecisionReport lc lg now need all =
     (case need of None \<Rightarrow> Some (Drawer False [] [] Size_xl [])
      | Some ref \<Rightarrow>
          map_option (\<lambda>p. Drawer True [leaf ''span'' (n_clusterId (snd ref))]
            [leaf ''span'' ((lit ''priority '') @ format_int (n_priority (snd ref))
               @ (if truthy_str (n_group (snd ref)) then (lit '' '' @ [0xB7] @ lit '' gang '') @ the (n_group (snd ref)) else [])
               @ (lit '' '' @ [0xB7] @ lit '' '') @ formatResources lc (n_aggregateResources (snd ref)))] Size_xl
            [report_body lc lg now ref all (CrossLink ((lit ''/clusters/'') @ p) (lit ''This cluster's CapacityRequests '' @ [0x2192]))])
          (encodeURIComponent (n_clusterId (snd ref))))"

subsection \<open>The page\<close>

definition cluster_option :: "jsstr \<times> cluster_count \<Rightarrow> html" where
  "cluster_option c =
     E ''option'' [(''value'', fst c)]
       [T (fst c @ (lit '' ('') @ num_to_string (str_nat (k_total (snd c)))
          @ (if 0 < k_unmet (snd c) then (lit '' '' @ [0xB7] @ lit '' '') @ num_to_string (str_nat (k_unmet (snd c))) @ (lit '' unmet'') else []) @ (lit '')''))]"

definition filter_bar :: "collate \<Rightarrow> TopologyShard list \<Rightarrow> NeedView list \<Rightarrow> jsstr \<Rightarrow> jsstr \<Rightarrow> StatusFilter \<Rightarrow> html" where
  "filter_bar lc shards all shard cluster status =
     el ''div''
      [Field (lit ''Shard'') [E ''select'' [(''value'', shard)]
         (show_if (shards = []) [E ''option'' [(''value'', [])] [T (lit ''no shards registered'')]]
          @ map (\<lambda>s. E ''option'' [(''value'', ts_shardId s)] [T (ts_shardId s)]) shards)],
       Field (lit ''Cluster'') [E ''select'' [(''value'', cluster)]
         (E ''option'' [(''value'', ALL_CLUSTERS)] [T ((lit ''All clusters ('') @ format_int (str_nat (length all)) @ (lit '')''))]
          # map cluster_option (needs_clusters lc all))],
       Field (lit ''Status'') [E ''select'' [(''value'', case status of All_Needs \<Rightarrow> (lit ''all'') | Only_Satisfied \<Rightarrow> (lit ''satisfied'') | Only_Unmet \<Rightarrow> (lit ''unmet''))]
         [E ''option'' [(''value'', (lit ''all''))] [T (lit ''All'')], E ''option'' [(''value'', (lit ''unmet''))] [T (lit ''Unmet only'')],
          E ''option'' [(''value'', (lit ''satisfied''))] [T (lit ''Satisfied only'')]]]]"

definition needs_header :: "jsnum \<Rightarrow> NeedsResponse query \<Rightarrow> html" where
  "needs_header now needs =
     PageHeader [T (lit ''Needs'')]
       (Some (lit ''One cluster's complete desired state this cycle (a full-replacement roll-up), walked''
    @ lit '' top-down by priority. Each Need is the collapse of every pod sharing its aggregation''
    @ lit '' key '' @ [0x2014] @ lit '' this is why it formed and exactly how the engine ruled on it''
    @ lit '' (ShardRead.InspectNeeds).''))
       (case q_data needs of None \<Rightarrow> []
        | Some r \<Rightarrow> [Freshness now now (nr_computedAtUnixNanos r) (Some (nr_cycle r)) (Fin 20) (lit ''rebuilding (no cycle yet)'')])"

definition needs_empty :: "jsnum \<Rightarrow> html" where
  "needs_empty cycle =
     el ''div'' [EmptyState True
       (if jeq cycle (Fin 0) then (lit ''Shard is rebuilding its needs ledger'') else (lit ''No needs on this shard''))
       [T (if jeq cycle (Fin 0) then (lit ''No cycle has completed yet '' @ [0x2014] @ lit '' the shard re-derives its per-Need verdicts each cycle.'')
           else (lit ''The shard reports no capacity needs right now.''))]]"

definition needs_status :: "bool \<Rightarrow> NeedsResponse query \<Rightarrow> NeedView list \<Rightarrow> html list" where
  "needs_status isWired needs all =
     show_if (isWired \<and> q_error needs \<noteq> None) [el ''div'' [ErrorBox (the (q_error needs))]]
     @ show_if (isWired \<and> q_error needs = None \<and> q_loading needs) [leaf ''div'' (lit ''Loading needs'' @ [0x2026])]
     @ show_if (isWired \<and> q_error needs = None \<and> q_data needs \<noteq> None \<and> all = []) [needs_empty (nr_cycle (the (q_data needs)))]"

definition needs_results :: "collate \<Rightarrow> jsnum \<Rightarrow> (nat list \<Rightarrow> virtual_rows) \<Rightarrow> NeedView list \<Rightarrow> jsstr \<Rightarrow> StatusFilter \<Rightarrow> jsstr option \<Rightarrow> html list" where
  "needs_results lc now virt all cluster status reason =
     (let scoped = scoped_needs all cluster; rows = visible_needs scoped status reason; summary = needs_summary scoped;
          showCluster = (cluster = ALL_CLUSTERS)
      in [SummaryBar (fst summary) (snd summary) (length scoped) reason,
          if rows = [] then el ''div'' [EmptyState False (lit ''Nothing matches'') [T (lit ''No needs match the current filters.'')]]
          else NeedsTable lc now showCluster virt (buildWalk rows showCluster)])"

definition all_needs :: "NeedsResponse query \<Rightarrow> NeedView list" where
  "all_needs needs = (case q_data needs of None \<Rightarrow> [] | Some r \<Rightarrow> entries (nr_needs r))"

definition Needs :: "collate \<Rightarrow> (jsnum \<Rightarrow> jsnum) \<Rightarrow> jsnum \<Rightarrow> (nat list \<Rightarrow> virtual_rows) \<Rightarrow> ClientConfig query \<Rightarrow> TopologyShard list
    \<Rightarrow> NeedsResponse query \<Rightarrow> jsstr \<Rightarrow> jsstr \<Rightarrow> jsstr \<Rightarrow> jsstr option \<Rightarrow> need_ref option \<Rightarrow> html list option" where
  "Needs lc lg now virt cfg shards needs shard cluster statusRaw reason selected =
     (let isWired = wired cc_coordinatorWired cfg; all = all_needs needs; status = status_of statusRaw
      in map_option (\<lambda>report.
          [needs_header now needs]
          @ show_if (\<not> q_loading cfg \<and> \<not> isWired) [UnwiredNotice (lit ''Coordinator'') (lit ''--coordinator-addr'')]
          @ show_if isWired [filter_bar lc shards all shard cluster status]
          @ needs_status isWired needs all
          @ show_if (isWired \<and> q_error needs = None \<and> all \<noteq> []) (needs_results lc now virt all cluster status reason)
          @ report)
        (DecisionReport lc lg now selected (enumerate 0 all)))"

end
