(* ===== verification/Needs_Page_Facts.thy ===== *)
theory Needs_Page_Facts
  imports Needs_Page Needs_Walk_Facts
begin

text \<open>
  What the reason buttons of the needs page promise: the number on a button is the number of
  rows the table has once the button is pressed, unless pressing it clears the filter, only
  satisfied needs are shown, or the reason is the empty text, which filters nothing.
\<close>

lemma reason_count_mem:
  "(r, m) \<in> set (summary_reasons (snd (needs_summary ns))) \<longleftrightarrow>
     m = length (filter (\<lambda>n. \<not> n_satisfied n \<and> n_unmetReason n = r) ns) \<and> m \<noteq> 0"
proof -
  let ?u = "filter (\<lambda>n. \<not> n_satisfied n) ns"
  have "snd (needs_summary ns) = tally n_unmetReason bump ?u"
    by (simp add: needs_summary_def summary_fold tally_def)
  then show ?thesis
    by (auto simp: summary_reasons_def tally_mem tally_value bump_fold conj_commute bump_first split: list.splits)
qed

lemma visible_reason:
  assumes "rf \<noteq> []"
  shows "visible_needs ns status (Some rf) =
    (if status = Only_Satisfied then [] else filter (\<lambda>n. \<not> n_satisfied n \<and> n_unmetReason n = rf) ns)"
  using assms by (cases status) (auto simp: visible_needs_def filter_empty_conv intro: filter_cong)

lemma visible_all:
  "visible_needs ns status None = filter (\<lambda>n. case status of All_Needs \<Rightarrow> True | Only_Satisfied \<Rightarrow> n_satisfied n | Only_Unmet \<Rightarrow> \<not> n_satisfied n) ns"
  "visible_needs ns status (Some []) = visible_needs ns status None"
  by (cases status; simp add: visible_needs_def)+

lemma reads_after_reason [simp]:
  "ui_scoped (u\<lparr>u_reason := x\<rparr>) = ui_scoped u" "ui_status (u\<lparr>u_reason := x\<rparr>) = ui_status u"
  by (simp_all add: ui_scoped_def ui_all_def ui_shard_def ui_cluster_def ui_status_def)

text \<open>
C10: Pressing a reason button of the needs page never changes the needs in scope. It leaves
  exactly as many rows as the button's number, with three exceptions that the theorem spells
  out: pressing the button of the active filter clears it and shows every need of the selected
  status; the button of the empty reason, labelled unmet, is falsy as a filter and also shows
  every need of the selected status, whatever its number says; and while only satisfied needs
  are shown no row is left.
\<close>

theorem reason_button_count:
  assumes "(r, m) \<in> set (summary_reasons (snd (needs_summary (ui_scoped u))))" "needs_step lc u (Pick_Reason r) u'"
  shows "ui_scoped u' = ui_scoped u \<and> length (ui_rows u') =
    (if u_reason u = Some r \<or> r = []
     then length (filter (\<lambda>n. case ui_status u of All_Needs \<Rightarrow> True | Only_Satisfied \<Rightarrow> n_satisfied n | Only_Unmet \<Rightarrow> \<not> n_satisfied n) (ui_scoped u))
     else if ui_status u = Only_Satisfied then 0 else m)"
proof -
  have u': "u' = u\<lparr>u_reason := toggle_reason (u_reason u) r\<rparr>" using assms(2) by (simp add: step_pick_reason)
  have m: "m = length (filter (\<lambda>n. \<not> n_satisfied n \<and> n_unmetReason n = r) (ui_scoped u))"
    using assms(1) by (simp add: reason_count_mem)
  have rows: "ui_rows u' = visible_needs (ui_scoped u) (ui_status u) (toggle_reason (u_reason u) r)"
    by (simp add: u' ui_rows_def)
  consider "u_reason u = Some r" | "u_reason u \<noteq> Some r" "r = []" | "u_reason u \<noteq> Some r" "r \<noteq> []" by blast
  then show ?thesis
  proof cases
    case 3
    then show ?thesis unfolding rows by (simp add: toggle_reason_def visible_reason[OF 3(2)] m u')
  qed (unfold rows, simp_all add: toggle_reason_def visible_all u')
qed

definition full_ui :: needs_ui where
  "full_ui = \<lparr>u_params = [(key_shard, (lit ''s1'')), (key_cluster, (lit ''c1''))], u_reason = None, u_selected = None,
     u_wired = True, u_topology = True, u_asked = {(lit ''s1'')}, u_shards = [], u_cache = [(lit ''s1'') \<mapsto> idle_cluster], u_failed = {}\<rparr>"

lemma full_scoped: "ui_all full_ui = idle_cluster" "ui_status full_ui = All_Needs" "ui_scoped full_ui = [sample_need [] 1 1 0 False]"
proof -
  have r: "ui_shard full_ui = (lit ''s1'')" "ui_cluster full_ui = (lit ''c1'')"
    using keys_distinct
    by (simp_all add: ui_cluster_def ui_shard_def full_ui_def param_value_def read_param_def params_get_def)
  show all: "ui_all full_ui = idle_cluster" by (simp add: ui_all_def r) (simp add: full_ui_def)
  show "ui_status full_ui = All_Needs" using keys_distinct
    by (simp add: ui_status_def full_ui_def param_value_def read_param_def params_get_def status_of_def status_all_def)
  show "ui_scoped full_ui = [sample_need [] 1 1 0 False]" unfolding ui_scoped_def all r idle_scoped ..
qed

lemma reason_button_count_witness:
  "length (ui_rows (full_ui\<lparr>u_reason := Some (lit ''PRIORITY_STARVED'')\<rparr>)) = 1"
proof -
  have b: "summary_reasons (snd (needs_summary [sample_need [] 1 1 0 False])) = [((lit ''PRIORITY_STARVED''), 1)]"
    by (simp add: needs_summary_def summary_step_def summary_reasons_def js_sort_def sample_need_def bump_def)
  have "needs_shown full_ui" unfolding needs_shown_def full_scoped by (simp add: idle_cluster_def) (simp add: full_ui_def)
  moreover have r: "u_reason full_ui = None" by (simp add: full_ui_def)
  ultimately have "needs_step unit_collate full_ui (Pick_Reason (lit ''PRIORITY_STARVED'')) (full_ui\<lparr>u_reason := Some (lit ''PRIORITY_STARVED'')\<rparr>)"
    by (simp add: step_pick_reason full_scoped ui_buttons_def b toggle_reason_def)
  then show ?thesis
    using reason_button_count[of "(lit ''PRIORITY_STARVED'')" 1 full_ui unit_collate "full_ui\<lparr>u_reason := Some (lit ''PRIORITY_STARVED'')\<rparr>"]
    by (simp add: b full_scoped r)
qed

end
