(* ===== verification/Fin_Prose.thy ===== *)
theory Fin_Prose
  imports Ui
begin

text \<open>
  The two sections of constant prose on the FinOps page (\<open>ui/src/pages/FinOps.tsx\<close>): what the page
  shows, and what a penalty bucket is.
\<close>

definition Lede :: html where
  "Lede =
     el ''section''
      [el ''p''
        [T (lit ''BigFleet provisions machines through pluggable capacity providers and routes workloads''
    @ lit '' to them based on a fixed cost formula: ''),
         leaf ''code'' (lit ''effective_cost = price + interruption_probability '' @ [0xD7] @ lit '' interruption_penalty''),
         T (lit ''. That makes ''),
         leaf ''strong'' (lit ''capacity type''),
         T (lit '' (bare-metal / reserved / on-demand / spot) and the workload's''),
         leaf ''strong'' (lit '' interruption penalty''),
         T (lit '' the two levers that decide where your money lands.'')],
       leaf ''p'' (lit ''This page slices the live inventory along both axes so you can see at a glance whether''
    @ lit '' the routing the engine actually did matches the routing your cost policy intended. Red''
    @ lit '' flags appear at the top when those diverge.'')]"

definition PenaltyBucketExplainer :: html where
  "PenaltyBucketExplainer =
     el ''section''
      [leaf ''h2'' (lit ''What is a penalty bucket?''),
       leaf ''p'' ([0x22] @ lit ''Penalty bucket'' @ [0x22] @ lit '' is the unit every other chart on this page is sliced by, so the rest of''
    @ lit '' the page won't make sense without it. Skim this once and the matrix below reads itself.''),
       el ''div''
        [el ''p''
          [T (lit ''Every ''),
           leaf ''code'' (lit ''CapacityRequest''),
           T (lit '' a workload submits carries an''),
           T (lit '' ''),
           leaf ''code'' (lit ''interruptionPenalty''),
           T (lit '' field '' @ [0x2014] @ lit '' the workload owner's stated dollar cost of being killed mid-run. A trainer that''
    @ lit '' would lose four hours of work if interrupted might declare''),
           T (lit '' ''),
           leaf ''span'' (lit ''$4,096''),
           T (lit ''; a stateless web pod that retries instantly might declare''),
           T (lit '' ''),
           leaf ''span'' (lit ''$0''),
           T (lit ''.'')],
         el ''p''
          [T (lit ''BigFleet quantises that raw dollar value into a bucket '' @ [0x2014] @ lit '' ''),
           leaf ''strong'' (lit ''powers of 2 from $0.50 to $8.4M''),
           T (lit '', plus a ''),
           leaf ''code'' (lit ''pinned''),
           T (lit '' sentinel meaning '' @ [0x22] @ lit ''never interrupt me.'' @ [0x22] @ lit '' Quantising caps the cross-cluster aggregation''
    @ lit '' cardinality at 28 stable bucket labels instead of unbounded floats.'')],
         el ''div''
          [el ''table''
            [el ''thead''
              [el ''tr''
                [leaf ''th'' (lit ''Bucket''),
                 leaf ''th'' (lit ''Meaning''),
                 leaf ''th'' (lit ''Phase 1 routes toward''),
                 leaf ''th'' (lit ''Typical workload'')]],
             el ''tbody''
              [el ''tr''
                [leaf ''td'' (lit ''$0''),
                 leaf ''td'' (lit ''Free to interrupt '' @ [0x2014] @ lit '' retry is cheap.''),
                 leaf ''td'' (lit ''Whatever is literally cheapest, including Spot.''),
                 leaf ''td'' (lit ''Stateless web, idempotent batch.'')],
               el ''tr''
                [leaf ''td'' (lit ''$0.50 '' @ [0x2013] @ lit '' $32''),
                 leaf ''td'' (lit ''Restart has real but small cost.''),
                 leaf ''td'' (lit ''Spot still OK; OnDemand wins if Spot's interruption probability is non-trivial.''),
                 leaf ''td'' (lit ''Short-running CI jobs.'')],
               el ''tr''
                [leaf ''td'' (lit ''$64 '' @ [0x2013] @ lit '' $1K''),
                 leaf ''td'' (lit ''Hours of work lost on interrupt.''),
                 leaf ''td'' (lit ''Routes away from Spot toward OnDemand / Reserved.''),
                 leaf ''td'' (lit ''Long-running services, modest training.'')],
               el ''tr''
                [leaf ''td'' (lit ''$1K '' @ [0x2013] @ lit '' $1M''),
                 leaf ''td'' (lit ''Expensive to restart (SLA breach, retraining cost).''),
                 leaf ''td'' (lit ''Pulls strongly toward Reserved or BareMetal.''),
                 leaf ''td'' (lit ''Large-model training, customer-facing services with tight SLOs.'')],
               el ''tr''
                [el ''td''
                  [leaf ''span'' (lit ''pinned'')],
                 leaf ''td'' (lit ''Cannot be interrupted, ever.''),
                 leaf ''td'' (lit ''Spot is forbidden by Phase 1. Reserved / OnDemand / BareMetal only.''),
                 leaf ''td'' (lit ''Stateful databases, in-flight payment processing.'')]]]],
         leaf ''p'' (lit ''The penalty enters BigFleet's fixed cost formula:''),
         leaf ''pre'' (lit ''effective_cost = price + (interruption_probability '' @ [0xD7] @ lit '' interruption_penalty)''),
         el ''p''
          [T (lit ''The provider declares the ''),
           leaf ''em'' (lit ''price''),
           T (lit '' and ''),
           leaf ''em'' (lit ''interruption_probability''),
           T (lit '' of each tier; the workload declares the ''),
           leaf ''em'' (lit ''interruption_penalty''),
           T (lit ''. Phase 1 minimises ''),
           leaf ''em'' (lit ''effective_cost''),
           T (lit '' per Need.'')],
         el ''div''
          [leaf ''div'' (lit ''Worked example''),
           T (lit ''A trainer job declaring ''),
           leaf ''span'' (lit ''$4,096''),
           T (lit '' penalty considers a Spot machine at''),
           T (lit '' ''),
           leaf ''span'' (lit ''$0.50/hr''),
           T (lit '' with a typical Spot interruption_probability of''),
           T (lit '' ''),
           leaf ''span'' (lit ''0.05''),
           T (lit '':''),
           leaf ''div'' (lit ''effective_cost = $0.50 + 0.05 '' @ [0xD7] @ lit '' $4096 = $205.30/hr''),
           T (lit ''An OnDemand machine at ''),
           leaf ''span'' (lit ''$1/hr''),
           T (lit '' with''),
           T (lit '' ''),
           leaf ''span'' (lit ''0.00''),
           T (lit '' interruption_probability:''),
           leaf ''div'' (lit ''effective_cost = $1.00 + 0.00 '' @ [0xD7] @ lit '' $4096 = $1.00/hr''),
           T (lit ''Phase 1 picks OnDemand. That's why bucket distribution and capacity-type distribution''
    @ lit '' have to be read together '' @ [0x2014] @ lit '' a high bucket is the workload ''),
           leaf ''em'' (lit ''asking''),
           T (lit '' the engine to skip cheap-but-flaky capacity.'')],
         el ''p''
          [leaf ''strong'' (lit ''Who sets the penalty:''),
           T (lit '' usually the operator chart's PriorityClass '' @ [0x2192] @ lit '' penalty mapping (e.g.''),
           T (lit '' ''),
           leaf ''code'' (lit ''ml-research''),
           T (lit '' defaults to ''),
           leaf ''span'' (lit ''$8,192''),
           T (lit '';''),
           T (lit '' ''),
           leaf ''code'' (lit ''batch-low''),
           T (lit '' to ''),
           leaf ''span'' (lit ''$1''),
           T (lit ''). Power users override per-workload via the ''),
           leaf ''code'' (lit ''interruptionPenalty''),
           T (lit '' field on''),
           T (lit '' ''),
           leaf ''code'' (lit ''CapacityRequest''),
           T (lit '' or the''),
           T (lit '' ''),
           leaf ''code'' (lit ''bigfleet.lucy.sh/interruption-penalty''),
           T (lit '' Pod annotation. Per-cluster defaults are picked when neither is set.'')],
         el ''p''
          [T (lit ''Note: there's a second penalty '' @ [0x2014]),
           T (lit '' ''),
           leaf ''code'' (lit ''reclamationPenalty''),
           T (lit '' '' @ [0x2014] @ lit '' that's tied to the ''),
           leaf ''em'' (lit ''specific machine''),
           T (lit '' (accrued training state, warm caches). The dashboard slices on ''),
           leaf ''em'' (lit ''interruption''),
           T (lit '' penalty because that's what drives Phase 1's routing; reclamation penalty matters for''
    @ lit '' Phase 2 / Phase 3 tiebreaks.'')]]]"

end
