(* ===== verification/Fin_Ops.thy ===== *)
theory Fin_Ops
  imports Parts Fin_Prose
begin

text \<open>
  \<open>ui/src/pages/FinOps.tsx\<close>: the posture sentences, the key numbers, the capacity mix, the
  penalty matrix, demand against supply, the decision-engine rates and the glossary, each as
  the tree it renders from a snapshot, with the numbers they show as functions of their own.
\<close>

subsection \<open>Layout\<close>

definition fin_section :: "jsstr \<Rightarrow> jsstr \<Rightarrow> jsstr option \<Rightarrow> html list \<Rightarrow> html" where
  "fin_section title lede promql children =
     el ''section''
      [el ''header'' ([leaf ''h2'' title, leaf ''p'' lede] @ show_if (truthy_str promql) [leaf ''p'' (the promql)]),
       el ''div'' children]"

definition Interpretation :: "jsstr \<Rightarrow> jsstr list \<Rightarrow> html" where
  "Interpretation title items = el ''div'' [leaf ''div'' title, el ''ul'' (map (leaf ''li'') items)]"

definition red_flag :: "FinOpsRedFlag \<Rightarrow> html" where
  "red_flag f =
     el ''li'' [leaf ''span'' (rf_capacityType f @ (lit '' / '') @ formatPenaltyBucket (rf_bucket f)),
       leaf ''span'' ((lit '' '' @ [0xB7] @ lit '' '') @ format_int (rf_count f) @ (lit '' machines'')), leaf ''p'' (rf_message f)]"

definition RedFlags :: "FinOpsRedFlag list \<Rightarrow> html" where
  "RedFlags flags =
     el ''section''
      [leaf ''h2'' (if length flags = 1 then (lit ''1 red flag'') else num_to_string (str_nat (length flags)) @ (lit '' red flags'')),
       el ''ul'' (map red_flag flags)]"

text \<open>\<open>d[k] ?? 0\<close>.\<close>

definition count_of :: "(jsstr \<times> jsnum) list \<Rightarrow> jsstr \<Rightarrow> jsnum" where
  "count_of d k = (case map_of d k of None \<Rightarrow> Fin 0 | Some v \<Rightarrow> v)"

definition num_sum :: "jsnum list \<Rightarrow> jsnum" where
  "num_sum vs = foldl jadd (Fin 0) vs"

subsection \<open>Posture\<close>

definition fleet_total :: "FinOpsTotals \<Rightarrow> jsnum" where
  "fleet_total t = jadd (ft_configuredMachines t) (ft_idleMachines t)"

definition idle_frac :: "FinOpsTotals \<Rightarrow> jsnum" where
  "idle_frac t = (if jlt (Fin 0) (fleet_total t) then jdiv (ft_idleMachines t) (fleet_total t) else Fin 0)"

record MixRow =
  mx_ct :: jsstr
  mx_configured :: jsnum
  mx_idle :: jsnum

definition mx_sum :: "MixRow \<Rightarrow> jsnum" where
  "mx_sum r = jadd (mx_configured r) (mx_idle r)"

definition mix_rows :: "FinOpsSnapshot \<Rightarrow> MixRow list" where
  "mix_rows d =
     filter (\<lambda>r. jlt (Fin 0) (mx_sum r))
       (map (\<lambda>ct. \<lparr>mx_ct = ct, mx_configured = count_of (fs_configuredByCapacityType d) ct,
          mx_idle = count_of (fs_idleByCapacityType d) ct\<rparr>) (fs_capacityTypes d))"

definition posture_mix :: "FinOpsSnapshot \<Rightarrow> MixRow list" where
  "posture_mix d = js_sort (cmp_desc mx_sum) (mix_rows d)"

definition mix_share :: "jsnum \<Rightarrow> MixRow \<Rightarrow> jsnum" where
  "mix_share t r = (if jlt (Fin 0) t then jmul (jdiv (mx_sum r) t) (Fin 100) else Fin 0)"

definition mix_desc :: "jsnum \<Rightarrow> MixRow list \<Rightarrow> jsstr" where
  "mix_desc t mix =
     (case mix of [] \<Rightarrow> (lit ''no inventory yet.'')
      | [r] \<Rightarrow> (lit ''100 % on '') @ mx_ct r @ (lit '' capacity.'')
      | _ \<Rightarrow> join (lit '', '') (map (\<lambda>r. to_fixed (mix_share t r) 0 @ (lit '' % '') @ mx_ct r) (take 4 mix)) @ (lit ''.''))"

definition demand_sentence :: "FinOpsTotals \<Rightarrow> jsstr" where
  "demand_sentence t =
     (if jlt (fleet_total t) (ft_demandMachines t)
      then (lit ''Workload demand currently exceeds total capacity ('') @ format_int (ft_demandMachines t) @ (lit '' requested vs '')
        @ format_int (fleet_total t) @ (lit '' available) '' @ [0x2014] @ lit '' Phase 1 will be provisioning or preempting to close the gap.'')
      else (lit ''Workload demand is '') @ format_int (ft_demandMachines t) @ (lit '' machines, comfortably under capacity.''))"

definition posture_sentences :: "FinOpsSnapshot \<Rightarrow> jsstr list" where
  "posture_sentences d =
     (let t = fs_totals d
      in [(lit ''Your fleet currently holds '') @ format_int (fleet_total t) @ (lit '' machines '' @ [0x2014] @ lit '' '') @ mix_desc (fleet_total t) (posture_mix d)]
        @ (if jlt (Fin 0) (ft_configuredMachines t)
           then [format_int (ft_configuredMachines t) @ (lit '' are actively serving workloads; '') @ format_int (ft_idleMachines t)
             @ (lit '' sit idle as headroom ('') @ formatPercent (Some (idle_frac t)) 0 @ (lit '' of the fleet).'')] else [])
        @ (if jlt (Fin 0) (ft_demandMachines t) then [demand_sentence t] else [])
        @ (if jlt (Fin 0) (ft_spotConfiguredFraction t)
           then [formatPercent (Some (ft_spotConfiguredFraction t)) 0
             @ (lit '' of Configured capacity is on Spot '' @ [0x2014] @ lit '' the cheapest tier, at the cost of interruptibility.'')] else [])
        @ (if jlt (Fin 0) (ft_pinnedConfiguredFraction t)
           then [formatPercent (Some (ft_pinnedConfiguredFraction t)) 1
             @ (lit '' of Configured capacity carries Pinned (never-interrupt) workloads.'')] else [])
        @ (if entries (fs_redFlags d) = [] \<and> jlt (Fin 0) (ft_configuredMachines t)
           then [(lit ''No FinOps red flags right now '' @ [0x2014] @ lit '' Phase 1's routing matches the penalty buckets it was''
    @ lit '' given.'')] else []))"

definition PostureSummary :: "FinOpsSnapshot \<Rightarrow> html" where
  "PostureSummary d =
     el ''section'' [leaf ''h2'' (lit ''Fleet posture''),
       el ''div'' (map (\<lambda>(i, s). E ''p'' [(''class'', if 0 < i then (lit ''mt-2'') else [])] [T s]) (enumerate 0 (posture_sentences d)))]"

subsection \<open>Key numbers\<close>

definition warn_over :: "rat \<Rightarrow> jsnum \<Rightarrow> TileTone" where
  "warn_over limit x = (if jlt (mk limit) x then Tile_Warn else Tile_Neutral)"

definition KeyMetrics :: "FinOpsSnapshot \<Rightarrow> html" where
  "KeyMetrics d =
     (let t = fs_totals d
      in el ''section'' [leaf ''h2'' (lit ''Key numbers''), leaf ''p'' (lit ''The headline of your fleet, derived from the queries below.''),
        el ''div''
         [Tile (lit ''Active machines'') (format_int (ft_configuredMachines t)) (Some (lit ''serving workloads (Configured)'')) Tile_Neutral,
          Tile (lit ''Idle headroom'') (format_int (ft_idleMachines t))
            (if jlt (Fin 0) (fleet_total t) then Some (formatPercent (Some (idle_frac t)) 0 @ (lit '' of fleet'')) else None) Tile_Neutral,
          Tile (lit ''Workload demand'') (format_int (ft_demandMachines t)) (Some (lit ''machines worth of unfulfilled or running requests''))
            (if jlt (fleet_total t) (ft_demandMachines t) then Tile_Danger else Tile_Neutral),
          Tile (lit ''Spot share'') (formatPercent (Some (ft_spotConfiguredFraction t)) 1) (Some (lit ''of active capacity is interruptible''))
            (warn_over (1 / 2) (ft_spotConfiguredFraction t)),
          Tile (lit ''Pinned share'') (formatPercent (Some (ft_pinnedConfiguredFraction t)) 1) (Some (lit ''never-interrupt workloads''))
            (warn_over (1 / 20) (ft_pinnedConfiguredFraction t))]])"

subsection \<open>Capacity mix\<close>

fun index_of :: "'a list \<Rightarrow> 'a \<Rightarrow> nat" where
  "index_of [] x = 0"
| "index_of (y # ys) x = (if y = x then 0 else Suc (index_of ys x))"

definition mix_colour :: "FinOpsSnapshot \<Rightarrow> jsstr \<Rightarrow> jsstr" where
  "mix_colour d ct = colourFor capacityTypeColours ct (index_of (fs_capacityTypes d) ct)"

definition mix_segments :: "FinOpsSnapshot \<Rightarrow> (MixRow \<Rightarrow> jsnum) \<Rightarrow> Segment list" where
  "mix_segments d part =
     map (\<lambda>r. \<lparr>g_label = mx_ct r, g_value = part r, g_colour = mix_colour d (mx_ct r)\<rparr>)
       (filter (\<lambda>r. jlt (Fin 0) (part r)) (mix_rows d))"

definition capacityTypeDescription :: "jsstr \<Rightarrow> jsstr" where
  "capacityTypeDescription ct =
     (if ct = (lit ''BareMetal'') then (lit ''Fixed inventory. Free at the margin '' @ [0x2014] @ lit '' already paid for.'')
      else if ct = (lit ''Reserved'') then (lit ''Committed cloud capacity. Discounted, never interrupted.'')
      else if ct = (lit ''OnDemand'') then (lit ''Pay-per-hour cloud. No commitment, no interruption.'')
      else if ct = (lit ''Spot'') then (lit ''Cheapest cloud tier. Can be reclaimed with short notice.'')
      else (lit ''Custom provider tier.''))"

definition tier_card :: "FinOpsSnapshot \<Rightarrow> jsstr \<Rightarrow> html" where
  "tier_card d ct =
     (let r = find (\<lambda>x. mx_ct x = ct) (mix_rows d);
          conf = (case r of None \<Rightarrow> Fin 0 | Some x \<Rightarrow> mx_configured x);
          idle = (case r of None \<Rightarrow> Fin 0 | Some x \<Rightarrow> mx_idle x)
      in el ''div''
        [el ''div'' [E ''span'' [(''backgroundColor'', case map_of capacityTypeColours ct of Some c \<Rightarrow> c | None \<Rightarrow> (lit ''#888''))] [],
           leaf ''span'' ct],
         leaf ''div'' (format_int (jadd conf idle)),
         leaf ''div'' (format_int conf @ (lit '' active '' @ [0xB7] @ lit '' '') @ format_int idle @ (lit '' idle'')),
         leaf ''p'' (capacityTypeDescription ct)])"

definition CapacityMixSection :: "FinOpsSnapshot \<Rightarrow> html" where
  "CapacityMixSection d =
     fin_section (lit ''Capacity mix'')
       (lit ''Which provisioning tiers your money is on. BigFleet treats all four tiers as a single''
    @ lit '' pool and prices them by '' @ [0x60] @ lit ''effective_cost'' @ [0x60] @ lit ''; you choose the mix by what you let your''
    @ lit '' providers offer.'')
       (Some (lit ''sum by (capacity_type) (bigfleet_shard_inventory_machines{state=~'' @ [0x22] @ lit ''Configured|Idle'' @ [0x22] @ lit ''})''))
       [el ''div''
         [el ''div'' [leaf ''div'' (lit ''Active (Configured)''), StackedBar (mix_segments d mx_configured) None (Some format_int)],
          el ''div'' [leaf ''div'' (lit ''Idle headroom''), StackedBar (mix_segments d mx_idle) None (Some format_int)]],
        el ''div'' (map (tier_card d) [(lit ''BareMetal''), (lit ''Reserved''), (lit ''OnDemand''), (lit ''Spot'')]),
        Interpretation (lit ''What to look for'')
         [(lit ''A fleet that's 100 % BareMetal or 100 % OnDemand is leaving cost on the table '' @ [0x2014] @ lit '' most''
    @ lit '' production fleets blend Reserved (predictable baseline) + OnDemand (burst) + Spot''
    @ lit '' (cheap-but-interruptible).''),
          (lit ''If Spot share is high but you also have lots of high-penalty workloads, the engine is''
    @ lit '' making the right call '' @ [0x2014] @ lit '' but reconcile this with the penalty matrix below to confirm the''
    @ lit '' high-penalty ones aren't on Spot.''),
          (lit ''Heavy Idle on one tier and Active on another suggests Phase 3's reclamation pressure is''
    @ lit '' dropping the wrong capacity first.'')]]"

subsection \<open>Penalty distribution\<close>

definition cell_value :: "FinOpsSnapshot \<Rightarrow> jsstr \<Rightarrow> jsstr \<Rightarrow> jsnum" where
  "cell_value d ct b = (case map_of (fs_configured d) ct of None \<Rightarrow> Fin 0 | Some row \<Rightarrow> count_of row b)"

definition max_step :: "jsnum \<Rightarrow> jsnum \<Rightarrow> jsnum" where
  "max_step m v = (if jlt m v then v else m)"

definition matrix_max :: "FinOpsSnapshot \<Rightarrow> jsnum" where
  "matrix_max d = foldl (\<lambda>m ct. foldl (\<lambda>m b. max_step m (cell_value d ct b)) m (fs_buckets d)) (Fin 0) (fs_capacityTypes d)"

definition total_configured :: "FinOpsSnapshot \<Rightarrow> jsnum" where
  "total_configured d = num_sum (map snd (fs_configuredByBucket d))"

definition sorted_buckets :: "FinOpsSnapshot \<Rightarrow> (jsstr \<times> jsnum) list" where
  "sorted_buckets d = js_sort (cmp_desc snd) (filter (\<lambda>e. jlt (Fin 0) (snd e)) (fs_configuredByBucket d))"

definition is_high_penalty :: "jsstr \<Rightarrow> bool" where
  "is_high_penalty b \<longleftrightarrow> b = (lit ''pinned'') \<or> is_fin (to_number b) \<and> jle (Fin 1024) (to_number b)"

definition high_penalty :: "FinOpsSnapshot \<Rightarrow> jsnum" where
  "high_penalty d = num_sum (map snd (filter (\<lambda>e. is_high_penalty (fst e)) (sorted_buckets d)))"

definition high_penalty_frac :: "FinOpsSnapshot \<Rightarrow> jsnum" where
  "high_penalty_frac d = (if jlt (Fin 0) (total_configured d) then jdiv (high_penalty d) (total_configured d) else Fin 0)"

definition intensity :: "jsnum \<Rightarrow> jsnum \<Rightarrow> jsnum" where
  "intensity v m = (if jlt (Fin 0) m then jmin (Fin 1) (jdiv v m) else Fin 0)"

definition flagged_opacity :: "jsnum \<Rightarrow> jsnum \<Rightarrow> jsnum" where
  "flagged_opacity v m = jadd (Fin (1 / 4)) (jmul (intensity v m) (mk (3 / 5)))"

definition plain_opacity :: "jsnum \<Rightarrow> jsnum \<Rightarrow> jsnum" where
  "plain_opacity v m = jadd (mk (2 / 25)) (jmul (intensity v m) (mk (13 / 20)))"

definition MatrixCell :: "jsnum \<Rightarrow> jsnum \<Rightarrow> bool \<Rightarrow> html" where
  "MatrixCell v m flagged =
     (if flagged then
        E ''td'' [(''backgroundColor'', (lit ''rgba(220, 38, 38, '') @ to_fixed (flagged_opacity v m) 3 @ (lit '')'')),
            (''title'', (lit ''Pinned-penalty workloads on Spot capacity '' @ [0x2014] @ lit '' Phase 1 misallocation''))] [T (format_int v)]
      else if jeq v (Fin 0) then leaf ''td'' [0xB7]
      else E ''td'' [(''backgroundColor'', (lit ''rgba(59, 130, 246, '') @ to_fixed (plain_opacity v m) 3 @ (lit '')''))] [T (format_int v)])"

definition cell_flagged :: "FinOpsSnapshot \<Rightarrow> jsstr \<Rightarrow> jsstr \<Rightarrow> bool" where
  "cell_flagged d ct b \<longleftrightarrow> ct = (lit ''Spot'') \<and> b = (lit ''pinned'') \<and> jlt (Fin 0) (cell_value d ct b)"

definition penalty_matrix :: "FinOpsSnapshot \<Rightarrow> html" where
  "penalty_matrix d =
     el ''table''
      [el ''thead'' [el ''tr'' (leaf ''th'' (lit ''capacity_type '' @ [0x5C] @ [0x5C] @ lit '' bucket'') # map (\<lambda>b. leaf ''th'' (formatPenaltyBucket b)) (fs_buckets d))],
       el ''tbody''
        (map (\<lambda>ct. el ''tr'' (leaf ''th'' ct # map (\<lambda>b. MatrixCell (cell_value d ct b) (matrix_max d) (cell_flagged d ct b)) (fs_buckets d)))
           (fs_capacityTypes d)
         @ [el ''tr'' (leaf ''th'' (lit ''demand'') # map (\<lambda>b. leaf ''td''
              (if jlt (Fin 0) (count_of (fs_demand d) b) then format_int (count_of (fs_demand d) b) else [])) (fs_buckets d))])]"

definition PenaltyDistributionSection :: "FinOpsSnapshot \<Rightarrow> html" where
  "PenaltyDistributionSection d =
     fin_section (lit ''Penalty distribution'')
       (lit ''Each workload declares an interruption penalty (in dollars). The engine quantises that''
    @ lit '' to a power-of-2 bucket from $0.50 to $8.4M, plus a '' @ [0x60] @ lit ''pinned'' @ [0x60] @ lit '' sentinel for''
    @ lit '' never-interrupt jobs. The matrix below maps capacity-type '' @ [0xD7] @ lit '' penalty-bucket of your''
    @ lit '' Configured inventory '' @ [0x2014] @ lit '' where high-penalty rows land tells you whether the engine routed''
    @ lit '' them away from interruptible capacity.'')
       (Some (lit ''sum by (capacity_type, interruption_penalty_bucket)''
    @ lit '' (bigfleet_shard_inventory_machines{state='' @ [0x22] @ lit ''Configured'' @ [0x22] @ lit ''})''))
       [el ''div''
         [(case sorted_buckets d of [] \<Rightarrow> Tile (lit ''Top bucket'') em_dash None Tile_Neutral
           | (b, v) # _ \<Rightarrow> Tile (lit ''Top bucket'') (formatPenaltyBucket b) (Some (format_int v @ (lit '' machines''))) Tile_Neutral),
          Tile (lit ''High-penalty share ('' @ [0x2265] @ lit ''$1K)'') (formatPercent (Some (high_penalty_frac d)) 0)
            (Some (format_int (high_penalty d) @ (lit '' of '') @ format_int (total_configured d) @ (lit '' configured''))) Tile_Neutral,
          Tile (lit ''Pinned machines'') (format_int (count_of (fs_configuredByBucket d) (lit ''pinned''))) (Some (lit ''held by never-interrupt workloads'')) Tile_Neutral],
        el ''div'' [penalty_matrix d],
        Interpretation (lit ''How to read this'')
         [(lit ''Each cell is a count of machines. Darker blue = higher count within the matrix. Read''
    @ lit '' across a row to see how one capacity tier is split across penalty levels; read down a''
    @ lit '' column to see how one penalty bucket is split across tiers.''),
          (lit ''The bottom 'demand' row is independent: it's what the workloads are currently asking''
    @ lit '' for, before any allocation.''),
          (lit ''Red border on Spot '' @ [0xD7] @ lit '' Pinned is the canonical red flag '' @ [0x2014] @ lit '' Phase 1 should never put a''
    @ lit '' Pinned workload on Spot. If you see it, check the provider's '' @ [0x60] @ lit ''interruption_probability'' @ [0x60]
    @ lit '' and the operator's PriorityClass '' @ [0x2192] @ lit '' penalty mapping.''),
          (lit ''Empty cells render as '' @ [0x60] @ [0xB7] @ [0x60] @ lit ''. An entirely empty column means no workloads are currently in''
    @ lit '' that penalty band.'')]]"

subsection \<open>Demand against supply\<close>

record SupplyRow =
  dr_bucket :: jsstr
  dr_demand :: jsnum
  dr_supply :: jsnum

definition supply_rows :: "FinOpsSnapshot \<Rightarrow> SupplyRow list" where
  "supply_rows d =
     filter (\<lambda>r. jlt (Fin 0) (dr_demand r) \<or> jlt (Fin 0) (dr_supply r))
       (map (\<lambda>b. \<lparr>dr_bucket = b, dr_demand = count_of (fs_demand d) b, dr_supply = count_of (fs_configuredByBucket d) b\<rparr>) (fs_buckets d))"

definition supply_max :: "SupplyRow list \<Rightarrow> jsnum" where
  "supply_max rows = foldl jmax (Fin 1) (concat (map (\<lambda>r. [dr_demand r, dr_supply r]) rows))"

definition row_short :: "SupplyRow \<Rightarrow> bool" where
  "row_short r \<longleftrightarrow> jlt (dr_supply r) (dr_demand r)"

definition row_over :: "SupplyRow \<Rightarrow> bool" where
  "row_over r \<longleftrightarrow> jlt (jmul (dr_demand r) (Fin 2)) (dr_supply r) \<and> jlt (Fin 0) (dr_demand r)"

definition row_gap :: "SupplyRow \<Rightarrow> jsnum" where
  "row_gap r = jsub (dr_supply r) (dr_demand r)"

datatype GapTone = Gap_Red | Gap_Amber | Gap_Plain

definition gap_tone :: "SupplyRow \<Rightarrow> GapTone" where
  "gap_tone r =
     (if jlt (row_gap r) (Fin 0) then Gap_Red
      else if jlt (jmul (dr_demand r) (Fin 2)) (row_gap r) then Gap_Amber else Gap_Plain)"

fun gap_class :: "GapTone \<Rightarrow> jsstr" where
  "gap_class Gap_Red = (lit ''text-red-600 dark:text-red-400'')"
| "gap_class Gap_Amber = (lit ''text-amber-600 dark:text-amber-400'')"
| "gap_class Gap_Plain = (lit ''text-[var(--text-subtle)]'')"

definition gap_text :: "jsnum \<Rightarrow> jsstr" where
  "gap_text g = (if jeq g (Fin 0) then [] else (if jlt (Fin 0) g then (lit ''+'') else []) @ format_int g)"

definition bar_pct :: "jsnum \<Rightarrow> jsnum \<Rightarrow> jsnum" where
  "bar_pct v m = (if jlt (Fin 0) m then jmax (Fin 2) (jmul (jdiv v m) (Fin 100)) else Fin 0)"

definition Bar :: "jsnum \<Rightarrow> jsnum \<Rightarrow> jsstr \<Rightarrow> jsstr \<Rightarrow> html" where
  "Bar v m colour label =
     el ''div'' [el ''div'' [E ''div'' [(''width'', percent (bar_pct v m)), (''backgroundColor'', colour), (''title'', label)] []]]"

definition supply_row :: "jsnum \<Rightarrow> SupplyRow \<Rightarrow> html" where
  "supply_row m r =
     el ''div''
      [leaf ''div'' (formatPenaltyBucket (dr_bucket r)),
       el ''div'' [Bar (dr_demand r) m (lit ''#f59e0b'') ((lit ''demand '') @ format_int (dr_demand r)),
         Bar (dr_supply r) m (lit ''#3b82f6'') ((lit ''supply '') @ format_int (dr_supply r))],
       E ''div'' [(''class'', gap_class (gap_tone r))] [T (gap_text (row_gap r))]]"

definition bucket_list :: "SupplyRow list \<Rightarrow> jsstr" where
  "bucket_list rows =
     (if rows \<noteq> [] then (lit ''Today: '') @ join (lit '', '') (map (\<lambda>r. formatPenaltyBucket (dr_bucket r)) rows) @ (lit ''.'') else (lit ''None right now.''))"

definition DemandVsSupplySection :: "FinOpsSnapshot \<Rightarrow> html" where
  "DemandVsSupplySection d =
     (let rows = supply_rows d; m = supply_max rows
      in fin_section (lit ''Demand vs supply by penalty bucket'')
       (lit ''Per penalty bracket, amber is what's being asked for, blue is what's actually''
    @ lit '' configured. The right-hand number is the signed gap (supply '' @ [0x2212] @ lit '' demand). This is the''
    @ lit '' closest the dashboard gets to answering 'are we paying for the right thing?' '' @ [0x2014] @ lit '' recall''
    @ lit '' from the explainer above that bigger buckets are workloads that have asked Phase 1 to''
    @ lit '' keep them off interruptible tiers, so under-supply at a high bucket is more expensive''
    @ lit '' to ignore than under-supply at $0.'')
       (Some (lit ''Demand: sum by (interruption_penalty_bucket) (bigfleet_shard_demand_machines) '' @ [0xB7] @ lit '' Supply:''
    @ lit '' sum by (interruption_penalty_bucket)''
    @ lit '' (bigfleet_shard_inventory_machines{state='' @ [0x22] @ lit ''Configured'' @ [0x22] @ lit ''})''))
       [if rows = [] then leaf ''div'' (lit ''no demand or configured supply'')
        else el ''div''
          (el ''div'' [leaf ''div'' (lit ''Bucket''),
             el ''div'' [el ''span'' [E ''span'' [(''backgroundColor'', (lit ''#f59e0b''))] [], T (lit ''demand'')],
               el ''span'' [E ''span'' [(''backgroundColor'', (lit ''#3b82f6''))] [], T (lit ''supply'')]],
             leaf ''div'' (lit ''Gap'')]
           # map (supply_row m) rows),
        Interpretation (lit ''How to read this'')
         [(lit ''Red gap (supply < demand) means BigFleet is currently short on that bucket. '') @ bucket_list (filter row_short rows),
          (lit ''Amber gap (supply '' @ [0x226B] @ lit '' demand) means you're holding more than you currently need at that''
    @ lit '' bucket '' @ [0x2014] @ lit '' fine for headroom, but watch for sustained over-provisioning. '') @ bucket_list (filter row_over rows),
          (lit ''Steady-state aim: supply tracks demand at every active bucket, with a small positive''
    @ lit '' idle cushion.'')]])"

subsection \<open>Decision engine\<close>

definition action_rate :: "FinOpsSnapshot \<Rightarrow> jsstr \<Rightarrow> jsnum" where
  "action_rate d k = (case get_opt (fs_actionRatesPerSec d) k of None \<Rightarrow> Fin 0 | Some v \<Rightarrow> v)"

definition DecisionEngineSection :: "FinOpsSnapshot \<Rightarrow> html" where
  "DecisionEngineSection d =
     (let reclaim = action_rate d (lit ''Reclaim''); preempt = action_rate d (lit ''Preempt'')
      in fin_section (lit ''Decision-engine activity'')
       (lit ''The shard runs four kinds of action every cycle. Sustained Bootstrap / Provision =''
    @ lit '' workloads are arriving; sustained Reclaim / Preempt = the cost-policy is fighting the''
    @ lit '' workload mix and you're paying for it.'')
       (Some (lit ''sum by (kind) (rate(bigfleet_shard_actions_total[5m]))''))
       [el ''div''
         [Tile (lit ''Bootstrap'') (formatRate (Some (action_rate d (lit ''Bootstrap'')))) (Some (lit ''bind workload to existing machine'')) Tile_Neutral,
          Tile (lit ''Provision'') (formatRate (Some (action_rate d (lit ''Provision'')))) (Some (lit ''ask provider for a new machine'')) Tile_Neutral,
          Tile (lit ''Reclaim'') (formatRate (Some reclaim)) (Some (lit ''release a Configured machine'')) (warn_over 1 reclaim),
          Tile (lit ''Preempt'') (formatRate (Some preempt)) (Some (lit ''evict a low-priority workload to make room'')) (warn_over (1 / 10) preempt)],
        Interpretation (lit ''What rates mean for cost'')
         [(lit ''Bootstrap and Provision are normal '' @ [0x2014] @ lit '' every new pod that triggers a CR produces at least''
    @ lit '' a Bootstrap. Cost is amortised over the workload's lifetime.''),
          (lit ''Reclaim is the engine returning excess inventory. Healthy in trickles; a sustained high''
    @ lit '' rate means you're churning machines you just paid to provision, which eats the''
    @ lit '' amortisation. >1/s is the warn threshold for laptop-scale demos; production fleets''
    @ lit '' should be much closer to zero in steady state.''),
          (lit ''Preempt eats real money: an in-flight workload was killed mid-run. >0.1/s is suspicious.''
    @ lit '' Usually means workload priorities are mis-set so high-priority demand is bumping things''
    @ lit '' that probably could have run on cheaper capacity.'')]])"

subsection \<open>Glossary\<close>

definition GLOSSARY :: "(jsstr \<times> jsstr) list" where
  "GLOSSARY =
     [((lit ''Configured''), (lit ''Machine has joined a cluster and is running workloads. The state you pay for.'')),
      ((lit ''Idle''), (lit ''Machine is provisioned and real, but not joined to any cluster. Held as headroom.'')),
      ((lit ''Speculative''), (lit ''Quota slot. No real hardware yet '' @ [0x2014] @ lit '' the provider can create one on demand.'')),
      ((lit ''Demand''), (lit ''Aggregate workload-machine equivalent that operators have asked for via the roll-up.'')),
      ((lit ''Capacity type''), (lit ''Provisioning tier of a machine: BareMetal, Reserved, OnDemand, or Spot. Drives '' @ [0x60] @ lit ''price'' @ [0x60]
    @ lit '' in the cost formula.'')),
      ((lit ''Interruption penalty''), (lit ''Dollar cost a workload declares for being interrupted. Quantised to powers of 2 ($0.50 '' @ [0x2192]
    @ lit '' $8.4M, plus '' @ [0x60] @ lit ''pinned'' @ [0x60] @ lit '').'')),
      ((lit ''Penalty bucket''), (lit ''The quantised dollar bracket. Stable label values keep cross-cluster aggregation''
    @ lit '' cardinality bounded.'')),
      ((lit ''Pinned''), (lit ''Sentinel penalty bucket. Phase 1 will never run a Pinned workload on interruptible''
    @ lit '' capacity.'')),
      ((lit ''Reclamation penalty''), (lit ''Dollar cost tied to a *specific machine* (long-running state, accumulated cache).''
    @ lit '' Distinct from interruption penalty.'')),
      ((lit ''Effective cost''), ([0x60] @ lit ''price + interruption_probability '' @ [0xD7] @ lit '' interruption_penalty'' @ [0x60] @ lit ''. The single number Phase 1''
    @ lit '' minimises.'')),
      ((lit ''Phase 1 / 2 / 3''), (lit ''Per-cycle decision phases: assign idle / preempt inversions / reclaim excess.'')),
      ((lit ''Bootstrap''), (lit ''Action: bind a workload to an existing machine.'')),
      ((lit ''Provision''), (lit ''Action: ask the provider for a new machine.'')),
      ((lit ''Reclaim''), (lit ''Action: take a Configured machine back to Idle.'')),
      ((lit ''Preempt''), (lit ''Action: evict a low-priority workload to make room for a higher-priority one.'')),
      ((lit ''Shortfall''), (lit ''Demand the shard couldn't satisfy this cycle. Aged and escalated if not cleared.''))]"

definition Glossary :: "bool \<Rightarrow> html" where
  "Glossary opened =
     el ''section''
      (el ''button'' [leaf ''span'' (lit ''Glossary''), leaf ''span'' (if opened then [0x2212] else (lit ''+''))]
       # show_if opened [el ''dl'' (map (\<lambda>(term, body). el ''div'' [leaf ''dt'' term, leaf ''dd'' body]) GLOSSARY)])"

subsection \<open>The page\<close>

definition fin_body :: "bool \<Rightarrow> FinOpsSnapshot \<Rightarrow> html" where
  "fin_body glossaryOpen d =
     el ''div''
      (show_if (entries (fs_redFlags d) \<noteq> []) [RedFlags (entries (fs_redFlags d))]
       @ [Lede, PenaltyBucketExplainer, PostureSummary d, KeyMetrics d, CapacityMixSection d, PenaltyDistributionSection d,
          DemandVsSupplySection d, DecisionEngineSection d, Glossary glossaryOpen])"

definition FinOps :: "bool \<Rightarrow> ClientConfig query \<Rightarrow> FinOpsSnapshot query \<Rightarrow> html list" where
  "FinOps glossaryOpen cfg snap =
     (let isWired = wired cc_prometheusWired cfg
      in [PageHeader [T (lit ''FinOps'')]
           (Some (lit ''Where your money is going across the BigFleet inventory: cost mix, penalty distribution,''
    @ lit '' demand-vs-supply, decision-engine activity.'')) []]
        @ show_if (\<not> q_loading cfg \<and> \<not> isWired) [Prometheus_Unwired]
        @ show_if (isWired \<and> q_error snap \<noteq> None) [ErrorBox (the (q_error snap))]
        @ show_if (isWired \<and> q_error snap = None \<and> q_data snap \<noteq> None) [fin_body glossaryOpen (the (q_data snap))]
        @ show_if (isWired \<and> q_error snap = None \<and> q_data snap = None) [leaf ''div'' (lit ''Loading'' @ [0x2026])])"

end
