(* ===== verification/Fin_Facts.thy ===== *)
theory Fin_Facts
  imports Fin_Ops Parts_Facts
begin

text \<open>
  What the FinOps page guarantees for snapshots whose counts are whole numbers: the
  high-penalty share is the exact share up to one rounding, the shade of a matrix cell is
  its affine function of the share up to \<open>2 ^ -50\<close> and grows with the count, and which gaps are red, amber or listed.
\<close>

subsection \<open>The high-penalty share\<close>

lemma num_sum_whole:
  assumes "\<forall>x \<in> set xs. whole x" "(\<Sum>x \<leftarrow> xs. val x) \<le> 2 ^ 53"
  shows "num_sum xs = Fin (\<Sum>x \<leftarrow> xs. val x)"
  using sum_counts[of xs 0] assms by (simp add: num_sum_def)

lemma sum_list_perm: "mset xs = mset ys \<Longrightarrow> (\<Sum>x \<leftarrow> xs. f x) = (\<Sum>x \<leftarrow> ys. f x)" for f :: "'a \<Rightarrow> rat"
  by (metis mset_map sum_mset_sum_list)

definition high_sum :: "FinOpsSnapshot \<Rightarrow> rat" where
  "high_sum d = (\<Sum>e \<leftarrow> filter (\<lambda>e. is_high_penalty (fst e)) (fs_configuredByBucket d). val (snd e))"

definition bucket_sum :: "FinOpsSnapshot \<Rightarrow> rat" where
  "bucket_sum d = (\<Sum>e \<leftarrow> fs_configuredByBucket d. val (snd e))"

lemma sum_filter_le:
  assumes "\<forall>e \<in> set es. 0 \<le> val (snd e)"
  shows "0 \<le> (\<Sum>e \<leftarrow> filter P es. val (snd e)) \<and> (\<Sum>e \<leftarrow> filter P es. val (snd e)) \<le> (\<Sum>e \<leftarrow> es. val (snd e))"
  using assms by (induction es) auto

lemma sum_filter_positive:
  assumes "\<forall>e \<in> set es. whole (snd e)"
  shows "(\<Sum>e \<leftarrow> filter P (filter (\<lambda>e. jlt (Fin 0) (snd e)) es). val (snd e)) = (\<Sum>e \<leftarrow> filter P es. val (snd e))"
  using assms
proof (induction es)
  case (Cons e es)
  then have g: "is_fin (snd e)" "0 \<le> val (snd e)" by simp_all
  show ?case
  proof (cases "0 < val (snd e)")
    case False
    then have "val (snd e) = 0" using g(2) by linarith
    with Cons g(1) show ?thesis by (simp add: jlt_fin)
  qed (use Cons g(1) in \<open>simp add: jlt_fin\<close>)
qed simp

lemma high_penalty_exact:
  assumes "\<forall>e \<in> set (fs_configuredByBucket d). whole (snd e)" "bucket_sum d \<le> 2 ^ 53"
  shows "high_penalty d = Fin (high_sum d)" "total_configured d = Fin (bucket_sum d)"
    "0 \<le> high_sum d" "high_sum d \<le> bucket_sum d"
proof -
  let ?es = "filter (\<lambda>e. is_high_penalty (fst e)) (sorted_buckets d)"
  have h: "0 \<le> high_sum d \<and> high_sum d \<le> bucket_sum d"
    unfolding high_sum_def bucket_sum_def using assms(1) by (intro sum_filter_le) auto
  then show "0 \<le> high_sum d" "high_sum d \<le> bucket_sum d" by blast+
  have "mset ?es = mset (filter (\<lambda>e. is_high_penalty (fst e)) (filter (\<lambda>e. jlt (Fin 0) (snd e)) (fs_configuredByBucket d)))"
    by (simp only: mset_filter sorted_buckets_def js_sort_facts)
  from sum_list_perm[OF this, of "\<lambda>e. val (snd e)"] have s: "(\<Sum>e \<leftarrow> ?es. val (snd e)) = high_sum d"
    unfolding high_sum_def sum_filter_positive[OF assms(1)] .
  have "num_sum (map snd ?es) = Fin (\<Sum>x \<leftarrow> map snd ?es. val x)"
    using assms h s by (intro num_sum_whole) (auto simp: sorted_buckets_def comp_def)
  then show "high_penalty d = Fin (high_sum d)" using s by (simp add: high_penalty_def comp_def)
  show "total_configured d = Fin (bucket_sum d)"
    using assms num_sum_whole[of "map snd (fs_configuredByBucket d)"]
    by (auto simp: total_configured_def bucket_sum_def comp_def)
qed

lemma sum_ints: "\<forall>e \<in> set es. whole (snd e) \<Longrightarrow> (\<Sum>e \<leftarrow> es. val (snd e)) \<in> \<int>"
  by (induction es) (auto simp: whole_def intro!: Ints_add)

lemma high_sum_int: "\<forall>e \<in> set (fs_configuredByBucket d). whole (snd e) \<Longrightarrow> high_sum d \<in> \<int>"
  unfolding high_sum_def by (rule sum_ints) auto

text \<open>
C14: For whole counts that add up to at most 2^53 the high-penalty share is between 0 and 1 and
  equals the machines at or above 1024 dollars, or pinned, over all configured ones up to the
  rounding of one division.
\<close>

theorem high_penalty_share:
  assumes "\<forall>e \<in> set (fs_configuredByBucket d). whole (snd e)" "bucket_sum d \<le> 2 ^ 53"
  shows "is_fin (high_penalty_frac d) \<and> 0 \<le> val (high_penalty_frac d) \<and> val (high_penalty_frac d) \<le> 1
    \<and> val (high_penalty_frac d) * bucket_sum d \<le> high_sum d * (1 + 1 / 2 ^ 53)
    \<and> high_sum d * (1 - 1 / 2 ^ 53) \<le> val (high_penalty_frac d) * bucket_sum d"
proof (cases "0 < bucket_sum d")
  case False
  note e = high_penalty_exact[OF assms]
  with False have "high_sum d = 0" "bucket_sum d = 0" by linarith+
  then show ?thesis by (simp add: high_penalty_frac_def e jlt_def)
next
  case True
  note e = high_penalty_exact[OF assms]
  let ?q = "high_sum d / bucket_sum d"
  have q: "0 \<le> ?q" "?q \<le> 1" using e True by simp_all
  have f: "high_penalty_frac d = jdiv (Fin (high_sum d)) (Fin (bucket_sum d))" using True by (simp add: high_penalty_frac_def e jlt_def)
  have b: "\<bar>fl ?q\<bar> < 2 ^ 1024" by (rule fl_between_abs[OF q]) simp_all
  have v: "is_fin (high_penalty_frac d)" "val (high_penalty_frac d) = fl ?q"
    unfolding f using jdiv_val[of "Fin (high_sum d)" "Fin (bucket_sum d)"] True b by simp_all
  have u: "0 \<le> fl ?q" "fl ?q \<le> 1" using fl_between[OF q] by simp_all
  have err: "\<bar>fl ?q - ?q\<bar> \<le> ?q / 2 ^ 53"
  proof (cases "high_sum d = 0")
    case False
    obtain k where "high_sum d = of_int k" using high_sum_int[OF assms(1)] by (elim Ints_cases)
    then have "1 \<le> high_sum d" using e(3) False by (simp add: order_less_le)
    then have "1 / 2 ^ 53 \<le> ?q" using assms(2) True by (intro frac_le) simp_all
    moreover have "(2::rat) powi (- 1000) \<le> 2 powi (- 53)" by (rule power_int_increasing) simp_all
    then have "(2::rat) powi (- 1000) \<le> 1 / 2 ^ 53" by (simp only: power_int_minus power_int_numeral inverse_eq_divide)
    ultimately show ?thesis by (intro fl_rel_error) linarith
  qed simp
  have B: "0 \<le> bucket_sum d" "?q * bucket_sum d = high_sum d" using True by simp_all
  have "fl ?q \<le> ?q * (1 + 1 / 2 ^ 53)" "?q * (1 - 1 / 2 ^ 53) \<le> fl ?q"
    using abs_le_D1[OF err] abs_le_D2[OF err] by (simp_all only: distrib_left right_diff_distrib mult_1_right times_divide_eq_right)
  note m = this[THEN mult_right_mono, OF B(1)]
  have c: "?q * c * bucket_sum d = high_sum d * c" for c using B(2) by (metis mult.assoc mult.commute)
  from m u show ?thesis unfolding c v(2) using v(1) by blast
qed

definition sample_snapshot :: FinOpsSnapshot where
  "sample_snapshot =
     \<lparr>fs_totals = \<lparr>ft_configuredMachines = Fin 3, ft_idleMachines = Fin 1, ft_demandMachines = Fin 4,
        ft_spotConfiguredFraction = Fin 0, ft_pinnedConfiguredFraction = Fin 0\<rparr>,
      fs_capacityTypes = [(lit ''Reserved'')], fs_buckets = [(lit ''0''), (lit ''pinned'')],
      fs_configuredByCapacityType = [((lit ''Reserved''), Fin 3)], fs_idleByCapacityType = [((lit ''Reserved''), Fin 1)],
      fs_configured = [((lit ''Reserved''), [((lit ''0''), Fin 1), ((lit ''pinned''), Fin 2)])],
      fs_configuredByBucket = [((lit ''0''), Fin 1), ((lit ''pinned''), Fin 2)], fs_demand = [((lit ''0''), Fin 0), ((lit ''pinned''), Fin 4)],
      fs_actionRatesPerSec = None, fs_redFlags = None, fs_queriedAt = []\<rparr>"

lemma high_penalty_share_witness: "val (high_penalty_frac sample_snapshot) \<le> 1"
proof -
  have 1: "\<forall>e \<in> set (fs_configuredByBucket sample_snapshot). whole (snd e)" by (simp add: sample_snapshot_def)
  have 2: "bucket_sum sample_snapshot \<le> 2 ^ 53" by (simp add: bucket_sum_def sample_snapshot_def)
  from high_penalty_share[OF 1 2] show ?thesis by blast
qed

subsection \<open>The shades of the matrix\<close>

definition shown_count :: "jsnum \<Rightarrow> bool" where
  "shown_count x \<longleftrightarrow> is_fin x \<and> 0 \<le> val x"

lemma max_fold:
  assumes "shown_count m" "\<forall>v \<in> set vs. shown_count v"
  shows "shown_count (foldl max_step m vs) \<and> (\<forall>v \<in> insert m (set vs). val v \<le> val (foldl max_step m vs))"
  using assms
proof (induction vs arbitrary: m)
  case (Cons v vs)
  have s: "shown_count (max_step m v)" using Cons.prems by (simp add: max_step_def)
  have le: "val m \<le> val (max_step m v)" "val v \<le> val (max_step m v)"
    using Cons.prems by (auto simp: max_step_def shown_count_def jlt_fin)
  from Cons.IH[OF s] Cons.prems(2) le show ?case by fastforce
qed simp

lemma foldl_rows: "foldl (\<lambda>m ct. foldl (\<lambda>m b. f m (g ct b)) m bs) m cts = foldl f m (concat (map (\<lambda>ct. map (g ct) bs) cts))"
proof (induction cts arbitrary: m)
  case (Cons ct cts)
  have "foldl (\<lambda>m b. f m (g ct b)) m bs = foldl f m (map (g ct) bs)" by (simp add: foldl_map)
  with Cons show ?case by simp
qed simp

lemma matrix_max_facts:
  assumes "\<forall>ct \<in> set (fs_capacityTypes d). \<forall>b \<in> set (fs_buckets d). shown_count (cell_value d ct b)"
  shows "shown_count (matrix_max d)"
    "ct \<in> set (fs_capacityTypes d) \<Longrightarrow> b \<in> set (fs_buckets d) \<Longrightarrow> val (cell_value d ct b) \<le> val (matrix_max d)"
proof -
  let ?vs = "concat (map (\<lambda>ct. map (cell_value d ct) (fs_buckets d)) (fs_capacityTypes d))"
  have e: "matrix_max d = foldl max_step (Fin 0) ?vs" unfolding matrix_max_def by (rule foldl_rows)
  have "\<forall>v \<in> set ?vs. shown_count v" using assms by auto
  note f = max_fold[OF _ this, of "Fin 0", folded e]
  have z: "shown_count (Fin 0)" by (simp add: shown_count_def)
  show "shown_count (matrix_max d)" using f[OF z] by blast
  show "val (cell_value d ct b) \<le> val (matrix_max d)" if "ct \<in> set (fs_capacityTypes d)" "b \<in> set (fs_buckets d)"
    using f[OF z] that by auto
qed

lemma intensity_val:
  assumes "shown_count v" "shown_count m" "val v \<le> val m"
  shows "is_fin (intensity v m)" "val (intensity v m) = (if val m = 0 then 0 else fl (val v / val m))"
    "0 \<le> val (intensity v m)" "val (intensity v m) \<le> 1"
proof -
  have f: "is_fin v" "is_fin m" "0 \<le> val v" "0 \<le> val m" using assms by (simp_all add: shown_count_def)
  have "is_fin (intensity v m) \<and> val (intensity v m) = (if val m = 0 then 0 else fl (val v / val m))
    \<and> 0 \<le> val (intensity v m) \<and> val (intensity v m) \<le> 1"
  proof (cases "val m = 0")
    case True
    with f show ?thesis by (simp add: intensity_def jlt_fin)
  next
    case False
    then have m: "0 < val m" using f by simp
    note r = ratio_unit[OF f(1,2,3) assms(3) m]
    have q: "0 \<le> val v / val m" "val v / val m \<le> 1" using f m assms(3) by simp_all
    have "\<bar>fl (val v / val m)\<bar> < 2 ^ 1024" by (rule fl_between_abs[OF q]) simp_all
    then have d: "val (jdiv v m) = fl (val v / val m)" using jdiv_val[of v m] f False by simp
    from jmin_fin[of "Fin 1" "jdiv v m"] r d False m f show ?thesis by (simp add: intensity_def jlt_fin)
  qed
  then show "is_fin (intensity v m)" "val (intensity v m) = (if val m = 0 then 0 else fl (val v / val m))"
    "0 \<le> val (intensity v m)" "val (intensity v m) \<le> 1" by blast+
qed

lemma intensity_mono:
  assumes "shown_count v" "shown_count w" "shown_count m" "val w \<le> val m" "val v \<le> val w"
  shows "val (intensity v m) \<le> val (intensity w m)"
proof -
  have "val v \<le> val m" using assms by simp
  note i = intensity_val(2)[OF assms(1,3) this] intensity_val(2)[OF assms(2-4)]
  have "0 \<le> val m" using assms by (simp add: shown_count_def)
  then have "val v / val m \<le> val w / val m" using assms(5) by (rule divide_right_mono[rotated])
  then show ?thesis unfolding i using fl_mono by simp
qed

text \<open>A shade: a base plus a rounded part of a width.\<close>

lemma shade:
  assumes "is_fin i" "0 \<le> val i" "val i \<le> 1" "is_fin base" "is_fin width" "0 \<le> val base" "val base \<le> 1" "0 \<le> val width" "val width \<le> 1"
    "dyadic53 (val width)"
  shows "val (jadd base (jmul i width)) = fl (val base + fl (val i * val width))"
proof -
  have p: "0 \<le> val i * val width" "val i * val width \<le> val width" using assms by (simp_all add: mult_left_le_one_le)
  have "\<bar>fl (val i * val width)\<bar> < 2 ^ 1024" by (rule fl_between_abs[OF p _ assms(10)]) (use assms in simp_all)
  note m = jmul_val[OF assms(1,5) this]
  have f: "0 \<le> fl (val i * val width)" "fl (val i * val width) \<le> val width" using fl_between[OF p _ assms(10)] by simp_all
  have s: "0 \<le> val base + fl (val i * val width)" "val base + fl (val i * val width) \<le> 2" using f assms by simp_all
  have "\<bar>fl (val base + fl (val i * val width))\<bar> < 2 ^ 1024" by (rule fl_between_abs[OF s]) simp_all
  then show "val (jadd base (jmul i width)) = fl (val base + fl (val i * val width))"
    using jadd_val[OF assms(4) m(1)] m(2) by simp_all
qed

lemma unit_error: "\<bar>x\<bar> \<le> 1 \<Longrightarrow> \<bar>fl x - x\<bar> \<le> 1 / 2 ^ 53"
  using fl_abs_error[of x 0] by (simp only: power_int_0_right power_int_minus power_int_numeral inverse_eq_divide diff_0 simp_thms)

lemma two_error: "\<bar>x\<bar> \<le> 2 \<Longrightarrow> \<bar>fl x - x\<bar> \<le> 1 / 2 ^ 52"
  using fl_abs_error[of x 1] by (simp add: power_int_minus_divide)

lemma fl_unit: "0 \<le> x \<Longrightarrow> x \<le> 1 \<Longrightarrow> 0 \<le> fl x \<and> fl x \<le> 1"
  using fl_between[of 0 x 1] by simp

text \<open>A quotient, a product and a sum are rounded, and so are the two constants.\<close>

lemma shade_error:
  assumes "0 \<le> q" "q \<le> 1" "0 \<le> B" "B \<le> 1" "0 \<le> W" "W \<le> 1"
  shows "\<bar>fl (fl B + fl (fl q * fl W)) - (B + W * q)\<bar> \<le> 1 / 2 ^ 50"
proof -
  define e where "e = (1 :: rat) / 2 ^ 53"
  note u = fl_unit[OF assms(1,2)] fl_unit[OF assms(3,4)] fl_unit[OF assms(5,6)]
  have p: "0 \<le> fl q * fl W" "fl q * fl W \<le> 1" using u by (simp_all add: mult_le_one)
  note up = fl_unit[OF p]
  have q: "\<bar>fl q - q\<bar> \<le> e" and B: "\<bar>fl B - B\<bar> \<le> e" and W: "\<bar>fl W - W\<bar> \<le> e" and P: "\<bar>fl (fl q * fl W) - fl q * fl W\<bar> \<le> e"
    using unit_error assms p by (simp_all add: e_def)
  have S: "\<bar>fl (fl B + fl (fl q * fl W)) - (fl B + fl (fl q * fl W))\<bar> \<le> 2 * e"
    using two_error[of "fl B + fl (fl q * fl W)"] u up by (simp add: e_def)
  have "fl q * fl W - W * q = fl q * (fl W - W) + (fl q - q) * W" by (simp add: algebra_simps)
  moreover have "\<bar>fl q * (fl W - W)\<bar> \<le> 1 * e" unfolding abs_mult using u W by (intro mult_mono) auto
  moreover have "\<bar>(fl q - q) * W\<bar> \<le> e * 1" unfolding abs_mult using q assms by (intro mult_mono) auto
  ultimately have "\<bar>fl q * fl W - W * q\<bar> \<le> 2 * e" by linarith
  with B P S have "\<bar>fl (fl B + fl (fl q * fl W)) - (B + W * q)\<bar> \<le> 6 * e" by linarith
  moreover have "6 * e \<le> 1 / 2 ^ 50" by (simp add: e_def)
  ultimately show ?thesis by linarith
qed

lemma shade_mono: "x \<le> y \<Longrightarrow> 0 \<le> width \<Longrightarrow> fl (base + fl (x * width)) \<le> fl (base + fl (y * width))"
  by (intro fl_mono add_left_mono mult_right_mono)

lemma shade_consts:
  "is_fin (mk (2 / 25))" "is_fin (mk (13 / 20))" "is_fin (mk (3 / 5))"
  "val (mk (2 / 25)) = fl (2 / 25)" "val (mk (13 / 20)) = fl (13 / 20)" "val (mk (3 / 5)) = fl (3 / 5)" "fl (1 / 4) = 1 / 4"
  by (simp_all add: mk_def number_eval)

text \<open>
C18: For cell counts that are finite and not negative, the opacity of an unflagged cell of the
  penalty matrix is 0.08 + 0.65 times its share of the largest cell and that of a flagged cell
  0.25 + 0.6 times it, within 2^-50, the share being between 0 and 1 (so 0.08 to 0.73 and 0.25
  to 0.85); among unflagged cells, and among flagged cells, a larger count is never drawn
  lighter than a smaller one.
\<close>

theorem matrix_shades:
  assumes "\<forall>ct \<in> set (fs_capacityTypes d). \<forall>b \<in> set (fs_buckets d). shown_count (cell_value d ct b)"
    and "ct \<in> set (fs_capacityTypes d)" "b \<in> set (fs_buckets d)" "ct' \<in> set (fs_capacityTypes d)" "b' \<in> set (fs_buckets d)"
  defines "v \<equiv> cell_value d ct b" and "w \<equiv> cell_value d ct' b'" and "m \<equiv> matrix_max d"
  shows "0 \<le> val v / val m \<and> val v / val m \<le> 1
    \<and> \<bar>val (plain_opacity v m) - (2 / 25 + 13 / 20 * (val v / val m))\<bar> \<le> 1 / 2 ^ 50
    \<and> \<bar>val (flagged_opacity v m) - (1 / 4 + 3 / 5 * (val v / val m))\<bar> \<le> 1 / 2 ^ 50
    \<and> (val v \<le> val w \<longrightarrow> val (plain_opacity v m) \<le> val (plain_opacity w m) \<and> val (flagged_opacity v m) \<le> val (flagged_opacity w m))"
proof -
  note M = matrix_max_facts[OF assms(1)]
  have c: "shown_count v" "shown_count w" "shown_count m" "val v \<le> val m" "val w \<le> val m"
    using assms M by (simp_all add: v_def w_def m_def)
  have q: "0 \<le> val x / val m \<and> val x / val m \<le> 1 \<and> val (intensity x m) = fl (val x / val m)" if "shown_count x" "val x \<le> val m" for x
    using that c(3) intensity_val(2)[OF that(1) c(3) that(2)] by (cases "val m = 0") (auto simp: shown_count_def divide_le_eq)
  have P: "val (plain_opacity x m) = fl (fl (2 / 25) + fl (val (intensity x m) * fl (13 / 20)))"
      "val (flagged_opacity x m) = fl (fl (1 / 4) + fl (val (intensity x m) * fl (3 / 5)))"
    if x: "shown_count x" "val x \<le> val m" for x
  proof -
    note i = intensity_val(1,3,4)[OF x(1) c(3) x(2)] and u = fl_unit[of "2 / 25"] fl_unit[of "13 / 20"] fl_unit[of "3 / 5"]
    show "val (plain_opacity x m) = fl (fl (2 / 25) + fl (val (intensity x m) * fl (13 / 20)))"
      unfolding plain_opacity_def using u by (subst shade[OF i]) (simp_all add: shade_consts)
    show "val (flagged_opacity x m) = fl (fl (1 / 4) + fl (val (intensity x m) * fl (3 / 5)))"
      unfolding flagged_opacity_def using u by (subst shade[OF i]) (simp_all add: shade_consts)
  qed
  note v = P[OF c(1,4)] and w = P[OF c(2,5)] and qv = q[OF c(1,4)]
  have "\<bar>val (plain_opacity v m) - (2 / 25 + 13 / 20 * (val v / val m))\<bar> \<le> 1 / 2 ^ 50"
    "\<bar>val (flagged_opacity v m) - (1 / 4 + 3 / 5 * (val v / val m))\<bar> \<le> 1 / 2 ^ 50"
    unfolding v using qv shade_error[of "val v / val m" "2 / 25" "13 / 20"] shade_error[of "val v / val m" "1 / 4" "3 / 5"] by simp_all
  moreover have "val (plain_opacity v m) \<le> val (plain_opacity w m) \<and> val (flagged_opacity v m) \<le> val (flagged_opacity w m)" if "val v \<le> val w"
    unfolding v w using intensity_mono[OF c(1-3,5) that] fl_unit[of "13 / 20"] fl_unit[of "3 / 5"] by (intro conjI shade_mono) simp_all
  ultimately show ?thesis using qv by blast
qed

lemma matrix_shades_witness:
  "\<bar>val (plain_opacity (Fin 2) (matrix_max sample_snapshot)) - (2 / 25 + 13 / 20 * (2 / val (matrix_max sample_snapshot)))\<bar> \<le> 1 / 2 ^ 50"
proof -
  have 1: "\<forall>ct \<in> set (fs_capacityTypes sample_snapshot). \<forall>b \<in> set (fs_buckets sample_snapshot). shown_count (cell_value sample_snapshot ct b)"
    by (simp add: sample_snapshot_def cell_value_def count_of_def shown_count_def)
  have 2: "(lit ''Reserved'') \<in> set (fs_capacityTypes sample_snapshot)" "(lit ''pinned'') \<in> set (fs_buckets sample_snapshot)"
    by (simp_all add: sample_snapshot_def)
  have e: "cell_value sample_snapshot (lit ''Reserved'') (lit ''pinned'') = Fin 2" by (simp add: sample_snapshot_def cell_value_def count_of_def)
  show ?thesis
    by (rule matrix_shades[OF 1 2 2, THEN conjunct2, THEN conjunct2, THEN conjunct1, unfolded e val.simps])
qed

subsection \<open>Demand against supply\<close>

definition counted_row :: "SupplyRow \<Rightarrow> bool" where
  "counted_row r \<longleftrightarrow> whole (dr_demand r) \<and> whole (dr_supply r) \<and> val (dr_demand r) \<le> 2 ^ 51 \<and> val (dr_supply r) \<le> 2 ^ 53"

lemma counted_row_eval:
  assumes "counted_row r"
  obtains m n where "0 \<le> m" "0 \<le> n" "dr_demand r = Fin (of_int m)" "dr_supply r = Fin (of_int n)"
    "jmul (dr_demand r) (Fin 2) = Fin (of_int (2 * m))" "row_gap r = Fin (of_int (n - m))"
proof -
  from assms obtain m n where k: "0 \<le> m" "0 \<le> n" "dr_demand r = Fin (of_int m)" "dr_supply r = Fin (of_int n)"
    by (auto simp: counted_row_def whole_def)
  have "(of_int m :: rat) \<le> of_int (2 ^ 51)" "(of_int n :: rat) \<le> of_int (2 ^ 53)" using assms k by (simp_all add: counted_row_def)
  then have b: "m \<le> 2 ^ 51" "n \<le> 2 ^ 53" unfolding of_int_le_iff .
  then have "\<bar>2 * m\<bar> \<le> 2 ^ 53" "\<bar>n - m\<bar> \<le> 2 ^ 53" using k by simp_all
  note e = this[THEN mk_of_int]
  have "jmul (dr_demand r) (Fin 2) = Fin (of_int (2 * m))" using e(1) k by (auto simp: jmul_def signed_zero_def mult.commute)
  moreover have "row_gap r = Fin (of_int (n - m))" using e(2) k by (auto simp: row_gap_def jsub_def jadd_def jneg_def)
  ultimately show ?thesis using that k by blast
qed

text \<open>
C19: For whole counts with a demand of at most 2^51 and a supply of at most 2^53, the gap of a
  bucket is red exactly when the bucket is listed as short, that is when supply is below demand,
  and amber exactly when supply exceeds three times the demand, while the list of over-supplied
  buckets holds those with a demand above 0 and a supply above twice the demand.
\<close>

theorem gap_tones:
  assumes "counted_row r"
  shows "(gap_tone r = Gap_Red \<longleftrightarrow> row_short r) \<and> (row_short r \<longleftrightarrow> val (dr_supply r) < val (dr_demand r))
    \<and> (gap_tone r = Gap_Amber \<longleftrightarrow> 3 * val (dr_demand r) < val (dr_supply r))
    \<and> (row_over r \<longleftrightarrow> 2 * val (dr_demand r) < val (dr_supply r) \<and> 0 < val (dr_demand r))"
proof -
  from counted_row_eval[OF assms] obtain m n where
    k: "0 \<le> m" "0 \<le> n" "dr_demand r = Fin (of_int m)" "dr_supply r = Fin (of_int n)"
      "jmul (dr_demand r) (Fin 2) = Fin (of_int (2 * m))" "row_gap r = Fin (of_int (n - m))" .
  have i: "(of_int a :: rat) < of_int b \<longleftrightarrow> a < b" for a b by simp
  have c: "(3 * of_int m < (of_int n :: rat)) \<longleftrightarrow> 3 * m < n" "(2 * of_int m < (of_int n :: rat)) \<longleftrightarrow> 2 * m < n"
    using i[of "3 * m" n] i[of "2 * m" n] by simp_all
  have "jlt (row_gap r) (Fin 0) \<longleftrightarrow> n < m" "jlt (Fin (of_int (2 * m))) (row_gap r) \<longleftrightarrow> 3 * m < n"
    using i[of "n - m" 0] i[of "2 * m" "n - m"] unfolding k by (auto simp: jlt_def simp del: of_int_diff of_int_mult)
  moreover have "row_short r \<longleftrightarrow> n < m" "row_over r \<longleftrightarrow> 2 * m < n \<and> 0 < m"
    using i[of "2 * m" n] k(5)[unfolded k(3)] unfolding row_short_def row_over_def k by (auto simp: jlt_def simp del: of_int_diff of_int_mult)
  ultimately show ?thesis using k by (simp add: gap_tone_def c)
qed

lemma gap_tones_witness:
  "gap_tone \<lparr>dr_bucket = (lit ''0''), dr_demand = Fin 0, dr_supply = Fin 5\<rparr> = Gap_Amber
    \<and> \<not> row_over \<lparr>dr_bucket = (lit ''0''), dr_demand = Fin 0, dr_supply = Fin 5\<rparr>"
  using gap_tones[of "\<lparr>dr_bucket = (lit ''0''), dr_demand = Fin 0, dr_supply = Fin 5\<rparr>"] by (simp add: counted_row_def)

end
