(* ===== verification/Reports.thy ===== *)
theory Reports
  imports Parts Js_Map
begin

text \<open>
  \<open>ui/src/pages/Topology.tsx\<close> and \<open>ui/src/pages/ShardReports.tsx\<close>: the coordinator's shards, the
  shards' soft-state reports with their shortfalls, and the domain assignments grouped by
  topology key. A component that links to an id is \<open>None\<close> when percent-encoding the id throws.
\<close>

subsection \<open>Shortfalls\<close>

datatype SortField = By_Priority | By_Age | By_Bucket

definition PENALTY_PREFIX :: jsstr where "PENALTY_PREFIX = (lit ''PENALTY_BUCKET_'')"

definition bucketShort :: "jsstr \<Rightarrow> jsstr" where
  "bucketShort b = (if has_prefix PENALTY_PREFIX b then drop (length PENALTY_PREFIX) b else b)"

definition bucketRank :: "jsstr \<Rightarrow> jsnum" where
  "bucketRank b =
     (let s = bucketShort b
      in if s = (lit ''PINNED'') then PInf
         else if s = (lit ''ZERO'') then Fin 0
         else if s = (lit ''HALF_DOLLAR'') then Fin (1 / 2)
         else if s = (lit ''UNSPECIFIED'') \<or> s = [] then Fin (- 1)
         else if is_fin (to_number s) then to_number s else Fin (- 1))"

definition pair_list :: "collate \<Rightarrow> (jsstr \<times> jsstr) list \<Rightarrow> jsstr" where
  "pair_list lc d = join (lit '' '') (map (\<lambda>(k, v). k @ (lit ''='') @ v) (js_sort (cmp_key lc) d))"

definition resStr :: "collate \<Rightarrow> (jsstr \<times> jsstr) list option \<Rightarrow> jsstr" where
  "resStr lc m = (case m of None \<Rightarrow> em_dash | Some d \<Rightarrow> if d = [] then em_dash else pair_list lc d)"

fun sort_key :: "SortField \<Rightarrow> ShardReportShortfall \<Rightarrow> jsnum" where
  "sort_key By_Age a = sf_ageCycles a"
| "sort_key By_Bucket a = bucketRank (sf_penaltyBucket a)"
| "sort_key By_Priority a = sf_priority a"

definition sortShortfalls :: "ShardReportShortfall list \<Rightarrow> SortField \<Rightarrow> ShardReportShortfall list" where
  "sortShortfalls rows field = js_sort (cmp_desc (sort_key field)) rows"

definition sort_of :: "jsstr \<Rightarrow> SortField" where
  "sort_of raw = (if raw = (lit ''age'') then By_Age else if raw = (lit ''bucket'') then By_Bucket else By_Priority)"

fun sort_name :: "SortField \<Rightarrow> jsstr" where
  "sort_name By_Priority = (lit ''priority'')"
| "sort_name By_Age = (lit ''age'')"
| "sort_name By_Bucket = (lit ''bucket'')"

subsection \<open>Shard reports\<close>

definition sr_total :: "ShardReport \<Rightarrow> jsnum" where
  "sr_total r = (case sr_summary r of None \<Rightarrow> Fin 0 | Some s \<Rightarrow> rs_totalMachines s)"

definition sr_free :: "ShardReport \<Rightarrow> jsnum" where
  "sr_free r = (case sr_summary r of None \<Rightarrow> Fin 0 | Some s \<Rightarrow> rs_freeMachines s)"

definition by_count :: "(jsstr \<times> jsnum) list \<Rightarrow> (jsstr \<times> jsnum) list" where
  "by_count d = js_sort (cmp_desc snd) d"

definition sr_types :: "ShardReport \<Rightarrow> (jsstr \<times> jsnum) list" where
  "sr_types r = (case sr_summary r of None \<Rightarrow> [] | Some s \<Rightarrow> by_count (rs_instanceTypeCounts s))"

definition sr_zones :: "ShardReport \<Rightarrow> (jsstr \<times> jsnum) list" where
  "sr_zones r = (case sr_summary r of None \<Rightarrow> [] | Some s \<Rightarrow> by_count (rs_zoneCounts s))"

definition sort_reports :: "collate \<Rightarrow> ShardReport list \<Rightarrow> ShardReport list" where
  "sort_reports lc rs = js_sort (\<lambda>a b. lc (sr_shardId a) (sr_shardId b)) rs"

definition Breakdown :: "jsstr \<Rightarrow> (jsstr \<times> jsnum) list \<Rightarrow> html list" where
  "Breakdown title es =
     (if es = [] then []
      else [el ''div'' [leaf ''div'' title,
        el ''ul'' (map (\<lambda>(k, n). el ''li'' [leaf ''span'' k, leaf ''span'' (format_int n)]) (take 12 es)
          @ show_if (12 < length es) [leaf ''li'' ((lit ''+'') @ num_to_string (str_nat (length es - 12)) @ (lit '' more''))])]])"

definition shortfall_row :: "collate \<Rightarrow> ShardReportShortfall \<Rightarrow> html" where
  "shortfall_row lc sf =
     el ''tr'' [leaf ''td'' (format_int (sf_priority sf)), leaf ''td'' (bucketShort (sf_penaltyBucket sf)),
       leaf ''td'' (format_int (sf_ageCycles sf)), leaf ''td'' (resStr lc (Some (sf_deficit sf)))]"

definition ShardCard :: "collate \<Rightarrow> jsnum \<Rightarrow> ShardReport \<Rightarrow> SortField \<Rightarrow> html" where
  "ShardCard lc now report srt =
     (let t = sr_total report; free = sr_free report; types = sr_types report; zones = sr_zones report;
          providerAddr = (case sr_summary report of None \<Rightarrow> [] | Some s \<Rightarrow> rs_providerAddress s);
          shortfalls = sortShortfalls (entries (sr_shortfalls report)) srt
      in Card [leaf ''span'' (sr_shardId report)] None
        [Freshness now now (sr_receivedAtUnixNs report) (Some (sr_cycle report)) (Fin 20) no_data_yet]
        ([el ''div'' [leaf ''span'' (lit ''Provider''),
            if providerAddr \<noteq> [] then Badge Accent False [T providerAddr] else Badge Neutral False [T (lit ''in-process fake (not deployed)'')]],
          el ''div''
           [Tile (lit ''Machines'') (format_int t) None Tile_Neutral,
            Tile (lit ''Free'') (format_int free) None (if jlt (Fin 0) free then Tile_Good else Tile_Neutral),
            Tile (lit ''Instance types'') (format_int (str_nat (length types))) None Tile_Neutral,
            Tile (lit ''Shortfalls'') (format_int (str_nat (length shortfalls))) None (if shortfalls \<noteq> [] then Tile_Warn else Tile_Good)]]
         @ show_if (types \<noteq> [] \<or> zones \<noteq> []) [el ''div'' (Breakdown (lit ''By instance type'') types @ Breakdown (lit ''By zone'') zones)]
         @ show_if (shortfalls \<noteq> [])
             [el ''div'' [leaf ''div'' (lit ''Shortfalls''),
               el ''div'' [el ''table''
                 [el ''thead'' [el ''tr'' [leaf ''th'' (lit ''Priority''), leaf ''th'' (lit ''Penalty''), leaf ''th'' (lit ''Age''), leaf ''th'' (lit ''Deficit'')]],
                  el ''tbody'' (map (shortfall_row lc) shortfalls)]]]]))"

definition SortControl :: "SortField \<Rightarrow> html" where
  "SortControl srt =
     el ''div'' [leaf ''span'' (lit ''Sort shortfalls''),
       el ''div'' (map (\<lambda>f. E ''button'' [(''class'', if srt = f then (lit ''bg-[var(--accent)] text-[var(--accent-fg)]'')
           else (lit ''text-[var(--text-muted)] hover:bg-[var(--surface-2)]''))] [T (sort_name f)]) [By_Priority, By_Age, By_Bucket])]"

definition report_shards :: "collate \<Rightarrow> ShardReportsListResponse query \<Rightarrow> ShardReport list" where
  "report_shards lc reports = sort_reports lc (case q_data reports of None \<Rightarrow> [] | Some r \<Rightarrow> rl_reports r)"

definition all_empty :: "ShardReport list \<Rightarrow> bool" where
  "all_empty shards \<longleftrightarrow> shards \<noteq> [] \<and> list_all (\<lambda>s. sr_summary s = None \<and> entries (sr_shortfalls s) = []) shards"

definition ShardReports :: "collate \<Rightarrow> jsnum \<Rightarrow> ClientConfig query \<Rightarrow> jsstr \<Rightarrow> ShardReportsListResponse query \<Rightarrow> html list" where
  "ShardReports lc now cfg sortRaw reports =
     (let isWired = wired cc_coordinatorWired cfg; srt = sort_of sortRaw; shards = report_shards lc reports
      in [PageHeader [T (lit ''Shard capacity'')]
           (Some (lit ''Coordinator.ListShardReports '' @ [0xB7] @ lit '' per-shard provider binding, inventory + outstanding''
    @ lit '' shortfalls (leader-local soft state).''))
           (show_if (shards \<noteq> []) [SortControl srt])]
        @ show_if (\<not> q_loading cfg \<and> \<not> isWired) [UnwiredNotice (lit ''Coordinator'') (lit ''--coordinator-addr'')]
        @ show_if (isWired \<and> q_error reports \<noteq> None) [ErrorBox (the (q_error reports))]
        @ show_if (isWired \<and> q_error reports = None \<and> shards = [] \<and> \<not> q_loading reports)
            [EmptyState True (lit ''No shard reports yet'')
              [T (lit ''The coordinator holds none '' @ [0x2014] @ lit '' it may be a follower, or rebuilding leader-local soft state''
    @ lit '' after a failover (shards re-report within a cycle).'')]]
        @ show_if (isWired \<and> all_empty shards)
            [EmptyState True (lit ''Soft state is rebuilding'') [T (lit ''Shards are registered but none has reported inventory yet '' @ [0x2014] @ lit '' rebuilding after a failover.'')]]
        @ show_if (isWired \<and> q_error reports = None \<and> shards \<noteq> []) [el ''div'' (map (\<lambda>s. ShardCard lc now s srt) shards)])"

subsection \<open>Topology\<close>

definition applyTone :: "CoordinatorHealth \<Rightarrow> TileTone" where
  "applyTone c =
     (if jlt (mk (1 / 1000)) (ch_applyErrorRatePerSec c) then Tile_Danger
      else if jlt (Fin 0) (ch_applyErrorRatePerSec c) then Tile_Warn else Tile_Good)"

definition heartbeatTone :: "jsnum \<Rightarrow> jsstr" where
  "heartbeatTone age =
     (if jlt (Fin 60) age then (lit ''text-red-600 dark:text-red-400'')
      else if jlt (Fin 30) age then (lit ''text-amber-600 dark:text-amber-400'') else (lit ''text-[var(--text-muted)]''))"

definition shard_link :: "jsstr \<Rightarrow> html option" where
  "shard_link i = link_id (lit ''/shards/'') i [T i]"

definition topology_shard_row :: "jsnum \<Rightarrow> TopologyShard \<Rightarrow> html option" where
  "topology_shard_row nowSec s =
     map_option (\<lambda>a. el ''tr''
        [el ''td'' [a],
         leaf ''td'' (if ts_address s = [] then em_dash else ts_address s),
         E ''td'' [(''class'', heartbeatTone (jsub nowSec (ts_lastHeartbeatUnixSec s)))]
           [T (formatRelative (Some (ts_lastHeartbeatUnixSec s)) nowSec)],
         E ''td'' [(''class'', if jlt (Fin 0) (ts_pendingInstructions s) then (lit ''font-medium text-amber-600 dark:text-amber-400'') else [])]
           [T (format_int (ts_pendingInstructions s))]])
       (shard_link (ts_shardId s))"

definition ShardsCard :: "jsnum \<Rightarrow> Topology \<Rightarrow> html option" where
  "ShardsCard nowSec d =
     map_option (\<lambda>rows. Card [T (lit ''Shard registry'')] (Some (lit ''Coordinator.ListShards '' @ [0xB7] @ lit '' last_heartbeat ages computed client-side'')) []
        [if tp_shards d = [] then leaf ''div'' (lit ''No shards registered.'')
         else el ''div'' [el ''table''
           [el ''thead'' [el ''tr'' [leaf ''th'' (lit ''Shard ID''), leaf ''th'' (lit ''Address''), leaf ''th'' (lit ''Last heartbeat''), leaf ''th'' (lit ''Pending'')]],
            el ''tbody'' rows]]])
       (those (map (topology_shard_row nowSec) (tp_shards d)))"

definition formatDeficit :: "collate \<Rightarrow> (jsstr \<times> jsstr) list \<Rightarrow> jsstr" where
  "formatDeficit lc deficit = (if deficit = [] then em_dash else pair_list lc deficit)"

definition report_shortfall :: "collate \<Rightarrow> ShardReportShortfall \<Rightarrow> html" where
  "report_shortfall lc s =
     el ''li'' [leaf ''span'' ((lit ''shortfall p'') @ format_int (sf_priority s) @ (lit '' '' @ [0xB7] @ lit '' bucket '') @ sf_penaltyBucket s @ (lit '' '' @ [0xB7] @ lit '' age '') @ format_int (sf_ageCycles s)),
       leaf ''span'' (formatDeficit lc (sf_deficit s))]"

definition report_card :: "collate \<Rightarrow> jsnum \<Rightarrow> ShardReport \<Rightarrow> html option" where
  "report_card lc now r =
     (let types = sr_types r; shortfalls = entries (sr_shortfalls r)
      in map_option (\<lambda>a. el ''div''
        ([el ''div'' [a,
            el ''span'' [leaf ''span'' (format_int (sr_free r) @ (lit '' free / '') @ format_int (sr_total r) @ (lit '' machines'')),
              Freshness now now (sr_receivedAtUnixNs r) (Some (sr_cycle r)) (Fin 20) no_data_yet]]]
         @ show_if (types \<noteq> [])
             [el ''div'' (map (\<lambda>(t, n). el ''span'' [T (t @ (lit '': '')), leaf ''span'' (format_int n)]) (take 6 types)
               @ show_if (6 < length types) [leaf ''span'' ((lit ''+'') @ num_to_string (str_nat (length types - 6)) @ (lit '' more''))])]
         @ show_if (shortfalls \<noteq> []) [el ''ul'' (map (report_shortfall lc) shortfalls)]))
       (shard_link (sr_shardId r)))"

definition ShardReportsCard :: "collate \<Rightarrow> jsnum \<Rightarrow> ShardReport list option \<Rightarrow> html option" where
  "ShardReportsCard lc now reports =
     (let subtitle = Some (lit ''Coordinator.ListShardReports '' @ [0xB7] @ lit '' leader-local soft state (stale on failover)'')
      in case reports of
           None \<Rightarrow> Some (Card [T (lit ''Shard reports'')] subtitle [] [leaf ''div'' (lit ''Loading'' @ [0x2026])])
         | Some rs \<Rightarrow>
             map_option (\<lambda>cards. Card [T (lit ''Shard reports'')] subtitle []
                [if rs = [] then leaf ''div'' (lit ''No shard reports '' @ [0x2014] @ lit '' the coordinator is rebuilding soft state after a failover, or no''
    @ lit '' shards have reported yet.'')
                 else el ''div'' cards])
               (those (map (report_card lc now) (sort_reports lc rs))))"

definition sort_values :: "collate \<Rightarrow> TopologyDomainAssignment list \<Rightarrow> TopologyDomainAssignment list" where
  "sort_values lc rows = js_sort (\<lambda>x y. lc (da_topologyValue x) (da_topologyValue y)) rows"

definition grouped_domains :: "collate \<Rightarrow> TopologyDomainAssignment list \<Rightarrow> (jsstr \<times> TopologyDomainAssignment list) list" where
  "grouped_domains lc assignments =
     js_sort (cmp_key lc) (map (\<lambda>(k, rows). (k, sort_values lc rows)) (group_by da_topologyKey assignments))"

definition domain_item :: "TopologyDomainAssignment \<Rightarrow> html option" where
  "domain_item r = map_option (\<lambda>a. el ''li'' [leaf ''span'' (da_topologyValue r), a]) (shard_link (da_shardId r))"

definition domain_group :: "jsstr \<times> TopologyDomainAssignment list \<Rightarrow> html option" where
  "domain_group g =
     map_option (\<lambda>items. el ''div'' [leaf ''div'' (fst g), el ''ul'' items]) (those (map domain_item (snd g)))"

definition DomainsCard :: "collate \<Rightarrow> TopologyDomainAssignment list \<Rightarrow> html option" where
  "DomainsCard lc assignments =
     (let gs = grouped_domains lc assignments
      in map_option (\<lambda>divs. Card [T (lit ''Domain assignments'')] (Some (lit ''Coordinator.ListDomainAssignments '' @ [0xB7] @ lit '' grouped by topology key'')) []
        [if gs = [] then EmptyState False (lit ''No domain assignments'')
             [T (lit ''No topology domains have been pinned to shards. Clusters bind to a shard on first''
    @ lit '' contact; explicit domain pins are an admin operation.'')]
         else el ''div'' divs])
       (those (map domain_group gs)))"

definition topology_body :: "collate \<Rightarrow> jsnum \<Rightarrow> Topology \<Rightarrow> ShardReport list option \<Rightarrow> html option" where
  "topology_body lc now d reports =
     (case (ShardsCard now d, ShardReportsCard lc now reports, DomainsCard lc (tp_domainAssignments d)) of
        (Some a, Some b, Some c) \<Rightarrow> Some (el ''div''
          (show_if (entries (tp_warnings d) \<noteq> [])
             [el ''div'' [leaf ''div'' (lit ''Warnings''), el ''ul'' (map (leaf ''li'') (entries (tp_warnings d)))]]
           @ [el ''div''
               [Tile (lit ''Raft term'') (format_int (ch_raftTerm (tp_coordinator d))) None Tile_Neutral,
                Tile (lit ''Apply rate'') (formatRate (Some (ch_applyRatePerSec (tp_coordinator d)))) None Tile_Neutral,
                Tile (lit ''Apply errors'') (formatRate (Some (ch_applyErrorRatePerSec (tp_coordinator d)))) None (applyTone (tp_coordinator d)),
                Tile (lit ''Pending instructions'') (format_int (ch_pendingInstructionsTotal (tp_coordinator d))) None Tile_Neutral],
              a, b, c]))
      | _ \<Rightarrow> None)"

definition TopologyPage :: "collate \<Rightarrow> jsnum \<Rightarrow> ClientConfig query \<Rightarrow> Topology query \<Rightarrow> ShardReportsListResponse query \<Rightarrow> html list option" where
  "TopologyPage lc now cfg topo reports =
     (let isWired = wired cc_coordinatorWired cfg;
          body = (if isWired \<and> q_error topo = None \<and> q_data topo \<noteq> None
                  then map_option (\<lambda>b. [b]) (topology_body lc now (the (q_data topo)) (map_option rl_reports (q_data reports)))
                  else Some [])
      in map_option (\<lambda>b.
          [PageHeader [T (lit ''Topology'')] (Some (lit ''Coordinator state: shard registry, domain assignments, Raft health.'')) []]
          @ show_if (\<not> q_loading cfg \<and> \<not> isWired) [UnwiredNotice (lit ''Coordinator'') (lit ''--coordinator-addr'')]
          @ show_if (isWired \<and> q_error topo \<noteq> None) [ErrorBox (the (q_error topo))]
          @ b
          @ show_if (isWired \<and> q_error topo = None \<and> q_data topo = None) [leaf ''div'' (lit ''Loading'' @ [0x2026])]) body)"

end
