(* ===== verification/Reports_Facts.thy ===== *)
theory Reports_Facts
  imports Reports Parts_Facts Needs_Facts
begin

text \<open>
  The orders of the report pages. Sorting shortfalls gives the one stable arrangement by the
  chosen field, also by penalty bucket, where the comparator subtracts infinities; grouping
  the domain assignments keeps every assignment once, under its key, in order.
\<close>

subsection \<open>Ranks of penalty buckets\<close>

lemma is_dbl_to_number [simp]: "is_dbl (to_number s)"
proof -
  have "is_dbl v" if "parse_signed t = Some (v, r)" for t v r
    using that by (auto simp: parse_signed_def is_dbl_parse_unsigned split: list.splits if_splits)
  then show ?thesis
    by (auto simp: to_number_def parse_radix_def Let_def split: option.splits prod.splits list.splits)
qed

lemma bucketRank_ok: "num_ok (\<lambda>a. bucketRank (sf_penaltyBucket a)) r"
proof -
  have "fl (1 / 2) = 1 / 2" using dyadic53_powi[of "- 1"] by (simp add: dyadic53_iff power_int_minus_divide)
  moreover have "fl 1 = 1" using dyadic53_numeral(1) by (simp add: dyadic53_iff)
  ultimately show ?thesis using is_fin_not_NaN by (auto simp: num_ok_def bucketRank_def Let_def)
qed

definition sortable :: "ShardReportShortfall \<Rightarrow> bool" where
  "sortable r \<longleftrightarrow> num_ok sf_priority r \<and> num_ok sf_ageCycles r"

lemma sort_key_ok: "sortable r \<Longrightarrow> num_ok (sort_key f) r"
  using bucketRank_ok[of r] by (cases f) (simp_all add: sortable_def num_ok_def)

lemma equiv_desc:
  assumes "num_ok k z" "num_ok k r"
  shows "desc.equiv k z r \<longleftrightarrow> jeq (k z) (k r)"
  using assms jlt_linear[of "k z" "k r"] jeq_not_lt jeq_sym
  by (auto simp: desc.equiv_def js_less_desc num_ok_def)

lemma filter_jeq:
  assumes "\<forall>r \<in> set rows. num_ok k r" "set ys = set rows" "num_ok k z"
  shows "filter (desc.equiv k z) ys = filter (\<lambda>r. jeq (k z) (k r)) ys"
  using assms equiv_desc[of k z] by (intro filter_cong) auto

lemma desc_sorts:
  assumes "\<forall>r \<in> set rows. num_ok k r"
  shows "ys = js_sort (cmp_desc k) rows \<longleftrightarrow>
    mset ys = mset rows \<and> sorted_wrt (\<lambda>a b. \<not> jlt (k a) (k b)) ys
    \<and> (\<forall>v. filter (\<lambda>r. jeq v (k r)) ys = filter (\<lambda>r. jeq v (k r)) rows)"
proof -
  have sorted: "sorted_wrt (\<lambda>a b. \<not> jlt (k a) (k b)) zs \<longleftrightarrow> sorted_wrt (\<lambda>a b. \<not> js_less (cmp_desc k) b a) zs"
    if "set zs = set rows" for zs
    using assms that by (auto simp: js_less_desc intro: sorted_wrt_mono_rel[rotated])
  have same: "set zs = set rows" if "mset zs = mset rows" for zs :: "'a list" using that by (rule mset_eq_setD)
  have stable: "filter (\<lambda>r. jeq v (k r)) (js_sort (cmp_desc k) rows) = filter (\<lambda>r. jeq v (k r)) rows" for v
  proof (cases "\<exists>z \<in> set rows. jeq v (k z)")
    case True
    then obtain z where z: "z \<in> set rows" "jeq v (k z)" by blast
    then have e: "jeq v x \<longleftrightarrow> jeq (k z) x" for x using jeq_trans jeq_sym by blast
    have zk: "num_ok k z" using z assms by blast
    show ?thesis unfolding e
      using desc.stable_sort[OF zk assms] filter_jeq[OF assms _ zk] by (simp add: js_sort_def)
  qed (simp add: filter_empty_conv)
  show ?thesis
  proof
    assume "ys = js_sort (cmp_desc k) rows"
    then show "mset ys = mset rows \<and> sorted_wrt (\<lambda>a b. \<not> jlt (k a) (k b)) ys
      \<and> (\<forall>v. filter (\<lambda>r. jeq v (k r)) ys = filter (\<lambda>r. jeq v (k r)) rows)"
      using desc.sorted_sort[OF assms] stable sorted by (simp add: js_sort_def)
  next
    assume y: "mset ys = mset rows \<and> sorted_wrt (\<lambda>a b. \<not> jlt (k a) (k b)) ys
      \<and> (\<forall>v. filter (\<lambda>r. jeq v (k r)) ys = filter (\<lambda>r. jeq v (k r)) rows)"
    then have "\<forall>z. num_ok k z \<longrightarrow> filter (desc.equiv k z) ys = filter (desc.equiv k z) rows"
      using filter_jeq[OF assms] same by metis
    with y sorted same show "ys = js_sort (cmp_desc k) rows"
      unfolding js_sort_def by (intro desc.sort_unique[OF assms]) blast+
  qed
qed

text \<open>
C8: Sorting shortfalls by priority, age or penalty bucket gives the one list with the same
  elements that descends by that key and keeps equal keys in their order, also where the
  comparator subtracts infinite ranks.
\<close>

theorem sortShortfalls_stable:
  assumes "\<forall>r \<in> set rows. sortable r"
  shows "ys = sortShortfalls rows f \<longleftrightarrow>
    mset ys = mset rows \<and> sorted_wrt (\<lambda>a b. \<not> jlt (sort_key f a) (sort_key f b)) ys
    \<and> (\<forall>v. filter (\<lambda>r. jeq v (sort_key f r)) ys = filter (\<lambda>r. jeq v (sort_key f r)) rows)"
  unfolding sortShortfalls_def using assms sort_key_ok by (intro desc_sorts) blast

definition shortfall :: "jsstr \<Rightarrow> ShardReportShortfall" where
  "shortfall bucket = \<lparr>sf_priority = Fin 1, sf_deficit = [], sf_ageCycles = Fin 1, sf_penaltyBucket = bucket\<rparr>"

lemma sortShortfalls_stable_witness:
  "sorted_wrt (\<lambda>a b. \<not> jlt (sort_key By_Bucket a) (sort_key By_Bucket b))
     (sortShortfalls [shortfall (lit ''ZERO''), shortfall (lit ''PENALTY_BUCKET_PINNED''), shortfall (lit ''PINNED'')] By_Bucket)"
proof -
  have "fl 1 = 1" using dyadic53_numeral(1) by (simp add: dyadic53_iff)
  then have "\<forall>r \<in> set [shortfall (lit ''ZERO''), shortfall (lit ''PENALTY_BUCKET_PINNED''), shortfall (lit ''PINNED'')]. sortable r"
    by (simp add: sortable_def num_ok_def shortfall_def)
  from sortShortfalls_stable[OF this] show ?thesis by blast
qed

subsection \<open>Domain assignments\<close>

lemma grouped_index:
  "((k, rows) \<in> set (grouped_domains lc as) \<longleftrightarrow>
      rows = sort_values lc (filter (\<lambda>a. da_topologyKey a = k) as) \<and> rows \<noteq> [])
    \<and> distinct (map fst (grouped_domains lc as))
    \<and> mset (concat (map snd (grouped_domains lc as))) = mset as"
proof -
  have m: "(k, rows) \<in> set (grouped_domains lc as) \<longleftrightarrow> (\<exists>g. (k, g) \<in> set (group_by da_topologyKey as) \<and> rows = sort_values lc g)" for k rows
    by (auto simp: grouped_domains_def)
  have "mset (map fst (grouped_domains lc as)) = mset (map fst (group_by da_topologyKey as))"
    by (simp add: grouped_domains_def comp_def case_prod_beta image_mset.compositionality)
  then have d: "distinct (map fst (grouped_domains lc as))"
    using grp.keys_distinct by (metis mset_eq_imp_distinct_iff)
  have "mset (concat (map snd (grouped_domains lc as))) = (\<Sum>g \<in># mset (grouped_domains lc as). mset (snd g))"
    by (simp add: mset_concat comp_def sum_mset_sum_list[symmetric])
  also have "\<dots> = mset (concat (map snd (group_by da_topologyKey as)))"
    by (simp add: grouped_domains_def mset_concat comp_def case_prod_beta image_mset.compositionality sort_values_def flip: sum_mset_sum_list mset_map)
  finally show ?thesis using d grp.groups_mset[of da_topologyKey as] m by (auto simp: grp.group_iff sort_values_def)
qed

lemma comparator_via:
  assumes "comparator lc (\<lambda>_. True)"
  shows "comparator (\<lambda>x y. lc (g x) (g y)) (\<lambda>_. True)"
proof
  fix x y z :: 'b
  show "js_less (\<lambda>x y. lc (g x) (g y)) x y \<Longrightarrow> \<not> js_less (\<lambda>x y. lc (g x) (g y)) y x"
    using comparator.less_asym[OF assms TrueI TrueI, of "g x" "g y"] by (simp add: js_less_def)
  show "js_less (\<lambda>x y. lc (g x) (g y)) x z \<Longrightarrow> js_less (\<lambda>x y. lc (g x) (g y)) x y \<or> js_less (\<lambda>x y. lc (g x) (g y)) y z"
    using comparator.less_negtrans[OF assms TrueI TrueI TrueI, of "g x" "g z" "g y"] by (simp add: js_less_def)
qed

lemma sort_via:
  assumes "comparator lc (\<lambda>_. True)"
  shows "sorted_wrt (\<lambda>x y. \<not> jlt (lc (g y) (g x)) (Fin 0)) (js_sort (\<lambda>x y. lc (g x) (g y)) xs)"
  using weak_order.sorted_sort[OF comparator_weak[OF comparator_via[OF assms]], of xs g] by (simp add: js_sort_def js_less_def)

lemma grouped_sorted:
  assumes "comparator lc (\<lambda>_. True)"
  shows "sorted_wrt (\<lambda>g h. \<not> jlt (lc (fst h) (fst g)) (Fin 0)) (grouped_domains lc as)
    \<and> (\<forall>g \<in> set (grouped_domains lc as). sorted_wrt (\<lambda>a b. \<not> jlt (lc (da_topologyValue b) (da_topologyValue a)) (Fin 0)) (snd g))"
  using sort_via[OF assms, of fst] sort_via[OF assms, of da_topologyValue]
  by (auto simp: grouped_domains_def sort_values_def cmp_key_def[abs_def])

text \<open>
C16: For a consistent collation, grouping the domain assignments keeps every assignment once
  under its topology key, one group per key, groups and the values inside them in order.
\<close>

theorem grouped_domains_contract:
  assumes "comparator lc (\<lambda>_. True)"
  shows "((k, rows) \<in> set (grouped_domains lc as) \<longleftrightarrow>
      rows = sort_values lc (filter (\<lambda>a. da_topologyKey a = k) as) \<and> rows \<noteq> [])
    \<and> distinct (map fst (grouped_domains lc as))
    \<and> mset (concat (map snd (grouped_domains lc as))) = mset as
    \<and> sorted_wrt (\<lambda>g h. \<not> jlt (lc (fst h) (fst g)) (Fin 0)) (grouped_domains lc as)
    \<and> (\<forall>g \<in> set (grouped_domains lc as). sorted_wrt (\<lambda>a b. \<not> jlt (lc (da_topologyValue b) (da_topologyValue a)) (Fin 0)) (snd g))"
  using grouped_index grouped_sorted[OF assms] by blast

definition assigned :: "jsstr \<Rightarrow> jsstr \<Rightarrow> TopologyDomainAssignment" where
  "assigned k v = \<lparr>da_topologyKey = k, da_topologyValue = v, da_shardId = []\<rparr>"

lemma grouped_domains_contract_witness:
  "distinct (map fst (grouped_domains unit_collate [assigned (lit ''zone'') (lit ''b''), assigned (lit ''rack'') (lit ''r1''), assigned (lit ''zone'') (lit ''a'')]))"
  using grouped_domains_contract[OF ucol.comparator_axioms] by blast

end
