(* ===== verification/Shard_Pages.thy ===== *)
theory Shard_Pages
  imports Parts
begin

text \<open>
  The remaining pages: the lists of shards and clusters, the detail of a shard and of a cluster,
  the fleet overview, the capacity hints, the embedded Grafana panels, the chart wrapper, and
  the layout with its routes. \<open>spark\<close> stands for the uPlot canvas of \<open>Sparkline\<close>, \<open>width\<close> for
  the width the resize observer last reported, \<open>dark\<close> for the preferred colour scheme.
\<close>

subsection \<open>Rows of numbers\<close>

definition KVList :: "(jsstr \<times> jsnum) list \<Rightarrow> jsstr \<Rightarrow> (jsnum \<Rightarrow> jsstr) \<Rightarrow> html" where
  "KVList rows none format =
     (if rows = [] then leaf ''div'' none
      else el ''ul'' (map (\<lambda>(k, v). el ''li'' [leaf ''span'' k, leaf ''span'' (format v)]) rows))"

definition biggest_first :: "(jsstr \<times> jsnum) list option \<Rightarrow> (jsstr \<times> jsnum) list" where
  "biggest_first d = js_sort (cmp_desc snd) (entries d)"

definition danger_over :: "rat \<Rightarrow> rat \<Rightarrow> jsnum \<Rightarrow> TileTone" where
  "danger_over high low x =
     (if jlt (mk high) x then Tile_Danger else if jlt (mk low) x then Tile_Warn else Tile_Good)"

subsection \<open>Charts\<close>

record TrendSeries =
  tr_label :: jsstr
  tr_values :: "jsnum list"
  tr_color :: jsstr

definition observed_width :: "jsnum list \<Rightarrow> jsnum \<Rightarrow> jsnum" where
  "observed_width es width = (case es of [] \<Rightarrow> width | w # _ \<Rightarrow> jmax (Fin 200) w)"

definition non_empty_series :: "TrendSeries list \<Rightarrow> TrendSeries list" where
  "non_empty_series series = filter (\<lambda>s. tr_values s \<noteq> []) series"

definition chart_data :: "jsnum list \<Rightarrow> TrendSeries list \<Rightarrow> jsnum list list option" where
  "chart_data timestamps series =
     (if timestamps = [] \<or> non_empty_series series = [] then None
      else Some (timestamps # map tr_values (non_empty_series series)))"

definition chart_cfg :: "jsnum list \<Rightarrow> TrendSeries list \<Rightarrow> (jsstr \<times> jsstr) option list" where
  "chart_cfg timestamps series =
     (if timestamps = [] \<or> non_empty_series series = [] then [None]
      else None # map (\<lambda>s. Some (tr_label s, tr_color s)) (non_empty_series series))"

type_synonym spark = "jsnum list list \<Rightarrow> (jsstr \<times> jsstr) option list \<Rightarrow> jsnum \<Rightarrow> jsnum \<Rightarrow> html"

definition TimeSeriesChart :: "spark \<Rightarrow> jsnum \<Rightarrow> jsnum list \<Rightarrow> TrendSeries list \<Rightarrow> jsnum \<Rightarrow> jsstr \<Rightarrow> html" where
  "TimeSeriesChart spark width timestamps series height none =
     E ''div'' [(''height'', num_to_string height)]
       [(case chart_data timestamps series of
           Some a \<Rightarrow> if jlt (Fin 0) width then spark a (chart_cfg timestamps series) width (jsub height (Fin 8)) else leaf ''div'' none
         | None \<Rightarrow> leaf ''div'' none)]"

subsection \<open>Shard detail\<close>

definition actionKindColours :: "(jsstr \<times> jsstr) list" where
  "actionKindColours = [((lit ''Bootstrap''), (lit ''#2563eb'')), ((lit ''Provision''), (lit ''#16a34a'')), ((lit ''Reclaim''), (lit ''#f59e0b'')), ((lit ''Preempt''), (lit ''#dc2626''))]"

definition trendFallback :: "jsstr list" where
  "trendFallback = [(lit ''#0891b2''), (lit ''#7c3aed''), (lit ''#db2777''), (lit ''#65a30d'')]"

definition cycle_series :: "ShardTrends option \<Rightarrow> TrendSeries list" where
  "cycle_series d =
     [\<lparr>tr_label = (lit ''cycle p99 (s)''), tr_values = (case d of None \<Rightarrow> [] | Some t \<Rightarrow> entries (st_cycleP99Seconds t)), tr_color = (lit ''#7c3aed'')\<rparr>]"

definition action_series :: "collate \<Rightarrow> ShardTrends option \<Rightarrow> TrendSeries list" where
  "action_series lc d =
     map (\<lambda>(i, kind, values). \<lparr>tr_label = kind, tr_values = values, tr_color = pick_colour trendFallback actionKindColours kind i\<rparr>)
       (enumerate 0 (js_sort (cmp_key lc) (case d of None \<Rightarrow> [] | Some t \<Rightarrow> entries (st_actionRates t))))"

definition trend_chart :: "spark \<Rightarrow> jsnum \<Rightarrow> ShardTrends query \<Rightarrow> TrendSeries list \<Rightarrow> html" where
  "trend_chart spark width trends series =
     (case q_error trends of Some e \<Rightarrow> ErrorBox e
      | None \<Rightarrow> TimeSeriesChart spark width (case q_data trends of None \<Rightarrow> [] | Some t \<Rightarrow> entries (st_timestamps t)) series (Fin 160) (lit ''No data in the window.''))"

definition TrendsCard :: "collate \<Rightarrow> spark \<Rightarrow> jsnum \<Rightarrow> jsnum \<Rightarrow> ShardTrends query \<Rightarrow> html" where
  "TrendsCard lc spark width width' trends =
     el ''div''
      [Card [T (lit ''Cycle p99 '' @ [0x2014] @ lit '' last hour'')] (Some (lit ''histogram_quantile(0.99, '' @ [0x2026] @ lit ''cycle_duration_seconds_bucket{pod='' @ [0x2026] @ lit ''})'')) []
         [trend_chart spark width trends (cycle_series (q_data trends))],
       Card [T (lit ''Action rate by kind '' @ [0x2014] @ lit '' last hour'')] (Some (lit ''sum by (kind) (rate(bigfleet_shard_actions_total{pod='' @ [0x2026] @ lit ''}[5m]))'')) []
         [trend_chart spark width' trends (action_series lc (q_data trends))]]"

definition conflict_ratio :: "ShardDetail \<Rightarrow> jsnum" where
  "conflict_ratio d =
     (let t = jadd (sd_occCommittedPerSec d) (sd_occConflictPerSec d)
      in if jlt (Fin 0) t then jdiv (sd_occConflictPerSec d) t else Fin 0)"

definition shard_body :: "ShardDetail \<Rightarrow> html" where
  "shard_body d =
     el ''div''
      [el ''div''
        [Tile (lit ''Cycle p99'') (formatDuration (Some (sd_cycleP99Seconds d))) None (danger_over 5 1 (sd_cycleP99Seconds d)),
         Tile (lit ''Machines'') (format_int (sd_machines d)) None Tile_Neutral,
         Tile (lit ''Sessions'') (format_int (sd_activeSessions d)) None Tile_Neutral,
         Tile (lit ''Shortfalls'') (format_int (sd_shortfalls d)) None (if jlt (Fin 0) (sd_shortfalls d) then Tile_Danger else Tile_Good),
         Tile (lit ''OCC conflict rate'') (to_fixed (jmul (conflict_ratio d) (Fin 100)) 1 @ (lit ''%''))
           (Some (formatRate (Some (sd_occCommittedPerSec d)) @ (lit '' committed '' @ [0xB7] @ lit '' '') @ formatRate (Some (sd_occConflictPerSec d)) @ (lit '' conflict'')))
           (danger_over (3 / 10) (3 / 20) (conflict_ratio d))],
       Card [T (lit ''Inventory by state'')] (Some (lit ''sum by (state) (bigfleet_shard_inventory_machines{pod='' @ [0x2026] @ lit ''})'')) []
         [StackedBar (entry_segments stateColours (sd_machinesByState d)) None (Some format_int)],
       Card [T (lit ''Inventory by capacity type'')] (Some (lit ''sum by (capacity_type) (bigfleet_shard_inventory_machines{pod='' @ [0x2026] @ lit ''})'')) []
         [StackedBar (entry_segments capacityTypeColours (sd_machinesByCapacityType d)) None (Some format_int)],
       el ''div''
        [Card [T (lit ''Cycle p99 by phase'')] (Some (lit ''histogram_quantile(0.99, '' @ [0x2026] @ lit ''phase_duration_seconds_bucket{pod='' @ [0x2026] @ lit ''})'')) []
           [KVList (biggest_first (sd_cycleP99ByPhaseSeconds d)) (lit ''no data'') (\<lambda>v. formatDuration (Some v))],
         Card [T (lit ''Action rate by kind'')] (Some (lit ''sum by (kind) (rate(bigfleet_shard_actions_total{pod='' @ [0x2026] @ lit ''}[5m]))'')) []
           [KVList (biggest_first (sd_actionsByKindRatePerSec d)) (lit ''no actions in last 5m'') (\<lambda>v. formatRate (Some v))]]]"

definition crumbs :: "jsstr \<Rightarrow> jsstr \<Rightarrow> jsstr \<Rightarrow> html" where
  "crumbs target label i = el ''span'' [Link target [T label], leaf ''span'' (lit '' / ''), leaf ''span'' i]"

definition ShardDetailPage :: "collate \<Rightarrow> spark \<Rightarrow> jsnum \<Rightarrow> jsnum \<Rightarrow> ClientConfig query \<Rightarrow> jsstr \<Rightarrow> ShardDetail query \<Rightarrow> ShardTrends query \<Rightarrow> html list" where
  "ShardDetailPage lc spark width width' cfg pod detail trends =
     (let isWired = wired cc_prometheusWired cfg
      in [PageHeader [crumbs (lit ''/shards'') (lit ''shards'') pod] (Some (lit ''Per-shard cycle, inventory, action rates, and OCC broker stats.'')) []]
        @ show_if (\<not> q_loading cfg \<and> \<not> isWired) [Prometheus_Unwired]
        @ show_if (isWired \<and> q_error detail \<noteq> None) [ErrorBox (the (q_error detail))]
        @ [el ''div''
            (show_if (isWired \<and> q_error detail = None \<and> q_data detail \<noteq> None) [shard_body (the (q_data detail))]
             @ show_if (isWired \<and> q_error detail = None \<and> q_data detail = None) [leaf ''div'' (lit ''Loading'' @ [0x2026])]
             @ show_if (isWired \<and> pod \<noteq> []) [TrendsCard lc spark width width' trends])])"

subsection \<open>Lists\<close>

definition list_page :: "html list \<Rightarrow> html \<Rightarrow> bool \<Rightarrow> html \<Rightarrow> ClientConfig query \<Rightarrow> 'a query \<Rightarrow> html list option \<Rightarrow> html list \<Rightarrow> html list option" where
  "list_page header notice isWired head cfg q rows messages =
     (if isWired \<and> q_error q = None then
        map_option (\<lambda>rs. header @ [TableShell [THead [head], el ''tbody'' (messages @ rs)]]) rows
      else Some (header @ show_if (\<not> q_loading cfg \<and> \<not> isWired) [notice]
             @ show_if (isWired \<and> q_error q \<noteq> None) [ErrorBox (the (q_error q))]))"

definition shard_row :: "ShardSummary \<Rightarrow> html option" where
  "shard_row s =
     map_option (\<lambda>a. TR True []
        [TD (td\<lparr>td_mono := True\<rparr>) [a],
         TD (td\<lparr>td_right := True, td_class := if jlt (Fin 5) (ss_cycleP99Seconds s) then (lit ''text-red-600 dark:text-red-400'')
             else if jlt (Fin 1) (ss_cycleP99Seconds s) then (lit ''text-amber-600 dark:text-amber-400'') else []\<rparr>)
           [T (formatDuration (Some (ss_cycleP99Seconds s)))],
         TD (td\<lparr>td_right := True\<rparr>) [T (format_int (ss_machines s))],
         TD (td\<lparr>td_right := True\<rparr>) [T (format_int (ss_activeSessions s))],
         TD (td\<lparr>td_right := True, td_class := if jlt (Fin 0) (ss_shortfalls s) then (lit ''font-medium text-red-600 dark:text-red-400'')
             else (lit ''text-[var(--text-muted)]'')\<rparr>) [T (format_int (ss_shortfalls s))]])
       (link_id (lit ''/shards/'') (ss_pod s) [T (ss_pod s)])"

definition ShardsListPage :: "ClientConfig query \<Rightarrow> ShardsList query \<Rightarrow> html list option" where
  "ShardsListPage cfg shards =
     (let rows = (case q_data shards of None \<Rightarrow> [] | Some r \<Rightarrow> sl_shards r)
      in list_page [PageHeader [T (lit ''Shards'')] (Some (lit ''Per-shard health, inventory, and decision-engine breakdown.'')) []]
          Prometheus_Unwired (wired cc_prometheusWired cfg)
          (el ''tr'' [TH False (lit ''Pod''), TH True (lit ''Cycle p99''), TH True (lit ''Machines''), TH True (lit ''Sessions''), TH True (lit ''Shortfalls'')])
          cfg shards (those (map shard_row rows))
          (show_if (q_loading shards) [MessageRow 5 (lit ''Loading'' @ [0x2026])]
           @ show_if (q_data shards \<noteq> None \<and> rows = []) [MessageRow 5 (lit ''No shards reporting in the last 2 minutes.'')]))"

definition cluster_cell :: "ClusterSummary \<Rightarrow> (ClusterSummary \<Rightarrow> jsnum) \<Rightarrow> html" where
  "cluster_cell c part = T (if truthy_str (cs_error c) then em_dash else format_int (part c))"

definition cluster_row :: "ClusterSummary \<Rightarrow> html option" where
  "cluster_row c =
     map_option (\<lambda>a. TR True []
        [TD (td\<lparr>td_mono := True\<rparr>) [a],
         TD (td\<lparr>td_right := True, td_muted := truthy_str (cs_error c)\<rparr>) [cluster_cell c cs_capacityRequests],
         TD (td\<lparr>td_right := True, td_class := if jlt (Fin 0) (cs_capacityRequestsPending c)
             then (lit ''font-medium text-amber-600 dark:text-amber-400'') else (lit ''text-[var(--text-muted)]'')\<rparr>) [cluster_cell c cs_capacityRequestsPending],
         TD (td\<lparr>td_right := True, td_muted := truthy_str (cs_error c)\<rparr>) [cluster_cell c cs_upcomingNodes],
         TD td [if truthy_str (cs_error c) then Badge Danger True [T (the (cs_error c))] else Badge Good True [T (lit ''ok'')]]])
       (link_id (lit ''/clusters/'') (cs_id c) [T (cs_id c)])"

definition ClustersListPage :: "ClientConfig query \<Rightarrow> ClustersListResponse query \<Rightarrow> html list option" where
  "ClustersListPage cfg clusters =
     (let rows = (case q_data clusters of None \<Rightarrow> [] | Some r \<Rightarrow> cl_clusters r)
      in list_page [PageHeader [T (lit ''Clusters'')] (Some (lit ''Per-cluster CapacityRequest and UpcomingNode state.'')) []]
          (UnwiredNotice (lit ''Kubeconfig'') (lit ''--kubeconfig'')) (wired cc_kubeconfigWired cfg)
          (el ''tr'' [TH False (lit ''Cluster''), TH True (lit ''CRs''), TH True (lit ''Pending''), TH True (lit ''UpcomingNodes''), TH False (lit ''Status'')])
          cfg clusters (those (map cluster_row rows))
          (show_if (q_loading clusters) [MessageRow 5 (lit ''Loading'' @ [0x2026])]
           @ show_if (q_data clusters \<noteq> None \<and> rows = []) [MessageRow 5 (lit ''No contexts found in the kubeconfig.'')]))"

subsection \<open>Cluster detail\<close>

definition entry_count :: "(jsstr \<times> jsnum) list option \<Rightarrow> jsstr \<Rightarrow> jsnum" where
  "entry_count d k = (case get_opt d k of None \<Rightarrow> Fin 0 | Some v \<Rightarrow> v)"

definition cluster_body :: "ClusterDetail \<Rightarrow> html" where
  "cluster_body d =
     (let pendingCount = entry_count (cd_capacityRequestsByPhase d) (lit ''Pending''); failedCount = entry_count (cd_upcomingNodesByPhase d) (lit ''Failed'')
      in el ''div''
       [el ''div''
         [Tile (lit ''CapacityRequests'') (format_int (cd_capacityRequestsTotal d)) None Tile_Neutral,
          Tile (lit ''Pending CRs'') (format_int pendingCount) None (if jlt (Fin 0) pendingCount then Tile_Warn else Tile_Neutral),
          Tile (lit ''UpcomingNodes'') (format_int (cd_upcomingNodesTotal d)) None Tile_Neutral,
          Tile (lit ''Failed nodes'') (format_int failedCount) None (if jlt (Fin 0) failedCount then Tile_Danger else Tile_Neutral)],
        Card [T (lit ''CapacityRequests by phase'')] (Some (lit ''bigfleet.lucy.sh/v1alpha1 '' @ [0xB7] @ lit '' status.phase '' @ [0x2208] @ lit '' {Pending, Acknowledged}'')) []
          [StackedBar (entry_segments crPhaseColours (cd_capacityRequestsByPhase d)) None (Some format_int)],
        Card [T (lit ''UpcomingNodes by phase'')]
          (Some (lit ''bigfleet.lucy.sh/v1alpha1 '' @ [0xB7] @ lit '' status.phase '' @ [0x2208] @ lit '' {Provisioning, Launched, Registered, Ready,''
    @ lit '' Draining, Drained, Failed}'')) []
          [StackedBar (entry_segments upcomingNodePhaseColours (cd_upcomingNodesByPhase d)) None (Some format_int)]])"

definition ClusterDetailPage :: "ClientConfig query \<Rightarrow> jsstr \<Rightarrow> ClusterDetail query \<Rightarrow> html list" where
  "ClusterDetailPage cfg i detail =
     (let isWired = wired cc_kubeconfigWired cfg
      in [PageHeader [crumbs (lit ''/clusters'') (lit ''clusters'') i] (Some (lit ''CapacityRequest and UpcomingNode phase breakdown for this cluster.'')) []]
        @ show_if (\<not> q_loading cfg \<and> \<not> isWired) [UnwiredNotice (lit ''Kubeconfig'') (lit ''--kubeconfig'')]
        @ show_if (isWired \<and> q_error detail \<noteq> None) [ErrorBox (the (q_error detail))]
        @ show_if (isWired \<and> q_error detail = None \<and> q_data detail \<noteq> None) [cluster_body (the (q_data detail))]
        @ show_if (isWired \<and> q_error detail = None \<and> q_data detail = None) [leaf ''div'' (lit ''Loading'' @ [0x2026])])"

subsection \<open>Available capacity\<close>

definition availabilityTone :: "(jsstr \<times> Tone) list" where
  "availabilityTone = [((lit ''High''), Good), ((lit ''Medium''), Info), ((lit ''Low''), Warn), ((lit ''None''), Neutral)]"

definition capacity_resStr :: "collate \<Rightarrow> (jsstr \<times> jsstr) list option \<Rightarrow> jsstr" where
  "capacity_resStr lc m =
     (case m of None \<Rightarrow> em_dash
      | Some d \<Rightarrow> if d = [] then em_dash else join (lit '' '') (map (\<lambda>(k, v). k @ (lit ''='') @ v) (js_sort (cmp_key lc) d)))"

definition capacity_row :: "collate \<Rightarrow> AvailableCapacityItem \<Rightarrow> html" where
  "capacity_row lc it =
     el ''tr''
      [leaf ''td'' (ai_name it), leaf ''td'' (capacity_resStr lc (ai_resources it)), leaf ''td'' (format_int (ai_availableCount it)),
       el ''td'' [Badge (case map_of availabilityTone (ai_availability it) of Some t \<Rightarrow> t | None \<Rightarrow> Neutral) False
         [T (if ai_availability it = [] then em_dash else ai_availability it)]],
       leaf ''td'' (if ai_cost it = [] then em_dash else (lit ''$'') @ ai_cost it)]"

definition ClusterCard :: "collate \<Rightarrow> AvailableCapacityCluster \<Rightarrow> html" where
  "ClusterCard lc cluster =
     Card [leaf ''span'' (ac_id cluster)]
       (if truthy_str (ac_error cluster) then None else Some (num_to_string (str_nat (length (ac_items cluster))) @ (lit '' hint(s)''))) []
       [if truthy_str (ac_error cluster) then Badge Danger True [T (the (ac_error cluster))]
        else el ''div'' [el ''table''
          [el ''thead'' [el ''tr'' [leaf ''th'' (lit ''Name''), leaf ''th'' (lit ''Resources''), leaf ''th'' (lit ''Available''), leaf ''th'' (lit ''Availability''), leaf ''th'' (lit ''Cost/hr'')]],
           el ''tbody'' (map (capacity_row lc) (ac_items cluster))]]]"

definition shown_clusters :: "AvailableCapacityCluster list \<Rightarrow> AvailableCapacityCluster list" where
  "shown_clusters clusters = filter (\<lambda>c. ac_items c \<noteq> [] \<or> truthy_str (ac_error c)) clusters"

definition AvailableCapacityPage :: "collate \<Rightarrow> ClientConfig query \<Rightarrow> AvailableCapacityResponse query \<Rightarrow> html list" where
  "AvailableCapacityPage lc cfg avc =
     (let isWired = wired cc_kubeconfigWired cfg; clusters = (case q_data avc of None \<Rightarrow> [] | Some r \<Rightarrow> ar_clusters r);
          anyItems = list_ex (\<lambda>c. ac_items c \<noteq> []) clusters
      in [PageHeader [T (lit ''Available capacity'')]
           (Some (lit ''AvailableCapacity CRD hints '' @ [0x2014] @ lit '' what each cluster's shard expects it could provision soon''
    @ lit '' (eventually consistent; a hint, not a reservation).'')) []]
        @ show_if (\<not> q_loading cfg \<and> \<not> isWired) [UnwiredNotice (lit ''Kubeconfig'') (lit ''--kubeconfig'')]
        @ show_if (isWired \<and> q_error avc \<noteq> None) [ErrorBox (the (q_error avc))]
        @ show_if (isWired \<and> q_error avc = None \<and> q_data avc \<noteq> None \<and> clusters = [])
            [EmptyState False (lit ''No managed clusters'') [T (lit ''No contexts found in the kubeconfig.'')]]
        @ show_if (isWired \<and> q_error avc = None \<and> q_data avc \<noteq> None \<and> clusters \<noteq> [] \<and> \<not> anyItems)
            [EmptyState False (lit ''No capacity hints yet'')
              [T (lit ''Shards emit AvailableCapacity as an eventually-consistent signal '' @ [0x2014] @ lit '' hints appear once a''
    @ lit '' shard has surplus it could offer.'')]]
        @ show_if (isWired \<and> q_error avc = None) [el ''div'' (map (ClusterCard lc) (shown_clusters clusters))])"

subsection \<open>Grafana\<close>

text \<open>\<open>grafanaUrl.replace(/\/+$/, "")\<close>.\<close>

definition grafana_base :: "jsstr \<Rightarrow> jsstr" where
  "grafana_base url = rev (dropWhile (\<lambda>c. c = 47) (rev url))"

definition theme :: "bool \<Rightarrow> jsstr" where
  "theme dark = (if dark then (lit ''dark'') else (lit ''light''))"

definition encode_all :: "jsstr list \<Rightarrow> jsstr list option" where
  "encode_all xs = those (map encodeURIComponent xs)"

definition panel_src :: "bool \<Rightarrow> jsstr \<Rightarrow> jsstr \<Rightarrow> jsstr \<Rightarrow> nat \<Rightarrow> jsstr \<Rightarrow> jsstr \<Rightarrow> jsstr option" where
  "panel_src dark grafanaUrl uid slug panelId from till =
     (case encode_all [uid, slug, from, till] of
        Some [u, s, f, t] \<Rightarrow> Some (grafana_base grafanaUrl @ (lit ''/d-solo/'') @ u @ (lit ''/'') @ s
          @ (lit ''?orgId=1&panelId='') @ num_to_string (str_nat panelId) @ (lit ''&from='') @ f @ (lit ''&to='') @ t @ (lit ''&theme='') @ theme dark)
      | _ \<Rightarrow> None)"

definition GrafanaPanel :: "bool \<Rightarrow> jsstr option \<Rightarrow> jsstr \<Rightarrow> jsstr \<Rightarrow> nat \<Rightarrow> jsstr option \<Rightarrow> jsnum \<Rightarrow> jsstr \<Rightarrow> jsstr \<Rightarrow> html list option" where
  "GrafanaPanel dark grafanaUrl uid slug panelId title height from till =
     (if \<not> truthy_str grafanaUrl then Some []
      else map_option (\<lambda>src. [el ''div''
          (show_if (truthy_str title) [leaf ''div'' (the title)]
           @ [E ''iframe'' [(''title'', case title of Some t \<Rightarrow> t | None \<Rightarrow> (lit ''grafana-panel-'') @ num_to_string (str_nat panelId)),
                (''src'', src), (''height'', num_to_string height)] []])])
        (panel_src dark (the grafanaUrl) uid slug panelId from till))"

definition GrafanaLink :: "jsstr option \<Rightarrow> jsstr \<Rightarrow> jsstr \<Rightarrow> jsstr \<Rightarrow> html list option" where
  "GrafanaLink grafanaUrl uid slug label =
     (if \<not> truthy_str grafanaUrl then Some []
      else case encode_all [uid, slug] of
        Some [u, s] \<Rightarrow> Some [E ''a'' [(''href'', grafana_base (the grafanaUrl) @ (lit ''/d/'') @ u @ (lit ''/'') @ s)] [T (label @ (lit '' '' @ [0x2197]))]]
      | _ \<Rightarrow> None)"

subsection \<open>Fleet overview\<close>

definition SCALE_DASHBOARD_UID :: jsstr where "SCALE_DASHBOARD_UID = (lit ''bigfleet-scaletest'')"
definition SCALE_DASHBOARD_SLUG :: jsstr where "SCALE_DASHBOARD_SLUG = (lit ''bigfleet-scale-test'')"

definition GrafanaSection :: "bool \<Rightarrow> jsstr option \<Rightarrow> html list option" where
  "GrafanaSection dark grafanaUrl =
     (if \<not> truthy_str grafanaUrl then Some []
      else case (GrafanaLink grafanaUrl SCALE_DASHBOARD_UID SCALE_DASHBOARD_SLUG (lit ''Open in Grafana''),
              GrafanaPanel dark grafanaUrl SCALE_DASHBOARD_UID SCALE_DASHBOARD_SLUG 2 (Some (lit ''CR creates / sec'')) (Fin 240) (lit ''now-1h'') (lit ''now''),
              GrafanaPanel dark grafanaUrl SCALE_DASHBOARD_UID SCALE_DASHBOARD_SLUG 96 (Some (lit ''Pod binds cumulative vs target'')) (Fin 240) (lit ''now-1h'') (lit ''now'')) of
        (Some a, Some p, Some q) \<Rightarrow>
          Some [Card [T (lit ''Grafana '' @ [0x2014] @ lit '' scale dashboard'')] (Some ((lit ''embedded panels from '') @ SCALE_DASHBOARD_UID)) a [el ''div'' (p @ q)]]
      | _ \<Rightarrow> None)"

definition state_summary :: "FleetOverview option \<Rightarrow> jsstr" where
  "state_summary ov =
     join (lit '' '' @ [0xB7] @ lit '' '') (map (\<lambda>(k, v). k @ (lit '' '') @ format_int v)
       (take 4 (js_sort (cmp_desc snd) (filter (\<lambda>e. jlt (Fin 0) (snd e))
         (case ov of None \<Rightarrow> [] | Some o' \<Rightarrow> entries (fo_machinesByState o'))))))"

definition Tiles :: "FleetOverview query \<Rightarrow> html" where
  "Tiles q =
     (case q_error q of Some e \<Rightarrow> ErrorBox e
      | None \<Rightarrow>
        let ov = q_data q; loading = q_loading q;
            num = (\<lambda>part. if loading then [0x2026] else formatInt (map_option part ov));
            shortfallTone = (case ov of None \<Rightarrow> Tile_Good | Some o' \<Rightarrow> if jlt (Fin 0) (fo_shortfalls o') then Tile_Danger else Tile_Good);
            cycleTone = (case ov of None \<Rightarrow> Tile_Good | Some o' \<Rightarrow> danger_over 5 1 (fo_cycleP99Seconds o'))
        in el ''div''
          [Tile (lit ''Shards'') (num fo_shards) None Tile_Neutral, Tile (lit ''Clusters'') (num fo_clusters) None Tile_Neutral,
           Tile (lit ''Machines'') (num fo_machines) (Some (state_summary ov)) Tile_Neutral,
           Tile (lit ''Shortfalls'') (num fo_shortfalls) None (if loading then Tile_Neutral else shortfallTone),
           Tile (lit ''Cycle p99 (worst shard)'') (if loading then [0x2026] else formatDuration (map_option fo_cycleP99Seconds ov)) None
             (if loading then Tile_Neutral else cycleTone)])"

definition kindColours :: "(jsstr \<times> jsstr) list" where
  "kindColours = [((lit ''Bootstrap''), (lit ''#2563eb'')), ((lit ''Provision''), (lit ''#16a34a'')), ((lit ''Reclaim''), (lit ''#f59e0b'')), ((lit ''Preempt''), (lit ''#dc2626''))]"

definition kind_colour :: "jsstr \<Rightarrow> nat \<Rightarrow> jsstr" where
  "kind_colour act idx = pick_colour [(lit ''#0891b2''), (lit ''#7c3aed''), (lit ''#db2777''), (lit ''#65a30d'')] kindColours act idx"

definition fleet_data :: "FleetActionsSeries option \<Rightarrow> jsnum list list option" where
  "fleet_data d = (case d of None \<Rightarrow> None | Some a \<Rightarrow> if fa_timestamps a = [] then None else Some (fa_timestamps a # fa_values a))"

definition fleet_cfg :: "FleetActionsSeries option \<Rightarrow> (jsstr \<times> jsstr) option list" where
  "fleet_cfg d =
     (case d of None \<Rightarrow> [None]
      | Some a \<Rightarrow> if fa_timestamps a = [] then [None]
          else None # map (\<lambda>(i, k). Some (k, kind_colour k i)) (enumerate 0 (fa_kinds a)))"

definition fleet_legend :: "FleetActionsSeries option \<Rightarrow> html list" where
  "fleet_legend d =
     (case d of None \<Rightarrow> []
      | Some a \<Rightarrow> show_if (fa_kinds a \<noteq> [])
          [el ''div'' (map (\<lambda>(i, k). el ''span'' [E ''span'' [(''backgroundColor'', kind_colour k i)] [], T k]) (enumerate 0 (fa_kinds a)))])"

definition ActionsCard :: "spark \<Rightarrow> jsnum \<Rightarrow> FleetActionsSeries query \<Rightarrow> html" where
  "ActionsCard spark width q =
     (let loading = q_loading q; aligned = fleet_data (q_data q); ok = (q_error q = None)
      in Card [T (lit ''Action rate by kind'')] (Some (lit ''sum by (kind) (rate(bigfleet_shard_actions_total[5m])) '' @ [0xB7] @ lit '' last hour'')) (fleet_legend (q_data q))
        [el ''div''
          (show_if (\<not> ok) [ErrorBox (the (q_error q))]
           @ show_if (ok \<and> loading) [leaf ''div'' (lit ''Loading'' @ [0x2026])]
           @ show_if (ok \<and> \<not> loading \<and> aligned \<noteq> None \<and> jlt (Fin 0) width) [spark (the aligned) (fleet_cfg (q_data q)) width (Fin 180)]
           @ show_if (ok \<and> \<not> loading \<and> aligned = None) [leaf ''div'' (lit ''No action activity in the last hour.'')])])"

definition FleetOverviewPage :: "spark \<Rightarrow> jsnum \<Rightarrow> bool \<Rightarrow> ClientConfig query \<Rightarrow> FleetOverview query \<Rightarrow> FleetActionsSeries query \<Rightarrow> html list option" where
  "FleetOverviewPage spark width dark cfg overview actions =
     (let isWired = wired cc_prometheusWired cfg; header = [PageHeader [T (lit ''Fleet overview'')] (Some (lit ''Aggregate health across every shard and cluster.'')) []]
      in if isWired then
           map_option (\<lambda>g. header @ [el ''div'' ([Tiles overview, ActionsCard spark width actions] @ g)])
             (GrafanaSection dark (map_option cc_grafanaUrl (q_data cfg)))
         else Some (header @ show_if (\<not> q_loading cfg) [Prometheus_Unwired]))"

subsection \<open>Layout and routes\<close>

definition navGroups :: "(jsstr option \<times> (jsstr \<times> jsstr) list) list" where
  "navGroups =
     [(None, [((lit ''/''), (lit ''Overview''))]),
      (Some (lit ''Infrastructure''), [((lit ''/shards''), (lit ''Shards'')), ((lit ''/shard-reports''), (lit ''Shard capacity'')), ((lit ''/topology''), (lit ''Topology''))]),
      (Some (lit ''Demand''), [((lit ''/clusters''), (lit ''Clusters'')), ((lit ''/available-capacity''), (lit ''Available capacity'')), ((lit ''/needs''), (lit ''Needs''))]),
      (Some (lit ''Cost''), [((lit ''/finops''), (lit ''FinOps''))])]"

definition WireStatus :: "jsstr \<Rightarrow> bool option \<Rightarrow> html" where
  "WireStatus label w =
     el ''div''
      [E ''span'' [(''class'', case w of None \<Rightarrow> (lit ''bg-neutral-400'') | Some b \<Rightarrow> if b then (lit ''bg-emerald-500'') else (lit ''bg-neutral-400/60''))] [],
       leaf ''span'' label,
       leaf ''span'' (case w of None \<Rightarrow> [] | Some b \<Rightarrow> if b then (lit ''wired'') else (lit ''off''))]"

definition nav_link :: "(jsstr \<Rightarrow> bool) \<Rightarrow> jsstr \<times> jsstr \<Rightarrow> html" where
  "nav_link active it =
     E ''a'' [(''href'', fst it), (''class'', if active (fst it) then (lit ''bg-[var(--accent-soft)] text-[var(--accent-soft-fg)]'')
        else (lit ''text-[var(--text-muted)] hover:bg-[var(--surface-2)] hover:text-[var(--text)]''))] [T (snd it)]"

definition Layout :: "(jsstr \<Rightarrow> bool) \<Rightarrow> ClientConfig option \<Rightarrow> html list \<Rightarrow> html" where
  "Layout active cfg outlet =
     el ''div''
      [el ''aside''
        [el ''div'' [leaf ''span'' (lit ''BF''), el ''div'' [leaf ''div'' (lit ''BigFleet''), leaf ''div'' (lit ''dashboard'')]],
         el ''nav'' (map (\<lambda>(heading, its). el ''div''
            ((case heading of None \<Rightarrow> [] | Some h \<Rightarrow> [leaf ''div'' h]) @ map (nav_link active) its)) navGroups),
         el ''div'' [leaf ''div'' (lit ''Data sources''),
           el ''div'' [WireStatus (lit ''Prometheus'') (map_option cc_prometheusWired cfg), WireStatus (lit ''Coordinator'') (map_option cc_coordinatorWired cfg),
             WireStatus (lit ''Kubeconfig'') (map_option cc_kubeconfigWired cfg)]]],
       el ''main'' [el ''div'' outlet]]"

definition NotFound :: html where
  "NotFound =
     el ''div'' [leaf ''div'' (lit ''404''), leaf ''h1'' (lit ''Page not found''),
       el ''p'' [T (lit ''That route doesn't exist.''), T (lit '' ''), Link (lit ''/'') [T (lit ''Back to overview'')], T (lit ''.'')]]"

datatype page =
    Page_Fleet | Page_Shards | Page_Shard | Page_Clusters | Page_Cluster | Page_Capacity | Page_Topology | Page_Reports
  | Page_Needs | Page_FinOps | Page_NotFound

definition routes :: "(jsstr \<times> page) list" where
  "routes =
     [((lit ''/''), Page_Fleet), ((lit ''/shards''), Page_Shards), ((lit ''/shards/:pod''), Page_Shard), ((lit ''/clusters''), Page_Clusters),
      ((lit ''/clusters/:id''), Page_Cluster), ((lit ''/available-capacity''), Page_Capacity), ((lit ''/topology''), Page_Topology),
      ((lit ''/shard-reports''), Page_Reports), ((lit ''/needs''), Page_Needs), ((lit ''/finops''), Page_FinOps), ((lit ''*''), Page_NotFound)]"

end
