(* ===== verification/Page_Gates.thy ===== *)
theory Page_Gates
  imports Needs_Page Fin_Ops Reports Shard_Pages
begin

text \<open>
  What holds of the pages together. Every page waits for a source to be wired on the server
  and shows the answer of a request only when the last attempt did not fail; here that is a
  statement of independence: a page cannot tell two answers apart that it must not show.
\<close>

lemma unwired_list: "\<not> w \<Longrightarrow> list_page header notice w head cfg q rows messages = Some (header @ show_if (\<not> q_loading cfg) [notice])"
  by (simp add: list_page_def show_if_def)

lemma failed_list:
  "q_error q = Some e \<Longrightarrow> list_page header notice w head cfg q rows messages =
     Some (header @ show_if (\<not> q_loading cfg \<and> \<not> w) [notice] @ show_if w [ErrorBox e])"
  by (simp add: list_page_def show_if_def)

lemma no_report: "DecisionReport lc lg now None all = Some (Drawer False [] [] Size_xl [])"
  by (simp add: DecisionReport_def)

text \<open>
C30: While the source of a page is not wired the page does not depend on any answer of its
  requests, with three exceptions: the headers of the needs and shard-capacity pages (how fresh
  the held answer is), and the decision report of a selected need, which is not gated and is
  drawn from the held answer; below its header the needs page then is exactly the notice
  followed by that report.
\<close>

theorem unwired_pages_isolated:
  "(\<not> wired cc_prometheusWired cfg \<longrightarrow>
      FinOps g cfg snap = FinOps g cfg snap'
      \<and> ShardsListPage cfg sl = ShardsListPage cfg sl'
      \<and> ShardDetailPage lc spark w w' cfg pod sd st = ShardDetailPage lc spark w w' cfg pod sd' st'
      \<and> FleetOverviewPage spark w dark cfg fo fa = FleetOverviewPage spark w dark cfg fo' fa')
   \<and> (\<not> wired cc_coordinatorWired cfg \<longrightarrow>
      TopologyPage lc now cfg tp rl = TopologyPage lc now cfg tp' rl'
      \<and> tl (ShardReports lc now cfg srt rl) = tl (ShardReports lc now cfg srt rl')
      \<and> map_option tl (Needs lc lg now virt cfg ss nr shard cluster status reason None) =
        map_option tl (Needs lc lg now virt cfg ss' nr' shard cluster status reason None)
      \<and> map_option tl (Needs lc lg now virt cfg ss nr shard cluster status reason sel) =
        map_option (\<lambda>report. show_if (\<not> q_loading cfg) [UnwiredNotice (lit ''Coordinator'') (lit ''--coordinator-addr'')] @ report)
          (DecisionReport lc lg now sel (enumerate 0 (all_needs nr))))
   \<and> (\<not> wired cc_kubeconfigWired cfg \<longrightarrow>
      ClustersListPage cfg cl = ClustersListPage cfg cl'
      \<and> ClusterDetailPage cfg i cd = ClusterDetailPage cfg i cd'
      \<and> AvailableCapacityPage lc cfg av = AvailableCapacityPage lc cfg av')"
proof (intro conjI impI)
  assume w: "\<not> wired cc_prometheusWired cfg"
  show "FinOps g cfg snap = FinOps g cfg snap'" using w by (simp add: FinOps_def show_if_def)
  show "ShardsListPage cfg sl = ShardsListPage cfg sl'" using w by (simp add: ShardsListPage_def unwired_list)
  show "ShardDetailPage lc spark w w' cfg pod sd st = ShardDetailPage lc spark w w' cfg pod sd' st'"
    using w by (simp add: ShardDetailPage_def show_if_def)
  show "FleetOverviewPage spark w dark cfg fo fa = FleetOverviewPage spark w dark cfg fo' fa'"
    using w by (simp add: FleetOverviewPage_def)
next
  assume w: "\<not> wired cc_coordinatorWired cfg"
  show "TopologyPage lc now cfg tp rl = TopologyPage lc now cfg tp' rl'" using w by (simp add: TopologyPage_def show_if_def)
  show "tl (ShardReports lc now cfg srt rl) = tl (ShardReports lc now cfg srt rl')"
    using w by (simp add: ShardReports_def show_if_def Let_def)
  show "map_option tl (Needs lc lg now virt cfg ss nr shard cluster status reason None) =
        map_option tl (Needs lc lg now virt cfg ss' nr' shard cluster status reason None)"
    using w by (simp add: Needs_def show_if_def Let_def no_report needs_status_def)
  show "map_option tl (Needs lc lg now virt cfg ss nr shard cluster status reason sel) =
        map_option (\<lambda>report. show_if (\<not> q_loading cfg) [UnwiredNotice (lit ''Coordinator'') (lit ''--coordinator-addr'')] @ report)
          (DecisionReport lc lg now sel (enumerate 0 (all_needs nr)))"
    using w by (cases "DecisionReport lc lg now sel (enumerate 0 (all_needs nr))")
      (simp_all add: Needs_def show_if_def Let_def needs_status_def)
next
  assume w: "\<not> wired cc_kubeconfigWired cfg"
  show "ClustersListPage cfg cl = ClustersListPage cfg cl'" using w by (simp add: ClustersListPage_def unwired_list)
  show "ClusterDetailPage cfg i cd = ClusterDetailPage cfg i cd'" using w by (simp add: ClusterDetailPage_def show_if_def)
  show "AvailableCapacityPage lc cfg av = AvailableCapacityPage lc cfg av'"
    using w by (simp add: AvailableCapacityPage_def show_if_def Let_def)
qed

definition unwired_cfg :: "ClientConfig query" where
  "unwired_cfg = \<lparr>q_data = None, q_error = None, q_loading = False\<rparr>"

lemma unwired_pages_isolated_witness:
  "\<not> wired cc_kubeconfigWired unwired_cfg
    \<and> ClusterDetailPage unwired_cfg [99] \<lparr>q_data = None, q_error = None, q_loading = True\<rparr>
      = ClusterDetailPage unwired_cfg [99] \<lparr>q_data = None, q_error = Some [101], q_loading = False\<rparr>"
proof -
  have "\<not> wired cc_kubeconfigWired unwired_cfg" by (simp add: unwired_cfg_def wired_def)
  then show ?thesis
    using unwired_pages_isolated[THEN conjunct2, THEN conjunct2, rule_format, THEN conjunct2, THEN conjunct1] by (intro conjI)
qed

text \<open>
C31: When the last attempt of its request failed, a page shows nothing of the data it still
  holds from an earlier attempt: FinOps, both lists, both details, the capacity hints and the
  topology.
\<close>

theorem failed_pages_hide_data:
  "FinOps g cfg (snap\<lparr>q_error := Some e, q_data := d1\<rparr>) = FinOps g cfg (snap\<lparr>q_error := Some e, q_data := d1'\<rparr>)
   \<and> ShardsListPage cfg (sl\<lparr>q_error := Some e, q_data := d2\<rparr>) = ShardsListPage cfg (sl\<lparr>q_error := Some e, q_data := d2'\<rparr>)
   \<and> ShardDetailPage lc spark w w' cfg pod (sd\<lparr>q_error := Some e, q_data := d3\<rparr>) st =
     ShardDetailPage lc spark w w' cfg pod (sd\<lparr>q_error := Some e, q_data := d3'\<rparr>) st
   \<and> ClustersListPage cfg (cl\<lparr>q_error := Some e, q_data := d4\<rparr>) = ClustersListPage cfg (cl\<lparr>q_error := Some e, q_data := d4'\<rparr>)
   \<and> ClusterDetailPage cfg i (cd\<lparr>q_error := Some e, q_data := d5\<rparr>) = ClusterDetailPage cfg i (cd\<lparr>q_error := Some e, q_data := d5'\<rparr>)
   \<and> AvailableCapacityPage lc cfg (av\<lparr>q_error := Some e, q_data := d6\<rparr>) = AvailableCapacityPage lc cfg (av\<lparr>q_error := Some e, q_data := d6'\<rparr>)
   \<and> TopologyPage lc now cfg (tp\<lparr>q_error := Some e, q_data := d7\<rparr>) rl = TopologyPage lc now cfg (tp\<lparr>q_error := Some e, q_data := d7'\<rparr>) rl'"
proof (intro conjI)
  show "FinOps g cfg (snap\<lparr>q_error := Some e, q_data := d1\<rparr>) = FinOps g cfg (snap\<lparr>q_error := Some e, q_data := d1'\<rparr>)"
    by (simp add: FinOps_def show_if_def Let_def)
  show "ShardsListPage cfg (sl\<lparr>q_error := Some e, q_data := d2\<rparr>) = ShardsListPage cfg (sl\<lparr>q_error := Some e, q_data := d2'\<rparr>)"
    by (simp add: ShardsListPage_def failed_list Let_def)
  show "ShardDetailPage lc spark w w' cfg pod (sd\<lparr>q_error := Some e, q_data := d3\<rparr>) st =
     ShardDetailPage lc spark w w' cfg pod (sd\<lparr>q_error := Some e, q_data := d3'\<rparr>) st" by (simp add: ShardDetailPage_def show_if_def Let_def)
  show "ClustersListPage cfg (cl\<lparr>q_error := Some e, q_data := d4\<rparr>) = ClustersListPage cfg (cl\<lparr>q_error := Some e, q_data := d4'\<rparr>)"
    by (simp add: ClustersListPage_def failed_list Let_def)
  show "ClusterDetailPage cfg i (cd\<lparr>q_error := Some e, q_data := d5\<rparr>) = ClusterDetailPage cfg i (cd\<lparr>q_error := Some e, q_data := d5'\<rparr>)"
    by (simp add: ClusterDetailPage_def show_if_def Let_def)
  show "AvailableCapacityPage lc cfg (av\<lparr>q_error := Some e, q_data := d6\<rparr>) = AvailableCapacityPage lc cfg (av\<lparr>q_error := Some e, q_data := d6'\<rparr>)"
    by (simp add: AvailableCapacityPage_def show_if_def Let_def)
  show "TopologyPage lc now cfg (tp\<lparr>q_error := Some e, q_data := d7\<rparr>) rl = TopologyPage lc now cfg (tp\<lparr>q_error := Some e, q_data := d7'\<rparr>) rl'"
    by (simp add: TopologyPage_def show_if_def Let_def)
qed

end
