(* ===== verification/Spec2Isabelle.thy ===== *)
theory Spec2Isabelle
  imports Format_Penalty Api_Calls Parts_Facts Needs_Walk_Facts Needs_Views_Facts Needs_Page_Facts
    Fin_Facts Reports_Facts Page_Gates
begin

text \<open>
  The web dashboard of BigFleet (\<open>ui/src\<close>, TypeScript and React): a read-only view of a fleet of
  machines. The pages ask a Go server for JSON (\<open>lib/api.ts\<close>), derive lists, totals, orders and
  filters from the answers, format them (\<open>lib/format.ts\<close>) and render them with shared components.
  The only state the user changes are filters in the URL and a few \<open>useState\<close> cells.

  \<^bold>\<open>The language.\<close> \<open>Js_Number\<close> has the numbers: \<open>jsnum\<close> is a rational (\<open>Fin\<close>), negative zero
  (\<open>NZero\<close>), an infinity or \<open>NaN\<close>;
  \<open>fl\<close> rounds to the 53-bit doubles, half to even, and every operation (\<open>jadd\<close>, \<open>jsub\<close>, \<open>jmul\<close>,
  \<open>jdiv\<close>) is the exact result rounded once, with the sign of a zero result as IEEE 754 has it.
  \<open>Js_Order\<close>, \<open>Js_Exact\<close> and \<open>Js_Counts\<close> prove what the rounding keeps: order, signs,
  sums of whole counts up to \<open>2 ^ 53\<close>, relative errors of one operation. \<open>Js_String\<close> has strings as
  lists of 16-bit code units, \<open>trim\<close>, \<open>parseFloat\<close>, \<open>Number\<close> and \<open>encodeURIComponent\<close> with its inverse;
  \<open>Js_Print\<close> has \<open>toFixed\<close>, \<open>String\<close> of a number and \<open>toLocaleString\<close>. \<open>Js_Sort\<close> has \<open>Array.sort\<close> as the
  stable sort of whatever comparator, of which it uses only the test below zero (two comparators of
  the code answer 1 on ties, where the language leaves the order to the engine; engines with a
  merge or insertion sort test below zero only), with the locales \<open>weak_order\<close>, \<open>comparator\<close> and \<open>consistent\<close>:
  what a comparator must promise and what sorting by it then gives. They are interpreted on the
  comparators of the code (\<open>desc\<close>, \<open>prec\<close>, \<open>comp\<close>, \<open>coh\<close>, \<open>ucol\<close>). \<open>Js_Map\<close> has \<open>Map\<close> in insertion order
  with the locale \<open>index\<close>, interpreted on \<open>group_by\<close>; \<open>Js_Collate\<close> the orders of strings.

  \<^bold>\<open>The program.\<close> Each theory opens with what it models; definitions keep the names of the source.
  \<^item> \<open>lib/format.ts\<close>: \<open>Format\<close>; its theorems are in \<open>Format_Facts\<close> (durations, bytes, quantities,
    trimming, whole numbers with separators, when the dash is shown) and \<open>Format_Penalty\<close> (the 28 penalty buckets as a linear order,
    \<open>penaltyOrdinal\<close> embeds it, labels differ).
  \<^item> \<open>lib/api.ts\<close>: the response types in \<open>Api\<close>; request paths and \<open>getJSON\<close> in \<open>Api_Calls\<close>, where a
    path leads the server to the request it was made for, every outcome of \<open>fetch\<close> and of reading a
    body is a value, and a call settles with the server's answer to exactly its request.
  \<^item> \<open>lib/useSearchParamState.ts\<close>: \<open>Search_Params\<close>, with the locales \<open>param_store\<close> and \<open>tidy_store\<close>
    for a store of parameters and the hook's contract over it, interpreted on the URL.
  \<^item> \<open>lib/colours.ts\<close> and \<open>components/\<close>: \<open>Ui\<close> (rendered trees, badges) and \<open>Parts\<close>; \<open>Parts_Facts\<close>
    proves the widths of a stacked bar, the age at which a snapshot is stale, and that links decode.
  \<^item> \<open>pages/needsKit.tsx\<close>: \<open>Needs_Kit\<close> (coverage, chunks, precedence, competition) with \<open>Needs_Facts\<close>,
    and its components in \<open>Needs_Views\<close> with \<open>Needs_Views_Facts\<close>.
  \<^item> \<open>pages/Needs.tsx\<close>: the derived lists and \<open>buildWalk\<close> in \<open>Needs_Walk\<close>; \<open>Needs_Walk_Facts\<close> shows that
    the walk keeps every row once, groups rows by shape, orders groups and rows by precedence, cuts
    a group where served needs end, and that its keys differ. The state of the page is the record
    \<open>needs_ui\<close> of \<open>Needs_State\<close> with the step relation \<open>needs_step\<close> (the configuration, user actions
    where the page offers them, effects, start, arrival and failure of queries, navigation) and its
    reachable states \<open>needs_reach\<close>: the URL stays tidy, the two effects are never due
    together, and they settle. What the page renders is \<open>Needs_Page\<close>; \<open>Needs_Page_Facts\<close> shows what
    pressing a reason button leaves: as many rows as its number, but for the cases it names.
  \<^item> \<open>pages/FinOps.tsx\<close>: \<open>Fin_Ops\<close>, its constant prose in \<open>Fin_Prose\<close>; \<open>Fin_Facts\<close> has the
    high-penalty share, the shades of the penalty matrix and the tones of the gaps.
  \<^item> \<open>pages/Topology.tsx\<close>, \<open>pages/ShardReports.tsx\<close>: \<open>Reports\<close>; \<open>Reports_Facts\<close> has the orders.
  \<^item> The other pages, the charts, the Grafana panels, layout and routes: \<open>Shard_Pages\<close>.
  \<^item> \<open>Page_Gates\<close> spans the pages: a page whose source is not wired, or whose last request failed,
    shows nothing of the data it may still hold, the report of a selected need and two headers apart.

  \<^bold>\<open>Parameters.\<close> Code that is not in the repository is an argument: \<open>lc\<close> is \<open>localeCompare\<close> (theorems
  that need it consistent say so; the order by code units is the instance of the witnesses), \<open>lg\<close> is
  \<open>Math.log2\<close>, \<open>fetch\<close> the network, \<open>virt\<close> the virtualizer's window, \<open>spark\<close> the uPlot canvas, \<open>width\<close> the
  observed width, \<open>dark\<close> the colour scheme, \<open>now\<close> the clock (read once where the code reads it more
  than once in a render), and a \<open>query\<close> is what TanStack Query shows of a request. The JSON of an
  answer has the shape its type declares; a field the code reads only through \<open>??\<close>, \<open>?.\<close> or a truth
  test may be missing (\<open>option\<close>). Dictionaries are lists of pairs in enumeration order, read at
  their own properties.

  \<^bold>\<open>Limits.\<close> Changes of case cover ASCII; \<open>toLocaleString\<close> is that of \<open>en-US\<close>. Rendered trees leave out
  constant class names, keys, icons and handlers; the handlers of the needs page are the events of
  \<open>needs_step\<close>. A component that percent-encodes an id with an unpaired surrogate throws: \<open>None\<close>.
  No definition needs fuel: every loop of the source runs over a list or counts down.

  \<^bold>\<open>Not modelled.\<close> \<open>main.tsx\<close>, \<open>lib/useConfig.ts\<close> and \<open>components/Sparkline.tsx\<close> only call into React,
  the query client, the router and uPlot. Refetching, caching across mounts, history entries, focus and
  scrolling belong to those libraries. The Go server (\<open>pkg\<close>, \<open>cmd\<close>), its deployment and the tests
  are outside this development, which covers the TypeScript sources.
\<close>

end
